(* ===== verification/Prelude.thy ===== *)
theory Prelude
  imports Main "HOL-Library.Sublist" "HOL-Library.Char_ord" "HOL-Library.List_Lexorder"
    "HOL-Library.Word"
begin

text \<open>
  What every component of the development shares: the fact collections its
  proofs use, Go error values (\<open>errors.New\<close>, \<open>fmt.Errorf\<close> with
  \<open>%w\<close>), the outcome of a call that may panic, and the functions of the
  packages \<open>strings\<close>, \<open>strconv\<close> and \<open>fmt\<close> that the code applies to
  byte strings. A Go \<open>string\<close> and a \<open>[]byte\<close> are both a HOL
  \<open>string\<close>, since \<open>char\<close> is an 8-bit byte.
\<close>

named_theorems mb_defs "definitions a component proof unfolds"
named_theorems mb_splits "case splits of the component result types"

section \<open>Errors, outcomes, durations\<close>

text \<open>
  An error value is its text and, for \<open>fmt.Errorf("... %w ...", err)\<close>, the
  error it wraps. Two sentinels made by \<open>errors.New\<close> are different pointers
  in Go; their texts are pairwise different too, so equality of the model's
  values is the identity of the sentinels.
\<close>

datatype error = Err string | Wrap string error

fun Error :: "error \<Rightarrow> string" where
  "Error (Err s) = s"
| "Error (Wrap s e) = s"

fun errorsIs :: "error \<Rightarrow> error \<Rightarrow> bool" where
  "errorsIs (Err s) t = (Err s = t)"
| "errorsIs (Wrap s e) t = (Wrap s e = t \<or> errorsIs e t)"

text \<open>
  A Go function that returns \<open>error\<close> is a function into \<open>error option\<close>
  (\<open>None\<close> is \<open>nil\<close>); one that returns \<open>(T, error)\<close> is a function into
  \<open>error + 'a\<close>. A call that may panic has an \<open>outcome\<close>.
\<close>

datatype 'a outcome = Ret 'a | Panic string

lemmas [mb_splits] = option.splits sum.splits outcome.splits prod.splits if_splits

text \<open>Durations are counted in nanoseconds, as \<open>time.Duration\<close> is.\<close>

abbreviation Millisecond :: int where "Millisecond \<equiv> 1000000"
abbreviation Second :: int where "Second \<equiv> 1000000000"
abbreviation Minute :: int where "Minute \<equiv> 60000000000"

text \<open>
  The value of an \<open>int64\<close> expression whose mathematical value is \<open>x\<close>: the
  two's complement reading of its low 64 bits. It is written where the code
  shifts a duration and the result may not fit.
\<close>

definition wrap64 :: "int \<Rightarrow> int" where
  "wrap64 x = sint (word_of_int x :: 64 word)"

lemma wrap64_id: "- (2 ^ 63) \<le> x \<Longrightarrow> x < 2 ^ 63 \<Longrightarrow> wrap64 x = x"
  by (simp add: wrap64_def int_word_sint)

lemma wrap64_ge: "- (2 ^ 63) \<le> wrap64 x"
  using sint_greater_eq [of "word_of_int x :: 64 word"] by (simp add: wrap64_def)

lemma wrap64_less: "wrap64 x < 2 ^ 63"
  using sint_less [of "word_of_int x :: 64 word"] by (simp add: wrap64_def)

text \<open>
  A function that runs checks in order and returns the first error: each
  \<open>if cond { return err }\<close> is one \<open>check\<close>.
\<close>

definition check :: "bool \<Rightarrow> error \<Rightarrow> error option" where
  "check b e = (if b then Some e else None)"

primrec firstErr :: "error option list \<Rightarrow> error option" where
  "firstErr [] = None"
| "firstErr (e # es) = (case e of None \<Rightarrow> firstErr es | Some x \<Rightarrow> Some x)"

lemma check_None [simp]: "check b e = None \<longleftrightarrow> \<not> b"
  by (simp add: check_def)

lemma check_Some: "check b e = Some x \<longleftrightarrow> b \<and> x = e"
  by (auto simp: check_def)

lemma firstErr_None [simp]: "firstErr es = None \<longleftrightarrow> (\<forall>e \<in> set es. e = None)"
  by (induction es) (auto split: option.splits)

lemma firstErr_SomeD: "firstErr es = Some x \<Longrightarrow> Some x \<in> set es"
  by (induction es) (auto split: option.splits)

declare firstErr.simps [simp del]

text \<open>With \<open>simp only\<close>: a list of checks passes if each one does.\<close>

lemmas checks_pass = Let_def firstErr_None list.set ball_simps(5,7) check_None de_Morgan_disj
  de_Morgan_conj not_not option.map_disc_iff

text \<open>The two forms every \<open>ApplyDefaults\<close> takes: replace an empty string, or a number that is not positive.\<close>

definition defStr :: "string \<Rightarrow> string \<Rightarrow> string" where
  "defStr d v = (if v = [] then d else v)"

definition defPos :: "int \<Rightarrow> int \<Rightarrow> int" where
  "defPos d v = (if v \<le> 0 then d else v)"

lemma defStr_idem [simp]: "defStr d (defStr d v) = defStr d v"
  by (simp add: defStr_def)

lemma defPos_idem [simp]: "defPos d (defPos d v) = defPos d v"
  by (simp add: defPos_def)

lemma defPos_pos [simp]: "0 < d \<Longrightarrow> 0 < defPos d v" "0 < d \<Longrightarrow> \<not> defPos d v \<le> 0"
  by (simp_all add: defPos_def)

lemma defStr_Nil [simp]: "d \<noteq> [] \<Longrightarrow> defStr d v \<noteq> []"
  by (simp add: defStr_def)

section \<open>Package strings\<close>

text \<open>
  \<open>strings.TrimSpace\<close> removes leading and trailing runs of
  \<open>unicode.IsSpace\<close>. The runes for which it holds, as UTF-8 byte
  sequences: the six ASCII ones, U+0085, U+00A0, U+1680, U+2000 to U+200A,
  U+2028, U+2029, U+202F, U+205F and U+3000.
\<close>

definition spaceRunes :: "string list" where
  "spaceRunes =
     [[CHR 0x20], [CHR 0x09], [CHR 0x0A], [CHR 0x0B], [CHR 0x0C], [CHR 0x0D],
      [CHR 0xC2, CHR 0x85], [CHR 0xC2, CHR 0xA0],
      [CHR 0xE1, CHR 0x9A, CHR 0x80],
      [CHR 0xE2, CHR 0x80, CHR 0x80], [CHR 0xE2, CHR 0x80, CHR 0x81],
      [CHR 0xE2, CHR 0x80, CHR 0x82], [CHR 0xE2, CHR 0x80, CHR 0x83],
      [CHR 0xE2, CHR 0x80, CHR 0x84], [CHR 0xE2, CHR 0x80, CHR 0x85],
      [CHR 0xE2, CHR 0x80, CHR 0x86], [CHR 0xE2, CHR 0x80, CHR 0x87],
      [CHR 0xE2, CHR 0x80, CHR 0x88], [CHR 0xE2, CHR 0x80, CHR 0x89],
      [CHR 0xE2, CHR 0x80, CHR 0x8A], [CHR 0xE2, CHR 0x80, CHR 0xA8],
      [CHR 0xE2, CHR 0x80, CHR 0xA9], [CHR 0xE2, CHR 0x80, CHR 0xAF],
      [CHR 0xE2, CHR 0x81, CHR 0x9F], [CHR 0xE3, CHR 0x80, CHR 0x80]]"

text \<open>Drop from the front, as long as one of the byte sequences \<open>ws\<close> is there.\<close>

function trimRunes :: "string list \<Rightarrow> string \<Rightarrow> string" where
  "trimRunes ws s =
     (case find (\<lambda>w. w \<noteq> [] \<and> prefix w s) ws of
        None \<Rightarrow> s
      | Some w \<Rightarrow> trimRunes ws (drop (length w) s))"
  by pat_completeness auto
termination
proof (relation "measure (\<lambda>(ws, s). length s)", goal_cases)
  case 1
  show ?case by simp
next
  case (2 ws s w)
  then have "w \<noteq> []" and "prefix w s"
    by (auto simp: find_Some_iff)
  then show ?case
    by (auto simp: prefix_def)
qed

declare trimRunes.simps [simp del]

definition TrimSpace :: "string \<Rightarrow> string" where
  "TrimSpace s =
     rev (trimRunes (map rev spaceRunes) (rev (trimRunes spaceRunes s)))"

text \<open>A range of bytes, as a character class or a comparison of the source names it.\<close>

abbreviation byteIn :: "char \<Rightarrow> char \<Rightarrow> char \<Rightarrow> bool" where
  "byteIn lo hi c \<equiv> lo \<le> c \<and> c \<le> hi"

text \<open>
  \<open>strings.ToLower\<close>, \<open>strings.ToUpper\<close> and \<open>strings.EqualFold\<close> on
  ASCII letters; every other byte is kept.
\<close>

definition lowerByte :: "char \<Rightarrow> char" where
  "lowerByte c =
     (if byteIn (CHR ''A'') (CHR ''Z'') c then char_of (of_char c + 32 :: nat) else c)"

definition upperByte :: "char \<Rightarrow> char" where
  "upperByte c =
     (if byteIn (CHR ''a'') (CHR ''z'') c then char_of (of_char c - 32 :: nat) else c)"

definition ToLower :: "string \<Rightarrow> string" where
  "ToLower s = map lowerByte s"

definition ToUpper :: "string \<Rightarrow> string" where
  "ToUpper s = map upperByte s"

definition EqualFold :: "string \<Rightarrow> string \<Rightarrow> bool" where
  "EqualFold s t \<longleftrightarrow> ToLower s = ToLower t"

fun Join :: "string list \<Rightarrow> string \<Rightarrow> string" where
  "Join [] sep = []"
| "Join [x] sep = x"
| "Join (x # y # ys) sep = x @ sep @ Join (y # ys) sep"

text \<open>\<open>strings.SplitN(s, c, 2)\<close> for a separator of one byte.\<close>

definition SplitN2 :: "string \<Rightarrow> char \<Rightarrow> string list" where
  "SplitN2 s c =
     (if c \<in> set s then [takeWhile (\<lambda>x. x \<noteq> c) s, tl (dropWhile (\<lambda>x. x \<noteq> c) s)] else [s])"

text \<open>\<open>strings.TrimRight\<close> and \<open>strings.Trim\<close> with a cutset of ASCII bytes.\<close>

definition TrimRight :: "string \<Rightarrow> string \<Rightarrow> string" where
  "TrimRight s cutset = rev (dropWhile (\<lambda>c. c \<in> set cutset) (rev s))"

definition Trim :: "string \<Rightarrow> string \<Rightarrow> string" where
  "Trim s cutset = TrimRight (dropWhile (\<lambda>c. c \<in> set cutset) s) cutset"

section \<open>Packages strconv and fmt\<close>

text \<open>\<open>%d\<close> of an integer.\<close>

function intDigits :: "int \<Rightarrow> string" where
  "intDigits n =
     (if n < 10 then [char_of (48 + n)] else intDigits (n div 10) @ [char_of (48 + n mod 10)])"
  by pat_completeness auto
termination
  by (relation "measure nat") auto

declare intDigits.simps [simp del]

definition Itoa :: "int \<Rightarrow> string" where
  "Itoa i = (if i < 0 then CHR ''-'' # intDigits (- i) else intDigits i)"

definition hexDigit :: "nat \<Rightarrow> char" where
  "hexDigit n = (if n < 10 then char_of (48 + n) else char_of (87 + n))"

text \<open>
  \<open>strconv.Quote\<close> (\<open>%q\<close>): printable ASCII is kept, the two special
  characters and the control characters are escaped. Bytes of multi-byte
  runes are kept, as Go does for the runes \<open>strconv.IsPrint\<close> accepts.
\<close>

definition quoteByte :: "char \<Rightarrow> string" where
  "quoteByte c =
     (if c = CHR 0x22 then [CHR 0x5C, CHR 0x22]
      else if c = CHR 0x5C then [CHR 0x5C, CHR 0x5C]
      else if c = CHR 0x07 then [CHR 0x5C, CHR ''a'']
      else if c = CHR 0x08 then [CHR 0x5C, CHR ''b'']
      else if c = CHR 0x0C then [CHR 0x5C, CHR ''f'']
      else if c = CHR 0x0A then [CHR 0x5C, CHR ''n'']
      else if c = CHR 0x0D then [CHR 0x5C, CHR ''r'']
      else if c = CHR 0x09 then [CHR 0x5C, CHR ''t'']
      else if c = CHR 0x0B then [CHR 0x5C, CHR ''v'']
      else if c < CHR 0x20 \<or> c = CHR 0x7F
      then [CHR 0x5C, CHR ''x'', hexDigit (of_char c div 16), hexDigit (of_char c mod 16)]
      else [c])"

definition Quote :: "string \<Rightarrow> string" where
  "Quote s = CHR 0x22 # concat (map quoteByte s) @ [CHR 0x22]"

section \<open>Facts about the string functions\<close>

lemma find_rune_Some:
  "find (\<lambda>w. w \<noteq> [] \<and> prefix w s) ws = Some w \<Longrightarrow> w \<in> set ws \<and> w \<noteq> [] \<and> prefix w s"
  by (auto simp: find_Some_iff)

lemma trimRunes_suffix: "suffix (trimRunes ws s) s"
proof (induction ws s rule: trimRunes.induct)
  case (1 ws s)
  show ?case
  proof (cases "find (\<lambda>w. w \<noteq> [] \<and> prefix w s) ws")
    case None
    then show ?thesis by (subst trimRunes.simps) simp
  next
    case (Some w)
    then have "suffix (trimRunes ws (drop (length w) s)) (drop (length w) s)"
      by (rule "1.IH")
    then have "suffix (trimRunes ws (drop (length w) s)) s"
      using suffix_drop suffix_order.trans by blast
    with Some show ?thesis by (subst trimRunes.simps) simp
  qed
qed

lemma trimRunes_no_rune: "find (\<lambda>w. w \<noteq> [] \<and> prefix w (trimRunes ws s)) ws = None"
proof (induction ws s rule: trimRunes.induct)
  case (1 ws s)
  show ?case
  proof (cases "find (\<lambda>w. w \<noteq> [] \<and> prefix w s) ws")
    case None
    then have "trimRunes ws s = s" by (subst trimRunes.simps) simp
    with None show ?thesis by simp
  next
    case (Some w)
    then have "trimRunes ws s = trimRunes ws (drop (length w) s)"
      by (subst trimRunes.simps) simp
    with "1.IH" [OF Some] show ?thesis by simp
  qed
qed

lemma trimRunes_id: "find (\<lambda>w. w \<noteq> [] \<and> prefix w s) ws = None \<Longrightarrow> trimRunes ws s = s"
  by (subst trimRunes.simps) simp

lemma trimRunes_idem [simp]: "trimRunes ws (trimRunes ws s) = trimRunes ws s"
  by (rule trimRunes_id, rule trimRunes_no_rune)

lemma trimRunes_Nil [simp]: "trimRunes ws [] = []"
  by (rule trimRunes_id) (auto simp: find_None_iff)

text \<open>A prefix of a string that starts with no rune of \<open>ws\<close> starts with none either.\<close>

lemma trimRunes_prefix_id:
  assumes "prefix t s" and "trimRunes ws s = s"
  shows "trimRunes ws t = t"
proof (rule trimRunes_id)
  have "find (\<lambda>w. w \<noteq> [] \<and> prefix w s) ws = None"
    using trimRunes_no_rune [of ws s] assms(2) by simp
  then show "find (\<lambda>w. w \<noteq> [] \<and> prefix w t) ws = None"
    using assms(1) prefix_order.trans by (auto simp: find_None_iff)
qed

lemma TrimSpace_idem [simp]: "TrimSpace (TrimSpace s) = TrimSpace s"
proof -
  let ?L = "trimRunes spaceRunes s"
  let ?R = "trimRunes (map rev spaceRunes) (rev ?L)"
  have "suffix ?R (rev ?L)" by (rule trimRunes_suffix)
  then have "prefix (rev ?R) ?L" by (simp add: suffix_to_prefix)
  then have "trimRunes spaceRunes (rev ?R) = rev ?R"
    by (rule trimRunes_prefix_id) simp
  then show ?thesis by (simp add: TrimSpace_def)
qed

lemma TrimSpace_Nil [simp]: "TrimSpace [] = []"
  by (simp add: TrimSpace_def)

lemma TrimSpace_set: "set (TrimSpace s) \<subseteq> set s"
proof -
  have "set (trimRunes ws t) \<subseteq> set t" for ws t
    by (rule set_mono_suffix, rule trimRunes_suffix)
  then show ?thesis unfolding TrimSpace_def
    by (metis set_rev subset_trans)
qed


lemma lowerByte_idem [simp]: "lowerByte (lowerByte c) = lowerByte c"
  by (auto simp: lowerByte_def less_eq_char_def of_char_of)

lemma upperByte_idem [simp]: "upperByte (upperByte c) = upperByte c"
  by (auto simp: upperByte_def less_eq_char_def)

lemma ToLower_idem [simp]: "ToLower (ToLower s) = ToLower s"
  by (simp add: ToLower_def)

lemma ToUpper_idem [simp]: "ToUpper (ToUpper s) = ToUpper s"
  by (simp add: ToUpper_def)

lemma ToLower_Nil_iff [simp]: "ToLower s = [] \<longleftrightarrow> s = []" "[] = ToLower s \<longleftrightarrow> s = []"
  by (auto simp: ToLower_def)

lemma EqualFold_refl [simp]: "EqualFold s s"
  by (simp add: EqualFold_def)

lemma find_SomeD: "find P xs = Some x \<Longrightarrow> x \<in> set xs \<and> P x"
  by (auto simp: find_Some_iff)

lemma EqualFold_sym: "EqualFold s t \<Longrightarrow> EqualFold t s"
  by (simp add: EqualFold_def)

lemma EqualFold_trans: "EqualFold s t \<Longrightarrow> EqualFold t u \<Longrightarrow> EqualFold s u"
  by (simp add: EqualFold_def)

lemma EqualFold_ToLower [simp]: "EqualFold (ToLower s) t \<longleftrightarrow> EqualFold s t"
  by (simp add: EqualFold_def)

lemma trimRunes_bytes_id:
  assumes "\<And>w. w \<in> set ws \<Longrightarrow> set w \<inter> set s = {}"
  shows "trimRunes ws s = s"
proof (rule trimRunes_id)
  have "\<not> (w \<noteq> [] \<and> prefix w s)" if "w \<in> set ws" for w
    using assms [OF that] by (cases w) (auto simp: prefix_def)
  then show "find (\<lambda>w. w \<noteq> [] \<and> prefix w s) ws = None"
    by (simp add: find_None_iff)
qed

lemma TrimSpace_id: "set (concat spaceRunes) \<inter> set s = {} \<Longrightarrow> TrimSpace s = s"
  unfolding TrimSpace_def
  by (subst (2) trimRunes_bytes_id, fastforce, subst trimRunes_bytes_id) fastforce+

lemma lower_spaceRunes: "\<forall>c \<in> set (concat spaceRunes). lowerByte c = c"
  by code_simp

text \<open>A string that lowers to one without white space has no surrounding white space.\<close>

lemma TrimSpace_ToLower_id:
  assumes "set (concat spaceRunes) \<inter> set (ToLower s) = {}"
  shows "TrimSpace s = s"
proof (rule TrimSpace_id)
  show "set (concat spaceRunes) \<inter> set s = {}"
    using assms lower_spaceRunes by (force simp: ToLower_def disjoint_iff image_iff simp del: set_concat)
qed

lemma set_Join: "set (Join xs sep) \<subseteq> (\<Union>x\<in>set xs. set x) \<union> set sep"
  by (induction xs sep rule: Join.induct) auto

lemma set_TrimRight: "set (TrimRight s cs) \<subseteq> set s"
  by (auto simp: TrimRight_def dest: set_dropWhileD)

lemma set_Trim: "set (Trim s cs) \<subseteq> set s"
  using set_TrimRight by (fastforce simp: Trim_def dest: set_dropWhileD)

section \<open>Generic facts on lists and maps\<close>

lemma distinct_snoc: "distinct (xs @ [x]) \<longleftrightarrow> distinct xs \<and> x \<notin> set xs"
  by auto

lemma sum_list_eq_filter_split:
  "length (filter P xs) + length (filter (\<lambda>x. \<not> P x) xs) = length xs"
  by (induction xs) auto

end
