(* ===== verification/GoChan.thy ===== *)
theory GoChan
  imports Prelude
begin

text \<open>
  Buffered Go channels, the building block of the in-memory queue
  (\<open>queue/memory.go\<close>), of the SMTP connection pool
  (\<open>sender/pool.go\<close>) and of the token buckets (\<open>sender/sender.go\<close>).
  A send, a receive and a close are the three atomic operations; each one
  either happens, blocks the goroutine (no change), or panics. The locale
  \<open>fifo_channel\<close> is the contract the clients of a channel rely on.
\<close>

record 'a chan =
  ch_buf :: "'a list"
  ch_cap :: nat
  ch_closed :: bool

datatype 'c sendResult = SendOk 'c | SendBlock | SendPanic

datatype ('a, 'c) recvResult = RecvVal 'a 'c | RecvBlock | RecvClosed

definition makeChan :: "nat \<Rightarrow> 'a chan" where
  "makeChan n = \<lparr>ch_buf = [], ch_cap = n, ch_closed = False\<rparr>"

definition chanSend :: "'a chan \<Rightarrow> 'a \<Rightarrow> 'a chan sendResult" where
  "chanSend ch x =
     (if ch_closed ch then SendPanic
      else if length (ch_buf ch) < ch_cap ch then SendOk (ch\<lparr>ch_buf := ch_buf ch @ [x]\<rparr>)
      else SendBlock)"

definition chanRecv :: "'a chan \<Rightarrow> ('a, 'a chan) recvResult" where
  "chanRecv ch =
     (case ch_buf ch of
        x # xs \<Rightarrow> RecvVal x (ch\<lparr>ch_buf := xs\<rparr>)
      | [] \<Rightarrow> if ch_closed ch then RecvClosed else RecvBlock)"

definition chanClose :: "'a chan \<Rightarrow> 'a chan outcome" where
  "chanClose ch =
     (if ch_closed ch then Panic ''close of closed channel'' else Ret (ch\<lparr>ch_closed := True\<rparr>))"

definition chanWf :: "'a chan \<Rightarrow> bool" where
  "chanWf ch \<longleftrightarrow> length (ch_buf ch) \<le> ch_cap ch"

lemmas chan_defs = makeChan_def chanSend_def chanRecv_def chanClose_def chanWf_def

lemmas [mb_splits] = sendResult.splits recvResult.splits list.splits

section \<open>The contract of a channel\<close>

text \<open>The actions of the goroutines that share a channel, as one interleaved sequence.\<close>

datatype 'a chanOp = OpSend 'a | OpRecv | OpClose

locale fifo_channel =
  fixes send :: "'c \<Rightarrow> 'a \<Rightarrow> 'c sendResult"
    and recv :: "'c \<Rightarrow> ('a, 'c) recvResult"
    and close :: "'c \<Rightarrow> 'c outcome"
    and contents :: "'c \<Rightarrow> 'a list"
    and cap :: "'c \<Rightarrow> nat"
    and closed :: "'c \<Rightarrow> bool"
    and wf :: "'c \<Rightarrow> bool"
  assumes send_ok: "send c x = SendOk c' \<Longrightarrow>
      contents c' = contents c @ [x] \<and> cap c' = cap c \<and> closed c' = closed c \<and> \<not> closed c"
    and send_wf: "wf c \<Longrightarrow> send c x = SendOk c' \<Longrightarrow> wf c'"
    and send_panic: "send c x = SendPanic \<longleftrightarrow> closed c"
    and send_block: "wf c \<Longrightarrow> send c x = SendBlock \<longleftrightarrow> \<not> closed c \<and> length (contents c) = cap c"
    and recv_val: "recv c = RecvVal x c' \<Longrightarrow>
      contents c = x # contents c' \<and> cap c' = cap c \<and> closed c' = closed c"
    and recv_wf: "wf c \<Longrightarrow> recv c = RecvVal x c' \<Longrightarrow> wf c'"
    and recv_closed: "recv c = RecvClosed \<longleftrightarrow> contents c = [] \<and> closed c"
    and recv_block: "recv c = RecvBlock \<longleftrightarrow> contents c = [] \<and> \<not> closed c"
    and close_ok: "close c = Ret c' \<Longrightarrow>
      contents c' = contents c \<and> cap c' = cap c \<and> closed c' \<and> \<not> closed c"
    and close_wf: "wf c \<Longrightarrow> close c = Ret c' \<Longrightarrow> wf c'"
    and wf_cap: "wf c \<Longrightarrow> length (contents c) \<le> cap c"
begin

text \<open>
  One interleaved run: the messages accepted, the messages received and the
  final channel. A blocked or panicking action leaves the channel alone.
\<close>

fun run :: "'c \<Rightarrow> 'a chanOp list \<Rightarrow> 'a list \<times> 'a list \<times> 'c" where
  "run c [] = ([], [], c)"
| "run c (OpSend x # ops) =
     (case send c x of
        SendOk c' \<Rightarrow> (case run c' ops of (s, r, d) \<Rightarrow> (x # s, r, d))
      | _ \<Rightarrow> run c ops)"
| "run c (OpRecv # ops) =
     (case recv c of
        RecvVal x c' \<Rightarrow> (case run c' ops of (s, r, d) \<Rightarrow> (s, x # r, d))
      | _ \<Rightarrow> run c ops)"
| "run c (OpClose # ops) = (case close c of Ret c' \<Rightarrow> run c' ops | Panic _ \<Rightarrow> run c ops)"

text \<open>No message is lost, duplicated or reordered, whatever the interleaving.\<close>

lemma run_fifo: "run c ops = (s, r, d) \<Longrightarrow> contents c @ s = r @ contents d"
proof (induction c ops arbitrary: s r d rule: run.induct)
  case (1 c)
  then show ?case by simp
next
  case (2 c x ops)
  then show ?case
    by (cases "send c x") (fastforce split: prod.splits dest: send_ok)+
next
  case (3 c ops)
  then show ?case
    by (cases "recv c") (fastforce split: prod.splits dest: recv_val)+
next
  case (4 c ops)
  then show ?case
    by (cases "close c") (fastforce dest: close_ok)+
qed

lemma run_wf: "wf c \<Longrightarrow> run c ops = (s, r, d) \<Longrightarrow> wf d \<and> cap d = cap c"
proof (induction c ops arbitrary: s r d rule: run.induct)
  case (1 c)
  then show ?case by simp
next
  case (2 c x ops)
  then show ?case
    by (cases "send c x") (fastforce split: prod.splits dest: send_ok send_wf)+
next
  case (3 c ops)
  then show ?case
    by (cases "recv c") (fastforce split: prod.splits dest: recv_val recv_wf)+
next
  case (4 c ops)
  then show ?case
    by (cases "close c") (fastforce dest: close_ok close_wf)+
qed

lemma run_bounded: "wf c \<Longrightarrow> run c ops = (s, r, d) \<Longrightarrow> length (contents d) \<le> cap c"
  using run_wf wf_cap by fastforce

text \<open>Once closed, a channel accepts nothing more and stays closed.\<close>

lemma run_closed: "closed c \<Longrightarrow> run c ops = (s, r, d) \<Longrightarrow> s = [] \<and> closed d"
proof (induction c ops arbitrary: s r d rule: run.induct)
  case (1 c)
  then show ?case by simp
next
  case (2 c x ops)
  moreover from "2.prems"(1) have "send c x = SendPanic" by (simp add: send_panic)
  ultimately show ?case by simp
next
  case (3 c ops)
  then show ?case
    by (cases "recv c") (fastforce split: prod.splits dest: recv_val)+
next
  case (4 c ops)
  then show ?case
    by (cases "close c") (fastforce dest: close_ok)+
qed

end

interpretation gochan: fifo_channel chanSend chanRecv chanClose ch_buf ch_cap ch_closed chanWf
  by unfold_locales (auto simp: chan_defs split: if_splits list.splits)

lemma chanWf_make [simp]: "chanWf (makeChan n)"
  by (simp add: chan_defs)

lemma makeChan_simps [simp]:
  "ch_buf (makeChan n) = []" "ch_cap (makeChan n) = n" "\<not> ch_closed (makeChan n)"
  by (simp_all add: makeChan_def)

end
