(* ===== verification/Message.thy ===== *)
theory Message
  imports Prelude
begin

text \<open>
  The queue message of \<open>internal/queue/message.go\<close> and the sentinels of
  \<open>internal/queue/errors.go\<close>. The acknowledgement callbacks a driver
  stores in a message are closures over driver state; the model keeps the
  closure's identity (type variables \<open>'a\<close>, \<open>'n\<close>) and gives the
  operations that call it an interpreter \<open>run\<close>, which maps the driver's
  state \<open>'w\<close> to the callback's error and the new state. The field
  \<open>Raw\<close> (an opaque driver object that no modelled code reads) is left out.
\<close>

section \<open>Sentinels\<close>

definition ErrDriverNotFound :: error where
  "ErrDriverNotFound = Err ''queue: driver not found or not registered''"
definition ErrQueueClosed :: error where
  "ErrQueueClosed = Err ''queue: queue connection is closed''"
definition ErrInvalidMessage :: error where
  "ErrInvalidMessage = Err ''queue: invalid or empty message''"
definition ErrPublishFailed :: error where
  "ErrPublishFailed = Err ''queue: failed to publish message''"
definition ErrTimeout :: error where
  "ErrTimeout = Err ''queue: operation timed out''"
definition ErrAckNotSupported :: error where
  "ErrAckNotSupported = Err ''queue: ack function is not configured on message''"
definition ErrNackNotSupported :: error where
  "ErrNackNotSupported = Err ''queue: nack function is not configured on message''"
definition ErrNilHandler :: error where
  "ErrNilHandler = Err ''queue: message handler cannot be nil''"
definition ErrInvalidConfig :: error where
  "ErrInvalidConfig = Err ''queue: config is required and must be non-nil''"

section \<open>The message\<close>

text \<open>
  \<open>m_Headers\<close> is \<open>None\<close> for a nil map. \<open>m_Timestamp\<close> is
  \<open>None\<close> for the zero \<open>time.Time\<close>.
\<close>

record ('a, 'n) message =
  m_ID :: string
  m_Topic :: string
  m_Payload :: string
  m_Headers :: "(string \<rightharpoonup> string) option"
  m_Key :: string
  m_Delay :: int
  m_Timestamp :: "int option"
  m_Attempts :: int
  m_acknowledged :: bool
  m_ackFn :: "'a option"
  m_nackFn :: "'n option"

text \<open>\<open>uuid\<close> is what \<open>generateUUID\<close> drew, \<open>now\<close> what \<open>time.Now\<close> read.\<close>

definition NewMessageWithID :: "string \<Rightarrow> int \<Rightarrow> string \<Rightarrow> string \<Rightarrow> ('a, 'n) message" where
  "NewMessageWithID uuid now ident payload =
     \<lparr>m_ID = (if ident = [] then uuid else ident), m_Topic = [], m_Payload = payload,
      m_Headers = Some Map.empty, m_Key = [], m_Delay = 0, m_Timestamp = Some now,
      m_Attempts = 1, m_acknowledged = False, m_ackFn = None, m_nackFn = None\<rparr>"

definition NewMessage :: "string \<Rightarrow> int \<Rightarrow> string \<Rightarrow> ('a, 'n) message" where
  "NewMessage uuid now payload = NewMessageWithID uuid now uuid payload"

definition SetHeader :: "('a, 'n) message \<Rightarrow> string \<Rightarrow> string \<Rightarrow> ('a, 'n) message" where
  "SetHeader m key val =
     (case m_Headers m of
        None \<Rightarrow> m\<lparr>m_Headers := Some [key \<mapsto> val]\<rparr>
      | Some h \<Rightarrow> m\<lparr>m_Headers := Some (h(key \<mapsto> val))\<rparr>)"

definition GetHeader :: "('a, 'n) message \<Rightarrow> string \<Rightarrow> string" where
  "GetHeader m key =
     (case m_Headers m of
        None \<Rightarrow> []
      | Some h \<Rightarrow> (case h key of None \<Rightarrow> [] | Some v \<Rightarrow> v))"

text \<open>\<open>marshal\<close> and \<open>unmarshal\<close> stand for \<open>encoding/json\<close>.\<close>

definition NewJSONMessageWithID ::
    "('v \<Rightarrow> error + string) \<Rightarrow> string \<Rightarrow> int \<Rightarrow> string \<Rightarrow> 'v \<Rightarrow> error + ('a, 'n) message" where
  "NewJSONMessageWithID marshal uuid now ident v =
     (case marshal v of
        Inl e \<Rightarrow> Inl (Wrap (''queue: failed to marshal message payload to JSON: '' @ Error e) e)
      | Inr data \<Rightarrow>
          Inr (SetHeader (NewMessageWithID uuid now ident data) ''Content-Type'' ''application/json''))"

definition BindJSON :: "(string \<Rightarrow> error + 'v) \<Rightarrow> ('a, 'n) message option \<Rightarrow> error + 'v" where
  "BindJSON unmarshal m =
     (case m of
        None \<Rightarrow> Inl ErrInvalidMessage
      | Some msg \<Rightarrow>
          if m_Payload msg = [] then Inl ErrInvalidMessage else unmarshal (m_Payload msg))"

definition SetAckFunc :: "('a, 'n) message \<Rightarrow> 'a \<Rightarrow> ('a, 'n) message" where
  "SetAckFunc m f = m\<lparr>m_ackFn := Some f\<rparr>"

definition SetNackFunc :: "('a, 'n) message \<Rightarrow> 'n \<Rightarrow> ('a, 'n) message" where
  "SetNackFunc m f = m\<lparr>m_nackFn := Some f\<rparr>"

definition IsAcknowledged :: "('a, 'n) message \<Rightarrow> bool" where
  "IsAcknowledged m = m_acknowledged m"

definition Clone :: "('a, 'n) message option \<Rightarrow> ('a, 'n) message option" where
  "Clone mo =
     (case mo of
        None \<Rightarrow> None
      | Some m \<Rightarrow> Some (m\<lparr>m_Headers := Some (case m_Headers m of None \<Rightarrow> Map.empty | Some h \<Rightarrow> h)\<rparr>))"

section \<open>Settling a message\<close>

text \<open>
  \<open>Ack\<close> and \<open>Nack\<close> are two locked sections around the callback, which
  runs without the lock: the check that claims the message
  (\<open>ackBegin\<close>, \<open>nackBegin\<close>), and the roll-back after an error
  (\<open>settleEnd\<close>). The sections are what another goroutine can interleave with.
\<close>

datatype ('f, 'm) settleBegin = SettleReturn "error option" | SettleInvoke 'f 'm

definition ackBegin :: "('a, 'n) message \<Rightarrow> ('a, ('a, 'n) message) settleBegin" where
  "ackBegin m =
     (if m_acknowledged m then SettleReturn None
      else case m_ackFn m of
             None \<Rightarrow> SettleReturn (Some ErrAckNotSupported)
           | Some f \<Rightarrow> SettleInvoke f (m\<lparr>m_acknowledged := True\<rparr>))"

definition nackBegin :: "('a, 'n) message \<Rightarrow> ('n, ('a, 'n) message) settleBegin" where
  "nackBegin m =
     (if m_acknowledged m then SettleReturn None
      else case m_nackFn m of
             None \<Rightarrow> SettleReturn (Some ErrNackNotSupported)
           | Some f \<Rightarrow> SettleInvoke f (m\<lparr>m_acknowledged := True\<rparr>))"

definition settleEnd :: "error option \<Rightarrow> ('a, 'n) message \<Rightarrow> ('a, 'n) message" where
  "settleEnd r m = (case r of None \<Rightarrow> m | Some e \<Rightarrow> m\<lparr>m_acknowledged := False\<rparr>)"

definition Ack ::
    "('a \<Rightarrow> 'w \<Rightarrow> error option \<times> 'w) \<Rightarrow> ('a, 'n) message \<Rightarrow> 'w
       \<Rightarrow> error option \<times> ('a, 'n) message \<times> 'w" where
  "Ack run m w =
     (case ackBegin m of
        SettleReturn r \<Rightarrow> (r, m, w)
      | SettleInvoke f m' \<Rightarrow> (case run f w of (r, w') \<Rightarrow> (r, settleEnd r m', w')))"

text \<open>A nack callback closes over the message, which is marked by the time it runs.\<close>

definition Nack ::
    "('n \<Rightarrow> bool \<Rightarrow> ('a, 'n) message \<Rightarrow> 'w \<Rightarrow> error option \<times> 'w) \<Rightarrow> ('a, 'n) message \<Rightarrow> bool \<Rightarrow> 'w
       \<Rightarrow> error option \<times> ('a, 'n) message \<times> 'w" where
  "Nack run m requeue w =
     (case nackBegin m of
        SettleReturn r \<Rightarrow> (r, m, w)
      | SettleInvoke f m' \<Rightarrow> (case run f requeue m' w of (r, w') \<Rightarrow> (r, settleEnd r m', w')))"

lemmas message_defs = NewMessage_def NewMessageWithID_def SetHeader_def GetHeader_def
  BindJSON_def SetAckFunc_def SetNackFunc_def IsAcknowledged_def Clone_def
lemmas settle_defs = ackBegin_def nackBegin_def settleEnd_def Ack_def Nack_def

lemmas [mb_splits] = settleBegin.splits

lemma GetHeader_SetHeader: "GetHeader (SetHeader m k v) k' = (if k' = k then v else GetHeader m k')"
  by (auto simp: message_defs split: mb_splits)

lemma Ack_settled [simp]: "m_acknowledged m \<Longrightarrow> Ack run m w = (None, m, w)"
  by (simp add: settle_defs)

lemma Ack_ok: "Ack run m w = (None, m', w') \<Longrightarrow> m_acknowledged m'"
  by (auto simp: settle_defs split: mb_splits)

lemma Ack_frame:
  "Ack run m w = (r, m', w') \<Longrightarrow> m' = m\<lparr>m_acknowledged := m_acknowledged m'\<rparr>"
  by (auto simp: settle_defs split: mb_splits)

section \<open>Concurrent settlement\<close>

text \<open>
  Any number of goroutines call \<open>Ack\<close> and \<open>Nack\<close> on one message (the
  handler, the driver after the handler, an auto-ack). \<open>s_calls t\<close> says
  that goroutine \<open>t\<close> is inside a callback; \<open>s_oks\<close> counts the callbacks
  that returned nil.
\<close>

record ('a, 'n) settle =
  s_msg :: "('a, 'n) message"
  s_calls :: "nat \<Rightarrow> bool"
  s_oks :: nat

inductive settle_step :: "('a, 'n) settle \<Rightarrow> ('a, 'n) settle \<Rightarrow> bool" where
  ack_returns: "ackBegin (s_msg s) = SettleReturn r \<Longrightarrow> settle_step s s"
| nack_returns: "nackBegin (s_msg s) = SettleReturn r \<Longrightarrow> settle_step s s"
| ack_invokes: "\<not> s_calls s t \<Longrightarrow> ackBegin (s_msg s) = SettleInvoke f m \<Longrightarrow>
    settle_step s (s\<lparr>s_msg := m, s_calls := (s_calls s)(t := True)\<rparr>)"
| nack_invokes: "\<not> s_calls s t \<Longrightarrow> nackBegin (s_msg s) = SettleInvoke f m \<Longrightarrow>
    settle_step s (s\<lparr>s_msg := m, s_calls := (s_calls s)(t := True)\<rparr>)"
| callback_ok: "s_calls s t \<Longrightarrow>
    settle_step s (s\<lparr>s_msg := settleEnd None (s_msg s),
                     s_calls := (s_calls s)(t := False), s_oks := Suc (s_oks s)\<rparr>)"
| callback_fails: "s_calls s t \<Longrightarrow>
    settle_step s (s\<lparr>s_msg := settleEnd (Some e) (s_msg s),
                     s_calls := (s_calls s)(t := False)\<rparr>)"

inductive settle_reachable :: "('a, 'n) message \<Rightarrow> ('a, 'n) settle \<Rightarrow> bool" for m0 where
  settle_start: "settle_reachable m0 \<lparr>s_msg = m0, s_calls = (\<lambda>_. False), s_oks = 0\<rparr>"
| settle_next: "settle_reachable m0 s \<Longrightarrow> settle_step s s' \<Longrightarrow> settle_reachable m0 s'"

text \<open>
  The flag is set exactly while a callback runs or after one succeeded, and
  these two exclude each other.
\<close>

definition settle_inv :: "('a, 'n) settle \<Rightarrow> bool" where
  "settle_inv s \<longleftrightarrow>
     (m_acknowledged (s_msg s) \<longleftrightarrow> (\<exists>t. s_calls s t) \<or> s_oks s = 1) \<and>
     (\<forall>t u. s_calls s t \<longrightarrow> s_calls s u \<longrightarrow> t = u) \<and>
     ((\<exists>t. s_calls s t) \<longrightarrow> s_oks s = 0) \<and> s_oks s \<le> 1"

lemma settle_step_inv: "settle_step s s' \<Longrightarrow> settle_inv s \<Longrightarrow> settle_inv s'"
proof (induction rule: settle_step.induct)
  case (ack_invokes s t f m)
  then show ?case
    by (auto simp: settle_inv_def settle_defs split: mb_splits)
next
  case (nack_invokes s t f m)
  then show ?case
    by (auto simp: settle_inv_def settle_defs split: mb_splits)
next
  case (callback_ok s t)
  then show ?case
    by (auto simp: settle_inv_def settle_defs)
next
  case (callback_fails s t e)
  then show ?case
    by (auto simp: settle_inv_def settle_defs)
qed simp_all

lemma settle_reachable_inv:
  "settle_reachable m0 s \<Longrightarrow> \<not> m_acknowledged m0 \<Longrightarrow> settle_inv s"
  by (induction rule: settle_reachable.induct) (auto simp: settle_inv_def [of "\<lparr>s_msg = _, s_calls = _, s_oks = _\<rparr>"] dest: settle_step_inv)


definition witness_message :: "(unit, unit) message" where
  "witness_message = SetAckFunc (NewMessageWithID ''u'' 0 ''m1'' ''payload'') ()"

lemma settle_reachable_witness:
  "settle_reachable witness_message
     \<lparr>s_msg = witness_message\<lparr>m_acknowledged := True\<rparr>, s_calls = (\<lambda>_. False), s_oks = 1\<rparr>"
proof -
  let ?s0 = "\<lparr>s_msg = witness_message, s_calls = (\<lambda>_. False), s_oks = 0\<rparr>"
  let ?s1 = "?s0\<lparr>s_msg := witness_message\<lparr>m_acknowledged := True\<rparr>, s_calls := (s_calls ?s0)(0 := True)\<rparr>"
  have "settle_step ?s0 ?s1"
    by (rule ack_invokes [where f = "()"])
      (simp_all add: witness_message_def message_defs settle_defs)
  then have "settle_reachable witness_message ?s1"
    by (rule settle_next [OF settle_start])
  moreover have "settle_step ?s1 (?s1\<lparr>s_msg := settleEnd None (s_msg ?s1),
      s_calls := (s_calls ?s1)(0 := False), s_oks := Suc (s_oks ?s1)\<rparr>)"
    by (rule callback_ok) simp
  ultimately have "settle_reachable witness_message (?s1\<lparr>s_msg := settleEnd None (s_msg ?s1),
      s_calls := (s_calls ?s1)(0 := False), s_oks := Suc (s_oks ?s1)\<rparr>)"
    by (rule settle_next)
  then show ?thesis
    by (simp add: settleEnd_def fun_upd_idem)
qed


end
