(* ===== verification/QueueCore.thy ===== *)
theory QueueCore
  imports Message
begin

text \<open>
  The parts of \<open>internal/queue\<close> every driver shares: the functional
  options of \<open>options.go\<close>, the handler middlewares of \<open>middleware.go\<close>,
  and the counters and the receive-loop backoff of \<open>driver/common/base.go\<close>.
\<close>

section \<open>Options (options.go)\<close>

record PublishOptions =
  po_Topic :: string
  po_Key :: string
  po_Delay :: int
  po_Headers :: "(string \<rightharpoonup> string) option"
  po_Timeout :: int

definition zeroPublishOptions :: PublishOptions where
  "zeroPublishOptions =
     \<lparr>po_Topic = [], po_Key = [], po_Delay = 0, po_Headers = None, po_Timeout = 0\<rparr>"

text \<open>A functional option is the constructor that made it, with its captured arguments.\<close>

datatype PublishOption =
    WithTopic string
  | WithKey string
  | WithDelay int
  | WithHeader string string
  | WithHeaders "string \<rightharpoonup> string"
  | WithPublishTimeout int

fun applyPublishOption :: "PublishOption \<Rightarrow> PublishOptions \<Rightarrow> PublishOptions" where
  "applyPublishOption (WithTopic t) o1 = o1\<lparr>po_Topic := t\<rparr>"
| "applyPublishOption (WithKey k) o1 = o1\<lparr>po_Key := k\<rparr>"
| "applyPublishOption (WithDelay d) o1 = o1\<lparr>po_Delay := d\<rparr>"
| "applyPublishOption (WithHeader k v) o1 =
     o1\<lparr>po_Headers := Some ((case po_Headers o1 of None \<Rightarrow> Map.empty | Some h \<Rightarrow> h)(k \<mapsto> v))\<rparr>"
| "applyPublishOption (WithHeaders hs) o1 =
     o1\<lparr>po_Headers := Some ((case po_Headers o1 of None \<Rightarrow> Map.empty | Some h \<Rightarrow> h) ++ hs)\<rparr>"
| "applyPublishOption (WithPublishTimeout t) o1 = o1\<lparr>po_Timeout := t\<rparr>"

definition publishOptions :: "PublishOption list \<Rightarrow> PublishOptions" where
  "publishOptions opts = fold applyPublishOption opts zeroPublishOptions"

record 'mw ConsumeOptions =
  co_Topic :: string
  co_Concurrency :: int
  co_AutoAck :: bool
  co_MaxRetries :: int
  co_RetryInterval :: int
  co_PrefetchCount :: int
  co_BatchSize :: int
  co_Middlewares :: "'mw list"

definition zeroConsumeOptions :: "'mw ConsumeOptions" where
  "zeroConsumeOptions =
     \<lparr>co_Topic = [], co_Concurrency = 0, co_AutoAck = False, co_MaxRetries = 0,
      co_RetryInterval = 0, co_PrefetchCount = 0, co_BatchSize = 0, co_Middlewares = []\<rparr>"

datatype 'mw ConsumeOption =
    WithConsumeTopic string
  | WithConcurrency int
  | WithAutoAck bool
  | WithMaxRetries int
  | WithRetryInterval int
  | WithPrefetchCount int
  | WithBatchSize int
  | WithMiddlewares "'mw list"

fun applyConsumeOption :: "'mw ConsumeOption \<Rightarrow> 'mw ConsumeOptions \<Rightarrow> 'mw ConsumeOptions" where
  "applyConsumeOption (WithConsumeTopic t) o1 = o1\<lparr>co_Topic := t\<rparr>"
| "applyConsumeOption (WithConcurrency n) o1 = o1\<lparr>co_Concurrency := n\<rparr>"
| "applyConsumeOption (WithAutoAck b) o1 = o1\<lparr>co_AutoAck := b\<rparr>"
| "applyConsumeOption (WithMaxRetries n) o1 = o1\<lparr>co_MaxRetries := n\<rparr>"
| "applyConsumeOption (WithRetryInterval d) o1 = o1\<lparr>co_RetryInterval := d\<rparr>"
| "applyConsumeOption (WithPrefetchCount n) o1 = o1\<lparr>co_PrefetchCount := n\<rparr>"
| "applyConsumeOption (WithBatchSize n) o1 = o1\<lparr>co_BatchSize := n\<rparr>"
| "applyConsumeOption (WithMiddlewares ms) o1 = o1\<lparr>co_Middlewares := co_Middlewares o1 @ ms\<rparr>"

definition consumeOptions :: "'mw ConsumeOption list \<Rightarrow> 'mw ConsumeOptions" where
  "consumeOptions opts = fold applyConsumeOption opts zeroConsumeOptions"

record ReceiveOptions =
  ro_Timeout :: int

datatype ReceiveOption = WithReceiveTimeout int

fun applyReceiveOption :: "ReceiveOption \<Rightarrow> ReceiveOptions \<Rightarrow> ReceiveOptions" where
  "applyReceiveOption (WithReceiveTimeout t) o1 = o1\<lparr>ro_Timeout := t\<rparr>"

definition receiveOptions :: "ReceiveOption list \<Rightarrow> ReceiveOptions" where
  "receiveOptions opts = fold applyReceiveOption opts \<lparr>ro_Timeout = 0\<rparr>"

section \<open>Handler middlewares (middleware.go)\<close>

text \<open>
  A handler maps a state \<open>'s\<close> (the message and everything its call can
  change) to its outcome and the new state. A nil middleware is \<open>None\<close>.
\<close>

type_synonym 's handler = "'s \<Rightarrow> error option outcome \<times> 's"
type_synonym 's middleware = "'s handler \<Rightarrow> 's handler"

text \<open>The loop of \<open>Chain\<close> wraps from the last middleware to the first.\<close>

definition Chain :: "'s middleware option list \<Rightarrow> 's middleware" where
  "Chain middlewares final =
     foldr (\<lambda>mw h. case mw of None \<Rightarrow> h | Some f \<Rightarrow> f h) middlewares final"

text \<open>
  \<open>RecoveryMiddleware\<close>: \<open>msgID\<close> reads the message's ID, \<open>stack\<close> is the
  captured stack trace, \<open>hooks\<close> are the non-nil panic hooks, run in order.
\<close>

definition RecoveryMiddleware ::
    "('s \<Rightarrow> string) \<Rightarrow> string \<Rightarrow> (string \<Rightarrow> 's \<Rightarrow> 's) option list \<Rightarrow> 's middleware" where
  "RecoveryMiddleware msgID stack hooks next1 s =
     (case next1 s of
        (Ret e, s') \<Rightarrow> (Ret e, s')
      | (Panic r, s') \<Rightarrow>
          (Ret (Some (Err (''queue: panic recovered while handling message '' @ Quote (msgID s') @ '': ''
                           @ r @ [CHR 0x0A] @ ''stack:'' @ [CHR 0x0A] @ stack))),
           fold (\<lambda>hook t. case hook of None \<Rightarrow> t | Some f \<Rightarrow> f r t) hooks s'))"

text \<open>
  \<open>RetryMiddleware\<close>: \<open>ctxErr\<close> is \<open>ctx.Err()\<close>, \<open>sleep\<close> the select
  between \<open>time.After(backoff)\<close> and \<open>ctx.Done()\<close> (an error if the context
  won), \<open>bump\<close> is \<open>msg.Attempts++\<close>. \<open>lastErr\<close> is the loop's
  \<open>err\<close>; it is nil only if the body never ran.
\<close>

record 's retryEnv =
  re_ctxErr :: "'s \<Rightarrow> error option"
  re_sleep :: "int \<Rightarrow> 's \<Rightarrow> error option \<times> 's"
  re_bump :: "'s \<Rightarrow> 's"

definition maxRetriesErr :: "int \<Rightarrow> error option \<Rightarrow> error" where
  "maxRetriesErr n e =
     (case e of
        None \<Rightarrow> Err (''queue: max retries ('' @ Itoa n @ '') reached: %!w(<nil>)'')
      | Some e' \<Rightarrow> Wrap (''queue: max retries ('' @ Itoa n @ '') reached: '' @ Error e') e')"

function retryLoop ::
    "'s retryEnv \<Rightarrow> int \<Rightarrow> int \<Rightarrow> 's handler \<Rightarrow> int \<Rightarrow> error option \<Rightarrow> 's handler" where
  "retryLoop env maxRetries backoff next1 attempt lastErr s =
     (if attempt > maxRetries then (Ret (Some (maxRetriesErr maxRetries lastErr)), s)
      else case re_ctxErr env s of
        Some e \<Rightarrow> (Ret (Some e), s)
      | None \<Rightarrow>
          (let s1 = (if attempt > 0 then re_bump env s else s);
               (waited, s2) = (if attempt > 0 \<and> backoff > 0 then re_sleep env backoff s1 else (None, s1))
           in case waited of
                Some e \<Rightarrow> (Ret (Some e), s2)
              | None \<Rightarrow>
                  (case next1 s2 of
                     (Panic p, s3) \<Rightarrow> (Panic p, s3)
                   | (Ret None, s3) \<Rightarrow> (Ret None, s3)
                   | (Ret (Some e), s3) \<Rightarrow>
                       retryLoop env maxRetries backoff next1 (attempt + 1) (Some e) s3)))"
  by pat_completeness auto
termination
  by (relation "measure (\<lambda>(env, n, b, h, a, e, s). nat (n + 1 - a))") auto

declare retryLoop.simps [simp del]

definition RetryMiddleware :: "'s retryEnv \<Rightarrow> int \<Rightarrow> int \<Rightarrow> 's middleware" where
  "RetryMiddleware env maxRetries backoff next1 s =
     retryLoop env maxRetries backoff next1 0 None s"

text \<open>
  \<open>LoggingMiddleware\<close>: \<open>logFunc\<close> is the chosen log function with its message
  and fields, \<open>duration\<close> the printed time the call took.
\<close>

definition LoggingMiddleware ::
    "(string \<Rightarrow> (string \<times> string) list \<Rightarrow> 's \<Rightarrow> 's) \<Rightarrow> ('s \<Rightarrow> string) \<Rightarrow> ('s \<Rightarrow> string) \<Rightarrow>
     string \<Rightarrow> 's middleware" where
  "LoggingMiddleware logFunc msgID msgTopic duration next1 s =
     (case next1 s of
        (Panic p, s') \<Rightarrow> (Panic p, s')
      | (Ret err, s') \<Rightarrow>
          (let fields = [(''msg_id'', msgID s'), (''topic'', msgTopic s'), (''duration'', duration)]
           in case err of
                Some e \<Rightarrow>
                  (Ret err, logFunc ''queue message handling failed''
                              (fields @ [(''status'', ''FAILED''), (''error'', Error e)]) s')
              | None \<Rightarrow>
                  (Ret err, logFunc ''queue message handled'' (fields @ [(''status'', ''OK'')]) s')))"

lemma Chain_Nil [simp]: "Chain [] h = h"
  by (simp add: Chain_def)

lemma Chain_Cons [simp]:
  "Chain (Some f # ms) h = f (Chain ms h)" "Chain (None # ms) h = Chain ms h"
  by (simp_all add: Chain_def)

lemma Chain_append: "Chain (xs @ ys) h = Chain xs (Chain ys h)"
  by (simp add: Chain_def)

lemma RecoveryMiddleware_returns: "\<exists>e. fst (RecoveryMiddleware msgID stack hooks h s) = Ret e"
  by (auto simp: RecoveryMiddleware_def split: mb_splits)

lemma LoggingMiddleware_outcome: "fst (LoggingMiddleware lf i t d h s) = fst (h s)"
  by (auto simp: LoggingMiddleware_def Let_def split: mb_splits)

text \<open>
  A quantity that every call of the handler raises by at most one, and that
  waiting and counting attempts leave alone, is raised at most
  \<open>maxRetries + 1\<close> times by the retry loop.
\<close>

lemma retryLoop_bound:
  assumes "\<And>s. f (snd (next1 s)) \<le> f s + (1::nat)"
    and "\<And>s. f (re_bump env s) = f s" and "\<And>d s. f (snd (re_sleep env d s)) = f s"
  shows "f (snd (retryLoop env n b next1 a e s)) \<le> f s + nat (n + 1 - a)"
  using assms
proof (induction env n b next1 a e s rule: retryLoop.induct)
  case (1 env n b next1 a e s)
  define s1 where "s1 = (if a > 0 then re_bump env s else s)"
  define w where "w = (if a > 0 \<and> b > 0 then re_sleep env b s1 else (None, s1))"
  have fw: "f (snd w) = f s"
    using "1.prems" by (simp add: w_def s1_def)
  have unf: "retryLoop env n b next1 a e s =
     (if a > n then (Ret (Some (maxRetriesErr n e)), s)
      else case re_ctxErr env s of
        Some e \<Rightarrow> (Ret (Some e), s)
      | None \<Rightarrow>
          (case fst w of
             Some e \<Rightarrow> (Ret (Some e), snd w)
           | None \<Rightarrow>
               (case next1 (snd w) of
                  (Panic p, s3) \<Rightarrow> (Panic p, s3)
                | (Ret None, s3) \<Rightarrow> (Ret None, s3)
                | (Ret (Some e), s3) \<Rightarrow> retryLoop env n b next1 (a + 1) (Some e) s3)))"
    by (subst retryLoop.simps, unfold Let_def case_prod_beta [of _ "if a > 0 \<and> b > 0 then _ else _"],
        fold s1_def, fold w_def, rule refl)
  show ?case
  proof (cases "a > n \<or> re_ctxErr env s \<noteq> None \<or> fst w \<noteq> None")
    case True
    then show ?thesis
      using fw by (subst unf) (auto split: option.splits prod.splits)
  next
    case False
    have h: "f (snd (next1 (snd w))) \<le> f s + 1"
      using "1.prems"(1) [of "snd w"] fw by simp
    obtain r s3 where n1: "next1 (snd w) = (r, s3)"
      by fastforce
    consider "r = Ret None" | p where "r = Panic p" | e' where "r = Ret (Some e')"
      by (cases r) auto
    then show ?thesis
    proof cases
      case (3 e')
      have "f (snd (retryLoop env n b next1 (a + 1) (Some e') s3)) \<le> f s3 + nat (n + 1 - (a + 1))"
        using "1.IH" [of s1 w "fst w" "snd w" "Ret (Some e')" s3 "Some e'" e'] False n1 3 "1.prems"
        by (auto simp: s1_def w_def)
      then show ?thesis
        using False h n1 3 by (subst unf) (auto split: prod.splits)
    qed (use False h n1 in \<open>subst unf; auto split: prod.splits\<close>)+
  qed
qed

section \<open>Driver counters and backoff (driver/common/base.go)\<close>

record BaseStats =
  bs_InFlight :: int
  bs_TotalSent :: int
  bs_ActiveCons :: int

definition IncTotalSent :: "int \<Rightarrow> BaseStats \<Rightarrow> BaseStats" where
  "IncTotalSent n b = b\<lparr>bs_TotalSent := bs_TotalSent b + n\<rparr>"

definition IncInFlight :: "BaseStats \<Rightarrow> BaseStats" where
  "IncInFlight b = b\<lparr>bs_InFlight := bs_InFlight b + 1\<rparr>"

definition DecInFlight :: "BaseStats \<Rightarrow> BaseStats" where
  "DecInFlight b = b\<lparr>bs_InFlight := bs_InFlight b - 1\<rparr>"

definition IncActiveCons :: "int \<Rightarrow> BaseStats \<Rightarrow> BaseStats" where
  "IncActiveCons n b = b\<lparr>bs_ActiveCons := bs_ActiveCons b + n\<rparr>"

definition DecActiveCons :: "int \<Rightarrow> BaseStats \<Rightarrow> BaseStats" where
  "DecActiveCons n b = b\<lparr>bs_ActiveCons := bs_ActiveCons b - n\<rparr>"

definition Snapshot :: "BaseStats \<Rightarrow> int \<times> int \<times> int" where
  "Snapshot b = (bs_InFlight b, bs_TotalSent b, bs_ActiveCons b)"

record Backoff =
  bo_Base :: int
  bo_Max :: int
  bo_attempt :: "32 word"
  bo_jittered :: bool

definition NewBackoff :: "int \<Rightarrow> int \<Rightarrow> Backoff" where
  "NewBackoff base mx =
     (let base = (if base \<le> 0 then 50 * Millisecond else base);
          mx = (if mx \<le> 0 \<or> mx < base then 5 * Second else mx)
      in \<lparr>bo_Base = base, bo_Max = mx, bo_attempt = 0, bo_jittered = False\<rparr>)"

text \<open>
  The duration one \<open>Wait\<close> sleeps and the state it leaves; \<open>Int63n\<close> is the
  pseudo-random draw from \<open>[0, n)\<close>.
\<close>

definition backoffDelay :: "(int \<Rightarrow> int) \<Rightarrow> Backoff \<Rightarrow> int \<times> Backoff" where
  "backoffDelay Int63n b =
     (let n = bo_attempt b + 1;
          d0 = wrap64 (bo_Base b * 2 ^ min (unat n) 10);
          d = (if d0 \<le> 0 \<or> d0 > bo_Max b then bo_Max b else d0);
          b' = b\<lparr>bo_attempt := n\<rparr>
      in if bo_jittered b then (d, b')
         else (let window = d div 5
               in (if window > 0 then wrap64 (d + (Int63n (window * 2) - window)) else d,
                   b'\<lparr>bo_jittered := True\<rparr>)))"

text \<open>
  \<open>Wait\<close>: a nil context returns at once; otherwise \<open>timerFired d\<close> says
  whether the timer beat the context.
\<close>

definition Wait :: "bool \<Rightarrow> (int \<Rightarrow> bool) \<Rightarrow> (int \<Rightarrow> int) \<Rightarrow> Backoff \<Rightarrow> bool \<times> Backoff" where
  "Wait ctxNil timerFired Int63n b =
     (if ctxNil then (False, b)
      else (let (d, b') = backoffDelay Int63n b in (timerFired d, b')))"

lemma NewBackoff_pos: "0 < bo_Base (NewBackoff base mx)" "0 < bo_Max (NewBackoff base mx)"
  by (simp_all add: NewBackoff_def Let_def)

lemma backoffDelay_frame:
  "bo_Base (snd (backoffDelay rnd b)) = bo_Base b" "bo_Max (snd (backoffDelay rnd b)) = bo_Max b"
  "bo_jittered (snd (backoffDelay rnd b))"
  by (simp_all add: backoffDelay_def Let_def)

text \<open>The shifted base before jitter, once clamped, lies in \<open>(0, Max]\<close>.\<close>

lemma jitter_bounds:
  assumes "0 < d" "d \<le> m" "m \<le> 2 ^ 62" "0 < d div 5" "0 \<le> r" "r < d div 5 * 2"
  shows "wrap64 (d + (r - d div 5)) = d + (r - d div 5)" "0 < d + (r - d div 5)"
    "d + (r - d div 5) \<le> m + m div 5"
proof -
  have "d div 5 \<le> m div 5"
    using assms by (simp add: zdiv_mono1)
  moreover have "d div 5 < d"
    using assms by (intro int_div_less_self) auto
  moreover have "m div 5 \<le> 2 ^ 62 div 5"
    using assms by (intro zdiv_mono1) auto
  ultimately show "wrap64 (d + (r - d div 5)) = d + (r - d div 5)" "0 < d + (r - d div 5)"
    "d + (r - d div 5) \<le> m + m div 5"
    using assms by (auto intro!: wrap64_id)
qed

text \<open>
  One wait of a driver's receive loop sleeps a positive time of at most
  the configured maximum plus its 20 per cent jitter, whatever attempt it is and
  whatever the draw; and once the first wait has applied its jitter, a base of at
  most 2^52 ns gives exactly the doubled base capped at the maximum.
\<close>

theorem backoff_bounds:
  assumes "0 < bo_Base b" "0 < bo_Max b" "bo_Max b \<le> 2 ^ 62"
    and "\<And>n. 0 < n \<Longrightarrow> 0 \<le> Int63n n \<and> Int63n n < n"
  shows "0 < fst (backoffDelay Int63n b) \<and>
     fst (backoffDelay Int63n b) \<le> bo_Max b + bo_Max b div 5 \<and>
     (bo_jittered b \<and> bo_Base b \<le> 2 ^ 52 \<longrightarrow>
        fst (backoffDelay Int63n b) =
          min (bo_Max b) (bo_Base b * 2 ^ min (unat (bo_attempt b + 1)) 10))"
proof -
  define k where "k = min (unat (bo_attempt b + 1)) 10"
  define d0 where "d0 = wrap64 (bo_Base b * 2 ^ k)"
  define d where "d = (if d0 \<le> 0 \<or> d0 > bo_Max b then bo_Max b else d0)"
  have d: "0 < d" "d \<le> bo_Max b"
    using assms by (auto simp: d_def)
  have unf: "fst (backoffDelay Int63n b) =
      (if bo_jittered b \<or> \<not> 0 < d div 5 then d else wrap64 (d + (Int63n (d div 5 * 2) - d div 5)))"
    by (simp add: backoffDelay_def Let_def d_def d0_def k_def)
  have "0 < bo_Max b div 5 \<or> bo_Max b div 5 = 0"
    using assms(2) by auto
  then have "0 < fst (backoffDelay Int63n b) \<and>
      fst (backoffDelay Int63n b) \<le> bo_Max b + bo_Max b div 5"
    using d assms(4) [of "d div 5 * 2"] jitter_bounds [OF d assms(3), of "Int63n (d div 5 * 2)"]
    by (auto simp: unf)
  moreover have "d = min (bo_Max b) (bo_Base b * 2 ^ k)" if "bo_Base b \<le> 2 ^ 52"
  proof -
    have "(2::int) ^ k \<le> 2 ^ 10"
      by (intro power_increasing) (auto simp: k_def)
    then have "bo_Base b * 2 ^ k \<le> 2 ^ 52 * 2 ^ 10"
      using that assms(1) by (intro mult_mono) auto
    moreover have pos: "0 < bo_Base b * 2 ^ k"
      using assms(1) by simp
    ultimately have "d0 = bo_Base b * 2 ^ k"
      unfolding d0_def by (intro wrap64_id) auto
    with pos show ?thesis
      by (auto simp: d_def)
  qed
  ultimately show ?thesis
    by (simp add: unf k_def)
qed

theorem backoff_bounds_witness:
  "let b = NewBackoff (100 * Millisecond) (5 * Second)
   in 0 < fst (backoffDelay (\<lambda>n. n - 1) b) \<and> fst (backoffDelay (\<lambda>n. n - 1) b) \<le> 6 * Second"
  using backoff_bounds [of "NewBackoff (100 * Millisecond) (5 * Second)" "\<lambda>n. n - 1"]
  by (simp add: NewBackoff_def)

end
