(* ===== verification/ConfigSections.thy ===== *)
theory ConfigSections
  imports Prelude Complex_Main
begin

text \<open>
  The configuration sections of \<open>internal/config\<close> that do not concern SMTP
  or the queue: server, gRPC, auth, log, metrics and observability, each with
  its \<open>ApplyDefaults\<close> and \<open>Validate\<close>, and the contract they share.
\<close>

section \<open>Values\<close>

text \<open>
  A \<open>float64\<close> is a rational or one of the three special values; its
  comparisons are those of IEEE 754 (every one with \<open>NaN\<close> is false).
\<close>

datatype float64 = Fin rat | PosInf | NegInf | NaN

fun f64_le :: "float64 \<Rightarrow> rat \<Rightarrow> bool" where
  "f64_le (Fin r) q = (r \<le> q)"
| "f64_le PosInf q = False"
| "f64_le NegInf q = True"
| "f64_le NaN q = False"

fun f64_less :: "float64 \<Rightarrow> rat \<Rightarrow> bool" where
  "f64_less (Fin r) q = (r < q)"
| "f64_less PosInf q = False"
| "f64_less NegInf q = True"
| "f64_less NaN q = False"

fun f64_greater :: "float64 \<Rightarrow> rat \<Rightarrow> bool" where
  "f64_greater (Fin r) q = (r > q)"
| "f64_greater PosInf q = True"
| "f64_greater NegInf q = False"
| "f64_greater NaN q = False"

text \<open>A value of type \<open>any\<close>, as a configuration file or a JSON document can give it.\<close>

datatype anyVal =
    AnyNil
  | AnyBool bool
  | AnyInt int
  | AnyFloat float64
  | AnyString string
  | AnyList "anyVal list"
  | AnyMap "(string \<times> anyVal) list"

definition HasPrefix :: "string \<Rightarrow> string \<Rightarrow> bool" where
  "HasPrefix s p = prefix p s"

definition hostPort :: "string \<Rightarrow> int \<Rightarrow> string" where
  "hostPort h p = h @ '':'' @ Itoa p"

text \<open>The contract of a section: defaults are applied once and for all.\<close>

locale config_section =
  fixes applyDefaults :: "'c \<Rightarrow> 'c"
    and validate :: "'c \<Rightarrow> error option"
  assumes idem: "applyDefaults (applyDefaults c) = applyDefaults c"
begin

definition load :: "'c \<Rightarrow> error option \<times> 'c" where
  "load c = (validate (applyDefaults c), applyDefaults c)"

lemma load_again: "load (snd (load c)) = load c"
  by (simp add: load_def idem)

lemma load_fixed: "applyDefaults c = c \<Longrightarrow> snd (load c) = c"
  by (simp add: load_def)

end

section \<open>Server (server.go)\<close>

record ServerConfig =
  sv_Host :: string
  sv_Port :: int
  sv_ReadTimeout :: int
  sv_WriteTimeout :: int
  sv_IdleTimeout :: int
  sv_Enabled :: bool
  sv_TLSEnabled :: bool
  sv_TLSCertPath :: string
  sv_TLSKeyPath :: string
  sv_TLSMinVersion :: string
  sv_CORSAllowedOrigin :: string
  sv_LegacyAPIV1 :: bool
  sv_TrustProxyHeaders :: bool

definition ServerConfig_ApplyDefaults :: "ServerConfig \<Rightarrow> ServerConfig" where
  "ServerConfig_ApplyDefaults c =
     c\<lparr>sv_Host := defStr ''0.0.0.0'' (sv_Host c),
       sv_Port := defPos 8080 (sv_Port c),
       sv_ReadTimeout := defPos (10 * Second) (sv_ReadTimeout c),
       sv_WriteTimeout := defPos (10 * Second) (sv_WriteTimeout c),
       sv_IdleTimeout := defPos (30 * Second) (sv_IdleTimeout c),
       sv_TLSMinVersion := defStr ''1.2'' (sv_TLSMinVersion c),
       sv_CORSAllowedOrigin := defStr [] (sv_CORSAllowedOrigin c)\<rparr>"

definition ServerConfig_Validate :: "ServerConfig \<Rightarrow> error option" where
  "ServerConfig_Validate c =
     firstErr
       [check (sv_Port c \<le> 0 \<or> sv_Port c > 65535)
          (Err (''server: invalid port '' @ Itoa (sv_Port c) @ '' (must be between 1 and 65535)'')),
        check (sv_TLSEnabled c \<and> (sv_TLSCertPath c = [] \<or> sv_TLSKeyPath c = []))
          (Err ''server: tls_enabled requires both tls_cert_path and tls_key_path''),
        check (sv_TLSEnabled c \<and> sv_TLSCertPath c = sv_TLSKeyPath c)
          (Err ''server: tls_cert_path and tls_key_path must not be identical'')]"

definition ServerConfig_Address :: "ServerConfig \<Rightarrow> string" where
  "ServerConfig_Address c = hostPort (sv_Host c) (sv_Port c)"

interpretation server_section: config_section ServerConfig_ApplyDefaults ServerConfig_Validate
  by unfold_locales (simp add: ServerConfig_ApplyDefaults_def)

section \<open>gRPC (grpc.go)\<close>

record GrpcConfig =
  gr_Enabled :: bool
  gr_Host :: string
  gr_Port :: int
  gr_MaxRecvMsgSize :: int
  gr_MaxSendMsgSize :: int
  gr_Timeout :: int
  gr_TLSEnabled :: bool
  gr_TLSCertPath :: string
  gr_TLSKeyPath :: string

definition GrpcConfig_ApplyDefaults :: "GrpcConfig \<Rightarrow> GrpcConfig" where
  "GrpcConfig_ApplyDefaults c =
     c\<lparr>gr_Host := defStr ''0.0.0.0'' (gr_Host c),
       gr_Port := defPos 8081 (gr_Port c),
       gr_MaxRecvMsgSize := defPos (16 * 1024 * 1024) (gr_MaxRecvMsgSize c),
       gr_MaxSendMsgSize := defPos (16 * 1024 * 1024) (gr_MaxSendMsgSize c),
       gr_Timeout := defPos (30 * Second) (gr_Timeout c)\<rparr>"

definition GrpcConfig_Validate :: "GrpcConfig \<Rightarrow> error option" where
  "GrpcConfig_Validate c =
     (if gr_Enabled c then
        firstErr
          [check (gr_Port c \<le> 0 \<or> gr_Port c > 65535)
             (Err (''grpc: invalid port '' @ Itoa (gr_Port c) @ '' (must be between 1 and 65535)'')),
           check (gr_TLSEnabled c \<and> (gr_TLSCertPath c = [] \<or> gr_TLSKeyPath c = []))
             (Err ''grpc: tls_enabled requires both tls_cert_path and tls_key_path''),
           check (gr_TLSEnabled c \<and> gr_TLSCertPath c = gr_TLSKeyPath c)
             (Err ''grpc: tls_cert_path and tls_key_path must not be identical'')]
      else None)"

definition GrpcConfig_Address :: "GrpcConfig \<Rightarrow> string" where
  "GrpcConfig_Address c = hostPort (gr_Host c) (gr_Port c)"

interpretation grpc_section: config_section GrpcConfig_ApplyDefaults GrpcConfig_Validate
  by unfold_locales (simp add: GrpcConfig_ApplyDefaults_def)

section \<open>Authentication (auth.go)\<close>

record AuthConfig =
  au_Enabled :: bool
  au_SecretKey :: string
  au_HeaderName :: string
  au_RatePerKeyPerMinute :: int

definition AuthConfig_ApplyDefaults :: "AuthConfig \<Rightarrow> AuthConfig" where
  "AuthConfig_ApplyDefaults c = c\<lparr>au_HeaderName := defStr ''X-API-Key'' (au_HeaderName c)\<rparr>"

definition AuthConfig_Validate :: "AuthConfig \<Rightarrow> error option" where
  "AuthConfig_Validate c =
     check (au_Enabled c \<and> TrimSpace (au_SecretKey c) = [])
       (Err ''auth: secret_key cannot be empty when authentication is enabled'')"

interpretation auth_section: config_section AuthConfig_ApplyDefaults AuthConfig_Validate
  by unfold_locales (simp add: AuthConfig_ApplyDefaults_def)

section \<open>Logging (log.go)\<close>

record LogConfig =
  lg_Level :: string
  lg_Format :: string
  lg_Output :: string
  lg_FilePath :: string
  lg_MaxSize :: int
  lg_MaxBackups :: int
  lg_MaxAge :: int
  lg_Compress :: bool
  lg_ShowCaller :: bool
  lg_ShowStacktrace :: string
  lg_TimeFormat :: string
  lg_Async :: bool
  lg_BufferSize :: int

definition LogConfig_ApplyDefaults :: "LogConfig \<Rightarrow> LogConfig" where
  "LogConfig_ApplyDefaults c =
     c\<lparr>lg_Level := defStr ''info'' (lg_Level c),
       lg_Format := defStr ''text'' (lg_Format c),
       lg_Output := defStr ''stdout'' (lg_Output c),
       lg_MaxSize := defPos 100 (lg_MaxSize c),
       lg_MaxBackups := defPos 3 (lg_MaxBackups c),
       lg_MaxAge := defPos 7 (lg_MaxAge c),
       lg_ShowStacktrace := defStr ''error'' (lg_ShowStacktrace c),
       lg_BufferSize := (if lg_Async c then defPos 4096 (lg_BufferSize c) else lg_BufferSize c)\<rparr>"

definition LogConfig_Validate :: "LogConfig \<Rightarrow> error option" where
  "LogConfig_Validate c =
     (let level = ToLower (TrimSpace (lg_Level c));
          format = ToLower (TrimSpace (lg_Format c));
          output = ToLower (TrimSpace (lg_Output c))
      in firstErr
       [check (level \<notin> set [''trace'', ''debug'', ''info'', ''warn'', ''error'', ''fatal'', ''panic'', []])
          (Err (''log: invalid level '' @ Quote (lg_Level c) @
                '' (supported: trace, debug, info, warn, error, fatal, panic)'')),
        check (format \<notin> set [''json'', ''text'', ''console'', ''logfmt'', []])
          (Err (''log: invalid format '' @ Quote (lg_Format c) @
                '' (supported: json, text, console, logfmt)'')),
        check (output \<notin> set [''stdout'', ''stderr'', ''file'', ''both'', []])
          (Err (''log: invalid output '' @ Quote (lg_Output c) @
                '' (supported: stdout, stderr, file, both)'')),
        check ((output = ''file'' \<or> output = ''both'') \<and> TrimSpace (lg_FilePath c) = [])
          (Err (''log: file_path is required when output is 'file' or 'both'' @ [CHR 0x27])),
        check (lg_MaxSize c < 0) (Err ''log: max_size cannot be negative''),
        check (lg_MaxBackups c < 0) (Err ''log: max_backups cannot be negative''),
        check (lg_MaxAge c < 0) (Err ''log: max_age cannot be negative'')])"

definition LogConfig_IsDebug :: "LogConfig \<Rightarrow> bool" where
  "LogConfig_IsDebug c = (let l = ToLower (lg_Level c) in l = ''debug'' \<or> l = ''trace'')"

definition LogConfig_IsJSON :: "LogConfig \<Rightarrow> bool" where
  "LogConfig_IsJSON c = (ToLower (lg_Format c) = ''json'')"

interpretation log_section: config_section LogConfig_ApplyDefaults LogConfig_Validate
  by unfold_locales (simp add: LogConfig_ApplyDefaults_def)

section \<open>Metrics (metrics.go)\<close>

record StatsDConfig =
  sd_Address :: string
  sd_Prefix :: string
  sd_FlushInterval :: int

record BasicAuthConfig =
  ba_Username :: string
  ba_Password :: string

record PushGatewayConfig =
  pg_Enabled :: bool
  pg_URL :: string
  pg_Job :: string
  pg_Interval :: int
  pg_BasicAuth :: BasicAuthConfig

record MetricsConfig =
  mt_Enabled :: bool
  mt_Provider :: string
  mt_Host :: string
  mt_Port :: int
  mt_Path :: string
  mt_CollectRuntime :: bool
  mt_RuntimeInterval :: int
  mt_CollectQueueStats :: bool
  mt_CollectSmtpStats :: bool
  mt_StatsD :: StatsDConfig
  mt_PushGateway :: PushGatewayConfig
  mt_CustomLabels :: "(string \<times> string) list"
  mt_HistogramBuckets :: "float64 list"

definition MetricsConfig_ApplyDefaults :: "MetricsConfig \<Rightarrow> MetricsConfig" where
  "MetricsConfig_ApplyDefaults c =
     c\<lparr>mt_Provider := defStr ''prometheus'' (mt_Provider c),
       mt_Host := defStr ''0.0.0.0'' (mt_Host c),
       mt_Port := defPos 9090 (mt_Port c),
       mt_Path := defStr ''/metrics'' (mt_Path c),
       mt_RuntimeInterval := defPos (10 * Second) (mt_RuntimeInterval c),
       mt_StatsD := (mt_StatsD c)\<lparr>sd_FlushInterval := defPos (100 * Millisecond) (sd_FlushInterval (mt_StatsD c))\<rparr>,
       mt_PushGateway := (mt_PushGateway c)\<lparr>
         pg_Interval := defPos (15 * Second) (pg_Interval (mt_PushGateway c)),
         pg_Job := defStr ''mailbaby'' (pg_Job (mt_PushGateway c))\<rparr>,
       mt_HistogramBuckets :=
         (if mt_HistogramBuckets c = [] then
            map Fin [5 / 1000, 1 / 100, 25 / 1000, 5 / 100, 1 / 10, 25 / 100, 1 / 2, 1, 5 / 2, 5, 10]
          else mt_HistogramBuckets c)\<rparr>"

text \<open>\<open>parseURI\<close> is \<open>url.ParseRequestURI\<close>: the error it reports, if any.\<close>

definition MetricsConfig_Validate :: "(string \<Rightarrow> error option) \<Rightarrow> MetricsConfig \<Rightarrow> error option" where
  "MetricsConfig_Validate parseURI c =
     (if \<not> mt_Enabled c then None
      else
       (let provider = ToLower (TrimSpace (mt_Provider c));
            pg = mt_PushGateway c
        in firstErr
         [check (provider \<notin> set [''prometheus'', ''statsd'', ''otlp'', ''expvar'', ''none'', []])
            (Err (''metrics: unsupported provider '' @ Quote (mt_Provider c) @
                  '' (supported: prometheus, statsd, otlp, expvar, none)'')),
          check (mt_Port c \<le> 0 \<or> mt_Port c > 65535)
            (Err (''metrics: invalid port '' @ Itoa (mt_Port c) @ '' (must be between 1 and 65535)'')),
          check (\<not> HasPrefix (mt_Path c) ''/'')
            (Err (''metrics: path must start with '/' (got '' @ Quote (mt_Path c) @ '')'')),
          check (provider = ''statsd'' \<and> TrimSpace (sd_Address (mt_StatsD c)) = [])
            (Err (''metrics: statsd address is required when provider is 'statsd'' @ [CHR 0x27])),
          check (pg_Enabled pg \<and> TrimSpace (pg_URL pg) = [])
            (Err ''metrics: pushgateway url is required when pushgateway is enabled''),
          (if pg_Enabled pg then
             map_option (\<lambda>e. Wrap (''metrics: invalid pushgateway url '' @ Quote (pg_URL pg) @ '': '' @ Error e) e)
               (parseURI (pg_URL pg))
           else None),
          check (pg_Enabled pg \<and> TrimSpace (pg_Job pg) = [])
            (Err ''metrics: pushgateway job name is required'')]))"

definition MetricsConfig_Address :: "MetricsConfig \<Rightarrow> string" where
  "MetricsConfig_Address c = hostPort (mt_Host c) (mt_Port c)"

interpretation metrics_section: config_section MetricsConfig_ApplyDefaults "MetricsConfig_Validate parseURI"
  for parseURI
  by unfold_locales (simp add: MetricsConfig_ApplyDefaults_def)

section \<open>Observability (observability.go)\<close>

record TracingConfig =
  tr_Enabled :: bool
  tr_Provider :: string
  tr_Endpoint :: string
  tr_Insecure :: bool
  tr_SampleRate :: float64
  tr_ServiceName :: string
  tr_BatchTimeout :: int
  tr_MaxQueueSize :: int
  tr_ExportTimeout :: int

definition TracingConfig_ApplyDefaults :: "TracingConfig \<Rightarrow> TracingConfig" where
  "TracingConfig_ApplyDefaults c =
     c\<lparr>tr_Provider := defStr ''otlp'' (tr_Provider c),
       tr_SampleRate := (if f64_le (tr_SampleRate c) 0 \<and> tr_Enabled c then Fin 1 else tr_SampleRate c),
       tr_BatchTimeout := defPos (5 * Second) (tr_BatchTimeout c),
       tr_MaxQueueSize := defPos 2048 (tr_MaxQueueSize c),
       tr_ExportTimeout := defPos (30 * Second) (tr_ExportTimeout c)\<rparr>"

text \<open>\<open>fmtF\<close> is the \<open>%f\<close> rendering of a float.\<close>

definition TracingConfig_Validate :: "(float64 \<Rightarrow> string) \<Rightarrow> TracingConfig \<Rightarrow> error option" where
  "TracingConfig_Validate fmtF c =
     (if \<not> tr_Enabled c then None
      else
       (let provider = ToLower (TrimSpace (tr_Provider c))
        in firstErr
         [check (provider \<notin> set [''otlp'', ''jaeger'', ''zipkin'', ''stdout'', ''none'', []])
            (Err (''tracing: unsupported provider '' @ Quote (tr_Provider c) @
                  '' (supported: otlp, jaeger, zipkin, stdout, none)'')),
          check (provider \<noteq> ''stdout'' \<and> provider \<noteq> ''none'' \<and> TrimSpace (tr_Endpoint c) = [])
            (Err (''tracing: endpoint is required when provider is '' @ Quote (tr_Provider c))),
          check (f64_less (tr_SampleRate c) 0 \<or> f64_greater (tr_SampleRate c) 1)
            (Err (''tracing: sample_rate must be between 0.0 and 1.0 (got '' @ fmtF (tr_SampleRate c) @ '')'')),
          check (tr_MaxQueueSize c < 0) (Err ''tracing: max_queue_size cannot be negative'')]))"

record HealthConfig =
  hc_Enabled :: bool
  hc_LivePath :: string
  hc_ReadyPath :: string
  hc_CheckTimeout :: int

definition HealthConfig_ApplyDefaults :: "HealthConfig \<Rightarrow> HealthConfig" where
  "HealthConfig_ApplyDefaults c =
     c\<lparr>hc_LivePath := defStr ''/livez'' (hc_LivePath c),
       hc_ReadyPath := defStr ''/readyz'' (hc_ReadyPath c),
       hc_CheckTimeout := defPos (5 * Second) (hc_CheckTimeout c)\<rparr>"

definition HealthConfig_Validate :: "HealthConfig \<Rightarrow> error option" where
  "HealthConfig_Validate c =
     (if \<not> hc_Enabled c then None
      else firstErr
        [check (\<not> HasPrefix (hc_LivePath c) ''/'')
           (Err (''health: live_path must start with '/' (got '' @ Quote (hc_LivePath c) @ '')'')),
         check (\<not> HasPrefix (hc_ReadyPath c) ''/'')
           (Err (''health: ready_path must start with '/' (got '' @ Quote (hc_ReadyPath c) @ '')''))])"

record PprofConfig =
  pf_Enabled :: bool
  pf_Path :: string
  pf_ProfileMutex :: bool
  pf_ProfileBlock :: bool
  pf_BlockRate :: int
  pf_MutexRate :: int

definition PprofConfig_ApplyDefaults :: "PprofConfig \<Rightarrow> PprofConfig" where
  "PprofConfig_ApplyDefaults c = c\<lparr>pf_Path := defStr ''/debug/pprof'' (pf_Path c)\<rparr>"

definition PprofConfig_Validate :: "PprofConfig \<Rightarrow> error option" where
  "PprofConfig_Validate c =
     (if \<not> pf_Enabled c then None
      else check (\<not> HasPrefix (pf_Path c) ''/'')
             (Err (''pprof: path must start with '/' (got '' @ Quote (pf_Path c) @ '')'')))"

record ObservabilityConfig =
  ob_Tracing :: TracingConfig
  ob_Health :: HealthConfig
  ob_Pprof :: PprofConfig

definition ObservabilityConfig_ApplyDefaults :: "ObservabilityConfig \<Rightarrow> ObservabilityConfig" where
  "ObservabilityConfig_ApplyDefaults c =
     c\<lparr>ob_Tracing := TracingConfig_ApplyDefaults (ob_Tracing c),
       ob_Health := HealthConfig_ApplyDefaults (ob_Health c),
       ob_Pprof := PprofConfig_ApplyDefaults (ob_Pprof c)\<rparr>"

definition ObservabilityConfig_Validate ::
    "(float64 \<Rightarrow> string) \<Rightarrow> ObservabilityConfig \<Rightarrow> error option" where
  "ObservabilityConfig_Validate fmtF c0 =
     (let c = ObservabilityConfig_ApplyDefaults c0
      in firstErr [TracingConfig_Validate fmtF (ob_Tracing c), HealthConfig_Validate (ob_Health c),
                   PprofConfig_Validate (ob_Pprof c)])"

interpretation tracing_section: config_section TracingConfig_ApplyDefaults "TracingConfig_Validate fmtF"
  for fmtF
  by unfold_locales (simp add: TracingConfig_ApplyDefaults_def)

interpretation health_section: config_section HealthConfig_ApplyDefaults HealthConfig_Validate
  by unfold_locales (simp add: HealthConfig_ApplyDefaults_def)

interpretation pprof_section: config_section PprofConfig_ApplyDefaults PprofConfig_Validate
  by unfold_locales (simp add: PprofConfig_ApplyDefaults_def)

interpretation observability_section:
  config_section ObservabilityConfig_ApplyDefaults "ObservabilityConfig_Validate fmtF"
  for fmtF
  by unfold_locales
    (simp add: ObservabilityConfig_ApplyDefaults_def tracing_section.idem health_section.idem
      pprof_section.idem)

end
