(* ===== verification/ConfigSmtp.thy ===== *)
theory ConfigSmtp
  imports ConfigSections
begin

text \<open>
  The SMTP section, \<open>internal/config/smtp.go\<close>: one record per account and the
  map from account names to accounts. \<open>SmtpConfig\<close> is an association list
  whose order is the one in which a \<open>range\<close> loop happens to visit the map;
  what must not depend on that order is proved for every order.
\<close>

abbreviation DefaultAccountName :: string where "DefaultAccountName \<equiv> ''default''"

abbreviation ErrDefaultAccountRequired :: error where
  "ErrDefaultAccountRequired \<equiv> Err ''smtp: 'default' account is required''"

abbreviation ErrAccountNotFound :: error where
  "ErrAccountNotFound \<equiv> Err ''smtp: account not found''"

abbreviation SmtpEncryptionAuto :: string where "SmtpEncryptionAuto \<equiv> ''Auto''"
abbreviation SmtpEncryptionNone :: string where "SmtpEncryptionNone \<equiv> ''None''"
abbreviation SmtpAuthTypeAuto :: string where "SmtpAuthTypeAuto \<equiv> ''Auto''"

record SmtpPoolConfig =
  sp_MaxIdleConns :: int
  sp_MaxOpenConns :: int
  sp_IdleTimeout :: int

record SmtpRateLimitConfig =
  rl_EmailsPerSecond :: int
  rl_MaxRecipientsPerEmail :: int
  rl_EmailSizeLimit :: int

record SmtpAccountConfig =
  ac_Host :: string
  ac_Port :: int
  ac_Username :: string
  ac_Password :: string
  ac_From :: string
  ac_FromName :: string
  ac_ReplyTo :: string
  ac_Encryption :: string
  ac_InsecureSkipVerify :: bool
  ac_HeloHostname :: string
  ac_AuthType :: string
  ac_ConnectTimeout :: int
  ac_SendTimeout :: int
  ac_KeepAlive :: int
  ac_Pool :: SmtpPoolConfig
  ac_RateLimit :: SmtpRateLimitConfig

definition SmtpAccountConfig_ApplyDefaults :: "SmtpAccountConfig \<Rightarrow> SmtpAccountConfig" where
  "SmtpAccountConfig_ApplyDefaults a =
     a\<lparr>ac_Port := defPos 587 (ac_Port a),
       ac_Encryption := defStr SmtpEncryptionAuto (ac_Encryption a),
       ac_AuthType := defStr SmtpAuthTypeAuto (ac_AuthType a),
       ac_ConnectTimeout := defPos (10 * Second) (ac_ConnectTimeout a),
       ac_SendTimeout := defPos (30 * Second) (ac_SendTimeout a),
       ac_KeepAlive := defPos (30 * Second) (ac_KeepAlive a),
       ac_Pool := (ac_Pool a)\<lparr>
         sp_MaxIdleConns := defPos 5 (sp_MaxIdleConns (ac_Pool a)),
         sp_MaxOpenConns := defPos 20 (sp_MaxOpenConns (ac_Pool a)),
         sp_IdleTimeout := defPos (60 * Second) (sp_IdleTimeout (ac_Pool a))\<rparr>,
       ac_RateLimit := (ac_RateLimit a)\<lparr>
         rl_MaxRecipientsPerEmail := defPos 50 (rl_MaxRecipientsPerEmail (ac_RateLimit a)),
         rl_EmailSizeLimit :=
           (if rl_EmailSizeLimit (ac_RateLimit a) < 0 then 15 * 1024 * 1024
            else rl_EmailSizeLimit (ac_RateLimit a)),
         rl_EmailsPerSecond :=
           (let n = (if rl_EmailsPerSecond (ac_RateLimit a) < 0 then 0
                     else rl_EmailsPerSecond (ac_RateLimit a))
            in if n > 10000 then 10000 else n)\<rparr>\<rparr>"

text \<open>
  \<open>parseAddr\<close> is \<open>net/mail.ParseAddress\<close>: the error it reports, if any.
  \<open>accountName\<close> are the variadic arguments.
\<close>

definition SmtpAccountConfig_Validate ::
    "(string \<Rightarrow> error option) \<Rightarrow> string list \<Rightarrow> SmtpAccountConfig \<Rightarrow> error option" where
  "SmtpAccountConfig_Validate parseAddr accountName a =
     (let pfx = (case accountName of
                      [] \<Rightarrow> ''smtp''
                    | n # _ \<Rightarrow> if n \<noteq> [] then ''smtp account '' @ Quote n else ''smtp'')
      in firstErr
       [check (TrimSpace (ac_Host a) = []) (Err (pfx @ '': host is required'')),
        check (ac_Port a \<le> 0 \<or> ac_Port a > 65535)
          (Err (pfx @ '': invalid port '' @ Itoa (ac_Port a) @ '' (must be between 1 and 65535)'')),
        check (TrimSpace (ac_From a) = []) (Err (pfx @ '': from address is required'')),
        map_option (\<lambda>e. Wrap (pfx @ '': invalid from email address '' @ Quote (ac_From a) @ '': '' @ Error e) e)
          (parseAddr (ac_From a)),
        (if ac_ReplyTo a \<noteq> [] then
           map_option (\<lambda>e. Wrap (pfx @ '': invalid reply_to email address '' @ Quote (ac_ReplyTo a) @ '': '' @ Error e) e)
             (parseAddr (ac_ReplyTo a))
         else None),
        check (ToUpper (ac_Encryption a) \<notin> set [[], ''AUTO'', ''SSL'', ''TLS'', ''STARTTLS'', ''NONE''])
          (Err (pfx @ '': unsupported encryption type '' @ Quote (ac_Encryption a))),
        check (ToUpper (ac_AuthType a) \<notin> set [[], ''AUTO'', ''PLAIN'', ''LOGIN'', ''CRAM-MD5'', ''NONE''])
          (Err (pfx @ '': unsupported auth_type '' @ Quote (ac_AuthType a))),
        check (ac_InsecureSkipVerify a \<and> \<not> EqualFold (ac_Encryption a) SmtpEncryptionNone \<and>
               \<not> EqualFold (ac_Encryption a) [])
          (Err (pfx @ '': insecure_skip_verify=true is not permitted with encryption='' @
                Quote (ac_Encryption a) @
                ''; use a valid TLS cert or set encryption=None for local development''))])"

interpretation account_section:
  config_section SmtpAccountConfig_ApplyDefaults "SmtpAccountConfig_Validate parseAddr names"
  for parseAddr names
  by unfold_locales (simp add: SmtpAccountConfig_ApplyDefaults_def Let_def)

section \<open>The account map\<close>

type_synonym SmtpConfig = "(string \<times> SmtpAccountConfig) list"

definition SmtpConfig_ApplyDefaults :: "SmtpConfig \<Rightarrow> SmtpConfig" where
  "SmtpConfig_ApplyDefaults c = map (\<lambda>(name, acc). (name, SmtpAccountConfig_ApplyDefaults acc)) c"

text \<open>\<open>Validate\<close> applies the defaults to the map it is called on, so it returns the map too.\<close>

definition SmtpConfig_Validate ::
    "(string \<Rightarrow> error option) \<Rightarrow> SmtpConfig \<Rightarrow> error option \<times> SmtpConfig" where
  "SmtpConfig_Validate parseAddr c =
     (if c = [] then (Some ErrDefaultAccountRequired, c)
      else if \<not> list_ex (\<lambda>(name, acc). EqualFold name DefaultAccountName) c then
        (Some ErrDefaultAccountRequired, c)
      else (let c' = SmtpConfig_ApplyDefaults c
            in (firstErr (map (\<lambda>(name, acc). SmtpAccountConfig_Validate parseAddr [name] acc) c'), c')))"

definition GetAccount :: "SmtpConfig \<Rightarrow> string \<Rightarrow> error + SmtpAccountConfig" where
  "GetAccount c name =
     (if c = [] then Inl ErrDefaultAccountRequired
      else
       (let trimmed = TrimSpace name
        in if trimmed = [] \<or> EqualFold trimmed DefaultAccountName then
             (case find (\<lambda>(k, v). EqualFold k DefaultAccountName) c of
                Some (k, v) \<Rightarrow> Inr v
              | None \<Rightarrow> Inl ErrDefaultAccountRequired)
           else
             (case map_of c trimmed of
                Some acc \<Rightarrow> Inr acc
              | None \<Rightarrow>
                  (case find (\<lambda>(k, v). EqualFold k trimmed) c of
                     Some (k, v) \<Rightarrow> Inr v
                   | None \<Rightarrow> Inl (Wrap (''smtp: account not found: '' @ trimmed) ErrAccountNotFound)))))"

definition MustGetAccount :: "SmtpConfig \<Rightarrow> string \<Rightarrow> SmtpAccountConfig outcome" where
  "MustGetAccount c name =
     (case GetAccount c name of
        Inl e \<Rightarrow> Panic (''failed to get smtp account '' @ Quote name @ '': '' @ Error e)
      | Inr a \<Rightarrow> Ret a)"

definition SmtpConfig_Default :: "SmtpConfig \<Rightarrow> error + SmtpAccountConfig" where
  "SmtpConfig_Default c = GetAccount c DefaultAccountName"

definition HasAccount :: "SmtpConfig \<Rightarrow> string \<Rightarrow> bool" where
  "HasAccount c name = (case GetAccount c name of Inl _ \<Rightarrow> False | Inr _ \<Rightarrow> True)"

definition AccountNames :: "SmtpConfig \<Rightarrow> string list" where
  "AccountNames c = sort (map fst c)"

section \<open>Lemmas\<close>

lemma ApplyDefaults_keys [simp]: "map fst (SmtpConfig_ApplyDefaults c) = map fst c"
  by (induction c) (auto simp: SmtpConfig_ApplyDefaults_def)

lemma ApplyDefaults_idem [simp]:
  "SmtpConfig_ApplyDefaults (SmtpConfig_ApplyDefaults c) = SmtpConfig_ApplyDefaults c"
  by (simp add: SmtpConfig_ApplyDefaults_def account_section.idem case_prod_beta)

lemma ApplyDefaults_Nil [simp]: "SmtpConfig_ApplyDefaults c = [] \<longleftrightarrow> c = []"
  by (simp add: SmtpConfig_ApplyDefaults_def)

lemma ApplyDefaults_list_ex:
  "list_ex (\<lambda>(name, acc). P name) (SmtpConfig_ApplyDefaults c) = list_ex (\<lambda>(name, acc). P name) c"
  by (induction c) (auto simp: SmtpConfig_ApplyDefaults_def)

lemma SmtpConfig_Validate_again:
  "SmtpConfig_Validate parseAddr c = (e, c') \<Longrightarrow> SmtpConfig_Validate parseAddr c' = (e, c')"
  by (auto simp: SmtpConfig_Validate_def Let_def ApplyDefaults_list_ex split: if_splits)

text \<open>Under names that differ by more than case, a fold-insensitive search has one answer.\<close>

lemma find_fold_unique:
  assumes "distinct (map (ToLower \<circ> fst) c)" "(k, v) \<in> set c" "EqualFold k t"
  shows "find (\<lambda>(k, v). EqualFold k t) c = Some (k, v)"
  using assms
proof (induction c)
  case (Cons p c)
  obtain k' v' where p: "p = (k', v')" by fastforce
  show ?case
  proof (cases "p = (k, v)")
    case False
    then have "(k, v) \<in> set c"
      using Cons.prems by auto
    moreover from this have "ToLower k' \<noteq> ToLower k"
      using Cons.prems p by (auto simp: image_iff)
    ultimately show ?thesis
      using Cons p by (auto simp: EqualFold_def)
  qed (use Cons in auto)
qed simp

lemma find_fold_None: "find (\<lambda>(k, v). EqualFold k t) c = None \<longleftrightarrow> (\<forall>(k, v) \<in> set c. \<not> EqualFold k t)"
  by (auto simp: find_None_iff)

lemma distinct_fold_keys: "distinct (map (ToLower \<circ> fst) c) \<Longrightarrow> distinct (map fst c)"
  by (induction c) (auto simp: image_iff)

definition accountKey :: "string \<Rightarrow> string" where
  "accountKey name = defStr DefaultAccountName (TrimSpace name)"

lemma EqualFold_Nil [simp]: "EqualFold s [] \<longleftrightarrow> s = []"
  by (simp add: EqualFold_def ToLower_def)

lemma accountKey_default:
  "TrimSpace name = [] \<or> EqualFold (TrimSpace name) DefaultAccountName \<Longrightarrow>
   EqualFold k (accountKey name) \<longleftrightarrow> EqualFold k DefaultAccountName"
  by (auto simp: accountKey_def defStr_def EqualFold_def)

lemma GetAccount_hit:
  assumes "distinct (map (ToLower \<circ> fst) c)" "(k, v) \<in> set c" "EqualFold k (accountKey name)"
  shows "GetAccount c name = Inr v"
proof (cases "TrimSpace name = [] \<or> EqualFold (TrimSpace name) DefaultAccountName")
  case True
  then have "EqualFold k DefaultAccountName"
    using assms(3) by (simp add: accountKey_default)
  then show ?thesis
    using True assms find_fold_unique [OF assms(1,2)] by (auto simp: GetAccount_def)
next
  case False
  then have k: "EqualFold k (TrimSpace name)"
    using assms(3) by (simp add: accountKey_def defStr_def)
  have "w = v" if "map_of c (TrimSpace name) = Some w" for w
  proof -
    from that have m: "(TrimSpace name, w) \<in> set c"
      by (rule map_of_SomeD)
    then show ?thesis
      using find_fold_unique [OF assms(1) m EqualFold_refl] find_fold_unique [OF assms(1,2) k] by simp
  qed
  then show ?thesis
    using False assms k find_fold_unique [OF assms(1,2) k]
    by (auto simp: GetAccount_def Let_def split: option.splits)
qed

lemma GetAccount_miss:
  assumes "\<And>k v. (k, v) \<in> set c \<Longrightarrow> \<not> EqualFold k (accountKey name)"
  shows "\<exists>e. GetAccount c name = Inl e \<and>
    (e = ErrDefaultAccountRequired \<or> errorsIs e ErrAccountNotFound)"
proof (cases "c = [] \<or> TrimSpace name = [] \<or> EqualFold (TrimSpace name) DefaultAccountName")
  case True
  then have "c = [] \<or> find (\<lambda>(k, v). EqualFold k DefaultAccountName) c = None"
    using assms by (auto simp: find_fold_None accountKey_default)
  then show ?thesis
    using True by (auto simp: GetAccount_def Let_def)
next
  case False
  then have key: "accountKey name = TrimSpace name"
    by (simp add: accountKey_def defStr_def)
  have "map_of c (TrimSpace name) = None"
    using assms [unfolded key] EqualFold_refl by (fastforce simp: map_of_eq_None_iff)
  moreover have "find (\<lambda>(k, v). EqualFold k (TrimSpace name)) c = None"
    using assms [unfolded key] by (auto simp: find_fold_None)
  ultimately show ?thesis
    using False by (auto simp: GetAccount_def Let_def)
qed

text \<open>
  Account lookup is the case-insensitive lookup of the trimmed name, a
  blank name standing for the default account: an account whose name folds to
  it is returned, whatever order the map is visited in, and when there is none
  an error is. The hypothesis is that account names differ by more than case.
\<close>

theorem GetAccount_fold_lookup:
  assumes "distinct (map (ToLower \<circ> fst) c)"
  shows "(\<forall>k v. (k, v) \<in> set c \<and> EqualFold k (accountKey name) \<longrightarrow> GetAccount c name = Inr v) \<and>
    ((\<forall>k v. (k, v) \<in> set c \<longrightarrow> \<not> EqualFold k (accountKey name)) \<longrightarrow>
       (\<exists>e. GetAccount c name = Inl e \<and>
          (e = ErrDefaultAccountRequired \<or> errorsIs e ErrAccountNotFound)))"
  using GetAccount_hit [OF assms] GetAccount_miss by blast

definition sampleAccount :: SmtpAccountConfig where
  "sampleAccount =
     \<lparr>ac_Host = ''smtp.example.com'', ac_Port = 0, ac_Username = [], ac_Password = [],
      ac_From = ''noreply@example.com'', ac_FromName = [], ac_ReplyTo = [], ac_Encryption = [],
      ac_InsecureSkipVerify = False, ac_HeloHostname = [], ac_AuthType = [],
      ac_ConnectTimeout = 0, ac_SendTimeout = 0, ac_KeepAlive = 0,
      ac_Pool = \<lparr>sp_MaxIdleConns = 0, sp_MaxOpenConns = 0, sp_IdleTimeout = 0\<rparr>,
      ac_RateLimit = \<lparr>rl_EmailsPerSecond = 0, rl_MaxRecipientsPerEmail = 0, rl_EmailSizeLimit = 0\<rparr>\<rparr>"

theorem GetAccount_fold_lookup_witness:
  "GetAccount [(''Default'', sampleAccount), (''Ops'', sampleAccount\<lparr>ac_Port := 25\<rparr>)] '' oPS '' =
     Inr (sampleAccount\<lparr>ac_Port := 25\<rparr>)"
proof -
  let ?c = "[(''Default'', sampleAccount), (''Ops'', sampleAccount\<lparr>ac_Port := 25\<rparr>)]"
  have "distinct (map (ToLower \<circ> fst) ?c)"
    by code_simp
  moreover have "EqualFold ''Ops'' (accountKey '' oPS '')"
    by code_simp
  ultimately show ?thesis
    using GetAccount_fold_lookup [of ?c "'' oPS ''", THEN conjunct1, rule_format,
        of "''Ops''" "sampleAccount\<lparr>ac_Port := 25\<rparr>"]
    by simp
qed

text \<open>What a successful validation says of one account that has its defaults.\<close>

definition accountReady :: "SmtpAccountConfig \<Rightarrow> bool" where
  "accountReady a \<longleftrightarrow>
     TrimSpace (ac_Host a) \<noteq> [] \<and> TrimSpace (ac_From a) \<noteq> [] \<and>
     1 \<le> ac_Port a \<and> ac_Port a \<le> 65535 \<and>
     (ac_InsecureSkipVerify a \<longrightarrow> EqualFold (ac_Encryption a) SmtpEncryptionNone) \<and>
     0 < ac_ConnectTimeout a \<and> 0 < ac_SendTimeout a \<and>
     0 < sp_MaxIdleConns (ac_Pool a) \<and> 0 < sp_MaxOpenConns (ac_Pool a) \<and>
     0 < rl_MaxRecipientsPerEmail (ac_RateLimit a) \<and> 0 \<le> rl_EmailSizeLimit (ac_RateLimit a) \<and>
     0 \<le> rl_EmailsPerSecond (ac_RateLimit a) \<and> rl_EmailsPerSecond (ac_RateLimit a) \<le> 10000"

lemma account_validated_ready:
  assumes "SmtpAccountConfig_Validate parseAddr names (SmtpAccountConfig_ApplyDefaults a) = None"
  shows "accountReady (SmtpAccountConfig_ApplyDefaults a)"
proof -
  let ?a = "SmtpAccountConfig_ApplyDefaults a"
  have "ac_Encryption ?a \<noteq> []" "0 < ac_ConnectTimeout ?a" "0 < ac_SendTimeout ?a"
    "0 < sp_MaxIdleConns (ac_Pool ?a)" "0 < sp_MaxOpenConns (ac_Pool ?a)"
    "0 < rl_MaxRecipientsPerEmail (ac_RateLimit ?a)" "0 \<le> rl_EmailSizeLimit (ac_RateLimit ?a)"
    "0 \<le> rl_EmailsPerSecond (ac_RateLimit ?a)" "rl_EmailsPerSecond (ac_RateLimit ?a) \<le> 10000"
    by (simp_all add: SmtpAccountConfig_ApplyDefaults_def Let_def)
  moreover from assms have "TrimSpace (ac_Host ?a) \<noteq> []" "TrimSpace (ac_From ?a) \<noteq> []"
    "\<not> ac_Port ?a \<le> 0" "\<not> 65535 < ac_Port ?a"
    "\<not> ac_InsecureSkipVerify ?a \<or> EqualFold (ac_Encryption ?a) SmtpEncryptionNone \<or>
       EqualFold (ac_Encryption ?a) []"
    unfolding SmtpAccountConfig_Validate_def by (simp_all only: checks_pass simp_thms)
  ultimately show ?thesis
    by (auto simp: accountReady_def)
qed

lemma smtp_validated_accounts:
  assumes "SmtpConfig_Validate parseAddr c = (None, c')"
  shows "(\<exists>a. GetAccount c' [] = Inr a \<and> accountReady a) \<and> (\<forall>(k, a) \<in> set c'. accountReady a)"
proof -
  have c': "c' = SmtpConfig_ApplyDefaults c" and ne: "c \<noteq> []"
    and ex: "list_ex (\<lambda>(name, acc). EqualFold name DefaultAccountName) c'"
    and ok: "\<And>k a. (k, a) \<in> set c' \<Longrightarrow> SmtpAccountConfig_Validate parseAddr [k] a = None"
    using assms by (auto simp: SmtpConfig_Validate_def Let_def ApplyDefaults_list_ex split: if_splits)
  have all: "accountReady a" if "(k, a) \<in> set c'" for k a
    using that ok [OF that] account_validated_ready
    by (auto simp: c' SmtpConfig_ApplyDefaults_def)
  obtain p where p: "find (\<lambda>(k, v). EqualFold k DefaultAccountName) c' = Some p"
    using ex by (cases "find (\<lambda>(k, v). EqualFold k DefaultAccountName) c'")
      (auto simp: list_ex_iff find_None_iff)
  then have "(fst p, snd p) \<in> set c'"
    using find_SomeD [OF p] by simp
  moreover have "GetAccount c' [] = Inr (snd p)"
    using p ne by (simp add: GetAccount_def c' case_prod_beta)
  ultimately show ?thesis
    using all by blast
qed

lemma default_resolves:
  "SmtpConfig_Validate parseAddr c = (None, c') \<Longrightarrow> \<exists>a. GetAccount c' [] = Inr a \<and> accountReady a"
  using smtp_validated_accounts by blast

text \<open>
  A validated SMTP section has a default account, reached by the empty
  name, and every account in it is usable: host and sender are set, the port is
  a TCP port, timeouts and pool sizes are positive, the rate is at most 10000
  and certificate checks are off only where encryption is off.
\<close>

theorem smtp_validated:
  assumes "SmtpConfig_Validate parseAddr c = (None, c')"
  shows "(\<exists>a. GetAccount c' [] = Inr a \<and> accountReady a) \<and> (\<forall>(k, a) \<in> set c'. accountReady a)"
  by (rule smtp_validated_accounts [OF assms])

theorem smtp_validated_witness:
  "fst (SmtpConfig_Validate (\<lambda>_. None) [(''default'', sampleAccount)]) = None \<and>
   (\<exists>a. GetAccount (snd (SmtpConfig_Validate (\<lambda>_. None) [(''default'', sampleAccount)])) [] = Inr a \<and>
        accountReady a)"
proof -
  have "fst (SmtpConfig_Validate (\<lambda>_. None) [(''default'', sampleAccount)]) = None"
    by code_simp
  then show ?thesis
    using smtp_validated [of "\<lambda>_. None" "[(''default'', sampleAccount)]"
        "snd (SmtpConfig_Validate (\<lambda>_. None) [(''default'', sampleAccount)])"]
    by (metis prod.collapse)
qed

end
