(* ===== verification/ConfigQueue.thy ===== *)
theory ConfigQueue
  imports ConfigSections
begin

text \<open>
  The queue section, \<open>internal/config/queue.go\<close>: the settings of the eight
  drivers with their \<open>Validate\<close> methods, and \<open>QueueConfig\<close> itself.
\<close>

type_synonym QueueDriver = string

abbreviation DriverRabbitMQ :: QueueDriver where "DriverRabbitMQ \<equiv> ''rabbitmq''"
abbreviation DriverKafka :: QueueDriver where "DriverKafka \<equiv> ''kafka''"
abbreviation DriverRedis :: QueueDriver where "DriverRedis \<equiv> ''redis''"
abbreviation DriverRocketMQ :: QueueDriver where "DriverRocketMQ \<equiv> ''rocketmq''"
abbreviation DriverNATS :: QueueDriver where "DriverNATS \<equiv> ''nats''"
abbreviation DriverPulsar :: QueueDriver where "DriverPulsar \<equiv> ''pulsar''"
abbreviation DriverSQS :: QueueDriver where "DriverSQS \<equiv> ''sqs''"
abbreviation DriverMemory :: QueueDriver where "DriverMemory \<equiv> ''memory''"

record TLSConfig =
  tls_Enable :: bool
  tls_CAFile :: string
  tls_CertFile :: string
  tls_KeyFile :: string
  tls_InsecureSkipVerify :: bool
  tls_ServerName :: string

record RabbitMQConfig =
  rb_URL :: string
  rb_Host :: string
  rb_Port :: int
  rb_Username :: string
  rb_Password :: string
  rb_VHost :: string
  rb_Queue :: string
  rb_Exchange :: string
  rb_RoutingKey :: string
  rb_Durable :: bool
  rb_AutoDelete :: bool
  rb_Exclusive :: bool
  rb_NoWait :: bool
  rb_AutoAck :: bool
  rb_PrefetchCount :: int
  rb_Args :: "(string \<times> anyVal) list"
  rb_TLS :: TLSConfig

definition RabbitMQConfig_Validate :: "RabbitMQConfig \<Rightarrow> error option" where
  "RabbitMQConfig_Validate c =
     firstErr
       [check (rb_URL c = [] \<and> rb_Host c = [])
          (Err ''queue.rabbitmq: either url or host must be specified''),
        check (rb_URL c = [] \<and> (rb_Port c \<le> 0 \<or> rb_Port c > 65535))
          (Err (''queue.rabbitmq: invalid port '' @ Itoa (rb_Port c))),
        check (TrimSpace (rb_Queue c) = []) (Err ''queue.rabbitmq: queue name is required'')]"

record KafkaSASLConfig =
  ks_Enable :: bool
  ks_Mechanism :: string
  ks_User :: string
  ks_Password :: string

record KafkaConfig =
  kf_Brokers :: "string list"
  kf_Topic :: string
  kf_GroupID :: string
  kf_ClientID :: string
  kf_Version :: string
  kf_InitialOffset :: string
  kf_AutoCommit :: bool
  kf_SASL :: KafkaSASLConfig
  kf_TLS :: TLSConfig

definition KafkaConfig_Validate :: "KafkaConfig \<Rightarrow> error option" where
  "KafkaConfig_Validate c =
     firstErr
       [check (kf_Brokers c = []) (Err ''queue.kafka: brokers list cannot be empty''),
        check (TrimSpace (kf_Topic c) = []) (Err ''queue.kafka: topic is required''),
        check (TrimSpace (kf_GroupID c) = []) (Err ''queue.kafka: group_id is required'')]"

record RedisConfig =
  rd_Addrs :: "string list"
  rd_Host :: string
  rd_Port :: int
  rd_Username :: string
  rd_Password :: string
  rd_DB :: int
  rd_MasterName :: string
  rd_Mode :: string
  rd_Key :: string
  rd_Group :: string
  rd_Consumer :: string
  rd_BlockTime :: int
  rd_MaxLen :: int
  rd_TLS :: TLSConfig

definition RedisConfig_Validate :: "RedisConfig \<Rightarrow> error option" where
  "RedisConfig_Validate c =
     (let mode = defStr ''stream'' (ToLower (TrimSpace (rd_Mode c)))
      in firstErr
       [check (rd_Addrs c = [] \<and> rd_Host c = []) (Err ''queue.redis: addrs or host must be specified''),
        check (TrimSpace (rd_Key c) = []) (Err ''queue.redis: key/stream name is required''),
        check (mode = ''stream'' \<and> TrimSpace (rd_Group c) = [])
          (Err (''queue.redis: group is required when mode is 'stream'' @ [CHR 0x27])),
        check (mode \<notin> set [''stream'', ''list'', ''pubsub''])
          (Err (''queue.redis: unsupported mode '' @ Quote (rd_Mode c) @
                '' (must be 'stream', 'list', or 'pubsub')''))])"

record RocketMQConfig =
  rk_NameServers :: "string list"
  rk_Topic :: string
  rk_Group :: string
  rk_AccessKey :: string
  rk_SecretKey :: string
  rk_SecurityToken :: string
  rk_Namespace :: string
  rk_ConsumeOrderly :: bool

definition RocketMQConfig_Validate :: "RocketMQConfig \<Rightarrow> error option" where
  "RocketMQConfig_Validate c =
     firstErr
       [check (rk_NameServers c = []) (Err ''queue.rocketmq: name_servers list cannot be empty''),
        check (TrimSpace (rk_Topic c) = []) (Err ''queue.rocketmq: topic is required''),
        check (TrimSpace (rk_Group c) = []) (Err ''queue.rocketmq: group is required'')]"

record NATSConfig =
  na_Servers :: "string list"
  na_Subject :: string
  na_QueueGroup :: string
  na_JetStream :: bool
  na_Stream :: string
  na_Durable :: string
  na_Token :: string
  na_Username :: string
  na_Password :: string
  na_CredsFile :: string
  na_TLS :: TLSConfig

definition NATSConfig_Validate :: "NATSConfig \<Rightarrow> error option" where
  "NATSConfig_Validate c =
     firstErr
       [check (na_Servers c = []) (Err ''queue.nats: servers list cannot be empty''),
        check (TrimSpace (na_Subject c) = []) (Err ''queue.nats: subject is required'')]"

record PulsarConfig =
  pu_URL :: string
  pu_Topic :: string
  pu_SubscriptionName :: string
  pu_SubscriptionType :: string
  pu_AuthToken :: string
  pu_TLS :: TLSConfig

definition PulsarConfig_Validate :: "PulsarConfig \<Rightarrow> error option" where
  "PulsarConfig_Validate c =
     firstErr
       [check (TrimSpace (pu_URL c) = []) (Err ''queue.pulsar: url is required''),
        check (TrimSpace (pu_Topic c) = []) (Err ''queue.pulsar: topic is required''),
        check (TrimSpace (pu_SubscriptionName c) = []) (Err ''queue.pulsar: subscription_name is required'')]"

record SQSConfig =
  sq_Region :: string
  sq_QueueURL :: string
  sq_AccessKeyID :: string
  sq_SecretAccessKey :: string
  sq_SessionToken :: string
  sq_Endpoint :: string
  sq_WaitTimeSeconds :: int
  sq_VisibilityTimeout :: int
  sq_MaxNumberOfMessages :: int

definition SQSConfig_Validate :: "SQSConfig \<Rightarrow> error option" where
  "SQSConfig_Validate c =
     firstErr
       [check (TrimSpace (sq_QueueURL c) = []) (Err ''queue.sqs: queue_url is required''),
        check (TrimSpace (sq_Region c) = [] \<and> sq_Endpoint c = [])
          (Err ''queue.sqs: region is required when custom endpoint is not set'')]"

record MemoryConfig =
  mm_BufferSize :: int

definition MemoryConfig_Validate :: "MemoryConfig \<Rightarrow> error option" where
  "MemoryConfig_Validate c =
     check (mm_BufferSize c < 0) (Err ''queue.memory: buffer_size cannot be negative'')"

record QueueConfig =
  qc_Driver :: QueueDriver
  qc_Concurrency :: int
  qc_MaxRetries :: int
  qc_RetryInterval :: int
  qc_PrefetchCount :: int
  qc_BatchSize :: int
  qc_DrainTimeout :: int
  qc_RabbitMQ :: RabbitMQConfig
  qc_Kafka :: KafkaConfig
  qc_Redis :: RedisConfig
  qc_RocketMQ :: RocketMQConfig
  qc_NATS :: NATSConfig
  qc_Pulsar :: PulsarConfig
  qc_SQS :: SQSConfig
  qc_Memory :: MemoryConfig

definition QueueConfig_Validate :: "QueueConfig \<Rightarrow> error option" where
  "QueueConfig_Validate c =
     (let driver = ToLower (TrimSpace (qc_Driver c))
      in if driver = [] then
           Some (Err ''queue: driver is required (e.g. rabbitmq, kafka, redis, rocketmq, nats, pulsar, sqs, memory)'')
         else if qc_Concurrency c \<le> 0 then
           Some (Err (''queue: invalid concurrency '' @ Itoa (qc_Concurrency c) @ '' (must be > 0)''))
         else if driver = DriverRabbitMQ then RabbitMQConfig_Validate (qc_RabbitMQ c)
         else if driver = DriverKafka then KafkaConfig_Validate (qc_Kafka c)
         else if driver = DriverRedis then RedisConfig_Validate (qc_Redis c)
         else if driver = DriverRocketMQ then RocketMQConfig_Validate (qc_RocketMQ c)
         else if driver = DriverNATS then NATSConfig_Validate (qc_NATS c)
         else if driver = DriverPulsar then PulsarConfig_Validate (qc_Pulsar c)
         else if driver = DriverSQS then SQSConfig_Validate (qc_SQS c)
         else if driver = DriverMemory then MemoryConfig_Validate (qc_Memory c)
         else Some (Err (''queue: unsupported queue driver '' @ Quote (qc_Driver c))))"

definition TopicName :: "QueueConfig \<Rightarrow> string" where
  "TopicName c =
     (let driver = ToLower (qc_Driver c)
      in if driver = DriverRabbitMQ then rb_Queue (qc_RabbitMQ c)
         else if driver = DriverKafka then kf_Topic (qc_Kafka c)
         else if driver = DriverRedis then rd_Key (qc_Redis c)
         else if driver = DriverRocketMQ then rk_Topic (qc_RocketMQ c)
         else if driver = DriverNATS then na_Subject (qc_NATS c)
         else if driver = DriverPulsar then pu_Topic (qc_Pulsar c)
         else if driver = DriverSQS then sq_QueueURL (qc_SQS c)
         else if driver = DriverMemory then ''memory''
         else ''default'')"

section \<open>Lemmas\<close>

lemma driver_names_no_space:
  "\<forall>d \<in> set [DriverRabbitMQ, DriverKafka, DriverRedis, DriverRocketMQ, DriverNATS, DriverPulsar,
      DriverSQS, DriverMemory]. set (concat spaceRunes) \<inter> set d = {}"
  by code_simp

lemma TopicName_nonblank:
  assumes "QueueConfig_Validate c = None"
  shows "TrimSpace (TopicName c) \<noteq> []"
proof -
  let ?names = "[DriverRabbitMQ, DriverKafka, DriverRedis, DriverRocketMQ, DriverNATS, DriverPulsar,
      DriverSQS, DriverMemory]"
  have const: "TrimSpace ''memory'' \<noteq> []" "TrimSpace ''default'' \<noteq> []"
    by code_simp+
  show ?thesis
  proof (cases "ToLower (qc_Driver c) \<in> set ?names")
    case False
    then show ?thesis
      using const by (simp add: TopicName_def)
  next
    case True
    then have "TrimSpace (qc_Driver c) = qc_Driver c"
      using driver_names_no_space by (blast intro: TrimSpace_ToLower_id)
    then show ?thesis
      using assms True const
      by (auto simp: QueueConfig_Validate_def TopicName_def RabbitMQConfig_Validate_def
          KafkaConfig_Validate_def RedisConfig_Validate_def RocketMQConfig_Validate_def
          NATSConfig_Validate_def PulsarConfig_Validate_def SQSConfig_Validate_def Let_def
          split: if_splits)
  qed
qed

lemma QueueConfig_validated:
  assumes "QueueConfig_Validate c = None"
  shows "0 < qc_Concurrency c" "ToLower (TrimSpace (qc_Driver c)) \<in> set
     [DriverRabbitMQ, DriverKafka, DriverRedis, DriverRocketMQ, DriverNATS, DriverPulsar,
      DriverSQS, DriverMemory]"
  using assms by (auto simp: QueueConfig_Validate_def Let_def split: if_splits)

end
