(* ===== verification/Config.thy ===== *)
theory Config
  imports ConfigSmtp ConfigQueue
begin

text \<open>
  \<open>internal/config/config.go\<close>: the whole configuration, \<open>Config.Validate\<close>
  (which fills in defaults section by section and stops at the first error),
  the defaults handed to viper and \<open>Load\<close>. Viper, the environment and the
  file system are the parameter \<open>viperEnv\<close>; URL and address parsing and the
  rendering of floats are the parameter \<open>configLib\<close>.
\<close>

section \<open>The configuration and its validation\<close>

record AppConfig =
  ap_Name :: string
  ap_Env :: string
  ap_Debug :: bool
  ap_ShutdownTimeout :: int

definition AppConfig_Validate :: "AppConfig \<Rightarrow> error option" where
  "AppConfig_Validate c = check (TrimSpace (ap_Name c) = []) (Err ''app: name cannot be empty'')"

record Config =
  cf_App :: AppConfig
  cf_Server :: ServerConfig
  cf_GRPC :: GrpcConfig
  cf_Auth :: AuthConfig
  cf_Queue :: QueueConfig
  cf_SMTP :: SmtpConfig
  cf_Log :: LogConfig
  cf_Metrics :: MetricsConfig
  cf_Observability :: ObservabilityConfig

record configLib =
  cl_parseURI :: "string \<Rightarrow> error option"
  cl_fmtF :: "float64 \<Rightarrow> string"
  cl_parseAddr :: "string \<Rightarrow> error option"

text \<open>
  The sections of \<open>Config.Validate\<close> in order, each a pair of its
  \<open>ApplyDefaults\<close> and its \<open>Validate\<close>: apply the defaults, return the
  error if there is one, go on otherwise.
\<close>

type_synonym 'c stage = "('c \<Rightarrow> 'c) \<times> ('c \<Rightarrow> error option)"

primrec runStages ::
    "'c stage list \<Rightarrow> ('c \<Rightarrow> error option \<times> 'c) \<Rightarrow> 'c \<Rightarrow> error option \<times> 'c" where
  "runStages [] k c = k c"
| "runStages (st # sts) k c =
     (let c' = fst st c in case snd st c' of Some e \<Rightarrow> (Some e, c') | None \<Rightarrow> runStages sts k c')"

definition sections :: "configLib \<Rightarrow> Config stage list" where
  "sections lib =
     [(\<lambda>c. c, \<lambda>c. AppConfig_Validate (cf_App c)),
      (cf_Server_update ServerConfig_ApplyDefaults, \<lambda>c. ServerConfig_Validate (cf_Server c)),
      (cf_GRPC_update GrpcConfig_ApplyDefaults, \<lambda>c. GrpcConfig_Validate (cf_GRPC c)),
      (cf_Auth_update AuthConfig_ApplyDefaults, \<lambda>c. AuthConfig_Validate (cf_Auth c)),
      (cf_Log_update LogConfig_ApplyDefaults, \<lambda>c. LogConfig_Validate (cf_Log c)),
      (cf_Metrics_update MetricsConfig_ApplyDefaults,
       \<lambda>c. MetricsConfig_Validate (cl_parseURI lib) (cf_Metrics c)),
      (cf_Observability_update ObservabilityConfig_ApplyDefaults,
       \<lambda>c. ObservabilityConfig_Validate (cl_fmtF lib) (cf_Observability c))]"

definition smtpThenQueue :: "configLib \<Rightarrow> Config \<Rightarrow> error option \<times> Config" where
  "smtpThenQueue lib c =
     (case SmtpConfig_Validate (cl_parseAddr lib) (cf_SMTP c) of
        (Some e, m) \<Rightarrow> (Some e, c\<lparr>cf_SMTP := m\<rparr>)
      | (None, m) \<Rightarrow> (QueueConfig_Validate (cf_Queue c), c\<lparr>cf_SMTP := m\<rparr>))"

definition Config_Validate :: "configLib \<Rightarrow> Config \<Rightarrow> error option \<times> Config" where
  "Config_Validate lib = runStages (sections lib) (smtpThenQueue lib)"

section \<open>Loading\<close>

text \<open>The calls of \<open>setDefaults\<close>, in order.\<close>

definition setDefaults :: "(string \<times> anyVal) list" where
  "setDefaults =
     [(''app.name'', AnyString ''mailbaby''),
      (''app.env'', AnyString ''development''),
      (''app.debug'', AnyBool False),
      (''app.shutdown_timeout'', AnyInt (60 * Second)),
      (''server.host'', AnyString ''0.0.0.0''),
      (''server.port'', AnyInt 8080),
      (''server.read_timeout'', AnyInt (10 * Second)),
      (''server.write_timeout'', AnyInt (10 * Second)),
      (''server.idle_timeout'', AnyInt (30 * Second)),
      (''grpc.enabled'', AnyBool True),
      (''grpc.host'', AnyString ''0.0.0.0''),
      (''grpc.port'', AnyInt 8081),
      (''grpc.max_recv_msg_size'', AnyInt (16 * 1024 * 1024)),
      (''grpc.max_send_msg_size'', AnyInt (16 * 1024 * 1024)),
      (''grpc.timeout'', AnyInt (30 * Second)),
      (''auth.enabled'', AnyBool True),
      (''auth.secret_key'', AnyString []),
      (''auth.header_name'', AnyString ''X-API-Key''),
      (''log.level'', AnyString ''info''),
      (''log.format'', AnyString ''text''),
      (''log.output'', AnyString ''stdout''),
      (''log.file_path'', AnyString []),
      (''log.max_size'', AnyInt 100),
      (''log.max_backups'', AnyInt 3),
      (''log.max_age'', AnyInt 7),
      (''log.compress'', AnyBool True),
      (''log.show_caller'', AnyBool False),
      (''log.show_stacktrace'', AnyString ''error''),
      (''log.async'', AnyBool False),
      (''log.buffer_size'', AnyInt 4096),
      (''metrics.enabled'', AnyBool False),
      (''metrics.provider'', AnyString ''prometheus''),
      (''metrics.host'', AnyString ''0.0.0.0''),
      (''metrics.port'', AnyInt 9090),
      (''metrics.path'', AnyString ''/metrics''),
      (''metrics.collect_runtime'', AnyBool True),
      (''metrics.runtime_interval'', AnyInt (10 * Second)),
      (''metrics.collect_queue_stats'', AnyBool True),
      (''metrics.collect_smtp_stats'', AnyBool True),
      (''metrics.statsd.address'', AnyString []),
      (''metrics.statsd.prefix'', AnyString []),
      (''metrics.statsd.flush_interval'', AnyInt (100 * Millisecond)),
      (''metrics.pushgateway.enabled'', AnyBool False),
      (''metrics.pushgateway.url'', AnyString []),
      (''metrics.pushgateway.job'', AnyString ''mailbaby''),
      (''metrics.pushgateway.interval'', AnyInt (15 * Second)),
      (''metrics.pushgateway.basic_auth.username'', AnyString []),
      (''metrics.pushgateway.basic_auth.password'', AnyString []),
      (''observability.tracing.enabled'', AnyBool False),
      (''observability.tracing.provider'', AnyString ''otlp''),
      (''observability.tracing.endpoint'', AnyString []),
      (''observability.tracing.insecure'', AnyBool False),
      (''observability.tracing.sample_rate'', AnyFloat (Fin 1)),
      (''observability.tracing.service_name'', AnyString []),
      (''observability.tracing.batch_timeout'', AnyInt (5 * Second)),
      (''observability.tracing.max_queue_size'', AnyInt 2048),
      (''observability.tracing.export_timeout'', AnyInt (30 * Second)),
      (''observability.health.enabled'', AnyBool False),
      (''observability.health.host'', AnyString ''0.0.0.0''),
      (''observability.health.port'', AnyInt 8080),
      (''observability.health.live_path'', AnyString ''/livez''),
      (''observability.health.ready_path'', AnyString ''/readyz''),
      (''observability.health.check_timeout'', AnyInt (5 * Second)),
      (''observability.pprof.enabled'', AnyBool False),
      (''observability.pprof.host'', AnyString ''127.0.0.1''),
      (''observability.pprof.port'', AnyInt 6060),
      (''observability.pprof.path'', AnyString ''/debug/pprof''),
      (''observability.pprof.profile_mutex'', AnyBool False),
      (''observability.pprof.profile_block'', AnyBool False),
      (''observability.pprof.block_rate'', AnyInt 0),
      (''observability.pprof.mutex_rate'', AnyInt 0),
      (''queue.driver'', AnyString ''memory''),
      (''queue.concurrency'', AnyInt 10),
      (''queue.max_retries'', AnyInt 3),
      (''queue.retry_interval'', AnyInt (5 * Second)),
      (''queue.prefetch_count'', AnyInt 10),
      (''queue.batch_size'', AnyInt 1),
      (''queue.rabbitmq.url'', AnyString []),
      (''queue.rabbitmq.host'', AnyString ''127.0.0.1''),
      (''queue.rabbitmq.port'', AnyInt 5672),
      (''queue.rabbitmq.username'', AnyString []),
      (''queue.rabbitmq.password'', AnyString []),
      (''queue.rabbitmq.vhost'', AnyString ''/''),
      (''queue.rabbitmq.queue'', AnyString []),
      (''queue.rabbitmq.exchange'', AnyString []),
      (''queue.rabbitmq.routing_key'', AnyString []),
      (''queue.rabbitmq.durable'', AnyBool True),
      (''queue.rabbitmq.auto_delete'', AnyBool False),
      (''queue.rabbitmq.exclusive'', AnyBool False),
      (''queue.rabbitmq.auto_ack'', AnyBool False),
      (''queue.rabbitmq.prefetch_count'', AnyInt 10),
      (''queue.kafka.brokers'', AnyList []),
      (''queue.kafka.topic'', AnyString []),
      (''queue.kafka.group_id'', AnyString []),
      (''queue.kafka.client_id'', AnyString ''mailbaby-consumer''),
      (''queue.kafka.version'', AnyString []),
      (''queue.kafka.initial_offset'', AnyString ''newest''),
      (''queue.kafka.auto_commit'', AnyBool True),
      (''queue.redis.addrs'', AnyList []),
      (''queue.redis.host'', AnyString ''127.0.0.1''),
      (''queue.redis.port'', AnyInt 6379),
      (''queue.redis.username'', AnyString []),
      (''queue.redis.password'', AnyString []),
      (''queue.redis.db'', AnyInt 0),
      (''queue.redis.master_name'', AnyString []),
      (''queue.redis.mode'', AnyString ''stream''),
      (''queue.redis.key'', AnyString []),
      (''queue.redis.group'', AnyString ''mailbaby-workers''),
      (''queue.redis.consumer'', AnyString ''worker-1''),
      (''queue.redis.block_time'', AnyInt (2 * Second)),
      (''queue.redis.max_len'', AnyInt 0),
      (''queue.rocketmq.name_servers'', AnyList []),
      (''queue.rocketmq.topic'', AnyString []),
      (''queue.rocketmq.group'', AnyString []),
      (''queue.rocketmq.access_key'', AnyString []),
      (''queue.rocketmq.secret_key'', AnyString []),
      (''queue.rocketmq.security_token'', AnyString []),
      (''queue.rocketmq.namespace'', AnyString []),
      (''queue.rocketmq.consume_orderly'', AnyBool False),
      (''queue.nats.servers'', AnyList []),
      (''queue.nats.subject'', AnyString []),
      (''queue.nats.queue_group'', AnyString ''mailbaby-group''),
      (''queue.nats.jetstream'', AnyBool False),
      (''queue.nats.stream'', AnyString []),
      (''queue.nats.durable'', AnyString []),
      (''queue.pulsar.url'', AnyString []),
      (''queue.pulsar.topic'', AnyString []),
      (''queue.pulsar.subscription_name'', AnyString []),
      (''queue.pulsar.subscription_type'', AnyString ''Shared''),
      (''queue.pulsar.auth_token'', AnyString []),
      (''queue.sqs.region'', AnyString []),
      (''queue.sqs.queue_url'', AnyString []),
      (''queue.sqs.access_key_id'', AnyString []),
      (''queue.sqs.secret_access_key'', AnyString []),
      (''queue.sqs.session_token'', AnyString []),
      (''queue.sqs.endpoint'', AnyString []),
      (''queue.sqs.wait_time_seconds'', AnyInt 20),
      (''queue.sqs.visibility_timeout'', AnyInt 30),
      (''queue.sqs.max_number_of_messages'', AnyInt 10),
      (''queue.memory.buffer_size'', AnyInt 1024),
      (''smtp.default.host'', AnyString []),
      (''smtp.default.port'', AnyInt 587),
      (''smtp.default.username'', AnyString []),
      (''smtp.default.password'', AnyString []),
      (''smtp.default.from'', AnyString []),
      (''smtp.default.from_name'', AnyString []),
      (''smtp.default.reply_to'', AnyString []),
      (''smtp.default.encryption'', AnyString ''Auto''),
      (''smtp.default.insecure_skip_verify'', AnyBool False),
      (''smtp.default.helo_hostname'', AnyString []),
      (''smtp.default.auth_type'', AnyString ''Auto''),
      (''smtp.default.connect_timeout'', AnyInt (10 * Second)),
      (''smtp.default.send_timeout'', AnyInt (30 * Second)),
      (''smtp.default.keep_alive'', AnyInt (30 * Second)),
      (''smtp.default.pool.max_idle_conns'', AnyInt 5),
      (''smtp.default.pool.max_open_conns'', AnyInt 20),
      (''smtp.default.pool.idle_timeout'', AnyInt (60 * Second)),
      (''smtp.default.rate_limit.emails_per_second'', AnyInt 0),
      (''smtp.default.rate_limit.max_recipients_per_email'', AnyInt 50),
      (''smtp.default.rate_limit.email_size_limit'', AnyInt (15 * 1024 * 1024))]"

text \<open>
  \<open>ReadInConfig\<close> fails because there is no such file (\<open>ConfigFileNotFoundError\<close>
  or \<open>os.IsNotExist\<close>) or for another reason.
\<close>

datatype readErr = FileNotFound error | ReadFailed error

fun readErrValue :: "readErr \<Rightarrow> error" where
  "readErrValue (FileNotFound e) = e"
| "readErrValue (ReadFailed e) = e"

type_synonym settings = "(string \<times> anyVal) list"

text \<open>
  \<open>ve_readFile f yaml\<close> reads the named file (with the type forced to yaml or
  not), \<open>ve_search paths\<close> looks for \<open>config.yaml\<close> in the paths,
  \<open>ve_readConfig ty data\<close> parses bytes, and \<open>ve_unmarshal defaults settings\<close>
  fills a \<open>Config\<close> from the settings, the environment and the defaults.
\<close>

record viperEnv =
  ve_getenv :: "string \<Rightarrow> string"
  ve_readFile :: "string \<Rightarrow> bool \<Rightarrow> readErr + settings"
  ve_search :: "string list \<Rightarrow> readErr + settings"
  ve_readConfig :: "string \<Rightarrow> string \<Rightarrow> error + settings"
  ve_unmarshal :: "settings \<Rightarrow> settings \<Rightarrow> error + Config"

definition targetFile :: "viperEnv \<Rightarrow> string list \<Rightarrow> string" where
  "targetFile env configPath =
     (if configPath \<noteq> [] \<and> TrimSpace (hd configPath) \<noteq> [] then hd configPath
      else ve_getenv env ''MAILBABY_CONFIG'')"

definition HasSuffix :: "string \<Rightarrow> string \<Rightarrow> bool" where
  "HasSuffix s t = suffix t s"

definition readSettings :: "viperEnv \<Rightarrow> string list \<Rightarrow> error + settings" where
  "readSettings env configPath =
     (let f = targetFile env configPath
      in if f \<noteq> [] then
           (case ve_readFile env f
                   (HasSuffix f ''.yaml.example'' \<or> HasSuffix f ''.yml.example'' \<or> HasSuffix f ''.example'') of
              Inl e \<Rightarrow> Inl (Wrap (''failed to read config file '' @ Quote f @ '': '' @ Error (readErrValue e))
                            (readErrValue e))
            | Inr s \<Rightarrow> Inr s)
         else
           (case ve_search env [''.'', ''./configs'', ''../configs'', ''/etc/mailbaby''] of
              Inl (FileNotFound _) \<Rightarrow> Inr []
            | Inl (ReadFailed e) \<Rightarrow> Inl (Wrap (''failed to load config file: '' @ Error e) e)
            | Inr s \<Rightarrow> Inr s))"

definition unmarshalValidate :: "configLib \<Rightarrow> viperEnv \<Rightarrow> settings \<Rightarrow> error + Config" where
  "unmarshalValidate lib env s =
     (case ve_unmarshal env setDefaults s of
        Inl e \<Rightarrow> Inl (Wrap (''failed to unmarshal config: '' @ Error e) e)
      | Inr cfg \<Rightarrow>
          (case Config_Validate lib cfg of
             (Some e, _) \<Rightarrow> Inl (Wrap (''config validation failed: '' @ Error e) e)
           | (None, cfg') \<Rightarrow> Inr cfg'))"

text \<open>\<open>Load\<close> also stores the configuration in the package's global variable.\<close>

definition Load ::
    "configLib \<Rightarrow> viperEnv \<Rightarrow> string list \<Rightarrow> Config option \<Rightarrow> (error + Config) \<times> Config option" where
  "Load lib env configPath globalConfig =
     (case readSettings env configPath of
        Inl e \<Rightarrow> (Inl e, globalConfig)
      | Inr s \<Rightarrow>
          (case unmarshalValidate lib env s of
             Inl e \<Rightarrow> (Inl e, globalConfig)
           | Inr cfg \<Rightarrow> (Inr cfg, Some cfg)))"

definition LoadFromBytes :: "configLib \<Rightarrow> viperEnv \<Rightarrow> string \<Rightarrow> string \<Rightarrow> error + Config" where
  "LoadFromBytes lib env data configType =
     (case ve_readConfig env (defStr ''yaml'' configType) data of
        Inl e \<Rightarrow> Inl (Wrap (''failed to parse config content: '' @ Error e) e)
      | Inr s \<Rightarrow> unmarshalValidate lib env s)"

section \<open>Lemmas on the stages\<close>

lemma runStages_keeps:
  assumes "\<And>st c. st \<in> set sts \<Longrightarrow> P c \<Longrightarrow> P (fst st c)"
    and "\<And>c. P c \<Longrightarrow> P (snd (k c))" and "P c"
  shows "P (snd (runStages sts k c))"
  using assms by (induction sts arbitrary: c) (auto simp: Let_def split: option.splits)

text \<open>
  A later section leaves an earlier one alone: it keeps its verdict, and its
  defaults once applied.
\<close>

definition later :: "'c stage \<Rightarrow> ('c \<Rightarrow> 'c) \<Rightarrow> bool" where
  "later st d \<longleftrightarrow> (\<forall>c. snd st (d c) = snd st c \<and> (fst st c = c \<longrightarrow> fst st (d c) = d c))"

lemma runStages_again:
  assumes "\<And>st c. st \<in> set sts \<Longrightarrow> fst st (fst st c) = fst st c"
    and "sorted_wrt (\<lambda>st st'. later st (fst st')) sts"
    and "\<And>st. st \<in> set sts \<Longrightarrow> later st (\<lambda>c. snd (k c))"
    and "\<And>c. k (snd (k c)) = k c"
  shows "runStages sts k (snd (runStages sts k c)) = runStages sts k c"
  using assms
proof (induction sts arbitrary: c)
  case (Cons st sts)
  have idem: "fst st (fst st c) = fst st c"
    using Cons.prems(1) [of st c] by simp
  show ?case
  proof (cases "snd st (fst st c)")
    case None
    let ?c = "snd (runStages sts k (fst st c))"
    have "later st (fst st')" if "st' \<in> set sts" for st'
      using Cons.prems(2) that by simp
    moreover have "later st (\<lambda>c. snd (k c))"
      using Cons.prems(3) [of st] by simp
    ultimately have fixed: "fst st ?c = ?c \<and> snd st ?c = None"
      using None idem
      by (intro runStages_keeps [where P = "\<lambda>c. fst st c = c \<and> snd st c = None"])
        (simp_all add: later_def)
    have "runStages sts k ?c = runStages sts k (fst st c)"
      using Cons.prems by (intro Cons.IH) auto
    then show ?thesis
      by (simp add: Let_def None fixed)
  qed (simp add: Let_def idem)
qed simp

lemma update_fixed:
  "cf_Server_update f c = c \<longleftrightarrow> f (cf_Server c) = cf_Server c"
  "cf_GRPC_update g c = c \<longleftrightarrow> g (cf_GRPC c) = cf_GRPC c"
  "cf_Auth_update h c = c \<longleftrightarrow> h (cf_Auth c) = cf_Auth c"
  "cf_Log_update l c = c \<longleftrightarrow> l (cf_Log c) = cf_Log c"
  "cf_Metrics_update m c = c \<longleftrightarrow> m (cf_Metrics c) = cf_Metrics c"
  "cf_Observability_update n c = c \<longleftrightarrow> n (cf_Observability c) = cf_Observability c"
  by (cases c; simp)+

lemmas section_idem =
  server_section.idem grpc_section.idem auth_section.idem log_section.idem
  metrics_section.idem observability_section.idem

lemma smtpThenQueue_frame:
  "cf_App (snd (smtpThenQueue lib c)) = cf_App c"
  "cf_Server (snd (smtpThenQueue lib c)) = cf_Server c"
  "cf_GRPC (snd (smtpThenQueue lib c)) = cf_GRPC c"
  "cf_Auth (snd (smtpThenQueue lib c)) = cf_Auth c"
  "cf_Log (snd (smtpThenQueue lib c)) = cf_Log c"
  "cf_Metrics (snd (smtpThenQueue lib c)) = cf_Metrics c"
  "cf_Observability (snd (smtpThenQueue lib c)) = cf_Observability c"
  by (simp_all add: smtpThenQueue_def split: prod.splits option.splits)

lemma runStages_None:
  assumes "\<And>st c. st \<in> set sts \<Longrightarrow> fst st (fst st c) = fst st c"
    and "sorted_wrt (\<lambda>st st'. later st (fst st')) sts"
    and "\<And>st. st \<in> set sts \<Longrightarrow> later st (\<lambda>c. snd (k c))"
    and "runStages sts k c = (None, c')"
  shows "(\<forall>st \<in> set sts. fst st c' = c' \<and> snd st c' = None) \<and> (\<exists>c1. k c1 = (None, c'))"
  using assms
proof (induction sts arbitrary: c)
  case (Cons st sts)
  have ok: "snd st (fst st c) = None" and rest: "runStages sts k (fst st c) = (None, c')"
    using Cons.prems(4) by (auto simp: Let_def split: option.splits)
  have "fst st (snd (runStages sts k (fst st c))) = snd (runStages sts k (fst st c)) \<and>
      snd st (snd (runStages sts k (fst st c))) = None"
    using Cons.prems(1) [of st c] Cons.prems(2) Cons.prems(3) [of st] ok
    by (intro runStages_keeps [where P = "\<lambda>c. fst st c = c \<and> snd st c = None"])
      (simp_all add: later_def)
  moreover have "(\<forall>st \<in> set sts. fst st c' = c' \<and> snd st c' = None) \<and> (\<exists>c1. k c1 = (None, c'))"
    using Cons.prems(1-3) rest by (intro Cons.IH) auto
  ultimately show ?case
    by (simp add: rest)
qed auto

lemma sections_laws:
  shows "st \<in> set (sections lib) \<Longrightarrow> fst st (fst st c) = fst st c"
    and "sorted_wrt (\<lambda>st st'. later st (fst st')) (sections lib)"
    and "st \<in> set (sections lib) \<Longrightarrow> later st (\<lambda>c. snd (smtpThenQueue lib c))"
  by (auto simp: sections_def update_fixed section_idem later_def smtpThenQueue_frame)

lemma Config_Validate_again: "Config_Validate lib (snd (Config_Validate lib c)) = Config_Validate lib c"
  unfolding Config_Validate_def
proof (rule runStages_again [OF sections_laws])
  show "smtpThenQueue lib (snd (smtpThenQueue lib c)) = smtpThenQueue lib c" for c
    by (auto simp: smtpThenQueue_def dest: SmtpConfig_Validate_again split: prod.splits option.splits)
qed

lemma Config_Validate_None:
  assumes "Config_Validate lib c = (None, c')"
  shows "ServerConfig_Validate (cf_Server c') = None" "GrpcConfig_Validate (cf_GRPC c') = None"
    "AuthConfig_Validate (cf_Auth c') = None"
    "AuthConfig_ApplyDefaults (cf_Auth c') = cf_Auth c'"
    "SmtpConfig_Validate (cl_parseAddr lib) (cf_SMTP c') = (None, cf_SMTP c')"
    "QueueConfig_Validate (cf_Queue c') = None"
proof -
  have all: "(\<forall>st \<in> set (sections lib). fst st c' = c' \<and> snd st c' = None) \<and>
      (\<exists>c1. smtpThenQueue lib c1 = (None, c'))"
    by (rule runStages_None [OF _ sections_laws(2) _ assms [unfolded Config_Validate_def]])
      (erule sections_laws)+
  show "ServerConfig_Validate (cf_Server c') = None" "GrpcConfig_Validate (cf_GRPC c') = None"
    "AuthConfig_Validate (cf_Auth c') = None" "AuthConfig_ApplyDefaults (cf_Auth c') = cf_Auth c'"
    using all [THEN conjunct1] by (simp_all add: sections_def update_fixed)
  obtain c1 where "smtpThenQueue lib c1 = (None, c')"
    using all by blast
  then show "SmtpConfig_Validate (cl_parseAddr lib) (cf_SMTP c') = (None, cf_SMTP c')"
    "QueueConfig_Validate (cf_Queue c') = None"
    by (auto simp: smtpThenQueue_def split: prod.splits option.splits dest: SmtpConfig_Validate_again)
qed

section \<open>Properties\<close>

text \<open>
  C5. A configuration that passes validation is one the services can start
  from: validating it again changes nothing, the HTTP and gRPC ports are TCP
  ports, an enabled authentication has a secret that is not blank and a header
  name, a usable default SMTP account resolves, there is at least one worker,
  the driver is one of the eight known ones and the topic is not blank.
\<close>

theorem config_validated:
  assumes "Config_Validate lib c = (None, c')"
  shows "Config_Validate lib c' = (None, c') \<and>
    1 \<le> sv_Port (cf_Server c') \<and> sv_Port (cf_Server c') \<le> 65535 \<and>
    (gr_Enabled (cf_GRPC c') \<longrightarrow> 1 \<le> gr_Port (cf_GRPC c') \<and> gr_Port (cf_GRPC c') \<le> 65535) \<and>
    (au_Enabled (cf_Auth c') \<longrightarrow> TrimSpace (au_SecretKey (cf_Auth c')) \<noteq> []) \<and>
    au_HeaderName (cf_Auth c') \<noteq> [] \<and>
    (\<exists>a. GetAccount (cf_SMTP c') [] = Inr a \<and> accountReady a) \<and>
    0 < qc_Concurrency (cf_Queue c') \<and>
    ToLower (TrimSpace (qc_Driver (cf_Queue c'))) \<in> set
      [DriverRabbitMQ, DriverKafka, DriverRedis, DriverRocketMQ, DriverNATS, DriverPulsar,
       DriverSQS, DriverMemory] \<and>
    TrimSpace (TopicName (cf_Queue c')) \<noteq> []"
proof -
  note parts = Config_Validate_None [OF assms]
  have "Config_Validate lib c' = (None, c')"
    using Config_Validate_again [of lib c] by (simp add: assms)
  moreover have "1 \<le> sv_Port (cf_Server c') \<and> sv_Port (cf_Server c') \<le> 65535"
    using parts(1) by (simp add: ServerConfig_Validate_def)
  moreover have "gr_Enabled (cf_GRPC c') \<longrightarrow> 1 \<le> gr_Port (cf_GRPC c') \<and> gr_Port (cf_GRPC c') \<le> 65535"
    using parts(2) by (simp add: GrpcConfig_Validate_def split: if_splits)
  moreover have "au_Enabled (cf_Auth c') \<longrightarrow> TrimSpace (au_SecretKey (cf_Auth c')) \<noteq> []"
    using parts(3) by (simp add: AuthConfig_Validate_def)
  moreover have "au_HeaderName (cf_Auth c') \<noteq> []"
    using arg_cong [OF parts(4), of au_HeaderName]
    by (auto simp: AuthConfig_ApplyDefaults_def defStr_def split: if_splits)
  moreover have "\<exists>a. GetAccount (cf_SMTP c') [] = Inr a \<and> accountReady a"
    using default_resolves [OF parts(5)] .
  ultimately show ?thesis
    using QueueConfig_validated [OF parts(6)] TopicName_nonblank [OF parts(6)] by blast
qed

text \<open>A configuration that passes, with most fields left to their defaults.\<close>

definition sampleTLS :: TLSConfig where
  "sampleTLS = \<lparr>tls_Enable = False, tls_CAFile = [], tls_CertFile = [], tls_KeyFile = [],
     tls_InsecureSkipVerify = False, tls_ServerName = []\<rparr>"

definition sampleQueueConfig :: QueueConfig where
  "sampleQueueConfig =
     \<lparr>qc_Driver = DriverMemory, qc_Concurrency = 10, qc_MaxRetries = 3, qc_RetryInterval = 5 * Second,
      qc_PrefetchCount = 10, qc_BatchSize = 1, qc_DrainTimeout = 0,
      qc_RabbitMQ = \<lparr>rb_URL = [], rb_Host = ''127.0.0.1'', rb_Port = 5672, rb_Username = [],
        rb_Password = [], rb_VHost = ''/'', rb_Queue = [], rb_Exchange = [], rb_RoutingKey = [],
        rb_Durable = True, rb_AutoDelete = False, rb_Exclusive = False, rb_NoWait = False,
        rb_AutoAck = False, rb_PrefetchCount = 10, rb_Args = [], rb_TLS = sampleTLS\<rparr>,
      qc_Kafka = \<lparr>kf_Brokers = [], kf_Topic = [], kf_GroupID = [], kf_ClientID = ''mailbaby-consumer'',
        kf_Version = [], kf_InitialOffset = ''newest'', kf_AutoCommit = True,
        kf_SASL = \<lparr>ks_Enable = False, ks_Mechanism = [], ks_User = [], ks_Password = []\<rparr>,
        kf_TLS = sampleTLS\<rparr>,
      qc_Redis = \<lparr>rd_Addrs = [], rd_Host = ''127.0.0.1'', rd_Port = 6379, rd_Username = [],
        rd_Password = [], rd_DB = 0, rd_MasterName = [], rd_Mode = ''stream'', rd_Key = [],
        rd_Group = ''mailbaby-workers'', rd_Consumer = ''worker-1'', rd_BlockTime = 2 * Second,
        rd_MaxLen = 0, rd_TLS = sampleTLS\<rparr>,
      qc_RocketMQ = \<lparr>rk_NameServers = [], rk_Topic = [], rk_Group = [], rk_AccessKey = [],
        rk_SecretKey = [], rk_SecurityToken = [], rk_Namespace = [], rk_ConsumeOrderly = False\<rparr>,
      qc_NATS = \<lparr>na_Servers = [], na_Subject = [], na_QueueGroup = ''mailbaby-group'',
        na_JetStream = False, na_Stream = [], na_Durable = [], na_Token = [], na_Username = [],
        na_Password = [], na_CredsFile = [], na_TLS = sampleTLS\<rparr>,
      qc_Pulsar = \<lparr>pu_URL = [], pu_Topic = [], pu_SubscriptionName = [], pu_SubscriptionType = ''Shared'',
        pu_AuthToken = [], pu_TLS = sampleTLS\<rparr>,
      qc_SQS = \<lparr>sq_Region = [], sq_QueueURL = [], sq_AccessKeyID = [], sq_SecretAccessKey = [],
        sq_SessionToken = [], sq_Endpoint = [], sq_WaitTimeSeconds = 20, sq_VisibilityTimeout = 30,
        sq_MaxNumberOfMessages = 10\<rparr>,
      qc_Memory = \<lparr>mm_BufferSize = 1024\<rparr>\<rparr>"

definition sampleConfig :: Config where
  "sampleConfig =
     \<lparr>cf_App = \<lparr>ap_Name = ''mailbaby'', ap_Env = ''development'', ap_Debug = False,
        ap_ShutdownTimeout = 60 * Second\<rparr>,
      cf_Server = \<lparr>sv_Host = [], sv_Port = 0, sv_ReadTimeout = 0, sv_WriteTimeout = 0,
        sv_IdleTimeout = 0, sv_Enabled = False, sv_TLSEnabled = False, sv_TLSCertPath = [],
        sv_TLSKeyPath = [], sv_TLSMinVersion = [], sv_CORSAllowedOrigin = [],
        sv_LegacyAPIV1 = False, sv_TrustProxyHeaders = False\<rparr>,
      cf_GRPC = \<lparr>gr_Enabled = True, gr_Host = [], gr_Port = 0, gr_MaxRecvMsgSize = 0,
        gr_MaxSendMsgSize = 0, gr_Timeout = 0, gr_TLSEnabled = False, gr_TLSCertPath = [],
        gr_TLSKeyPath = []\<rparr>,
      cf_Auth = \<lparr>au_Enabled = True, au_SecretKey = ''s3cret'', au_HeaderName = [],
        au_RatePerKeyPerMinute = 0\<rparr>,
      cf_Queue = sampleQueueConfig,
      cf_SMTP = [(''default'', sampleAccount)],
      cf_Log = \<lparr>lg_Level = [], lg_Format = [], lg_Output = [], lg_FilePath = [], lg_MaxSize = 0,
        lg_MaxBackups = 0, lg_MaxAge = 0, lg_Compress = True, lg_ShowCaller = False,
        lg_ShowStacktrace = [], lg_TimeFormat = [], lg_Async = False, lg_BufferSize = 0\<rparr>,
      cf_Metrics = \<lparr>mt_Enabled = False, mt_Provider = [], mt_Host = [], mt_Port = 0, mt_Path = [],
        mt_CollectRuntime = True, mt_RuntimeInterval = 0, mt_CollectQueueStats = True,
        mt_CollectSmtpStats = True,
        mt_StatsD = \<lparr>sd_Address = [], sd_Prefix = [], sd_FlushInterval = 0\<rparr>,
        mt_PushGateway = \<lparr>pg_Enabled = False, pg_URL = [], pg_Job = [], pg_Interval = 0,
          pg_BasicAuth = \<lparr>ba_Username = [], ba_Password = []\<rparr>\<rparr>,
        mt_CustomLabels = [], mt_HistogramBuckets = []\<rparr>,
      cf_Observability = \<lparr>
        ob_Tracing = \<lparr>tr_Enabled = False, tr_Provider = [], tr_Endpoint = [], tr_Insecure = False,
          tr_SampleRate = Fin 1, tr_ServiceName = [], tr_BatchTimeout = 0, tr_MaxQueueSize = 0,
          tr_ExportTimeout = 0\<rparr>,
        ob_Health = \<lparr>hc_Enabled = False, hc_LivePath = [], hc_ReadyPath = [], hc_CheckTimeout = 0\<rparr>,
        ob_Pprof = \<lparr>pf_Enabled = False, pf_Path = [], pf_ProfileMutex = False,
          pf_ProfileBlock = False, pf_BlockRate = 0, pf_MutexRate = 0\<rparr>\<rparr>\<rparr>"

definition sampleLib :: configLib where
  "sampleLib = \<lparr>cl_parseURI = \<lambda>_. None, cl_fmtF = \<lambda>_. [], cl_parseAddr = \<lambda>_. None\<rparr>"

lemma sample_sections:
  "AppConfig_Validate (cf_App sampleConfig) = None"
  "ServerConfig_Validate (ServerConfig_ApplyDefaults (cf_Server sampleConfig)) = None"
  "GrpcConfig_Validate (GrpcConfig_ApplyDefaults (cf_GRPC sampleConfig)) = None"
  "AuthConfig_Validate (AuthConfig_ApplyDefaults (cf_Auth sampleConfig)) = None"
  "LogConfig_Validate (LogConfig_ApplyDefaults (cf_Log sampleConfig)) = None"
  "MetricsConfig_Validate (cl_parseURI sampleLib) (MetricsConfig_ApplyDefaults (cf_Metrics sampleConfig)) = None"
  "ObservabilityConfig_Validate (cl_fmtF sampleLib)
     (ObservabilityConfig_ApplyDefaults (cf_Observability sampleConfig)) = None"
  "fst (SmtpConfig_Validate (cl_parseAddr sampleLib) (cf_SMTP sampleConfig)) = None"
  "QueueConfig_Validate (cf_Queue sampleConfig) = None"
  by code_simp+

lemma sample_valid: "fst (Config_Validate sampleLib sampleConfig) = None"
  by (simp add: Config_Validate_def sections_def smtpThenQueue_def Let_def sample_sections case_prod_beta)
theorem config_validated_witness:
  "fst (Config_Validate sampleLib sampleConfig) = None \<and>
   1 \<le> sv_Port (cf_Server (snd (Config_Validate sampleLib sampleConfig)))"
  using config_validated [of sampleLib sampleConfig "snd (Config_Validate sampleLib sampleConfig)"]
    sample_valid by (simp add: prod_eq_iff)

text \<open>
  C40. Loading either fails and leaves the global configuration as it was, or
  returns a configuration that passes validation unchanged and stores it.
\<close>

theorem Load_stores_only_valid:
  "(\<exists>e. Load lib env paths g = (Inl e, g)) \<or>
   (\<exists>cfg. Load lib env paths g = (Inr cfg, Some cfg) \<and> Config_Validate lib cfg = (None, cfg))"
proof (cases "readSettings env paths")
  case (Inr s)
  show ?thesis
  proof (cases "unmarshalValidate lib env s")
    case (Inr cfg)
    then obtain c where "Config_Validate lib c = (None, cfg)"
      by (auto simp: unmarshalValidate_def split: sum.splits prod.splits option.splits)
    then have "Config_Validate lib cfg = (None, cfg)"
      using Config_Validate_again [of lib c] by simp
    then show ?thesis
      using \<open>readSettings env paths = Inr s\<close> Inr by (simp add: Load_def)
  qed (simp add: Load_def Inr)
qed (simp add: Load_def)

text \<open>
  Loading is fail-closed. With neither \<open>auth.enabled\<close> nor
  \<open>auth.secret_key\<close> given, the defaults apply, and \<open>Load\<close> reports an error
  instead of starting an unauthenticated service. The two hypotheses on
  \<open>ve_unmarshal\<close> are viper's: a key that is not set has its default.
\<close>

theorem Load_fail_closed:
  assumes read: "readSettings env paths = Inr s"
    and unset: "map_of s ''auth.enabled'' = None" "map_of s ''auth.secret_key'' = None"
    and viper_bool: "\<And>cfg b. ve_unmarshal env setDefaults s = Inr cfg \<Longrightarrow>
        map_of s ''auth.enabled'' = None \<Longrightarrow>
        map_of setDefaults ''auth.enabled'' = Some (AnyBool b) \<Longrightarrow> au_Enabled (cf_Auth cfg) = b"
    and viper_string: "\<And>cfg v. ve_unmarshal env setDefaults s = Inr cfg \<Longrightarrow>
        map_of s ''auth.secret_key'' = None \<Longrightarrow>
        map_of setDefaults ''auth.secret_key'' = Some (AnyString v) \<Longrightarrow> au_SecretKey (cf_Auth cfg) = v"
  shows "\<exists>e. Load lib env paths g = (Inl e, g)"
proof (cases "ve_unmarshal env setDefaults s")
  case (Inl e)
  then show ?thesis
    using read by (simp add: Load_def unmarshalValidate_def)
next
  case (Inr cfg)
  have "map_of setDefaults ''auth.enabled'' = Some (AnyBool True)"
    "map_of setDefaults ''auth.secret_key'' = Some (AnyString [])"
    by (simp_all add: setDefaults_def)
  then have a: "au_Enabled (cf_Auth cfg)" "au_SecretKey (cf_Auth cfg) = []"
    using viper_bool [OF Inr unset(1)] viper_string [OF Inr unset(2)] by auto
  obtain e c' where v: "Config_Validate lib cfg = (e, c')"
    by fastforce
  have "e \<noteq> None"
  proof
    assume "e = None"
    have "P (snd (Config_Validate lib cfg))"
      if "P = (\<lambda>c. au_Enabled (cf_Auth c) \<and> au_SecretKey (cf_Auth c) = [])" for P
      unfolding Config_Validate_def
      by (rule runStages_keeps)
        (use a in \<open>auto simp: that sections_def smtpThenQueue_frame AuthConfig_ApplyDefaults_def\<close>)
    then have "AuthConfig_Validate (cf_Auth c') \<noteq> None"
      by (simp add: v AuthConfig_Validate_def)
    then show False
      using Config_Validate_None(3) [of lib cfg c'] v \<open>e = None\<close> by simp
  qed
  then show ?thesis
    using Inr v read by (auto simp: Load_def unmarshalValidate_def)
qed

definition sampleViper :: viperEnv where
  "sampleViper =
     \<lparr>ve_getenv = \<lambda>_. [], ve_readFile = \<lambda>_ _. Inl (FileNotFound (Err ''no file'')),
      ve_search = \<lambda>_. Inl (FileNotFound (Err ''no file'')), ve_readConfig = \<lambda>_ _. Inr [],
      ve_unmarshal = \<lambda>d s. Inr (sampleConfig\<lparr>cf_Auth := (cf_Auth sampleConfig)\<lparr>
        au_Enabled := (map_of (s @ d) ''auth.enabled'' = Some (AnyBool True)),
        au_SecretKey := (case map_of (s @ d) ''auth.secret_key'' of Some (AnyString v) \<Rightarrow> v | _ \<Rightarrow> [])\<rparr>\<rparr>)\<rparr>"

theorem Load_fail_closed_witness: "\<exists>e. Load sampleLib sampleViper [] None = (Inl e, None)"
proof (rule Load_fail_closed)
  show "readSettings sampleViper [] = Inr []"
    by (simp add: readSettings_def targetFile_def sampleViper_def)
qed (auto simp: sampleViper_def setDefaults_def)

end
