(* ===== verification/Registry.thy ===== *)
theory Registry
  imports Message Config
begin

text \<open>
  The driver registry, \<open>internal/queue/registry.go\<close>. The package variable
  \<open>drivers\<close> is an association list (in the order a \<open>range\<close> loop visits
  it) that every operation takes and returns; each operation holds the registry
  lock from its first to its last access. A factory is a function of the
  configuration into \<open>'q\<close>, the type of queues.
\<close>

type_synonym 'q FactoryFunc = "Config \<Rightarrow> error + 'q"
type_synonym 'q registry = "(string \<times> 'q FactoryFunc) list"

definition normalizeDriver :: "string \<Rightarrow> string" where
  "normalizeDriver d = ToLower (TrimSpace d)"

definition Register :: "string \<Rightarrow> 'q FactoryFunc option \<Rightarrow> 'q registry \<Rightarrow> 'q registry outcome" where
  "Register driver factory drivers =
     (let normalized = normalizeDriver driver
      in if normalized = [] then Panic ''queue: cannot register driver with empty name''
         else case factory of
           None \<Rightarrow> Panic (''queue: Register driver '' @ Quote driver @ '' factory is nil'')
         | Some f \<Rightarrow>
             if map_of drivers normalized \<noteq> None then
               Panic (''queue: Register called twice for driver '' @ Quote driver)
             else Ret ((normalized, f) # drivers))"

definition Unregister :: "string \<Rightarrow> 'q registry \<Rightarrow> 'q registry" where
  "Unregister driver drivers = filter (\<lambda>(k, f). k \<noteq> normalizeDriver driver) drivers"

definition IsDriverRegistered :: "string \<Rightarrow> 'q registry \<Rightarrow> bool" where
  "IsDriverRegistered driver drivers = (map_of drivers (normalizeDriver driver) \<noteq> None)"

definition GetRegisteredDrivers :: "'q registry \<Rightarrow> string list" where
  "GetRegisteredDrivers drivers = sort (map fst drivers)"

definition New :: "'q registry \<Rightarrow> Config option \<Rightarrow> error + 'q" where
  "New drivers cfg =
     (case cfg of
        None \<Rightarrow> Inl (Wrap (Error ErrInvalidConfig @ '': config is nil'') ErrInvalidConfig)
      | Some c \<Rightarrow>
          (let driver = defStr DriverMemory (normalizeDriver (qc_Driver (cf_Queue c)))
           in case map_of drivers driver of
                None \<Rightarrow>
                  Inl (Wrap (Error ErrDriverNotFound @ '': driver '' @ Quote driver @
                             '' is not registered (available: ['' @
                             Join (GetRegisteredDrivers drivers) '' '' @ ''])'')
                        ErrDriverNotFound)
              | Some factory \<Rightarrow> factory c))"

text \<open>\<open>NewQueue\<close> puts the queue section into a configuration that is zero otherwise.\<close>

definition NewQueue :: "Config \<Rightarrow> 'q registry \<Rightarrow> QueueConfig option \<Rightarrow> error + 'q" where
  "NewQueue zeroConfig drivers qCfg =
     (case qCfg of
        None \<Rightarrow> Inl (Wrap (Error ErrInvalidConfig @ '': queue config is nil'') ErrInvalidConfig)
      | Some q \<Rightarrow> New drivers (Some (zeroConfig\<lparr>cf_Queue := q\<rparr>)))"

definition registryWf :: "'q registry \<Rightarrow> bool" where
  "registryWf r \<longleftrightarrow> distinct (map fst r) \<and> (\<forall>k \<in> fst ` set r. k \<noteq> [])"

lemma Register_Ret:
  "Register d fo r = Ret r' \<longleftrightarrow>
     (\<exists>f. fo = Some f \<and> normalizeDriver d \<noteq> [] \<and> map_of r (normalizeDriver d) = None \<and>
          r' = (normalizeDriver d, f) # r)"
  by (auto simp: Register_def Let_def split: option.splits if_splits)

lemma Register_wf: "Register d fo r = Ret r' \<Longrightarrow> registryWf r \<Longrightarrow> registryWf r'"
  by (auto simp: Register_Ret registryWf_def map_of_eq_None_iff)

lemma Unregister_wf: "registryWf r \<Longrightarrow> registryWf (Unregister d r)"
  by (auto simp: registryWf_def Unregister_def distinct_map_filter)

lemma map_of_Unregister:
  "map_of (Unregister d r) k = (if k = normalizeDriver d then None else map_of r k)"
  by (induction r) (auto simp: Unregister_def)

lemma GetRegisteredDrivers_list:
  "sorted (GetRegisteredDrivers r)" "set (GetRegisteredDrivers r) = fst ` set r"
  "registryWf r \<Longrightarrow> distinct (GetRegisteredDrivers r)"
  by (simp_all add: GetRegisteredDrivers_def registryWf_def)

text \<open>
  After a successful \<open>Register\<close>, a configuration whose driver name folds
  and trims to the registered one is served by exactly that factory and every
  other driver by what served it before; the listing is sorted, has no
  duplicates and gains exactly the new name; registering the same name again
  panics and unregistering it makes it unknown again.
\<close>

theorem Register_New:
  assumes "registryWf r" and "Register d (Some f) r = Ret r'"
  shows "registryWf r' \<and>
    (\<forall>c. normalizeDriver (qc_Driver (cf_Queue c)) = normalizeDriver d \<longrightarrow> New r' (Some c) = f c) \<and>
    (\<forall>k. map_of r' k = (if k = normalizeDriver d then Some f else map_of r k)) \<and>
    sorted (GetRegisteredDrivers r') \<and> distinct (GetRegisteredDrivers r') \<and>
    set (GetRegisteredDrivers r') = insert (normalizeDriver d) (set (GetRegisteredDrivers r)) \<and>
    (\<forall>g. \<exists>p. Register d (Some g) r' = Panic p) \<and>
    \<not> IsDriverRegistered d (Unregister d r')"
proof -
  note r' = assms(2) [unfolded Register_Ret]
  have "registryWf r'"
    using Register_wf [OF assms(2,1)] .
  moreover from r' have "New r' (Some c) = f c"
    if "normalizeDriver (qc_Driver (cf_Queue c)) = normalizeDriver d" for c
    using that by (auto simp: New_def Let_def defStr_def)
  ultimately show ?thesis
    using r' by (auto simp: GetRegisteredDrivers_list Register_def IsDriverRegistered_def
        map_of_Unregister)
qed

theorem Register_New_witness:
  "New [(''kafka'', \<lambda>c. Inr (7 :: nat))]
     (Some (sampleConfig\<lparr>cf_Queue := sampleQueueConfig\<lparr>qc_Driver := '' KAFKA ''\<rparr>\<rparr>)) = Inr 7"
proof -
  have "normalizeDriver ''Kafka'' = ''kafka''"
    by code_simp
  then have "Register ''Kafka'' (Some (\<lambda>c. Inr 7)) [] = Ret [(''kafka'', \<lambda>c. Inr (7 :: nat))]"
    by (simp add: Register_def)
  moreover have "registryWf ([] :: nat registry)"
    by (simp add: registryWf_def)
  moreover have "normalizeDriver '' KAFKA '' = normalizeDriver ''Kafka''"
    by code_simp
  ultimately show ?thesis
    using Register_New [of "[]" "''Kafka''" "\<lambda>c. Inr (7 :: nat)" "[(''kafka'', \<lambda>c. Inr 7)]"] by simp
qed

end
