(* ===== verification/MemoryQueue.thy ===== *)
theory MemoryQueue
  imports GoChan QueueCore Registry
begin

text \<open>
  The in-memory queue, \<open>internal/queue/memory.go\<close>: its state, the producer
  (\<open>Publish\<close>, delayed publishes, \<open>PublishBatch\<close>), the consumer
  (\<open>processMessage\<close>, \<open>Receive\<close>) and \<open>Close\<close> as functions on the state,
  then the interleaving of any number of producers, workers and one \<open>Close\<close>
  as a step relation over these functions.
\<close>

section \<open>State\<close>

text \<open>
  The callbacks the consumer installs: the ack callback does nothing; the nack
  callback is the one of \<open>processMessage\<close> or the one of \<open>Receive\<close>.
\<close>

datatype memNack = ConsumeNack | ReceiveNack

type_synonym memMsg = "(unit, memNack) message"

text \<open>
  \<open>mq_pending\<close> are the goroutines of delayed publishes that have not ended,
  each with its clone of the message: the counter of \<open>delayedWg\<close> is its length.
\<close>

record memQueue =
  mq_name :: string
  mq_ch :: "memMsg chan"
  mq_cfg :: "Config option"
  mq_closed :: bool
  mq_consumersTotal :: int
  mq_inFlight :: int
  mq_totalPublished :: int
  mq_pending :: "memMsg list"

definition NewMemoryQueue :: "string \<Rightarrow> int \<Rightarrow> Config option \<Rightarrow> memQueue" where
  "NewMemoryQueue name bufferSize cfg =
     \<lparr>mq_name = defStr ''memory_default'' name, mq_ch = makeChan (nat (defPos 1024 bufferSize)),
      mq_cfg = cfg, mq_closed = False, mq_consumersTotal = 0, mq_inFlight = 0,
      mq_totalPublished = 0, mq_pending = []\<rparr>"

definition newMemoryQueue :: "Config option \<Rightarrow> memQueue" where
  "newMemoryQueue cfg =
     (let bufSize = (case cfg of
                       None \<Rightarrow> 1024
                     | Some c \<Rightarrow> if mm_BufferSize (qc_Memory (cf_Queue c)) > 0
                                then mm_BufferSize (qc_Memory (cf_Queue c)) else 1024)
      in NewMemoryQueue ''memory_default'' bufSize cfg)"

text \<open>\<open>Producer\<close>, \<open>Consumer\<close> and \<open>Ping\<close> only look at the flag.\<close>

definition mq_Producer :: "memQueue \<Rightarrow> error option" where
  "mq_Producer q = check (mq_closed q) ErrQueueClosed"

definition mq_Consumer :: "memQueue \<Rightarrow> error option" where
  "mq_Consumer q = check (mq_closed q) ErrQueueClosed"

definition mq_Ping :: "memQueue \<Rightarrow> error option" where
  "mq_Ping q = check (mq_closed q) ErrQueueClosed"

record Stats =
  st_Driver :: string
  st_Name :: string
  st_Ready :: int
  st_InFlight :: int
  st_Delayed :: int
  st_Total :: int
  st_Consumers :: int
  st_Extra :: "(string \<times> anyVal) list"

definition mq_Stats :: "memQueue \<Rightarrow> Stats" where
  "mq_Stats q =
     \<lparr>st_Driver = DriverMemory, st_Name = mq_name q, st_Ready = int (length (ch_buf (mq_ch q))),
      st_InFlight = mq_inFlight q, st_Delayed = 0, st_Total = mq_totalPublished q,
      st_Consumers = mq_consumersTotal q,
      st_Extra = [(''buffer_capacity'', AnyInt (int (ch_cap (mq_ch q)))),
                  (''closed'', AnyBool (mq_closed q))]\<rparr>"

definition drainTimeoutFromConfig :: "Config option \<Rightarrow> int" where
  "drainTimeoutFromConfig cfg =
     (case cfg of
        None \<Rightarrow> 30 * Second
      | Some c \<Rightarrow> if qc_DrainTimeout (cf_Queue c) > 0 then qc_DrainTimeout (cf_Queue c) else 30 * Second)"

section \<open>Producer\<close>

text \<open>
  \<open>sendMessage\<close>: \<open>None\<close> while the send blocks, otherwise whether it was
  accepted; the panic of a send on a closed channel is recovered.
\<close>

definition sendMessage :: "memMsg chan \<Rightarrow> memMsg \<Rightarrow> (bool \<times> memMsg chan) option" where
  "sendMessage ch m =
     (case chanSend ch m of
        SendOk ch' \<Rightarrow> Some (True, ch')
      | SendBlock \<Rightarrow> None
      | SendPanic \<Rightarrow> Some (False, ch))"

definition cloneMsg :: "memMsg \<Rightarrow> memMsg" where
  "cloneMsg m = the (Clone (Some m))"

text \<open>
  What \<open>Publish\<close> does to the caller's message before it is sent;
  \<open>inject\<close> is \<open>tracing.InjectHeaders\<close>.
\<close>

definition preparePublish ::
    "((string \<rightharpoonup> string) \<Rightarrow> (string \<rightharpoonup> string)) \<Rightarrow> string \<Rightarrow> PublishOptions \<Rightarrow> memMsg \<Rightarrow> memMsg" where
  "preparePublish inject name po m0 =
     (let m1 = (if po_Topic po \<noteq> [] then m0\<lparr>m_Topic := po_Topic po\<rparr>
                else if m_Topic m0 = [] then m0\<lparr>m_Topic := name\<rparr> else m0);
          m2 = (if po_Key po \<noteq> [] then m1\<lparr>m_Key := po_Key po\<rparr> else m1);
          m3 = (if po_Delay po > 0 then m2\<lparr>m_Delay := po_Delay po\<rparr> else m2);
          h0 = (case m_Headers m3 of None \<Rightarrow> Map.empty | Some h \<Rightarrow> h);
          h1 = (case po_Headers po of None \<Rightarrow> h0 | Some h \<Rightarrow> h0 ++ h)
      in m3\<lparr>m_Headers := Some (inject h1)\<rparr>)"

text \<open>
  \<open>publishItem\<close>: the closure that sends one clone. \<open>ctxErr\<close> is
  \<open>ctx.Err()\<close>. It reports the status it gives to \<open>ObserveQueuePublish\<close>;
  \<open>None\<close> while it blocks.
\<close>

definition publishItem ::
    "error option \<Rightarrow> memMsg \<Rightarrow> memQueue \<Rightarrow> ((error option \<times> string) \<times> memQueue) option" where
  "publishItem ctxErr m q =
     (case ctxErr of
        Some e \<Rightarrow> Some ((Some e, ''failed''), q)
      | None \<Rightarrow>
          (case sendMessage (mq_ch q) m of
             None \<Rightarrow> None
           | Some (False, ch) \<Rightarrow> Some ((Some ErrQueueClosed, ''failed''), q\<lparr>mq_ch := ch\<rparr>)
           | Some (True, ch) \<Rightarrow>
               Some ((None, ''success''),
                     q\<lparr>mq_ch := ch, mq_totalPublished := mq_totalPublished q + 1\<rparr>)))"

text \<open>The first part of \<open>Publish\<close>: an error, or the prepared message.\<close>

definition publishBegin ::
    "((string \<rightharpoonup> string) \<Rightarrow> (string \<rightharpoonup> string)) \<Rightarrow> memMsg option \<Rightarrow> PublishOption list \<Rightarrow>
     memQueue \<Rightarrow> error + memMsg" where
  "publishBegin inject msg opts q =
     (case msg of
        None \<Rightarrow> Inl ErrInvalidMessage
      | Some m \<Rightarrow>
          if mq_closed q then Inl ErrQueueClosed
          else Inr (preparePublish inject (mq_name q) (publishOptions opts) m))"

text \<open>
  \<open>Publish\<close> run without interleaving: the error, the caller's message
  afterwards and the queue; \<open>None\<close> while the send blocks. A positive delay
  starts a goroutine and returns at once.
\<close>

definition Publish ::
    "((string \<rightharpoonup> string) \<Rightarrow> (string \<rightharpoonup> string)) \<Rightarrow> error option \<Rightarrow> memMsg option \<Rightarrow>
     PublishOption list \<Rightarrow> memQueue \<Rightarrow> (error option \<times> memMsg option \<times> memQueue) option" where
  "Publish inject ctxErr msg opts q =
     (case publishBegin inject msg opts q of
        Inl e \<Rightarrow> Some (Some e, msg, q)
      | Inr m \<Rightarrow>
          if m_Delay m > 0 then
            Some (None, Some m, q\<lparr>mq_pending := mq_pending q @ [cloneMsg m]\<rparr>)
          else map_option (\<lambda>((e, _), q'). (e, Some m, q')) (publishItem ctxErr (cloneMsg m) q))"

text \<open>A delayed publish whose timer fires, or whose context ends first.\<close>

definition removeAt :: "nat \<Rightarrow> 'x list \<Rightarrow> 'x list" where
  "removeAt i xs = take i xs @ drop (Suc i) xs"

definition delayedFire :: "error option \<Rightarrow> nat \<Rightarrow> memQueue \<Rightarrow> memQueue option" where
  "delayedFire ctxErr i q =
     map_option (\<lambda>(_, q'). q'\<lparr>mq_pending := removeAt i (mq_pending q')\<rparr>)
       (publishItem ctxErr (mq_pending q ! i) q)"

definition delayedCancel :: "nat \<Rightarrow> memQueue \<Rightarrow> memQueue" where
  "delayedCancel i q = q\<lparr>mq_pending := removeAt i (mq_pending q)\<rparr>"

fun PublishBatch ::
    "((string \<rightharpoonup> string) \<Rightarrow> (string \<rightharpoonup> string)) \<Rightarrow> error option \<Rightarrow> memMsg option list \<Rightarrow>
     PublishOption list \<Rightarrow> memQueue \<Rightarrow> (error option \<times> memQueue) option" where
  "PublishBatch inject ctxErr [] opts q = Some (None, q)"
| "PublishBatch inject ctxErr (msg # msgs) opts q =
     (case Publish inject ctxErr msg opts q of
        None \<Rightarrow> None
      | Some (Some e, _, q') \<Rightarrow>
          Some (Some (Wrap (Error ErrPublishFailed @ '': '' @ Error e) ErrPublishFailed), q')
      | Some (None, _, q') \<Rightarrow> PublishBatch inject ctxErr msgs opts q')"

section \<open>Consumer\<close>

text \<open>
  The nack callbacks. Both send a clone of the message, which is already
  marked as acknowledged when the callback runs.
\<close>

definition nackRun :: "memNack \<Rightarrow> bool \<Rightarrow> memMsg \<Rightarrow> memQueue \<Rightarrow> (error option \<times> memQueue) option" where
  "nackRun f requeue m q =
     (if requeue then
        (let m' = (case f of
                     ConsumeNack \<Rightarrow> (cloneMsg m)\<lparr>m_Attempts := m_Attempts m + 1\<rparr>
                   | ReceiveNack \<Rightarrow> cloneMsg m)
         in map_option (\<lambda>(ok, ch). (if ok then None else Some ErrQueueClosed, q\<lparr>mq_ch := ch\<rparr>))
              (sendMessage (mq_ch q) m'))
      else Some (None, q))"

definition ackRun :: "unit \<Rightarrow> 'w \<Rightarrow> error option \<times> 'w" where
  "ackRun f w = (None, w)"

text \<open>
  The part of \<open>processMessage\<close> before the handler and the part after it. The
  handler runs on the message and the queue in between.
\<close>

definition processBegin :: "'mw ConsumeOptions \<Rightarrow> memMsg \<times> memQueue \<Rightarrow> memMsg \<times> memQueue" where
  "processBegin co s =
     (case s of (m, q) \<Rightarrow>
       (let q1 = q\<lparr>mq_inFlight := mq_inFlight q + 1\<rparr>;
            m1 = SetNackFunc (SetAckFunc m ()) ConsumeNack
        in if co_AutoAck co then snd (Ack ackRun m1 q1) else (m1, q1)))"

definition processEnd :: "error option \<Rightarrow> memMsg \<times> memQueue \<Rightarrow> memMsg \<times> memQueue" where
  "processEnd err s =
     (case s of (m, q) \<Rightarrow>
       (let (m1, q1) = (if err \<noteq> None \<and> \<not> IsAcknowledged m then snd (Ack ackRun m q)
                        else if err = None \<and> \<not> IsAcknowledged m then snd (Ack ackRun m q)
                        else (m, q))
        in (m1, q1\<lparr>mq_inFlight := mq_inFlight q1 - 1\<rparr>)))"

text \<open>A panic of the handler still runs the deferred decrement on its way up.\<close>

definition processMessage ::
    "(memMsg \<times> memQueue) handler \<Rightarrow> 'mw ConsumeOptions \<Rightarrow> memMsg \<times> memQueue \<Rightarrow>
     unit outcome \<times> memMsg \<times> memQueue" where
  "processMessage handler co s =
     (case handler (processBegin co s) of
        (Ret err, s') \<Rightarrow> (Ret (), processEnd err s')
      | (Panic p, (m, q)) \<Rightarrow> (Panic p, (m, q\<lparr>mq_inFlight := mq_inFlight q - 1\<rparr>)))"

text \<open>\<open>Consume\<close>: the number of workers, and the handler they run.\<close>

definition consumeConcurrency :: "'mw ConsumeOptions \<Rightarrow> memQueue \<Rightarrow> int" where
  "consumeConcurrency co q =
     (if co_Concurrency co > 0 then co_Concurrency co
      else case mq_cfg q of
             Some c \<Rightarrow> if qc_Concurrency (cf_Queue c) > 0 then qc_Concurrency (cf_Queue c) else 1
           | None \<Rightarrow> 1)"

definition consumeHandler ::
    "'s handler \<Rightarrow> 's middleware option ConsumeOptions \<Rightarrow> 's handler" where
  "consumeHandler handler co =
     (if co_Middlewares co \<noteq> [] then Chain (co_Middlewares co) handler else handler)"

text \<open>
  \<open>Receive\<close>: \<open>ready\<close> is the branch its select takes (a context error, the
  timer, or the channel); \<open>None\<close> when the channel branch is not ready.
\<close>

datatype receiveReady = CtxDone error | TimerFired | ChannelReady

definition receiveTimeout :: "ReceiveOption list \<Rightarrow> int" where
  "receiveTimeout opts =
     (let ro = receiveOptions opts in if ro_Timeout ro > 0 then ro_Timeout ro else 5 * Second)"

definition Receive :: "receiveReady \<Rightarrow> memQueue \<Rightarrow> ((error + memMsg) \<times> memQueue) option" where
  "Receive ready q =
     (case ready of
        CtxDone e \<Rightarrow> Some (Inl e, q)
      | TimerFired \<Rightarrow> Some (Inl ErrTimeout, q)
      | ChannelReady \<Rightarrow>
          (case chanRecv (mq_ch q) of
             RecvBlock \<Rightarrow> None
           | RecvClosed \<Rightarrow> Some (Inl ErrQueueClosed, q)
           | RecvVal m ch \<Rightarrow> Some (Inr (SetNackFunc (SetAckFunc m ()) ReceiveNack), q\<lparr>mq_ch := ch\<rparr>)))"

lemmas mq_defs = sendMessage_def publishItem_def publishBegin_def Publish_def nackRun_def
  processBegin_def processEnd_def processMessage_def Receive_def cloneMsg_def

section \<open>Lemmas on the operations\<close>

lemma sendMessage_True:
  "sendMessage ch m = Some (True, ch') \<Longrightarrow>
   ch_buf ch' = ch_buf ch @ [m] \<and> ch_cap ch' = ch_cap ch \<and> ch_closed ch' = ch_closed ch \<and>
   \<not> ch_closed ch \<and> (chanWf ch \<longrightarrow> chanWf ch')"
  using gochan.send_ok [of ch m ch'] gochan.send_wf [of ch m ch']
  by (auto simp: sendMessage_def split: sendResult.splits)

lemma sendMessage_False: "sendMessage ch m = Some (False, ch') \<longleftrightarrow> ch_closed ch \<and> ch' = ch"
  using gochan.send_panic [of ch m] by (auto simp: sendMessage_def split: sendResult.splits)

lemma publishItem_ok:
  assumes "publishItem ctxErr m q = Some ((e, st), q')"
  shows "(e = None \<and> st = ''success'' \<and> ctxErr = None \<and> (\<exists>ch. sendMessage (mq_ch q) m = Some (True, ch) \<and>
           q' = q\<lparr>mq_ch := ch, mq_totalPublished := mq_totalPublished q + 1\<rparr>)) \<or>
         (e \<noteq> None \<and> st = ''failed'' \<and> q' = q \<and> (e = ctxErr \<or> e = Some ErrQueueClosed \<and> ch_closed (mq_ch q)))"
proof (cases "ctxErr = None")
  case True
  then obtain ok ch where s: "sendMessage (mq_ch q) m = Some (ok, ch)"
    using assms by (auto simp: publishItem_def split: option.splits)
  then have "\<not> ok \<Longrightarrow> ch_closed (mq_ch q) \<and> ch = mq_ch q"
    by (simp add: sendMessage_False)
  then show ?thesis
    using assms True s by (cases ok) (auto simp: publishItem_def)
qed (use assms in \<open>auto simp: publishItem_def\<close>)

lemma nackRun_requeue:
  assumes "nackRun f True m q = Some (r, q')"
  shows "(r = None \<and> (\<exists>m' ch. m_acknowledged m' = m_acknowledged m \<and> m_ID m' = m_ID m \<and>
            sendMessage (mq_ch q) m' = Some (True, ch) \<and> q' = q\<lparr>mq_ch := ch\<rparr>)) \<or>
         (r = Some ErrQueueClosed \<and> ch_closed (mq_ch q) \<and> q' = q)"
proof -
  let ?m = "case f of ConsumeNack \<Rightarrow> (cloneMsg m)\<lparr>m_Attempts := m_Attempts m + 1\<rparr>
                    | ReceiveNack \<Rightarrow> cloneMsg m"
  have m: "m_acknowledged ?m = m_acknowledged m" "m_ID ?m = m_ID m"
    by (auto simp: cloneMsg_def Clone_def split: memNack.splits)
  obtain ok ch where s: "sendMessage (mq_ch q) ?m = Some (ok, ch)"
    and r: "r = (if ok then None else Some ErrQueueClosed)" "q' = q\<lparr>mq_ch := ch\<rparr>"
    using assms by (auto simp: nackRun_def Let_def)
  show ?thesis
  proof (cases ok)
    case True
    then show ?thesis
      using s r m by auto
  next
    case False
    with s have "ch_closed (mq_ch q) \<and> ch = mq_ch q"
      by (simp add: sendMessage_False)
    then show ?thesis
      using r False by simp
  qed
qed

lemma processBegin_queue [simp]:
  "snd (processBegin co (m, q)) = q\<lparr>mq_inFlight := mq_inFlight q + 1\<rparr>"
  by (simp add: processBegin_def settle_defs ackRun_def message_defs Let_def)

lemma processEnd_queue [simp]:
  "snd (processEnd err (m, q)) = q\<lparr>mq_inFlight := mq_inFlight q - 1\<rparr>"
  by (auto simp: processEnd_def settle_defs ackRun_def message_defs Let_def split: option.splits)

section \<open>Interleaving\<close>

text \<open>
  \<open>ys_sending\<close> are publishers past their checks that have not sent yet,
  \<open>ys_taken\<close> messages a worker received but does not count as in flight yet,
  \<open>ys_proc\<close> messages being handled. \<open>ys_accepted\<close>, \<open>ys_delivered\<close> and
  \<open>ys_done\<close> are history. \<open>Close\<close> runs once, in the phases of its body; its
  two waits may end at any time, since both have a timeout.
\<close>

datatype closePhase = NotCalled | Flagged | Drained | Waited | ChanClosed

record memSys =
  ys_q :: memQueue
  ys_sending :: "memMsg list"
  ys_taken :: "memMsg list"
  ys_proc :: "memMsg list"
  ys_accepted :: "memMsg list"
  ys_delivered :: "memMsg list"
  ys_done :: nat
  ys_close :: closePhase

definition memStart :: "memQueue \<Rightarrow> memSys" where
  "memStart q = \<lparr>ys_q = q, ys_sending = [], ys_taken = [], ys_proc = [], ys_accepted = [],
     ys_delivered = [], ys_done = 0, ys_close = NotCalled\<rparr>"

inductive mem_step :: "memSys \<Rightarrow> memSys \<Rightarrow> bool" where
  publish: "publishBegin inject msg opts (ys_q s) = Inr m \<Longrightarrow> \<not> m_Delay m > 0 \<Longrightarrow>
    mem_step s (s\<lparr>ys_sending := ys_sending s @ [cloneMsg m]\<rparr>)"
| publish_delayed: "publishBegin inject msg opts (ys_q s) = Inr m \<Longrightarrow> m_Delay m > 0 \<Longrightarrow>
    mem_step s (s\<lparr>ys_q := (ys_q s)\<lparr>mq_pending := mq_pending (ys_q s) @ [cloneMsg m]\<rparr>\<rparr>)"
| send: "i < length (ys_sending s) \<Longrightarrow>
    publishItem ctxErr (ys_sending s ! i) (ys_q s) = Some ((e, st), q') \<Longrightarrow>
    mem_step s (s\<lparr>ys_q := q', ys_sending := removeAt i (ys_sending s),
      ys_accepted := ys_accepted s @ (if e = None then [ys_sending s ! i] else [])\<rparr>)"
| delayed_fire: "i < length (mq_pending (ys_q s)) \<Longrightarrow>
    publishItem ctxErr (mq_pending (ys_q s) ! i) (ys_q s) = Some ((e, st), q') \<Longrightarrow>
    delayedFire ctxErr i (ys_q s) = Some q'' \<Longrightarrow>
    mem_step s (s\<lparr>ys_q := q'',
      ys_accepted := ys_accepted s @ (if e = None then [mq_pending (ys_q s) ! i] else [])\<rparr>)"
| delayed_cancel: "i < length (mq_pending (ys_q s)) \<Longrightarrow>
    mem_step s (s\<lparr>ys_q := delayedCancel i (ys_q s)\<rparr>)"
| worker_takes: "chanRecv (mq_ch (ys_q s)) = RecvVal m ch \<Longrightarrow>
    mem_step s (s\<lparr>ys_q := (ys_q s)\<lparr>mq_ch := ch\<rparr>, ys_taken := ys_taken s @ [m],
      ys_delivered := ys_delivered s @ [m]\<rparr>)"
| worker_begins: "i < length (ys_taken s) \<Longrightarrow> processBegin (co :: unit ConsumeOptions) (ys_taken s ! i, ys_q s) = (m, q') \<Longrightarrow>
    mem_step s (s\<lparr>ys_q := q', ys_taken := removeAt i (ys_taken s), ys_proc := ys_proc s @ [m]\<rparr>)"
| handler_requeues: "i < length (ys_proc s) \<Longrightarrow> nackBegin (ys_proc s ! i) = SettleInvoke f m \<Longrightarrow>
    nackRun f True m (ys_q s) = Some (r, q') \<Longrightarrow>
    mem_step s (s\<lparr>ys_q := q', ys_proc := (ys_proc s)[i := settleEnd r m],
      ys_accepted := ys_accepted s @ drop (length (ch_buf (mq_ch (ys_q s)))) (ch_buf (mq_ch q'))\<rparr>)"
| worker_ends: "i < length (ys_proc s) \<Longrightarrow> processEnd err (ys_proc s ! i, ys_q s) = (m, q') \<Longrightarrow>
    mem_step s (s\<lparr>ys_q := q', ys_proc := removeAt i (ys_proc s), ys_done := Suc (ys_done s)\<rparr>)"
| close_flags: "ys_close s = NotCalled \<Longrightarrow>
    mem_step s (s\<lparr>ys_q := (ys_q s)\<lparr>mq_closed := True\<rparr>, ys_close := Flagged\<rparr>)"
| close_drained: "ys_close s = Flagged \<Longrightarrow> mem_step s (s\<lparr>ys_close := Drained\<rparr>)"
| close_waited: "ys_close s = Drained \<Longrightarrow> mem_step s (s\<lparr>ys_close := Waited\<rparr>)"
| close_chan: "ys_close s = Waited \<Longrightarrow> chanClose (mq_ch (ys_q s)) = Ret ch \<Longrightarrow>
    mem_step s (s\<lparr>ys_q := (ys_q s)\<lparr>mq_ch := ch\<rparr>, ys_close := ChanClosed\<rparr>)"

inductive mem_reachable :: "memQueue \<Rightarrow> memSys \<Rightarrow> bool" for q0 where
  mem_init: "mem_reachable q0 (memStart q0)"
| mem_next: "mem_reachable q0 s \<Longrightarrow> mem_step s s' \<Longrightarrow> mem_reachable q0 s'"

definition mem_inv :: "nat \<Rightarrow> memSys \<Rightarrow> bool" where
  "mem_inv cap s \<longleftrightarrow>
     ys_accepted s = ys_delivered s @ ch_buf (mq_ch (ys_q s)) \<and>
     chanWf (mq_ch (ys_q s)) \<and> ch_cap (mq_ch (ys_q s)) = cap \<and>
     mq_inFlight (ys_q s) = int (length (ys_proc s)) \<and>
     length (ys_delivered s) = length (ys_taken s) + length (ys_proc s) + ys_done s \<and>
     mq_totalPublished (ys_q s) \<le> int (length (ys_accepted s)) \<and>
     (mq_closed (ys_q s) \<longleftrightarrow> ys_close s \<noteq> NotCalled) \<and>
     (ch_closed (mq_ch (ys_q s)) \<longleftrightarrow> ys_close s = ChanClosed)"

lemma length_removeAt [simp]: "i < length xs \<Longrightarrow> length (removeAt i xs) = length xs - 1"
  by (simp add: removeAt_def)

lemma mem_inv_start: "mem_inv (nat (defPos 1024 n)) (memStart (NewMemoryQueue name n cfg))"
  by (simp add: mem_inv_def memStart_def NewMemoryQueue_def)

text \<open>What one accepted or refused send does to the invariant.\<close>

lemma mem_inv_publishItem:
  assumes "mem_inv cap s" "publishItem ctxErr m (ys_q s) = Some ((e, st), q')"
  shows "mem_inv cap (s\<lparr>ys_q := q', ys_accepted := ys_accepted s @ (if e = None then [m] else [])\<rparr>)"
  using publishItem_ok [OF assms(2)]
proof (elim disjE conjE exE)
  fix ch
  assume "e = None" and send: "sendMessage (mq_ch (ys_q s)) m = Some (True, ch)"
    and "q' = (ys_q s)\<lparr>mq_ch := ch, mq_totalPublished := mq_totalPublished (ys_q s) + 1\<rparr>"
  then show ?thesis
    using assms(1) sendMessage_True [OF send] by (auto simp: mem_inv_def)
next
  assume "e \<noteq> None" "q' = ys_q s"
  then show ?thesis
    using assms(1) by (auto simp: mem_inv_def)
qed (use assms(1) in \<open>auto simp: mem_inv_def\<close>)

lemma mem_inv_cong:
  assumes "mem_inv cap s" "ys_accepted t = ys_accepted s" "ys_delivered t = ys_delivered s"
    "ys_taken t = ys_taken s" "ys_proc t = ys_proc s" "ys_done t = ys_done s"
    "ys_close t = ys_close s" "mq_ch (ys_q t) = mq_ch (ys_q s)"
    "mq_inFlight (ys_q t) = mq_inFlight (ys_q s)" "mq_closed (ys_q t) = mq_closed (ys_q s)"
    "mq_totalPublished (ys_q t) = mq_totalPublished (ys_q s)"
  shows "mem_inv cap t"
  using assms(1) unfolding mem_inv_def assms(2-) .

lemma mem_step_inv: "mem_step s s' \<Longrightarrow> mem_inv cap s \<Longrightarrow> mem_inv cap s'"
proof (induction rule: mem_step.induct)
  case (send i s ctxErr e st q')
  show ?case
    by (rule mem_inv_cong [OF mem_inv_publishItem [OF send(3,2)]]) simp_all
next
  case (delayed_fire i s ctxErr e st q' q'')
  have "q'' = q'\<lparr>mq_pending := removeAt i (mq_pending q')\<rparr>"
    using delayed_fire(2,3) by (simp add: delayedFire_def)
  then show ?case
    by (intro mem_inv_cong [OF mem_inv_publishItem [OF delayed_fire(4,2)]]) simp_all
next
  case (worker_takes s m ch)
  then show ?case
    using gochan.recv_val [OF worker_takes(1)] gochan.recv_wf [OF _ worker_takes(1)]
    by (auto simp: mem_inv_def)
next
  case (worker_begins i s co m q')
  have "q' = (ys_q s)\<lparr>mq_inFlight := mq_inFlight (ys_q s) + 1\<rparr>"
    using worker_begins(2) processBegin_queue [of co "ys_taken s ! i" "ys_q s"] by simp
  then show ?case
    using worker_begins by (auto simp: mem_inv_def)
next
  case (handler_requeues i s f m r q')
  from nackRun_requeue [OF handler_requeues(3)] show ?case
    using handler_requeues(4) by (auto simp: mem_inv_def dest: sendMessage_True)
next
  case (worker_ends i s err m q')
  have "q' = (ys_q s)\<lparr>mq_inFlight := mq_inFlight (ys_q s) - 1\<rparr>"
    using worker_ends(2) processEnd_queue [of err "ys_proc s ! i" "ys_q s"] by simp
  then show ?case
    using worker_ends by (auto simp: mem_inv_def of_nat_diff)
next
  case (close_chan s ch)
  then show ?case
    using gochan.close_ok [OF close_chan(2)] gochan.close_wf [OF _ close_chan(2)]
    by (auto simp: mem_inv_def)
qed (auto simp: mem_inv_def delayedCancel_def)

lemma mem_reachable_inv:
  "mem_reachable q0 s \<Longrightarrow> mem_inv cap (memStart q0) \<Longrightarrow> mem_inv cap s"
  by (induction rule: mem_reachable.induct) (auto dest: mem_step_inv)

section \<open>Properties\<close>


definition sampleMsg :: memMsg where
  "sampleMsg = NewMessageWithID ''u1'' 0 ''m1'' ''hello''"

lemma mem_reachable_sample:
  "mem_reachable (NewMemoryQueue [] 2 None)
     ((memStart (NewMemoryQueue [] 2 None))\<lparr>
        ys_q := (NewMemoryQueue [] 2 None)\<lparr>
          mq_ch := (makeChan 2)\<lparr>ch_buf := [sampleMsg\<lparr>m_Topic := ''memory_default''\<rparr>]\<rparr>, mq_totalPublished := 1\<rparr>,
        ys_accepted := [sampleMsg\<lparr>m_Topic := ''memory_default''\<rparr>]\<rparr>)"
proof -
  let ?q = "NewMemoryQueue [] 2 None" and ?m = "sampleMsg\<lparr>m_Topic := ''memory_default''\<rparr>"
  note unf = NewMemoryQueue_def defStr_def defPos_def sampleMsg_def message_defs cloneMsg_def
  have "publishBegin (\<lambda>h. h) (Some sampleMsg) [] (ys_q (memStart ?q)) = Inr ?m"
    by (simp add: publishBegin_def preparePublish_def publishOptions_def zeroPublishOptions_def
        memStart_def unf)
  moreover have "cloneMsg ?m = ?m" "\<not> m_Delay ?m > 0"
    by (simp_all add: unf)
  ultimately have "mem_step (memStart ?q) ((memStart ?q)\<lparr>ys_sending := [?m]\<rparr>)"
    using mem_step.publish [of "\<lambda>h. h" "Some sampleMsg" "[]" "memStart ?q" ?m]
    by (simp add: memStart_def)
  then have one: "mem_reachable ?q ((memStart ?q)\<lparr>ys_sending := [?m]\<rparr>)"
    by (rule mem_next [OF mem_init])
  have "publishItem None ?m ?q = Some ((None, ''success''),
      ?q\<lparr>mq_ch := (makeChan 2)\<lparr>ch_buf := [?m]\<rparr>, mq_totalPublished := 1\<rparr>)"
    by (simp add: publishItem_def sendMessage_def chan_defs unf)
  then have "mem_step ((memStart ?q)\<lparr>ys_sending := [?m]\<rparr>) ((memStart ?q)\<lparr>
        ys_q := ?q\<lparr>mq_ch := (makeChan 2)\<lparr>ch_buf := [?m]\<rparr>, mq_totalPublished := 1\<rparr>,
        ys_accepted := [?m]\<rparr>)"
    using mem_step.send [of 0 "(memStart ?q)\<lparr>ys_sending := [?m]\<rparr>" None]
    by (simp add: memStart_def removeAt_def)
  then show ?thesis
    by (rule mem_next [OF one])
qed


text \<open>
  \<open>Publish\<close> without a delay: a nil message and a closed queue are
  refused and change nothing; a success puts exactly one message at the end of
  the buffer, with the caller's ID, payload and attempts, the chosen topic, and
  counts it; every other outcome leaves the buffer and the counter alone; the
  call blocks only while the buffer is full.
\<close>

theorem Publish_outcomes:
  assumes "chanWf (mq_ch q)" "\<not> m_Delay (preparePublish inject (mq_name q) (publishOptions opts) m) > 0"
  shows "Publish inject ctxErr None opts q = Some (Some ErrInvalidMessage, None, q) \<and>
    (mq_closed q \<longrightarrow> Publish inject ctxErr (Some m) opts q = Some (Some ErrQueueClosed, Some m, q)) \<and>
    (\<not> mq_closed q \<longrightarrow>
       (case Publish inject ctxErr (Some m) opts q of
          None \<Rightarrow> ctxErr = None \<and> \<not> ch_closed (mq_ch q) \<and> length (ch_buf (mq_ch q)) = ch_cap (mq_ch q)
        | Some (e, mo, q') \<Rightarrow>
            (if e = None then
               \<exists>m'. ch_buf (mq_ch q') = ch_buf (mq_ch q) @ [m'] \<and>
                 mq_totalPublished q' = mq_totalPublished q + 1 \<and>
                 m_ID m' = m_ID m \<and> m_Payload m' = m_Payload m \<and> m_Attempts m' = m_Attempts m \<and>
                 m_Topic m' = (if po_Topic (publishOptions opts) \<noteq> [] then po_Topic (publishOptions opts)
                               else if m_Topic m = [] then mq_name q else m_Topic m)
             else q' = q \<and> (e = ctxErr \<or> e = Some ErrQueueClosed \<and> ch_closed (mq_ch q)))))"
proof -
  let ?m = "preparePublish inject (mq_name q) (publishOptions opts) m"
  have fields: "m_ID (cloneMsg ?m) = m_ID m" "m_Payload (cloneMsg ?m) = m_Payload m"
    "m_Attempts (cloneMsg ?m) = m_Attempts m"
    "m_Topic (cloneMsg ?m) = (if po_Topic (publishOptions opts) \<noteq> [] then po_Topic (publishOptions opts)
                               else if m_Topic m = [] then mq_name q else m_Topic m)"
    by (simp_all add: cloneMsg_def Clone_def preparePublish_def Let_def)
  have "case publishItem ctxErr (cloneMsg ?m) q of
          None \<Rightarrow> ctxErr = None \<and> \<not> ch_closed (mq_ch q) \<and> length (ch_buf (mq_ch q)) = ch_cap (mq_ch q)
        | Some ((e, st), q') \<Rightarrow>
            (if e = None then ch_buf (mq_ch q') = ch_buf (mq_ch q) @ [cloneMsg ?m] \<and>
                 mq_totalPublished q' = mq_totalPublished q + 1
             else q' = q \<and> (e = ctxErr \<or> e = Some ErrQueueClosed \<and> ch_closed (mq_ch q)))"
  proof (cases "publishItem ctxErr (cloneMsg ?m) q")
    case None
    then show ?thesis
      using gochan.send_block [OF assms(1)]
      by (auto simp: publishItem_def sendMessage_def split: option.splits sendResult.splits bool.splits)
  next
    case (Some r)
    obtain e st q' where r: "r = ((e, st), q')"
      by (metis prod.exhaust)
    from publishItem_ok [OF Some [unfolded r]] show ?thesis
      unfolding Some r by (auto dest: sendMessage_True)
  qed
  then show ?thesis
    using assms(2) fields
    by (auto simp: Publish_def publishBegin_def split: option.splits if_splits intro!: exI)
qed

theorem Publish_outcomes_witness:
  "Publish (\<lambda>h. h) None None [] (NewMemoryQueue [] 2 None) =
     Some (Some ErrInvalidMessage, None, NewMemoryQueue [] 2 None)"
proof -
  have "chanWf (mq_ch (NewMemoryQueue [] 2 None))"
    by (simp add: NewMemoryQueue_def)
  moreover have "\<not> m_Delay (preparePublish (\<lambda>h. h) (mq_name (NewMemoryQueue [] 2 None))
      (publishOptions []) sampleMsg) > 0"
    by (simp add: preparePublish_def publishOptions_def zeroPublishOptions_def sampleMsg_def
        message_defs)
  ultimately show ?thesis
    using Publish_outcomes by blast
qed

text \<open>
  What a worker does with one message: it is settled afterwards whatever
  the handler returned, and the in-flight counter is what it was. In particular
  a handler error does not bring the message back.
\<close>

theorem processMessage_settles:
  assumes "\<And>s. mq_inFlight (snd (snd (handler s))) = mq_inFlight (snd s)"
    and "\<And>s. m_ackFn (fst (snd (handler s))) = m_ackFn (fst s)"
    and "processMessage handler co (m, q) = (Ret u, m', q')"
  shows "IsAcknowledged m' \<and> mq_inFlight q' = mq_inFlight q"
proof -
  let ?s = "processBegin co (m, q)"
  have ack: "m_ackFn (fst ?s) = Some ()" and infl: "mq_inFlight (snd ?s) = mq_inFlight q + 1"
    by (simp_all add: processBegin_def settle_defs ackRun_def message_defs Let_def)
  obtain err m1 q1 where h: "handler ?s = (Ret err, m1, q1)" and e: "(m', q') = processEnd err (m1, q1)"
    using assms(3) by (auto simp: processMessage_def split: prod.splits outcome.splits)
  have "m_ackFn m1 = Some ()" "mq_inFlight q1 = mq_inFlight q + 1"
    using assms(1,2) [of ?s] h ack infl by simp_all
  then show ?thesis
    using e by (auto simp: processEnd_def settle_defs ackRun_def message_defs Let_def split: if_splits)
qed

theorem processMessage_settles_witness:
  "IsAcknowledged (fst (processEnd (Some (Err ''boom'')) (processBegin
     (zeroConsumeOptions :: unit ConsumeOptions) (sampleMsg, NewMemoryQueue [] 2 None))))"
proof -
  let ?h = "\<lambda>s. (Ret (Some (Err ''boom'')), s)" and ?co = "zeroConsumeOptions :: unit ConsumeOptions"
  let ?s = "(sampleMsg, NewMemoryQueue [] 2 None)"
  have "processMessage ?h ?co ?s = (Ret (), processEnd (Some (Err ''boom'')) (processBegin ?co ?s))"
    by (simp add: processMessage_def)
  then show ?thesis
    using processMessage_settles [of ?h ?co sampleMsg "NewMemoryQueue [] 2 None" "()"
        "fst (processEnd (Some (Err ''boom'')) (processBegin ?co ?s))"
        "snd (processEnd (Some (Err ''boom'')) (processBegin ?co ?s))"]
    by simp
qed

text \<open>
  A message that a handler nacks with requeue comes back already marked as
  acknowledged: when its next delivery is nacked again, \<open>Nack\<close> returns nil
  without running the callback, so the message is not requeued a second time.
\<close>

theorem requeued_once_only:
  assumes "nackBegin m = SettleInvoke f m1"
    and "nackRun f True m1 q = Some (None, q')"
  shows "\<exists>m2. ch_buf (mq_ch q') = ch_buf (mq_ch q) @ [m2] \<and> m_ID m2 = m_ID m \<and>
    nackBegin (fst (processBegin co (m2, q''))) = SettleReturn None"
proof -
  have m1: "m_acknowledged m1" "m_ID m1 = m_ID m"
    using assms(1) by (auto simp: settle_defs split: option.splits if_splits)
  obtain m2 ch where m2: "m_acknowledged m2 = m_acknowledged m1" "m_ID m2 = m_ID m1"
    and s: "sendMessage (mq_ch q) m2 = Some (True, ch)" "q' = q\<lparr>mq_ch := ch\<rparr>"
    using nackRun_requeue [OF assms(2)] by auto
  have "nackBegin (fst (processBegin co (m2, q''))) = SettleReturn None"
    using m1 m2 by (simp add: processBegin_def settle_defs message_defs Let_def)
  then show ?thesis
    using m1 m2 s sendMessage_True [OF s(1)] by auto
qed

theorem requeued_once_only_witness:
  "\<exists>m2. nackBegin (fst (processBegin (zeroConsumeOptions :: unit ConsumeOptions) (m2, NewMemoryQueue [] 2 None))) =
     SettleReturn None"
proof -
  let ?q = "NewMemoryQueue [] 2 None"
  let ?m = "SetNackFunc sampleMsg ConsumeNack"
  have "nackBegin ?m = SettleInvoke ConsumeNack (?m\<lparr>m_acknowledged := True\<rparr>)"
    by (simp add: settle_defs message_defs sampleMsg_def)
  moreover have "\<exists>q'. nackRun ConsumeNack True (?m\<lparr>m_acknowledged := True\<rparr>) ?q = Some (None, q')"
    by (simp add: nackRun_def sendMessage_def chan_defs NewMemoryQueue_def defPos_def Let_def)
  ultimately show ?thesis
    using requeued_once_only by metis
qed

end
