(* ===== verification/DriverCore.thy ===== *)
theory DriverCore
  imports MemoryQueue "HOL-Library.Multiset"
begin

text \<open>
  What the broker drivers under \<open>internal/queue/driver\<close> have in common. Each
  of them keeps its configuration and a closed flag (\<open>drvQueue\<close>) and the
  embedded counters of \<open>common.BaseStats\<close>, which the operations here take
  and return next to the client state; copies options and headers in the same way; and runs
  the same protocol around the handler: count the message as in flight, set
  its callbacks, acknowledge it at once if asked to, run the handler, and
  acknowledge it afterwards unless it is settled. The client library and its
  broker are a state \<open>'w\<close> and functions on it. The locale
  \<open>broker_worker\<close> is the contract of that protocol; the drivers interpret it.
\<close>

section \<open>Queue state and options\<close>

record 'c drvQueue =
  dq_cfg :: Config
  dq_section :: 'c
  dq_closed :: bool

text \<open>\<open>Producer\<close>, \<open>Consumer\<close> and \<open>Ping\<close> of a driver look at the flag first.\<close>

definition drvOpen :: "('c, 'x) drvQueue_scheme \<Rightarrow> error option" where
  "drvOpen q = check (dq_closed q) ErrQueueClosed"

definition zeroStats :: BaseStats where
  "zeroStats = \<lparr>bs_InFlight = 0, bs_TotalSent = 0, bs_ActiveCons = 0\<rparr>"

text \<open>The two errors of a context.\<close>

abbreviation ctxDeadlineExceeded :: error where "ctxDeadlineExceeded \<equiv> Err ''context deadline exceeded''"
abbreviation ctxCanceled :: error where "ctxCanceled \<equiv> Err ''context canceled''"

text \<open>The checks every \<open>New\<close> starts with.\<close>

definition openSection ::
    "string \<Rightarrow> error \<Rightarrow> (QueueConfig \<Rightarrow> 'c) \<Rightarrow> ('c \<Rightarrow> error option) \<Rightarrow> Config option \<Rightarrow> error + (Config \<times> 'c)" where
  "openSection name nilErr section validate cfg =
     (case cfg of
        None \<Rightarrow> Inl (Wrap (Error nilErr @ '': config is nil'') nilErr)
      | Some c \<Rightarrow>
          (case validate (section (cf_Queue c)) of
             Some e \<Rightarrow> Inl (Wrap (name @ '': config validation failed: '' @ Error e) e)
           | None \<Rightarrow> Inr (c, section (cf_Queue c))))"

text \<open>The number of workers, the topic of a publish, and the headers it sends.\<close>

definition drvConcurrency :: "'mw ConsumeOptions \<Rightarrow> Config \<Rightarrow> int" where
  "drvConcurrency co cfg =
     (if co_Concurrency co > 0 then co_Concurrency co
      else if qc_Concurrency (cf_Queue cfg) > 0 then qc_Concurrency (cf_Queue cfg)
      else 1)"

definition publishTopic :: "string \<Rightarrow> PublishOptions \<Rightarrow> ('a, 'n) message \<Rightarrow> string" where
  "publishTopic own po m =
     (if po_Topic po \<noteq> [] then po_Topic po else if m_Topic m \<noteq> [] then m_Topic m else own)"

definition headerMap :: "(string \<rightharpoonup> string) option \<Rightarrow> (string \<rightharpoonup> string)" where
  "headerMap h = (case h of None \<Rightarrow> Map.empty | Some m \<Rightarrow> m)"

definition mergeHeaders :: "PublishOptions \<Rightarrow> ('a, 'n) message \<Rightarrow> (string \<rightharpoonup> string)" where
  "mergeHeaders po m = headerMap (m_Headers m) ++ headerMap (po_Headers po)"

text \<open>\<open>enum h\<close> is the order in which a range loop visits the map \<open>h\<close>.\<close>

definition enumerates :: "((string \<rightharpoonup> string) \<Rightarrow> (string \<times> string) list) \<Rightarrow> (string \<rightharpoonup> string) \<Rightarrow> bool" where
  "enumerates enum h \<longleftrightarrow> distinct (map fst (enum h)) \<and> map_of (enum h) = h"

text \<open>The chain of consume middlewares around the handler, as every \<open>Consume\<close> builds it.\<close>

definition drvHandler :: "'s handler \<Rightarrow> 's middleware option ConsumeOptions \<Rightarrow> 's handler" where
  "drvHandler handler co = (if co_Middlewares co \<noteq> [] then Chain (co_Middlewares co) handler else handler)"

text \<open>
  \<open>buildTLSConfig\<close>, which the Kafka, RabbitMQ and NATS drivers have the same
  copy of; \<open>readFile\<close> and \<open>loadPair\<close> are \<open>os.ReadFile\<close> and
  \<open>tls.LoadX509KeyPair\<close>. \<open>tc_RootCAs\<close> is the PEM text given to the pool.
\<close>

record 'cert tlsClient =
  tc_InsecureSkipVerify :: bool
  tc_ServerName :: string
  tc_RootCAs :: "string option"
  tc_Certificates :: "'cert list"

definition buildTLSConfig ::
    "(string \<Rightarrow> error + string) \<Rightarrow> (string \<Rightarrow> string \<Rightarrow> error + 'cert) \<Rightarrow> TLSConfig \<Rightarrow> error + 'cert tlsClient" where
  "buildTLSConfig readFile loadPair cfg =
     (let base = \<lparr>tc_InsecureSkipVerify = tls_InsecureSkipVerify cfg, tc_ServerName = tls_ServerName cfg,
                  tc_RootCAs = None, tc_Certificates = []\<rparr>
      in case (if tls_CAFile cfg \<noteq> [] then
                 (case readFile (tls_CAFile cfg) of
                    Inl e \<Rightarrow> Inl (Wrap (''read ca file failed: '' @ Error e) e)
                  | Inr pem \<Rightarrow> Inr (base\<lparr>tc_RootCAs := Some pem\<rparr>))
               else Inr base) of
           Inl e \<Rightarrow> Inl e
         | Inr t \<Rightarrow>
             if tls_CertFile cfg \<noteq> [] \<and> tls_KeyFile cfg \<noteq> [] then
               (case loadPair (tls_CertFile cfg) (tls_KeyFile cfg) of
                  Inl e \<Rightarrow> Inl (Wrap (''load cert/key failed: '' @ Error e) e)
                | Inr cert \<Rightarrow> Inr (t\<lparr>tc_Certificates := [cert]\<rparr>))
             else Inr t)"

definition publishFailed :: "error \<Rightarrow> error" where
  "publishFailed e = Wrap (Error ErrPublishFailed @ '': '' @ Error e) ErrPublishFailed"

text \<open>\<open>PublishBatch\<close> of six drivers: one publish after the other, up to the first error.\<close>

fun publishBatch :: "('m \<Rightarrow> 's \<Rightarrow> error option \<times> 's) \<Rightarrow> 'm list \<Rightarrow> 's \<Rightarrow> error option \<times> 's" where
  "publishBatch publish [] s = (None, s)"
| "publishBatch publish (m # ms) s =
     (case publish m s of
        (Some e, s') \<Rightarrow> (Some e, s')
      | (None, s') \<Rightarrow> publishBatch publish ms s')"

section \<open>One delivery\<close>

type_synonym ('a, 'n, 'w) delivery = "('a, 'n) message \<times> BaseStats \<times> 'w"

definition ackDelivery :: "('a \<Rightarrow> 'w \<Rightarrow> error option \<times> 'w) \<Rightarrow> ('a, 'n, 'w) delivery \<Rightarrow> ('a, 'n, 'w) delivery" where
  "ackDelivery run s = (case s of (m, b, w) \<Rightarrow> (case Ack run m w of (_, m', w') \<Rightarrow> (m', b, w')))"

definition deliverBegin ::
    "('a \<Rightarrow> 'w \<Rightarrow> error option \<times> 'w) \<Rightarrow> bool \<Rightarrow> ('a, 'n) message \<Rightarrow> BaseStats \<times> 'w \<Rightarrow> ('a, 'n, 'w) delivery" where
  "deliverBegin run autoAck m s =
     (case s of (b, w) \<Rightarrow>
        if autoAck then ackDelivery run (m, IncInFlight b, w) else (m, IncInFlight b, w))"

definition deliverEnd ::
    "('a \<Rightarrow> 'w \<Rightarrow> error option \<times> 'w) \<Rightarrow> error option \<Rightarrow> ('a, 'n, 'w) delivery \<Rightarrow> ('a, 'n, 'w) delivery" where
  "deliverEnd run err s =
     (let (m, b, w) = (if err = None \<and> \<not> IsAcknowledged (fst s) then ackDelivery run s
                       else if err \<noteq> None \<and> \<not> IsAcknowledged (fst s) then ackDelivery run s
                       else s)
      in (m, DecInFlight b, w))"

text \<open>
  The receive loop of one worker, over what its polls return: the context
  ends, a poll times out without an error worth waiting for, a poll fails
  (with the context alive or not, and the back-off timer or the context
  ending the wait), or messages arrive.
\<close>

datatype 'd fetch = CtxEnds | FetchEmpty | FetchErr bool bool | Fetched "'d list"

datatype loopEnd = LoopRunning | LoopReturned | LoopPanicked string

fun workerRun :: "('d \<Rightarrow> 's \<Rightarrow> unit outcome \<times> 's) \<Rightarrow> 'd list \<Rightarrow> 's \<Rightarrow> unit outcome \<times> 's" where
  "workerRun process [] s = (Ret (), s)"
| "workerRun process (d # ds) s =
     (case process d s of
        (Ret _, s') \<Rightarrow> workerRun process ds s'
      | (Panic p, s') \<Rightarrow> (Panic p, s'))"

fun receiveLoop ::
    "('d \<Rightarrow> 's \<Rightarrow> unit outcome \<times> 's) \<Rightarrow> (int \<Rightarrow> int) \<Rightarrow> 'd fetch list \<Rightarrow> Backoff \<times> 's \<Rightarrow> loopEnd \<times> Backoff \<times> 's" where
  "receiveLoop process rnd [] (bo, s) = (LoopRunning, bo, s)"
| "receiveLoop process rnd (CtxEnds # es) (bo, s) = (LoopReturned, bo, s)"
| "receiveLoop process rnd (FetchEmpty # es) (bo, s) = receiveLoop process rnd es (bo, s)"
| "receiveLoop process rnd (FetchErr ctxErr fired # es) (bo, s) =
     (if ctxErr then (LoopReturned, bo, s)
      else case Wait False (\<lambda>_. fired) rnd bo of
             (True, bo') \<Rightarrow> receiveLoop process rnd es (bo', s)
           | (False, bo') \<Rightarrow> (LoopReturned, bo', s))"
| "receiveLoop process rnd (Fetched ds # es) (bo, s) =
     (case workerRun process ds s of
        (Ret _, s') \<Rightarrow> receiveLoop process rnd es (bo, s')
      | (Panic p, s') \<Rightarrow> (LoopPanicked p, bo, s'))"

section \<open>Any number of workers\<close>

text \<open>
  The workers of one queue share its counters and the broker. \<open>wp_proc\<close> are
  the messages being handled, each with the broker message its callbacks
  close over. \<open>wp_taken\<close>, \<open>wp_settled\<close> and \<open>wp_failed\<close> are history: the
  broker messages handed to a worker, those one of whose callbacks returned
  nil, and those whose last acknowledgement returned an error.
\<close>

record ('d, 'n, 'w) workers =
  wp_stats :: BaseStats
  wp_world :: 'w
  wp_proc :: "(('d, 'n) message \<times> 'd) list"
  wp_taken :: "'d list"
  wp_settled :: "'d list"
  wp_failed :: "'d list"

definition noWorkers :: "BaseStats \<times> 'w \<Rightarrow> ('d, 'n, 'w) workers" where
  "noWorkers s = \<lparr>wp_stats = fst s, wp_world = snd s, wp_proc = [], wp_taken = [], wp_settled = [], wp_failed = []\<rparr>"

inductive worker_step ::
    "nat \<Rightarrow> ('d \<Rightarrow> BaseStats \<times> 'w \<Rightarrow> ('d, 'n, 'w) delivery) \<Rightarrow>
     (error option \<Rightarrow> ('d, 'n, 'w) delivery \<Rightarrow> ('d, 'n, 'w) delivery) \<Rightarrow>
     ('d \<Rightarrow> 'w \<Rightarrow> error option \<times> 'w) \<Rightarrow>
     ('n \<Rightarrow> bool \<Rightarrow> ('d, 'n) message \<Rightarrow> 'w \<Rightarrow> error option \<times> 'w) \<Rightarrow>
     ('d, 'n, 'w) workers \<Rightarrow> ('d, 'n, 'w) workers \<Rightarrow> bool"
  for n beg fin ack nack where
  takes: "length (wp_proc s) < n \<Longrightarrow> beg d (wp_stats s, wp_world s) = (m, b, w) \<Longrightarrow>
    worker_step n beg fin ack nack s (s\<lparr>wp_stats := b, wp_world := w, wp_proc := wp_proc s @ [(m, d)],
      wp_taken := wp_taken s @ [d], wp_settled := wp_settled s @ (if IsAcknowledged m then [d] else [])\<rparr>)"
| handler_works: "worker_step n beg fin ack nack s (s\<lparr>wp_world := w\<rparr>)"
| handler_acks: "i < length (wp_proc s) \<Longrightarrow> wp_proc s ! i = (m, d) \<Longrightarrow> Ack ack m (wp_world s) = (r, m', w) \<Longrightarrow>
    worker_step n beg fin ack nack s (s\<lparr>wp_world := w, wp_proc := (wp_proc s)[i := (m', d)],
      wp_settled := wp_settled s @ (if \<not> IsAcknowledged m \<and> IsAcknowledged m' then [d] else [])\<rparr>)"
| handler_nacks: "i < length (wp_proc s) \<Longrightarrow> wp_proc s ! i = (m, d) \<Longrightarrow> Nack nack m requeue (wp_world s) = (r, m', w) \<Longrightarrow>
    worker_step n beg fin ack nack s (s\<lparr>wp_world := w, wp_proc := (wp_proc s)[i := (m', d)],
      wp_settled := wp_settled s @ (if \<not> IsAcknowledged m \<and> IsAcknowledged m' then [d] else [])\<rparr>)"
| returns: "i < length (wp_proc s) \<Longrightarrow> wp_proc s ! i = (m, d) \<Longrightarrow> fin err (m, wp_stats s, wp_world s) = (m', b, w) \<Longrightarrow>
    worker_step n beg fin ack nack s (s\<lparr>wp_stats := b, wp_world := w, wp_proc := removeAt i (wp_proc s),
      wp_settled := wp_settled s @ (if \<not> IsAcknowledged m \<and> IsAcknowledged m' then [d] else []),
      wp_failed := wp_failed s @ (if \<not> IsAcknowledged m \<and> fst (ack d (wp_world s)) \<noteq> None then [d] else [])\<rparr>)"

inductive workers_reachable ::
    "nat \<Rightarrow> ('d \<Rightarrow> BaseStats \<times> 'w \<Rightarrow> ('d, 'n, 'w) delivery) \<Rightarrow>
     (error option \<Rightarrow> ('d, 'n, 'w) delivery \<Rightarrow> ('d, 'n, 'w) delivery) \<Rightarrow>
     ('d \<Rightarrow> 'w \<Rightarrow> error option \<times> 'w) \<Rightarrow>
     ('n \<Rightarrow> bool \<Rightarrow> ('d, 'n) message \<Rightarrow> 'w \<Rightarrow> error option \<times> 'w) \<Rightarrow>
     BaseStats \<times> 'w \<Rightarrow> ('d, 'n, 'w) workers \<Rightarrow> bool"
  for n beg fin ack nack s0 where
  workers_init: "workers_reachable n beg fin ack nack s0 (noWorkers s0)"
| workers_next: "workers_reachable n beg fin ack nack s0 s \<Longrightarrow> worker_step n beg fin ack nack s s' \<Longrightarrow>
    workers_reachable n beg fin ack nack s0 s'"

text \<open>
  The in-flight counter is exact, and every message a worker got is settled
  once, or its last acknowledgement failed, or it is still being handled.
\<close>

definition unsettled :: "('d, 'n, 'w) workers \<Rightarrow> 'd multiset" where
  "unsettled s = mset (map snd (filter (\<lambda>(m, d). \<not> IsAcknowledged m) (wp_proc s)))"

definition workers_inv :: "nat \<Rightarrow> BaseStats \<Rightarrow> ('d, 'n, 'w) workers \<Rightarrow> bool" where
  "workers_inv n b0 s \<longleftrightarrow>
     length (wp_proc s) \<le> n \<and>
     wp_stats s = b0\<lparr>bs_InFlight := bs_InFlight b0 + int (length (wp_proc s))\<rparr> \<and>
     mset (wp_taken s) = mset (wp_settled s) + mset (wp_failed s) + unsettled s"

text \<open>
  \<open>Consume\<close> counts its \<open>n\<close> workers, lets them run until the context ends
  and returns when none of them handles a message any more.
\<close>

definition consumes ::
    "nat \<Rightarrow> ('d \<Rightarrow> BaseStats \<times> 'w \<Rightarrow> ('d, 'n, 'w) delivery) \<Rightarrow>
     (error option \<Rightarrow> ('d, 'n, 'w) delivery \<Rightarrow> ('d, 'n, 'w) delivery) \<Rightarrow>
     ('d \<Rightarrow> 'w \<Rightarrow> error option \<times> 'w) \<Rightarrow>
     ('n \<Rightarrow> bool \<Rightarrow> ('d, 'n) message \<Rightarrow> 'w \<Rightarrow> error option \<times> 'w) \<Rightarrow>
     BaseStats \<times> 'w \<Rightarrow> BaseStats \<times> 'w \<Rightarrow> bool" where
  "consumes n beg fin ack nack s s' \<longleftrightarrow>
     (\<exists>ws. workers_reachable n beg fin ack nack (IncActiveCons (int n) (fst s), snd s) ws \<and> wp_proc ws = [] \<and>
        s' = (DecActiveCons (int n) (wp_stats ws), wp_world ws))"

definition workersExact ::
    "nat \<Rightarrow> ('d \<Rightarrow> BaseStats \<times> 'w \<Rightarrow> ('d, 'n, 'w) delivery) \<Rightarrow>
     (error option \<Rightarrow> ('d, 'n, 'w) delivery \<Rightarrow> ('d, 'n, 'w) delivery) \<Rightarrow>
     ('d \<Rightarrow> 'w \<Rightarrow> error option \<times> 'w) \<Rightarrow>
     ('n \<Rightarrow> bool \<Rightarrow> ('d, 'n) message \<Rightarrow> 'w \<Rightarrow> error option \<times> 'w) \<Rightarrow> bool" where
  "workersExact n beg fin ack nack \<longleftrightarrow>
     (\<forall>b w s. workers_reachable n beg fin ack nack (b, w) s \<longrightarrow> workers_inv n b s)"

section \<open>The contract of a driver's worker\<close>

locale broker_worker =
  fixes beg :: "'d \<Rightarrow> BaseStats \<times> 'w \<Rightarrow> ('d, 'n, 'w) delivery"
    and fin :: "error option \<Rightarrow> ('d, 'n, 'w) delivery \<Rightarrow> ('d, 'n, 'w) delivery"
    and ack :: "'d \<Rightarrow> 'w \<Rightarrow> error option \<times> 'w"
    and nack :: "'n \<Rightarrow> bool \<Rightarrow> ('d, 'n) message \<Rightarrow> 'w \<Rightarrow> error option \<times> 'w"
  assumes beg_counts: "beg d (b, w) = (m, b', w') \<Longrightarrow> b' = IncInFlight b"
    and beg_ackFn: "beg d (b, w) = (m, b', w') \<Longrightarrow> m_ackFn m = Some d"
    and fin_counts: "fin err (m, b, w) = (m', b', w') \<Longrightarrow> b' = DecInFlight b"
    and fin_settled: "IsAcknowledged m \<Longrightarrow> fin err (m, b, w) = (m', b', w') \<Longrightarrow> w' = w"
    and fin_acks: "\<not> IsAcknowledged m \<Longrightarrow> m_ackFn m = Some d \<Longrightarrow> fin err (m, b, w) = (m', b', w') \<Longrightarrow>
      (IsAcknowledged m' \<longleftrightarrow> fst (ack d w) = None) \<and> w' = snd (ack d w)"

text \<open>Facts on the messages in progress that the proofs inside the locale share.\<close>

definition openIn :: "(('d, 'n) message \<times> 'd) list \<Rightarrow> 'd multiset" where
  "openIn ps = mset (map snd (filter (\<lambda>(m, d). \<not> IsAcknowledged m) ps))"

lemma unsettled_openIn: "unsettled s = openIn (wp_proc s)"
  by (simp add: unsettled_def openIn_def)

lemma openIn_append [simp]: "openIn (ps @ qs) = openIn ps + openIn qs"
  by (simp add: openIn_def)

lemma openIn_single [simp]: "openIn [(m, d)] = (if IsAcknowledged m then {#} else {#d#})"
  by (simp add: openIn_def)

lemma openIn_Nil [simp]: "openIn [] = {#}"
  by (simp add: openIn_def)

lemma openIn_removeAt:
  assumes "i < length ps" "ps ! i = (m, d)"
  shows "openIn ps = openIn (removeAt i ps) + (if IsAcknowledged m then {#} else {#d#})"
proof -
  have "ps = take i ps @ [(m, d)] @ drop (Suc i) ps"
    using assms id_take_nth_drop [of i ps] by simp
  then have "openIn ps = openIn (take i ps) + openIn [(m, d)] + openIn (drop (Suc i) ps)"
    by (metis openIn_append union_assoc)
  then show ?thesis
    by (simp add: removeAt_def)
qed

lemma removeAt_update: "removeAt i (ps[i := p]) = removeAt i ps"
  by (simp add: removeAt_def)

lemma set_removeAt: "set (removeAt i xs) \<subseteq> set xs"
  using set_take_subset [of i xs] set_drop_subset [of "Suc i" xs] by (auto simp: removeAt_def)

lemma openIn_update:
  assumes "i < length ps" "ps ! i = (m, d)" "IsAcknowledged m \<Longrightarrow> IsAcknowledged m'"
  shows "openIn ps = openIn (ps[i := (m', d)]) + (if \<not> IsAcknowledged m \<and> IsAcknowledged m' then {#d#} else {#})"
  using openIn_removeAt [OF assms(1,2)] openIn_removeAt [of i "ps[i := (m', d)]" m' d] assms
  by (auto simp: removeAt_update)

lemma settle_keeps:
  "Ack ack m w = (r, m', w') \<Longrightarrow> m_ackFn m' = m_ackFn m \<and> (IsAcknowledged m \<longrightarrow> IsAcknowledged m')"
  "Nack nack m q w = (r, m', w') \<Longrightarrow> m_ackFn m' = m_ackFn m \<and> (IsAcknowledged m \<longrightarrow> IsAcknowledged m')"
  by (auto simp: settle_defs IsAcknowledged_def split: mb_splits)

definition owned :: "('d, 'n, 'w) workers \<Rightarrow> bool" where
  "owned s \<longleftrightarrow> (\<forall>(m, d) \<in> set (wp_proc s). m_ackFn m = Some d)"

lemma owned_update:
  "owned s \<Longrightarrow> i < length (wp_proc s) \<Longrightarrow> wp_proc s ! i = (m, d) \<Longrightarrow> m_ackFn m' = m_ackFn m \<Longrightarrow>
   wp_proc s' = (wp_proc s)[i := (m', d)] \<Longrightarrow> owned s'"
  unfolding owned_def by (auto dest!: set_update_subset_insert [THEN subsetD] nth_mem)

context broker_worker
begin

lemma step_inv:
  assumes "worker_step n beg fin ack nack s s'" "workers_inv n b0 s" "owned s"
  shows "workers_inv n b0 s' \<and> owned s'"
  using assms
proof (cases rule: worker_step.cases)
  case (takes d m b w)
  then show ?thesis
    using assms(2,3) beg_counts [OF takes(3)] beg_ackFn [OF takes(3)] takes(2)
    by (simp add: workers_inv_def unsettled_openIn IncInFlight_def owned_def)
next
  case (handler_works w)
  then show ?thesis
    using assms(2,3) by (simp add: workers_inv_def unsettled_def owned_def)
next
  case (handler_acks i m d r m' w)
  have keeps: "m_ackFn m' = m_ackFn m" "IsAcknowledged m \<Longrightarrow> IsAcknowledged m'"
    using settle_keeps(1) [OF handler_acks(4)] by simp_all
  show ?thesis
    using assms(2,3) openIn_update [OF handler_acks(2,3) keeps(2)] owned_update [OF assms(3) handler_acks(2,3) keeps(1), of s']
    by (simp add: handler_acks(1) workers_inv_def unsettled_openIn)
next
  case (handler_nacks i m d q r m' w)
  have keeps: "m_ackFn m' = m_ackFn m" "IsAcknowledged m \<Longrightarrow> IsAcknowledged m'"
    using settle_keeps(2) [OF handler_nacks(4)] by simp_all
  show ?thesis
    using assms(2,3) openIn_update [OF handler_nacks(2,3) keeps(2)] owned_update [OF assms(3) handler_nacks(2,3) keeps(1), of s']
    by (simp add: handler_nacks(1) workers_inv_def unsettled_openIn)
next
  case (returns i m d err m' b w)
  have fn: "m_ackFn m = Some d"
    using assms(3) returns(2,3) nth_mem unfolding owned_def by fastforce
  have b: "b = DecInFlight (wp_stats s)"
    using fin_counts [OF returns(4)] .
  have acked: "\<not> IsAcknowledged m \<Longrightarrow> IsAcknowledged m' \<longleftrightarrow> fst (ack d (wp_world s)) = None"
    using fin_acks [OF _ fn returns(4)] by simp
  have "owned s'"
    using assms(3) set_removeAt [of i "wp_proc s"] by (auto simp: owned_def returns(1))
  moreover have "workers_inv n b0 s'"
    using assms(2) b acked openIn_removeAt [OF returns(2,3)] returns(2)
    by (auto simp: returns(1) workers_inv_def unsettled_openIn DecInFlight_def)
  ultimately show ?thesis
    by simp
qed

lemma workers_exact: "workersExact n beg fin ack nack"
proof -
  have "workers_inv n b s \<and> owned s" if "workers_reachable n beg fin ack nack (b, w) s" for b w s
    using that
  proof (induction rule: workers_reachable.induct)
    case workers_init
    show ?case
      by (simp add: noWorkers_def workers_inv_def unsettled_def owned_def)
  next
    case (workers_next s s')
    then show ?case
      using step_inv by blast
  qed
  then show ?thesis
    unfolding workersExact_def by blast
qed

lemma consumes_restores: "consumes n beg fin ack nack s s' \<Longrightarrow> fst s' = fst s"
  using workers_exact [of n]
  by (cases s) (force simp: workersExact_def consumes_def workers_inv_def IncActiveCons_def DecActiveCons_def)

end

section \<open>The worker loop\<close>

text \<open>
  A driver's \<open>processMessage\<close> runs the handler between the two halves; a panic
  passes the deferred decrement. With a handler that always returns and leaves
  the driver's counters alone, no worker dies: every loop ends with its context.
\<close>

definition returning :: "('a, 'n, 'w) delivery handler \<Rightarrow> bool" where
  "returning h \<longleftrightarrow> (\<forall>m b w. \<exists>e m' w'. h (m, b, w) = (Ret e, m', b, w'))"

locale broker_process = broker_worker beg fin ack nack
  for beg :: "'d \<Rightarrow> BaseStats \<times> 'w \<Rightarrow> ('d, 'n, 'w) delivery"
    and fin :: "error option \<Rightarrow> ('d, 'n, 'w) delivery \<Rightarrow> ('d, 'n, 'w) delivery"
    and ack :: "'d \<Rightarrow> 'w \<Rightarrow> error option \<times> 'w"
    and nack :: "'n \<Rightarrow> bool \<Rightarrow> ('d, 'n) message \<Rightarrow> 'w \<Rightarrow> error option \<times> 'w" +
  fixes process :: "('d, 'n, 'w) delivery handler \<Rightarrow> 'd \<Rightarrow> BaseStats \<times> 'w \<Rightarrow> unit outcome \<times> BaseStats \<times> 'w"
  assumes process_ret: "h (beg d s) = (Ret err, s') \<Longrightarrow> process h d s = (Ret (), snd (fin err s'))"
    and process_panic: "h (beg d s) = (Panic p, (m, b, w)) \<Longrightarrow> process h d s = (Panic p, DecInFlight b, w)"
begin

lemma process_returns:
  assumes "returning h"
  shows "\<exists>w'. process h d (b, w) = (Ret (), b, w')"
proof -
  obtain m b1 w1 where beg: "beg d (b, w) = (m, b1, w1)"
    by (metis surj_pair)
  obtain e m2 w2 where h: "h (m, b1, w1) = (Ret e, m2, b1, w2)"
    using assms unfolding returning_def by blast
  obtain m3 b3 w3 where fin: "fin e (m2, b1, w2) = (m3, b3, w3)"
    by (metis surj_pair)
  have "b3 = b"
    using beg_counts [OF beg] fin_counts [OF fin] by (simp add: IncInFlight_def DecInFlight_def)
  then show ?thesis
    using process_ret [of h d "(b, w)" e "(m2, b1, w2)"] beg h fin by simp
qed

lemma worker_returns:
  assumes "returning h"
  shows "\<exists>w'. workerRun (process h) ds (b, w) = (Ret (), b, w')"
proof (induction ds arbitrary: w)
  case (Cons d ds)
  then show ?case
    using process_returns [OF assms, of d b w] by fastforce
qed simp

lemma loop_ends:
  assumes "returning h"
  shows "\<exists>bo' w'. receiveLoop (process h) rnd (es @ [CtxEnds]) (bo, b, w) = (LoopReturned, bo', b, w')"
proof (induction es arbitrary: bo w)
  case (Cons e es)
  show ?case
  proof (cases e)
    case (Fetched ds)
    then show ?thesis
      using Cons.IH worker_returns [OF assms, of ds b w] by fastforce
  next
    case (FetchErr c f)
    obtain ok bo' where "Wait False (\<lambda>_. f) rnd bo = (ok, bo')"
      by fastforce
    then show ?thesis
      using Cons.IH FetchErr by (cases ok) auto
  qed (use Cons.IH in auto)
qed simp

text \<open>An error of the handler does not keep the message at the broker: it is acknowledged all the same.\<close>

lemma error_acknowledges:
  assumes "h (beg d (b, w)) = (Ret (Some e), m, b1, w1)" "m_ackFn m = Some d" "\<not> IsAcknowledged m"
  shows "\<exists>b'. process h d (b, w) = (Ret (), b', snd (ack d w1))"
proof -
  obtain m3 b3 w3 where fin: "fin (Some e) (m, b1, w1) = (m3, b3, w3)"
    by (metis surj_pair)
  then show ?thesis
    using process_ret [of h d "(b, w)" "Some e" "(m, b1, w1)"] assms(1) fin_acks [OF assms(3,2) fin] by simp
qed

end

section \<open>The contract of a producer\<close>

text \<open>
  \<open>send\<close> hands one message to the client library; a publish counts the
  message exactly when that succeeded. \<open>sendAll\<close> is the reference for a
  batch: how many messages were accepted, and the error that ended it.
\<close>

fun sendAll ::
    "(('a, 'n) message \<Rightarrow> 'w \<Rightarrow> error option \<times> 'w) \<Rightarrow> ('a, 'n) message option list \<Rightarrow> 'w \<Rightarrow> nat \<times> error option \<times> 'w" where
  "sendAll send [] w = (0, None, w)"
| "sendAll send (None # ms) w = (0, Some ErrInvalidMessage, w)"
| "sendAll send (Some m # ms) w =
     (case send m w of
        (Some e, w') \<Rightarrow> (0, Some (publishFailed e), w')
      | (None, w') \<Rightarrow> (case sendAll send ms w' of (k, e, w'') \<Rightarrow> (Suc k, e, w'')))"

lemma sendAll_complete:
  "sendAll send ms w = (k, e, w') \<Longrightarrow> k \<le> length ms \<and> (e = None \<longleftrightarrow> k = length ms)"
  by (induction send ms w arbitrary: k e w' rule: sendAll.induct) (auto split: prod.splits option.splits)

locale broker_producer =
  fixes publish :: "('a, 'n) message option \<Rightarrow> BaseStats \<times> 'w \<Rightarrow> error option \<times> BaseStats \<times> 'w"
    and send :: "('a, 'n) message \<Rightarrow> 'w \<Rightarrow> error option \<times> 'w"
  assumes publish_nil: "publish None s = (Some ErrInvalidMessage, s)"
    and publish_ok: "send m w = (None, w') \<Longrightarrow> publish (Some m) (b, w) = (None, IncTotalSent 1 b, w')"
    and publish_err: "send m w = (Some e, w') \<Longrightarrow> publish (Some m) (b, w) = (Some (publishFailed e), b, w')"
begin

lemma batch_sendAll:
  "publishBatch publish ms (b, w) = (case sendAll send ms w of (k, e, w') \<Rightarrow> (e, IncTotalSent (int k) b, w'))"
proof (induction ms arbitrary: b w)
  case Nil
  show ?case
    by (simp add: IncTotalSent_def)
next
  case (Cons mo ms)
  show ?case
  proof (cases mo)
    case None
    then show ?thesis
      by (simp add: publish_nil IncTotalSent_def)
  next
    case (Some m)
    obtain r w' where s: "send m w = (r, w')"
      by fastforce
    show ?thesis
    proof (cases r)
      case None
      then show ?thesis
        using s Some Cons.IH [of "IncTotalSent 1 b" w'] publish_ok [of m w w' b]
        by (auto simp: IncTotalSent_def split: prod.splits)
    next
      case (Some e)
      then show ?thesis
        using s \<open>mo = Some m\<close> publish_err [of m w e w' b] by (simp add: IncTotalSent_def)
    qed
  qed
qed

end

section \<open>The contract of closing\<close>

locale closable_queue =
  fixes close :: "'q \<times> 'w \<Rightarrow> error option \<times> 'q \<times> 'w"
    and refuses :: "'q \<Rightarrow> bool"
  assumes close_refuses: "close (q, w) = (r, q', w') \<Longrightarrow> refuses q'"
    and close_again: "refuses q \<Longrightarrow> close (q, w) = (None, q, w)"
begin

lemma close_twice: "close (q, w) = (r, q', w') \<Longrightarrow> refuses q' \<and> close (q', v) = (None, q', v)"
  using close_refuses close_again by blast

end

section \<open>The shared protocol meets the contract\<close>

lemma deliverBegin_counts: "deliverBegin run auto m (b, w) = (m', b', w') \<Longrightarrow> b' = IncInFlight b"
  by (auto simp: deliverBegin_def ackDelivery_def split: if_splits prod.splits)

lemma deliverBegin_ackFn: "deliverBegin run auto m (b, w) = (m', b', w') \<Longrightarrow> m_ackFn m' = m_ackFn m"
  by (auto simp: deliverBegin_def ackDelivery_def split: if_splits prod.splits dest: settle_keeps)

lemma deliverEnd_counts: "deliverEnd run err (m, b, w) = (m', b', w') \<Longrightarrow> b' = DecInFlight b"
  by (auto simp: deliverEnd_def ackDelivery_def Let_def split: if_splits prod.splits)

lemma deliverEnd_settled: "IsAcknowledged m \<Longrightarrow> deliverEnd run err (m, b, w) = (m', b', w') \<Longrightarrow> w' = w"
  by (auto simp: deliverEnd_def)

lemma Ack_open:
  "\<not> IsAcknowledged m \<Longrightarrow> m_ackFn m = Some d \<Longrightarrow> Ack run m w = (r, m', w') \<Longrightarrow>
   run d w = (r, w') \<and> (IsAcknowledged m' \<longleftrightarrow> r = None)"
  by (auto simp: settle_defs IsAcknowledged_def split: prod.splits option.splits)

lemma deliverEnd_acks:
  assumes "\<not> IsAcknowledged m" "m_ackFn m = Some d" "deliverEnd run err (m, b, w) = (m', b', w')"
  shows "(IsAcknowledged m' \<longleftrightarrow> fst (run d w) = None) \<and> w' = snd (run d w)"
proof -
  obtain r m1 w1 where a: "Ack run m w = (r, m1, w1)"
    by (metis surj_pair)
  then have "m' = m1" "w' = w1"
    using assms(1,3) by (cases err; auto simp: deliverEnd_def ackDelivery_def Let_def)+
  then show ?thesis
    using Ack_open [OF assms(1,2) a] by simp
qed

lemmas deliver_contract = deliverBegin_counts deliverBegin_ackFn deliverEnd_counts deliverEnd_settled deliverEnd_acks

lemma drvConcurrency_pos [simp]: "0 < drvConcurrency co cfg"
  by (simp add: drvConcurrency_def)

end
