(* ===== verification/KafkaDriver.thy ===== *)
theory KafkaDriver
  imports DriverCore
begin

text \<open>
  The Kafka driver, \<open>internal/queue/driver/kafka/kafka.go\<close>. The client
  library (writer, reader, dialer) is the record \<open>kafkaClient\<close> of functions
  on its state \<open>'w\<close>. Section order: transport, queue, producer, consumer.
\<close>

section \<open>Client\<close>

record kafkaMsg =
  km_Topic :: string
  km_Partition :: int
  km_Offset :: int
  km_Key :: string
  km_Value :: string
  km_Headers :: "(string \<times> string) list"
  km_Time :: "int option"

datatype saslMechanism = SaslPlain string string | SaslScram string string string

record 'cert kafkaDialer =
  kd_TLS :: "'cert tlsClient option"
  kd_SASL :: "saslMechanism option"
  kd_ClientID :: string

datatype kafkaOffset = FirstOffset | LastOffset

record 'cert kafkaReader =
  kr_Brokers :: "string list"
  kr_GroupID :: string
  kr_Topic :: string
  kr_Dialer :: "'cert kafkaDialer"
  kr_StartOffset :: kafkaOffset
  kr_CommitInterval :: int

record ('cert, 'w) kafkaClient =
  kc_WriteMessages :: "kafkaMsg list \<Rightarrow> 'w \<Rightarrow> error option \<times> 'w"
  kc_CommitMessages :: "kafkaMsg \<Rightarrow> 'w \<Rightarrow> error option \<times> 'w"
  kc_FetchMessage :: "'cert kafkaReader \<Rightarrow> int \<Rightarrow> 'w \<Rightarrow> (error + kafkaMsg) \<times> 'w"
  kc_readerClose :: "'cert kafkaReader \<Rightarrow> 'w \<Rightarrow> 'w"
  kc_writerClose :: "'w \<Rightarrow> error option \<times> 'w"
  kc_writerStats :: "'w \<Rightarrow> int \<times> int \<times> int"
  kc_DialContext :: "string \<Rightarrow> 'w \<Rightarrow> error option \<times> 'w"

section \<open>Transport\<close>

text \<open>The mechanism is chosen by its trimmed upper-case name; \<open>scramErr\<close> is the error of \<open>scram.Mechanism\<close>.\<close>

definition kafkaMechanism ::
    "(string \<Rightarrow> string \<Rightarrow> string \<Rightarrow> error option) \<Rightarrow> KafkaSASLConfig \<Rightarrow> error + saslMechanism option" where
  "kafkaMechanism scramErr c =
     (if \<not> ks_Enable c then Inr None
      else let mech = ToUpper (TrimSpace (ks_Mechanism c)) in
        if mech = ''PLAIN'' \<or> mech = [] then Inr (Some (SaslPlain (ks_User c) (ks_Password c)))
        else if mech = ''SCRAM-SHA-256'' then
          (case scramErr ''SHA256'' (ks_User c) (ks_Password c) of
             Some e \<Rightarrow> Inl (Wrap (''kafka: scram-sha-256 error: '' @ Error e) e)
           | None \<Rightarrow> Inr (Some (SaslScram ''SHA256'' (ks_User c) (ks_Password c))))
        else if mech = ''SCRAM-SHA-512'' then
          (case scramErr ''SHA512'' (ks_User c) (ks_Password c) of
             Some e \<Rightarrow> Inl (Wrap (''kafka: scram-sha-512 error: '' @ Error e) e)
           | None \<Rightarrow> Inr (Some (SaslScram ''SHA512'' (ks_User c) (ks_Password c))))
        else Inl (Err (''kafka: unsupported SASL mechanism '' @ Quote (ks_Mechanism c))))"

text \<open>The dialer and the transport get the same TLS settings, mechanism and client id.\<close>

definition setupKafkaTransport ::
    "(TLSConfig \<Rightarrow> error + 'cert tlsClient) \<Rightarrow> (string \<Rightarrow> string \<Rightarrow> string \<Rightarrow> error option) \<Rightarrow>
     KafkaConfig \<Rightarrow> error + 'cert kafkaDialer" where
  "setupKafkaTransport tlsOf scramErr c =
     (case (if tls_Enable (kf_TLS c) then map_sum id Some (tlsOf (kf_TLS c)) else Inr None) of
        Inl e \<Rightarrow> Inl e
      | Inr tls \<Rightarrow>
          (case kafkaMechanism scramErr (kf_SASL c) of
             Inl e \<Rightarrow> Inl e
           | Inr mech \<Rightarrow> Inr \<lparr>kd_TLS = tls, kd_SASL = mech, kd_ClientID = kf_ClientID c\<rparr>))"

section \<open>Queue\<close>

record 'cert kafkaQueue = "KafkaConfig drvQueue" +
  kq_dialer :: "'cert kafkaDialer"

definition kafka_New ::
    "(TLSConfig \<Rightarrow> error + 'cert tlsClient) \<Rightarrow> (string \<Rightarrow> string \<Rightarrow> string \<Rightarrow> error option) \<Rightarrow>
     Config option \<Rightarrow> error + 'cert kafkaQueue" where
  "kafka_New tlsOf scramErr cfg =
     (case openSection ''kafka'' ErrInvalidConfig qc_Kafka KafkaConfig_Validate cfg of
        Inl e \<Rightarrow> Inl e
      | Inr (c, k) \<Rightarrow>
          (case setupKafkaTransport tlsOf scramErr k of
             Inl e \<Rightarrow> Inl (Wrap (''kafka: setup transport failed: '' @ Error e) e)
           | Inr dialer \<Rightarrow> Inr \<lparr>dq_cfg = c, dq_section = k, dq_closed = False, kq_dialer = dialer\<rparr>))"

definition kafka_Name :: "'cert kafkaQueue \<Rightarrow> string" where
  "kafka_Name q = kf_Topic (dq_section q)"

definition kafka_Producer :: "'cert kafkaQueue \<Rightarrow> error option" where
  "kafka_Producer q = drvOpen q"

definition kafka_Consumer :: "'cert kafkaQueue \<Rightarrow> error option" where
  "kafka_Consumer q = drvOpen q"

definition kafka_Ping :: "('cert, 'w) kafkaClient \<Rightarrow> 'cert kafkaQueue \<Rightarrow> 'w \<Rightarrow> error option \<times> 'w" where
  "kafka_Ping cl q w =
     (case drvOpen q of
        Some e \<Rightarrow> (Some e, w)
      | None \<Rightarrow>
          (case kf_Brokers (dq_section q) of
             [] \<Rightarrow> (Some (Err ''kafka: no brokers configured''), w)
           | b # _ \<Rightarrow>
               (case kc_DialContext cl b w of
                  (Some e, w') \<Rightarrow> (Some (Wrap (''kafka: ping broker failed: '' @ Error e) e), w')
                | (None, w') \<Rightarrow> (None, w'))))"

definition kafka_Stats ::
    "('cert, 'w) kafkaClient \<Rightarrow> 'cert kafkaQueue \<Rightarrow> BaseStats \<times> 'w \<Rightarrow> error + Stats" where
  "kafka_Stats cl q s =
     (case drvOpen q of
        Some e \<Rightarrow> Inl e
      | None \<Rightarrow>
          (let (writes, messages, errors) = kc_writerStats cl (snd s);
               (inFlight, totalSent, consumers) = Snapshot (fst s)
           in Inr \<lparr>st_Driver = DriverKafka, st_Name = kf_Topic (dq_section q), st_Ready = 0,
                   st_InFlight = inFlight, st_Delayed = 0, st_Total = totalSent, st_Consumers = consumers,
                   st_Extra = [(''group_id'', AnyString (kf_GroupID (dq_section q))), (''writer_writes'', AnyInt writes),
                               (''writer_messages'', AnyInt messages), (''writer_errors'', AnyInt errors)]\<rparr>))"

definition kafka_Close ::
    "('cert, 'w) kafkaClient \<Rightarrow> 'cert kafkaQueue \<times> 'w \<Rightarrow> error option \<times> 'cert kafkaQueue \<times> 'w" where
  "kafka_Close cl s =
     (case s of (q, w) \<Rightarrow>
        if dq_closed q then (None, q, w)
        else case kc_writerClose cl w of (r, w') \<Rightarrow> (r, q\<lparr>dq_closed := True\<rparr>, w'))"

section \<open>Producer\<close>

text \<open>\<open>enum\<close> is the order of the range loops over the header maps.\<close>

definition kafkaRecord ::
    "((string \<rightharpoonup> string) \<Rightarrow> (string \<times> string) list) \<Rightarrow> string \<Rightarrow> PublishOptions \<Rightarrow> (kafkaMsg, unit) message \<Rightarrow> kafkaMsg" where
  "kafkaRecord enum topic po m =
     \<lparr>km_Topic = publishTopic topic po m, km_Partition = 0, km_Offset = 0,
      km_Key = (if po_Key po \<noteq> [] then po_Key po else m_Key m), km_Value = m_Payload m,
      km_Headers = enum (headerMap (m_Headers m)) @ enum (headerMap (po_Headers po)) @
        (if m_ID m \<noteq> [] then [(''X-Message-ID'', m_ID m)] else []),
      km_Time = m_Timestamp m\<rparr>"

definition kafka_Publish ::
    "('cert, 'w) kafkaClient \<Rightarrow> ((string \<rightharpoonup> string) \<Rightarrow> (string \<times> string) list) \<Rightarrow> 'cert kafkaQueue \<Rightarrow>
     PublishOption list \<Rightarrow> (kafkaMsg, unit) message option \<Rightarrow> BaseStats \<times> 'w \<Rightarrow> error option \<times> BaseStats \<times> 'w" where
  "kafka_Publish cl enum q opts msg s =
     (case msg of
        None \<Rightarrow> (Some ErrInvalidMessage, s)
      | Some m \<Rightarrow>
          (case kc_WriteMessages cl [kafkaRecord enum (kf_Topic (dq_section q)) (publishOptions opts) m] (snd s) of
             (Some e, w') \<Rightarrow> (Some (publishFailed e), fst s, w')
           | (None, w') \<Rightarrow> (None, IncTotalSent 1 (fst s), w')))"

text \<open>
  \<open>PublishBatch\<close> skips nil messages and writes the others in one call; it
  sets neither the key of the options nor the identifier header.
\<close>

definition kafkaBatchRecord ::
    "((string \<rightharpoonup> string) \<Rightarrow> (string \<times> string) list) \<Rightarrow> string \<Rightarrow> PublishOptions \<Rightarrow> (kafkaMsg, unit) message \<Rightarrow> kafkaMsg" where
  "kafkaBatchRecord enum topic po m =
     \<lparr>km_Topic = publishTopic topic po m, km_Partition = 0, km_Offset = 0, km_Key = m_Key m, km_Value = m_Payload m,
      km_Headers = enum (headerMap (m_Headers m)) @ enum (headerMap (po_Headers po)), km_Time = m_Timestamp m\<rparr>"

definition kafka_PublishBatch ::
    "('cert, 'w) kafkaClient \<Rightarrow> ((string \<rightharpoonup> string) \<Rightarrow> (string \<times> string) list) \<Rightarrow> 'cert kafkaQueue \<Rightarrow>
     PublishOption list \<Rightarrow> (kafkaMsg, unit) message option list \<Rightarrow> BaseStats \<times> 'w \<Rightarrow> error option \<times> BaseStats \<times> 'w" where
  "kafka_PublishBatch cl enum q opts msgs s =
     (let kMsgs = map (kafkaBatchRecord enum (kf_Topic (dq_section q)) (publishOptions opts)) (List.map_filter id msgs)
      in case kc_WriteMessages cl kMsgs (snd s) of
           (Some e, w') \<Rightarrow> (Some (publishFailed e), fst s, w')
         | (None, w') \<Rightarrow> (None, IncTotalSent (int (length kMsgs)) (fst s), w'))"

section \<open>Consumer\<close>

text \<open>The header loop builds the map and remembers the last identifier it saw.\<close>

definition kafkaHeaders :: "(string \<times> string) list \<Rightarrow> (string \<rightharpoonup> string) \<times> string" where
  "kafkaHeaders hs =
     fold (\<lambda>(k, v) (h, i). (h(k \<mapsto> v), if k = ''X-Message-ID'' then v else i)) hs (Map.empty, [])"

definition kafkaMessage :: "kafkaMsg \<Rightarrow> (kafkaMsg, unit) message" where
  "kafkaMessage k =
     (let (headers, ident) = kafkaHeaders (km_Headers k);
          msgID = (if ident = [] then ''k-'' @ km_Topic k @ ''-'' @ Itoa (km_Partition k) @ ''-'' @ Itoa (km_Offset k)
                   else ident)
      in SetNackFunc (SetAckFunc
           \<lparr>m_ID = msgID, m_Topic = km_Topic k, m_Payload = km_Value k, m_Headers = Some headers, m_Key = km_Key k,
            m_Delay = 0, m_Timestamp = km_Time k, m_Attempts = 1, m_acknowledged = False, m_ackFn = None,
            m_nackFn = None\<rparr> k) ())"

text \<open>The ack callback commits the offset; the nack callback does nothing.\<close>

definition kafka_nack :: "unit \<Rightarrow> bool \<Rightarrow> (kafkaMsg, unit) message \<Rightarrow> 'w \<Rightarrow> error option \<times> 'w" where
  "kafka_nack f requeue m w = (None, w)"

definition kafka_begin ::
    "('cert, 'w) kafkaClient \<Rightarrow> 'cert kafkaQueue \<Rightarrow> 'mw ConsumeOptions \<Rightarrow> kafkaMsg \<Rightarrow> BaseStats \<times> 'w \<Rightarrow>
     (kafkaMsg, unit, 'w) delivery" where
  "kafka_begin cl q co k =
     deliverBegin (kc_CommitMessages cl) (co_AutoAck co \<or> kf_AutoCommit (dq_section q)) (kafkaMessage k)"

definition kafka_end ::
    "('cert, 'w) kafkaClient \<Rightarrow> error option \<Rightarrow> (kafkaMsg, unit, 'w) delivery \<Rightarrow> (kafkaMsg, unit, 'w) delivery" where
  "kafka_end cl = deliverEnd (kc_CommitMessages cl)"

definition kafka_processMessage ::
    "('cert, 'w) kafkaClient \<Rightarrow> 'cert kafkaQueue \<Rightarrow> 'mw ConsumeOptions \<Rightarrow> (kafkaMsg, unit, 'w) delivery handler \<Rightarrow>
     kafkaMsg \<Rightarrow> BaseStats \<times> 'w \<Rightarrow> unit outcome \<times> BaseStats \<times> 'w" where
  "kafka_processMessage cl q co handler k s =
     (case handler (kafka_begin cl q co k s) of
        (Ret err, s') \<Rightarrow> (Ret (), snd (kafka_end cl err s'))
      | (Panic p, (m, b, w)) \<Rightarrow> (Panic p, DecInFlight b, w))"

text \<open>\<open>Consume\<close>: one reader and one worker goroutine per unit of concurrency.\<close>

definition kafkaReaders :: "'cert kafkaQueue \<Rightarrow> 'mw ConsumeOptions \<Rightarrow> 'cert kafkaReader list" where
  "kafkaReaders q co =
     (let k = dq_section q
      in replicate (nat (drvConcurrency co (dq_cfg q)))
           \<lparr>kr_Brokers = kf_Brokers k, kr_GroupID = kf_GroupID k,
            kr_Topic = (if co_Topic co \<noteq> [] then co_Topic co else kf_Topic k), kr_Dialer = kq_dialer q,
            kr_StartOffset = (if ToLower (kf_InitialOffset k) = ''oldest'' then FirstOffset else LastOffset),
            kr_CommitInterval = Second\<rparr>)"

definition kafka_worker ::
    "('cert, 'w) kafkaClient \<Rightarrow> 'cert kafkaQueue \<Rightarrow> 'mw ConsumeOptions \<Rightarrow> (kafkaMsg, unit, 'w) delivery handler \<Rightarrow>
     (int \<Rightarrow> int) \<Rightarrow> kafkaMsg fetch list \<Rightarrow> Backoff \<times> BaseStats \<times> 'w \<Rightarrow> loopEnd \<times> Backoff \<times> BaseStats \<times> 'w" where
  "kafka_worker cl q co handler rnd polls s = receiveLoop (kafka_processMessage cl q co handler) rnd polls s"

definition kafka_Consume ::
    "('cert, 'w) kafkaClient \<Rightarrow> 'cert kafkaQueue \<Rightarrow> bool \<Rightarrow> 'mw ConsumeOption list \<Rightarrow> BaseStats \<times> 'w \<Rightarrow>
     error option \<Rightarrow> BaseStats \<times> 'w \<Rightarrow> bool" where
  "kafka_Consume cl q handlerNil opts s r s' \<longleftrightarrow>
     (if handlerNil then r = Some ErrNilHandler \<and> s' = s
      else let co = consumeOptions opts in
        r = None \<and> consumes (length (kafkaReaders q co)) (kafka_begin cl q co) (kafka_end cl) (kc_CommitMessages cl)
          kafka_nack s s')"

definition kafka_Receive ::
    "('cert, 'w) kafkaClient \<Rightarrow> 'cert kafkaQueue \<Rightarrow> ReceiveOption list \<Rightarrow> 'w \<Rightarrow>
     (error + (kafkaMsg, unit) message) \<times> 'w" where
  "kafka_Receive cl q opts w =
     (let ro = receiveOptions opts;
          timeout = (if ro_Timeout ro > 0 then ro_Timeout ro else 5 * Second);
          k = dq_section q;
          reader = \<lparr>kr_Brokers = kf_Brokers k, kr_GroupID = kf_GroupID k, kr_Topic = kf_Topic k,
                    kr_Dialer = kq_dialer q, kr_StartOffset = LastOffset, kr_CommitInterval = 0\<rparr>;
          (res, w') = kc_FetchMessage cl reader timeout w;
          w'' = kc_readerClose cl reader w'
      in case res of
           Inl e \<Rightarrow> (Inl (if errorsIs e ctxDeadlineExceeded \<or> errorsIs e ctxCanceled then ErrTimeout else e), w'')
         | Inr kMsg \<Rightarrow>
             (Inr (SetNackFunc (SetAckFunc
                \<lparr>m_ID = ''k-'' @ Itoa (km_Partition kMsg) @ ''-'' @ Itoa (km_Offset kMsg), m_Topic = km_Topic kMsg,
                 m_Payload = km_Value kMsg, m_Headers = None, m_Key = [], m_Delay = 0, m_Timestamp = km_Time kMsg,
                 m_Attempts = 1, m_acknowledged = False, m_ackFn = None, m_nackFn = None\<rparr> kMsg) ()), w''))"

definition kafka_consumerClose ::
    "('cert, 'w) kafkaClient \<Rightarrow> 'cert kafkaReader list \<times> 'w \<Rightarrow> 'cert kafkaReader list \<times> 'w" where
  "kafka_consumerClose cl s = (case s of (readers, w) \<Rightarrow> ([], fold (kc_readerClose cl) readers w))"

section \<open>The driver meets the contracts\<close>

lemma kafkaMessage_ackFn [simp]: "m_ackFn (kafkaMessage k) = Some k"
  by (simp add: kafkaMessage_def message_defs split: prod.split)

interpretation kafka_drv: broker_process "kafka_begin cl q co" "kafka_end cl" "kc_CommitMessages cl" kafka_nack
    "kafka_processMessage cl q co"
  for cl :: "('cert, 'w) kafkaClient" and q :: "'cert kafkaQueue" and co :: "'mw ConsumeOptions"
  by unfold_locales
    (auto simp: kafka_begin_def kafka_end_def kafka_processMessage_def dest: deliver_contract)

interpretation kafka_prod: broker_producer "kafka_Publish cl enum q opts"
    "\<lambda>m. kc_WriteMessages cl [kafkaRecord enum (kf_Topic (dq_section q)) (publishOptions opts) m]"
  for cl :: "('cert, 'w) kafkaClient" and enum and q :: "'cert kafkaQueue" and opts
  by unfold_locales (simp_all add: kafka_Publish_def)

interpretation kafka_life: closable_queue "kafka_Close cl" dq_closed
  for cl :: "('cert, 'w) kafkaClient"
  by unfold_locales (auto simp: kafka_Close_def split: if_splits prod.splits)

section \<open>Headers\<close>

lemma kafkaHeaders_map:
  "kafkaHeaders hs = (map_of (rev hs), case map_of (rev hs) ''X-Message-ID'' of None \<Rightarrow> [] | Some v \<Rightarrow> v)"
proof (induction hs rule: rev_induct)
  case (snoc x xs)
  then show ?case
    by (cases x) (simp add: kafkaHeaders_def fun_eq_iff)
qed (simp add: kafkaHeaders_def)

lemma map_of_rev: "distinct (map fst xs) \<Longrightarrow> map_of (rev xs) = map_of xs"
  by (simp add: map_of_inject_set rev_map [symmetric])

text \<open>
  What a consumer sees of a published message, wherever the broker put it: the
  identifier, payload, key and topic, and the merged headers with the
  identifier among them.
\<close>

lemma kafka_roundtrip:
  assumes "enumerates enum (headerMap (m_Headers m))" "enumerates enum (headerMap (po_Headers po))" "m_ID m \<noteq> []"
    and "k = (kafkaRecord enum topic po m)\<lparr>km_Partition := p, km_Offset := ofs\<rparr>"
  shows "m_ID (kafkaMessage k) = m_ID m" "m_Payload (kafkaMessage k) = m_Payload m"
    "m_Headers (kafkaMessage k) = Some ((mergeHeaders po m)(''X-Message-ID'' \<mapsto> m_ID m))"
    "m_Key (kafkaMessage k) = (if po_Key po \<noteq> [] then po_Key po else m_Key m)"
    "m_Topic (kafkaMessage k) = publishTopic topic po m"
  using assms
  by (simp_all add: kafkaMessage_def kafkaHeaders_map kafkaRecord_def message_defs map_of_rev enumerates_def
      mergeHeaders_def)

text \<open>The batch path writes no identifier header, so the consumer names the message after its position.\<close>

lemma kafka_batch_forgets_ID:
  assumes "enumerates enum (headerMap (m_Headers m))" "enumerates enum (headerMap (po_Headers po))"
    and "mergeHeaders po m ''X-Message-ID'' = None"
    and "k = (kafkaBatchRecord enum topic po m)\<lparr>km_Partition := p, km_Offset := ofs\<rparr>"
  shows "m_ID (kafkaMessage k) = ''k-'' @ km_Topic k @ ''-'' @ Itoa p @ ''-'' @ Itoa ofs"
  using assms
  by (simp add: kafkaMessage_def kafkaHeaders_map kafkaBatchRecord_def message_defs map_of_rev enumerates_def
      mergeHeaders_def map_add_def)

lemma kafka_Consume_restores: "kafka_Consume cl q nilH opts s r s' \<Longrightarrow> fst s' = fst s"
  by (auto simp: kafka_Consume_def Let_def split: if_splits dest: kafka_drv.consumes_restores)

end
