(* ===== verification/RedisDriver.thy ===== *)
theory RedisDriver
  imports DriverCore
begin

text \<open>
  The Redis driver, \<open>internal/queue/driver/redis/redis.go\<close>, in its three
  modes: streams with a consumer group, lists, and publish/subscribe. The
  client is the record \<open>redisClient\<close>; \<open>marshal\<close> and \<open>unmarshal\<close> are
  \<open>encoding/json\<close> on the envelope.
\<close>

section \<open>Client\<close>

record redisOptions =
  ro_Addrs :: "string list"
  ro_Username :: string
  ro_Password :: string
  ro_DB :: int
  ro_MasterName :: string
  ro_TLS :: "(bool \<times> string) option"

record redisXAdd =
  xa_Stream :: string
  xa_id :: string
  xa_payload :: string
  xa_data :: string
  xa_MaxLen :: "int option"

record 'w redisClient =
  rdc_Open :: "redisOptions \<Rightarrow> 'w \<Rightarrow> 'w"
  rdc_Ping :: "'w \<Rightarrow> error option \<times> 'w"
  rdc_Close :: "'w \<Rightarrow> error option \<times> 'w"
  rdc_XGroupCreateMkStream :: "string \<Rightarrow> string \<Rightarrow> 'w \<Rightarrow> 'w"
  rdc_XAdd :: "redisXAdd \<Rightarrow> 'w \<Rightarrow> error option \<times> 'w"
  rdc_RPush :: "string \<Rightarrow> string \<Rightarrow> 'w \<Rightarrow> error option \<times> 'w"
  rdc_LPush :: "string \<Rightarrow> string \<Rightarrow> 'w \<Rightarrow> error option \<times> 'w"
  rdc_Publish :: "string \<Rightarrow> string \<Rightarrow> 'w \<Rightarrow> error option \<times> 'w"
  rdc_XAck :: "string \<Rightarrow> string \<Rightarrow> string \<Rightarrow> 'w \<Rightarrow> error option \<times> 'w"
  rdc_BLPop :: "int \<Rightarrow> string \<Rightarrow> 'w \<Rightarrow> (error + string list) \<times> 'w"
  rdc_XLen :: "string \<Rightarrow> 'w \<Rightarrow> int"
  rdc_XPending :: "string \<Rightarrow> string \<Rightarrow> 'w \<Rightarrow> error + int"
  rdc_LLen :: "string \<Rightarrow> 'w \<Rightarrow> int"
  rdc_PubSubNumSub :: "string \<Rightarrow> 'w \<Rightarrow> int option"

section \<open>Queue\<close>

record redisQueue = "RedisConfig drvQueue" +
  rq_mode :: string

definition redisConnect :: "RedisConfig \<Rightarrow> redisOptions" where
  "redisConnect c =
     \<lparr>ro_Addrs = (if rd_Addrs c = [] \<and> rd_Host c \<noteq> []
                  then [rd_Host c @ '':'' @ Itoa (if rd_Port c = 0 then 6379 else rd_Port c)] else rd_Addrs c),
      ro_Username = rd_Username c, ro_Password = rd_Password c, ro_DB = rd_DB c, ro_MasterName = rd_MasterName c,
      ro_TLS = (if tls_Enable (rd_TLS c)
                then Some (tls_InsecureSkipVerify (rd_TLS c), tls_ServerName (rd_TLS c)) else None)\<rparr>"

definition redis_New :: "'w redisClient \<Rightarrow> Config option \<Rightarrow> 'w \<Rightarrow> (error + redisQueue) \<times> 'w" where
  "redis_New cl cfg w =
     (case openSection ''redis'' ErrInvalidConfig qc_Redis RedisConfig_Validate cfg of
        Inl e \<Rightarrow> (Inl e, w)
      | Inr (c, r) \<Rightarrow>
          (case rdc_Ping cl (rdc_Open cl (redisConnect r) w) of
             (Some e, w1) \<Rightarrow> (Inl (Wrap (''redis: ping failed: '' @ Error e) e), snd (rdc_Close cl w1))
           | (None, w1) \<Rightarrow>
               (let mode = defStr ''stream'' (ToLower (TrimSpace (rd_Mode r)));
                    w2 = (if mode = ''stream'' \<and> rd_Group r \<noteq> []
                          then rdc_XGroupCreateMkStream cl (rd_Key r) (rd_Group r) w1 else w1)
                in (Inr \<lparr>dq_cfg = c, dq_section = r, dq_closed = False, rq_mode = mode\<rparr>, w2))))"

definition redis_Name :: "redisQueue \<Rightarrow> string" where
  "redis_Name q = rd_Key (dq_section q)"

definition redis_Producer :: "redisQueue \<Rightarrow> error option" where
  "redis_Producer q = drvOpen q"

definition redis_Consumer :: "redisQueue \<Rightarrow> error option" where
  "redis_Consumer q = drvOpen q"

definition redis_Ping :: "'w redisClient \<Rightarrow> redisQueue \<Rightarrow> 'w \<Rightarrow> error option \<times> 'w" where
  "redis_Ping cl q w = (case drvOpen q of Some e \<Rightarrow> (Some e, w) | None \<Rightarrow> rdc_Ping cl w)"

text \<open>The depth and the in-flight count come from Redis where the mode has them.\<close>

definition redisDepth :: "'w redisClient \<Rightarrow> redisQueue \<Rightarrow> BaseStats \<times> 'w \<Rightarrow> int \<times> int" where
  "redisDepth cl q s =
     (let key = rd_Key (dq_section q); group = rd_Group (dq_section q); inFlight = bs_InFlight (fst s)
      in if rq_mode q = ''stream'' then
           (rdc_XLen cl key (snd s),
            if group \<noteq> [] then (case rdc_XPending cl key group (snd s) of Inr n \<Rightarrow> n | Inl _ \<Rightarrow> inFlight) else inFlight)
         else if rq_mode q = ''list'' then (rdc_LLen cl key (snd s), inFlight)
         else if rq_mode q = ''pubsub'' then
           (0, case rdc_PubSubNumSub cl key (snd s) of Some n \<Rightarrow> n | None \<Rightarrow> inFlight)
         else (0, inFlight))"

definition redis_Stats :: "'w redisClient \<Rightarrow> redisQueue \<Rightarrow> BaseStats \<times> 'w \<Rightarrow> error + Stats" where
  "redis_Stats cl q s =
     (case drvOpen q of
        Some e \<Rightarrow> Inl e
      | None \<Rightarrow>
          (let (ready, inFlight) = redisDepth cl q s; (_, totalSent, consumers) = Snapshot (fst s)
           in Inr \<lparr>st_Driver = DriverRedis, st_Name = rd_Key (dq_section q), st_Ready = ready, st_InFlight = inFlight,
                   st_Delayed = 0, st_Total = totalSent, st_Consumers = consumers,
                   st_Extra = [(''mode'', AnyString (rq_mode q)), (''group'', AnyString (rd_Group (dq_section q)))]\<rparr>))"

definition redis_Close :: "'w redisClient \<Rightarrow> redisQueue \<times> 'w \<Rightarrow> error option \<times> redisQueue \<times> 'w" where
  "redis_Close cl s =
     (case s of (q, w) \<Rightarrow>
        if dq_closed q then (None, q, w)
        else case rdc_Close cl w of (r, w') \<Rightarrow> (r, q\<lparr>dq_closed := True\<rparr>, w'))"

section \<open>Producer\<close>

record redisMessageEnvelope =
  re_ID :: string
  re_Topic :: string
  re_Payload :: string
  re_Headers :: "(string \<rightharpoonup> string) option"
  re_Timestamp :: "int option"
  re_Attempts :: int

definition redisEnvelope :: "string \<Rightarrow> PublishOptions \<Rightarrow> ('a, 'n) message \<Rightarrow> redisMessageEnvelope" where
  "redisEnvelope ownKey po m =
     \<lparr>re_ID = m_ID m, re_Topic = publishTopic ownKey po m, re_Payload = m_Payload m,
      re_Headers = Some (mergeHeaders po m), re_Timestamp = m_Timestamp m, re_Attempts = m_Attempts m\<rparr>"

definition publishAction ::
    "'w redisClient \<Rightarrow> redisQueue \<Rightarrow> redisMessageEnvelope \<Rightarrow> string \<Rightarrow> 'w \<Rightarrow> error option \<times> 'w" where
  "publishAction cl q env raw w =
     (let key = re_Topic env
      in if rq_mode q = ''stream'' then
           rdc_XAdd cl \<lparr>xa_Stream = key, xa_id = re_ID env, xa_payload = re_Payload env, xa_data = raw,
              xa_MaxLen = (if rd_MaxLen (dq_section q) > 0 then Some (rd_MaxLen (dq_section q)) else None)\<rparr> w
         else if rq_mode q = ''list'' then rdc_RPush cl key raw w
         else if rq_mode q = ''pubsub'' then rdc_Publish cl key raw w
         else (Some (Err (''redis: unsupported mode '' @ Quote (rq_mode q))), w))"

text \<open>
  \<open>rs_pending\<close> are the goroutines of delayed publishes that have not ended.
  Such a publish returns at once; when its timer fires it sends without
  counting and drops the error, and when the caller's context ends first it
  sends nothing.
\<close>

record 'w redisState =
  rs_stats :: BaseStats
  rs_world :: 'w
  rs_pending :: "(int \<times> redisMessageEnvelope \<times> string) list"

definition redis_Publish ::
    "'w redisClient \<Rightarrow> (redisMessageEnvelope \<Rightarrow> error + string) \<Rightarrow> redisQueue \<Rightarrow> PublishOption list \<Rightarrow>
     ('a, 'n) message option \<Rightarrow> 'w redisState \<Rightarrow> error option \<times> 'w redisState" where
  "redis_Publish cl marshal q opts msg s =
     (case msg of
        None \<Rightarrow> (Some ErrInvalidMessage, s)
      | Some m \<Rightarrow>
          (let po = publishOptions opts; env = redisEnvelope (rd_Key (dq_section q)) po m
           in case marshal env of
                Inl e \<Rightarrow> (Some (Wrap (''redis: failed to marshal envelope: '' @ Error e) e), s)
              | Inr raw \<Rightarrow>
                  if po_Delay po > 0 \<or> m_Delay m > 0 then
                    (None, s\<lparr>rs_pending := rs_pending s @
                       [(if po_Delay po = 0 then m_Delay m else po_Delay po, env, raw)]\<rparr>)
                  else
                    (case publishAction cl q env raw (rs_world s) of
                       (Some e, w') \<Rightarrow> (Some (publishFailed e), s\<lparr>rs_world := w'\<rparr>)
                     | (None, w') \<Rightarrow> (None, s\<lparr>rs_world := w', rs_stats := IncTotalSent 1 (rs_stats s)\<rparr>))))"

definition redis_delayedFire :: "'w redisClient \<Rightarrow> redisQueue \<Rightarrow> nat \<Rightarrow> 'w redisState \<Rightarrow> 'w redisState" where
  "redis_delayedFire cl q i s =
     (case rs_pending s ! i of (_, env, raw) \<Rightarrow>
        s\<lparr>rs_world := snd (publishAction cl q env raw (rs_world s)), rs_pending := removeAt i (rs_pending s)\<rparr>)"

definition redis_delayedCancel :: "nat \<Rightarrow> 'w redisState \<Rightarrow> 'w redisState" where
  "redis_delayedCancel i s = s\<lparr>rs_pending := removeAt i (rs_pending s)\<rparr>"

definition redis_PublishBatch ::
    "'w redisClient \<Rightarrow> (redisMessageEnvelope \<Rightarrow> error + string) \<Rightarrow> redisQueue \<Rightarrow> PublishOption list \<Rightarrow>
     ('a, 'n) message option list \<Rightarrow> 'w redisState \<Rightarrow> error option \<times> 'w redisState" where
  "redis_PublishBatch cl marshal q opts msgs s = publishBatch (redis_Publish cl marshal q opts) msgs s"

section \<open>Consumer: streams\<close>

record streamEntry =
  se_Stream :: string
  se_Group :: string
  se_ID :: string
  se_Values :: "string \<rightharpoonup> anyVal"

definition stringValue :: "anyVal option \<Rightarrow> string option" where
  "stringValue v = (case v of Some (AnyString s) \<Rightarrow> Some s | _ \<Rightarrow> None)"

definition envelopeMessage :: "string \<Rightarrow> redisMessageEnvelope \<Rightarrow> ('a, 'n) message" where
  "envelopeMessage topic env =
     \<lparr>m_ID = re_ID env, m_Topic = topic, m_Payload = re_Payload env, m_Headers = re_Headers env, m_Key = [],
      m_Delay = 0, m_Timestamp = re_Timestamp env, m_Attempts = re_Attempts env, m_acknowledged = False,
      m_ackFn = None, m_nackFn = None\<rparr>"

definition bareMessage :: "string \<Rightarrow> string \<Rightarrow> string \<Rightarrow> int \<Rightarrow> ('a, 'n) message" where
  "bareMessage ident topic payload now =
     \<lparr>m_ID = ident, m_Topic = topic, m_Payload = payload, m_Headers = None, m_Key = [], m_Delay = 0,
      m_Timestamp = Some now, m_Attempts = 1, m_acknowledged = False, m_ackFn = None, m_nackFn = None\<rparr>"

definition streamMessage ::
    "(string \<Rightarrow> error + redisMessageEnvelope) \<Rightarrow> int \<Rightarrow> streamEntry \<Rightarrow> (streamEntry, unit) message" where
  "streamMessage unmarshal now x =
     (let decoded = (case stringValue (se_Values x ''data'') of
                       None \<Rightarrow> None
                     | Some raw \<Rightarrow> if raw = [] then None
                                   else (case unmarshal raw of Inl _ \<Rightarrow> None | Inr env \<Rightarrow> Some env));
          m = (case decoded of
                 Some env \<Rightarrow> envelopeMessage (se_Stream x) env
               | None \<Rightarrow> bareMessage (se_ID x) (se_Stream x)
                           (case stringValue (se_Values x ''payload'') of None \<Rightarrow> [] | Some p \<Rightarrow> p) now)
      in SetNackFunc (SetAckFunc m x) ())"

definition stream_ack :: "'w redisClient \<Rightarrow> streamEntry \<Rightarrow> 'w \<Rightarrow> error option \<times> 'w" where
  "stream_ack cl x w = rdc_XAck cl (se_Stream x) (se_Group x) (se_ID x) w"

definition stream_nack :: "unit \<Rightarrow> bool \<Rightarrow> (streamEntry, unit) message \<Rightarrow> 'w \<Rightarrow> error option \<times> 'w" where
  "stream_nack f requeue m w = (None, w)"

definition stream_begin ::
    "'w redisClient \<Rightarrow> (string \<Rightarrow> error + redisMessageEnvelope) \<Rightarrow> int \<Rightarrow> 'mw ConsumeOptions \<Rightarrow> streamEntry \<Rightarrow>
     BaseStats \<times> 'w \<Rightarrow> (streamEntry, unit, 'w) delivery" where
  "stream_begin cl unmarshal now co x =
     deliverBegin (stream_ack cl) (co_AutoAck co) (streamMessage unmarshal now x)"

definition stream_end ::
    "'w redisClient \<Rightarrow> error option \<Rightarrow> (streamEntry, unit, 'w) delivery \<Rightarrow> (streamEntry, unit, 'w) delivery" where
  "stream_end cl = deliverEnd (stream_ack cl)"

definition processStreamMessage ::
    "'w redisClient \<Rightarrow> (string \<Rightarrow> error + redisMessageEnvelope) \<Rightarrow> int \<Rightarrow> 'mw ConsumeOptions \<Rightarrow>
     (streamEntry, unit, 'w) delivery handler \<Rightarrow> streamEntry \<Rightarrow> BaseStats \<times> 'w \<Rightarrow> unit outcome \<times> BaseStats \<times> 'w" where
  "processStreamMessage cl unmarshal now co handler x s =
     (case handler (stream_begin cl unmarshal now co x s) of
        (Ret err, s') \<Rightarrow> (Ret (), snd (stream_end cl err s'))
      | (Panic p, (m, b, w)) \<Rightarrow> (Panic p, DecInFlight b, w))"

text \<open>What one worker passes to \<open>XReadGroup\<close>.\<close>

record xReadGroup =
  xr_Group :: string
  xr_Consumer :: string
  xr_Stream :: string
  xr_Count :: int
  xr_Block :: int

definition streamReader :: "redisQueue \<Rightarrow> 'mw ConsumeOptions \<Rightarrow> nat \<Rightarrow> xReadGroup" where
  "streamReader q co i =
     (let r = dq_section q
      in \<lparr>xr_Group = (if rd_Group r = [] then ''mailbaby_consumer_group'' else rd_Group r),
          xr_Consumer = (if rd_Consumer r = [] then ''worker-'' else rd_Consumer r @ ''-'') @ Itoa (int i),
          xr_Stream = (if co_Topic co \<noteq> [] then co_Topic co else rd_Key r),
          xr_Count = (if co_BatchSize co > 0 then co_BatchSize co
                      else if co_PrefetchCount co > 0 then co_PrefetchCount co else 10),
          xr_Block = (if rd_BlockTime r \<le> 0 then 2 * Second else rd_BlockTime r)\<rparr>)"

text \<open>
  The loop of one stream worker. A poll that times out (\<open>redis.Nil\<close>) or fails
  because the context ended is followed by the next look at the context; any
  other error waits.
\<close>

definition stream_worker ::
    "'w redisClient \<Rightarrow> (string \<Rightarrow> error + redisMessageEnvelope) \<Rightarrow> int \<Rightarrow> 'mw ConsumeOptions \<Rightarrow>
     (streamEntry, unit, 'w) delivery handler \<Rightarrow> (int \<Rightarrow> int) \<Rightarrow> streamEntry fetch list \<Rightarrow>
     Backoff \<times> BaseStats \<times> 'w \<Rightarrow> loopEnd \<times> Backoff \<times> BaseStats \<times> 'w" where
  "stream_worker cl unmarshal now co handler rnd polls s =
     receiveLoop (processStreamMessage cl unmarshal now co handler) rnd polls s"

section \<open>Consumer: lists and publish/subscribe\<close>

text \<open>A popped list item: its key and the raw text, which the nack callback can push back.\<close>

type_synonym listItem = "string \<times> string"

definition listMessage ::
    "(string \<Rightarrow> error + redisMessageEnvelope) \<Rightarrow> int \<Rightarrow> listItem \<Rightarrow> (listItem, listItem) message" where
  "listMessage unmarshal now x =
     (case x of (key, raw) \<Rightarrow>
        (let m = (case unmarshal raw of Inr env \<Rightarrow> envelopeMessage key env | Inl _ \<Rightarrow> bareMessage [] key raw now)
         in SetNackFunc (SetAckFunc m x) x))"

definition list_ack :: "listItem \<Rightarrow> 'w \<Rightarrow> error option \<times> 'w" where
  "list_ack x w = (None, w)"

definition list_nack ::
    "'w redisClient \<Rightarrow> listItem \<Rightarrow> bool \<Rightarrow> (listItem, listItem) message \<Rightarrow> 'w \<Rightarrow> error option \<times> 'w" where
  "list_nack cl x requeue m w = (if requeue then rdc_LPush cl (fst x) (snd x) w else (None, w))"

text \<open>Unlike the other drivers this one never acknowledges before the handler.\<close>

definition list_begin ::
    "(string \<Rightarrow> error + redisMessageEnvelope) \<Rightarrow> int \<Rightarrow> listItem \<Rightarrow> BaseStats \<times> 'w \<Rightarrow> (listItem, listItem, 'w) delivery" where
  "list_begin unmarshal now x = deliverBegin list_ack False (listMessage unmarshal now x)"

definition list_end ::
    "error option \<Rightarrow> (listItem, listItem, 'w) delivery \<Rightarrow> (listItem, listItem, 'w) delivery" where
  "list_end = deliverEnd list_ack"

definition processListMessage ::
    "(string \<Rightarrow> error + redisMessageEnvelope) \<Rightarrow> int \<Rightarrow> (listItem, listItem, 'w) delivery handler \<Rightarrow> listItem \<Rightarrow>
     BaseStats \<times> 'w \<Rightarrow> unit outcome \<times> BaseStats \<times> 'w" where
  "processListMessage unmarshal now handler x s =
     (case handler (list_begin unmarshal now x s) of
        (Ret err, s') \<Rightarrow> (Ret (), snd (list_end err s'))
      | (Panic p, (m, b, w)) \<Rightarrow> (Panic p, DecInFlight b, w))"

definition list_worker ::
    "(string \<Rightarrow> error + redisMessageEnvelope) \<Rightarrow> int \<Rightarrow> (listItem, listItem, 'w) delivery handler \<Rightarrow> (int \<Rightarrow> int) \<Rightarrow>
     listItem fetch list \<Rightarrow> Backoff \<times> BaseStats \<times> 'w \<Rightarrow> loopEnd \<times> Backoff \<times> BaseStats \<times> 'w" where
  "list_worker unmarshal now handler rnd polls s = receiveLoop (processListMessage unmarshal now handler) rnd polls s"

text \<open>One message of the subscription; the loop has no counter and ignores the handler's result.\<close>

definition pubsubMessage :: "string \<Rightarrow> int \<Rightarrow> string \<Rightarrow> (unit, unit) message" where
  "pubsubMessage key now payload = SetNackFunc (SetAckFunc (bareMessage [] key payload now) ()) ()"

fun consumePubSub ::
    "string \<Rightarrow> int \<Rightarrow> ((unit, unit) message \<times> 's) handler \<Rightarrow> string list \<Rightarrow> 's \<Rightarrow> unit outcome \<times> 's" where
  "consumePubSub key now handler [] s = (Ret (), s)"
| "consumePubSub key now handler (p # ps) s =
     (case handler (pubsubMessage key now p, s) of
        (Ret _, (_, s')) \<Rightarrow> consumePubSub key now handler ps s'
      | (Panic x, (_, s')) \<Rightarrow> (Panic x, s'))"

text \<open>
  \<open>Consume\<close> in the two modes with workers; in the third the handler alone
  decides what changes besides the counters, which come back as they were; any
  other mode is an error.
\<close>

definition redis_Consume ::
    "'w redisClient \<Rightarrow> (string \<Rightarrow> error + redisMessageEnvelope) \<Rightarrow> int \<Rightarrow> redisQueue \<Rightarrow> bool \<Rightarrow> 'mw ConsumeOption list \<Rightarrow>
     BaseStats \<times> 'w \<Rightarrow> error option \<Rightarrow> BaseStats \<times> 'w \<Rightarrow> bool" where
  "redis_Consume cl unmarshal now q handlerNil opts s r s' \<longleftrightarrow>
     (if handlerNil then r = Some ErrNilHandler \<and> s' = s
      else let co = consumeOptions opts; n = nat (drvConcurrency co (dq_cfg q)) in
        if rq_mode q = ''stream'' then
          r = None \<and> consumes n (stream_begin cl unmarshal now co) (stream_end cl) (stream_ack cl) stream_nack s s'
        else if rq_mode q = ''list'' then
          r = None \<and> consumes n (list_begin unmarshal now) list_end list_ack (list_nack cl) s s'
        else if rq_mode q = ''pubsub'' then
          r = None \<and> fst s' = fst s
        else r = Some (Err (''redis: unsupported mode '' @ Quote (rq_mode q))) \<and> s' = s)"

definition errorsIsRedisNil :: "error \<Rightarrow> bool" where
  "errorsIsRedisNil e \<longleftrightarrow> e = Err ''redis: nil'' \<or> sublist ''redis: nil'' (Error e)"

definition redis_Receive ::
    "'w redisClient \<Rightarrow> string \<Rightarrow> int \<Rightarrow> redisQueue \<Rightarrow> ReceiveOption list \<Rightarrow> 'w \<Rightarrow> (error + ('a, 'n) message) \<times> 'w" where
  "redis_Receive cl uuid now q opts w =
     (let ro = receiveOptions opts; timeout = (if ro_Timeout ro > 0 then ro_Timeout ro else 2 * Second)
      in if rq_mode q = ''list'' then
           (case rdc_BLPop cl timeout (rd_Key (dq_section q)) w of
              (Inl e, w') \<Rightarrow> (Inl (if errorsIsRedisNil e then ErrTimeout else e), w')
            | (Inr res, w') \<Rightarrow>
                if length res < 2 then (Inl ErrTimeout, w') else (Inr (NewMessage uuid now (res ! 1)), w'))
         else (Inl (Err ''redis: Receive only directly supported for list mode''), w))"

section \<open>The driver meets the contracts\<close>

lemma streamMessage_ackFn [simp]: "m_ackFn (streamMessage unmarshal now x) = Some x"
  by (simp add: streamMessage_def message_defs)

lemma listMessage_ackFn [simp]: "m_ackFn (listMessage unmarshal now x) = Some x"
  by (simp add: listMessage_def message_defs split: prod.split)

interpretation stream_drv: broker_process "stream_begin cl unmarshal now co" "stream_end cl" "stream_ack cl" stream_nack
    "processStreamMessage cl unmarshal now co"
  for cl :: "'w redisClient" and unmarshal and now and co :: "'mw ConsumeOptions"
  by unfold_locales
    (auto simp: stream_begin_def stream_end_def processStreamMessage_def dest: deliver_contract)

interpretation list_drv: broker_process "list_begin unmarshal now" list_end list_ack "list_nack cl"
    "processListMessage unmarshal now"
  for cl :: "'w redisClient" and unmarshal and now
  by unfold_locales (auto simp: list_begin_def list_end_def processListMessage_def dest: deliver_contract)

interpretation redis_life: closable_queue "redis_Close cl" dq_closed
  for cl :: "'w redisClient"
  by unfold_locales (auto simp: redis_Close_def split: if_splits prod.splits)

lemma redis_Consume_restores: "redis_Consume cl unmarshal now q nilH opts s r s' \<Longrightarrow> fst s' = fst s"
  by (auto simp: redis_Consume_def Let_def split: if_splits
      dest: stream_drv.consumes_restores list_drv.consumes_restores)

text \<open>
  The envelope carries everything but the key through a stream and a list,
  provided the JSON encoding gives back what it was given.
\<close>

lemma redis_roundtrip:
  assumes "env = redisEnvelope ownKey po m" "marshal env = Inr raw" "raw \<noteq> []" "unmarshal raw = Inr env"
    and "se_Values x ''data'' = Some (AnyString raw)"
  shows "m_ID (streamMessage unmarshal now x) = m_ID m" "m_Payload (streamMessage unmarshal now x) = m_Payload m"
    "m_Headers (streamMessage unmarshal now x) = Some (mergeHeaders po m)"
    "m_Attempts (streamMessage unmarshal now x) = m_Attempts m"
    "m_ID (listMessage unmarshal now (key, raw)) = m_ID m"
    "m_Payload (listMessage unmarshal now (key, raw)) = m_Payload m"
    "m_Headers (listMessage unmarshal now (key, raw)) = Some (mergeHeaders po m)"
  using assms
  by (simp_all add: streamMessage_def listMessage_def stringValue_def message_defs envelopeMessage_def redisEnvelope_def)

end
