(* ===== verification/RabbitDriver.thy ===== *)
theory RabbitDriver
  imports DriverCore
begin

text \<open>
  The RabbitMQ driver, \<open>internal/queue/driver/rabbitmq/rabbitmq.go\<close>: the
  connection URL, the topology it declares, the producer and the consumer.
  The AMQP client is the record \<open>amqpClient\<close> of functions on its state.
\<close>

section \<open>Client\<close>

record amqpPublishing =
  ap_Headers :: "string \<rightharpoonup> string"
  ap_ContentType :: string
  ap_Persistent :: bool
  ap_MessageId :: string
  ap_Timestamp :: "int option"
  ap_Body :: string

record amqpDelivery =
  ad_MessageId :: string
  ad_RoutingKey :: string
  ad_Body :: string
  ad_Headers :: "string \<rightharpoonup> string"
  ad_Timestamp :: "int option"
  ad_DeliveryTag :: int

datatype amqpDeclare =
    ExchangeDeclare string bool bool
  | QueueDeclare string bool bool bool bool "(string \<times> anyVal) list"
  | QueueBind string string string

record ('cert, 'w) amqpClient =
  ac_DialConfig :: "string \<Rightarrow> 'cert tlsClient option \<Rightarrow> 'w \<Rightarrow> error option \<times> 'w"
  ac_Channel :: "'w \<Rightarrow> error option \<times> 'w"
  ac_Declare :: "amqpDeclare \<Rightarrow> 'w \<Rightarrow> error option \<times> 'w"
  ac_chClose :: "'w \<Rightarrow> error option \<times> 'w"
  ac_connClose :: "'w \<Rightarrow> error option \<times> 'w"
  ac_IsClosed :: "'w \<Rightarrow> bool"
  ac_QueueDeclarePassive :: "string \<Rightarrow> 'w \<Rightarrow> error + int \<times> int"
  ac_Publish :: "string \<Rightarrow> string \<Rightarrow> amqpPublishing \<Rightarrow> 'w \<Rightarrow> error option \<times> 'w"
  ac_Qos :: "int \<Rightarrow> 'w \<Rightarrow> error option \<times> 'w"
  ac_Consume :: "string \<Rightarrow> bool \<Rightarrow> bool \<Rightarrow> bool \<Rightarrow> 'w \<Rightarrow> error option \<times> 'w"
  ac_Get :: "string \<Rightarrow> bool \<Rightarrow> 'w \<Rightarrow> (error + amqpDelivery option) \<times> 'w"
  ac_Ack :: "amqpDelivery \<Rightarrow> 'w \<Rightarrow> error option \<times> 'w"
  ac_Nack :: "amqpDelivery \<Rightarrow> bool \<Rightarrow> 'w \<Rightarrow> error option \<times> 'w"

section \<open>Connection and topology\<close>

definition amqpURL :: "RabbitMQConfig \<Rightarrow> string" where
  "amqpURL c =
     (if rb_URL c \<noteq> [] then rb_URL c
      else let scheme = (if tls_Enable (rb_TLS c) then ''amqps'' else ''amqp'');
               auth = (if rb_Username c \<noteq> [] then
                         rb_Username c @ (if rb_Password c \<noteq> [] then '':'' @ rb_Password c else []) @ ''@''
                       else []);
               vhost = (if prefix ''/'' (rb_VHost c) then rb_VHost c else ''/'' @ rb_VHost c)
           in scheme @ ''://'' @ auth @ rb_Host c @ '':'' @ Itoa (rb_Port c) @ vhost)"

definition setupTopology :: "('cert, 'w) amqpClient \<Rightarrow> RabbitMQConfig \<Rightarrow> 'w \<Rightarrow> error option \<times> 'w" where
  "setupTopology cl c w =
     (case (if rb_Exchange c \<noteq> [] then ac_Declare cl (ExchangeDeclare (rb_Exchange c) (rb_Durable c) (rb_AutoDelete c)) w
            else (None, w)) of
        (Some e, w1) \<Rightarrow> (Some (Wrap (''exchange declare failed: '' @ Error e) e), w1)
      | (None, w1) \<Rightarrow>
          if rb_Queue c = [] then (None, w1)
          else (case ac_Declare cl (QueueDeclare (rb_Queue c) (rb_Durable c) (rb_AutoDelete c) (rb_Exclusive c)
                       (rb_NoWait c) (rb_Args c)) w1 of
                  (Some e, w2) \<Rightarrow> (Some (Wrap (''queue declare failed: '' @ Error e) e), w2)
                | (None, w2) \<Rightarrow>
                    if rb_Exchange c = [] then (None, w2)
                    else (case ac_Declare cl (QueueBind (rb_Queue c)
                                 (if rb_RoutingKey c = [] then ''#'' else rb_RoutingKey c) (rb_Exchange c)) w2 of
                            (Some e, w3) \<Rightarrow> (Some (Wrap (''queue bind failed: '' @ Error e) e), w3)
                          | (None, w3) \<Rightarrow> (None, w3))))"

text \<open>The package has its own copy of \<open>buildTLSConfig\<close>, the same line by line.\<close>

definition rabbit_buildTLSConfig ::
    "(string \<Rightarrow> error + string) \<Rightarrow> (string \<Rightarrow> string \<Rightarrow> error + 'cert) \<Rightarrow> TLSConfig \<Rightarrow> error + 'cert tlsClient" where
  "rabbit_buildTLSConfig readFile loadPair cfg = buildTLSConfig readFile loadPair cfg"

section \<open>Queue\<close>

type_synonym rabbitQueue = "RabbitMQConfig drvQueue"

definition rabbit_Close ::
    "('cert, 'w) amqpClient \<Rightarrow> rabbitQueue \<times> 'w \<Rightarrow> error option \<times> rabbitQueue \<times> 'w" where
  "rabbit_Close cl s =
     (case s of (q, w) \<Rightarrow>
        if dq_closed q then (None, q, w)
        else (let (r1, w1) = ac_chClose cl w;
                  (r2, w2) = ac_connClose cl w1;
                  errs = map Error (List.map_filter id [r1, r2])
              in (if errs \<noteq> [] then Some (Err (''rabbitmq close errors: '' @ Join errs ''; '')) else None,
                  q\<lparr>dq_closed := True\<rparr>, w2)))"

definition rabbit_New ::
    "('cert, 'w) amqpClient \<Rightarrow> (TLSConfig \<Rightarrow> error + 'cert tlsClient) \<Rightarrow> Config option \<Rightarrow> 'w \<Rightarrow>
     (error + rabbitQueue) \<times> 'w" where
  "rabbit_New cl tlsOf cfg w =
     (case openSection ''rabbitmq'' ErrInvalidConfig qc_RabbitMQ RabbitMQConfig_Validate cfg of
        Inl e \<Rightarrow> (Inl e, w)
      | Inr (c, r) \<Rightarrow>
          (case (if tls_Enable (rb_TLS r) then map_sum id Some (tlsOf (rb_TLS r)) else Inr None) of
             Inl e \<Rightarrow> (Inl (Wrap (''rabbitmq: build tls config failed: '' @ Error e) e), w)
           | Inr tls \<Rightarrow>
               (case ac_DialConfig cl (amqpURL r) tls w of
                  (Some e, w1) \<Rightarrow> (Inl (Wrap (''rabbitmq: dial failed: '' @ Error e) e), w1)
                | (None, w1) \<Rightarrow>
                    (case ac_Channel cl w1 of
                       (Some e, w2) \<Rightarrow>
                         (Inl (Wrap (''rabbitmq: open channel failed: '' @ Error e) e), snd (ac_connClose cl w2))
                     | (None, w2) \<Rightarrow>
                         (let q = \<lparr>dq_cfg = c, dq_section = r, dq_closed = False\<rparr>
                          in case setupTopology cl r w2 of
                               (Some e, w3) \<Rightarrow>
                                 (Inl (Wrap (''rabbitmq: setup topology failed: '' @ Error e) e),
                                  snd (snd (rabbit_Close cl (q, w3))))
                             | (None, w3) \<Rightarrow> (Inr q, w3))))))"

definition rabbit_Name :: "rabbitQueue \<Rightarrow> string" where
  "rabbit_Name q = rb_Queue (dq_section q)"

text \<open>Every producer and every consumer opens a channel of its own.\<close>

definition rabbit_Producer :: "('cert, 'w) amqpClient \<Rightarrow> rabbitQueue \<Rightarrow> 'w \<Rightarrow> error option \<times> 'w" where
  "rabbit_Producer cl q w =
     (case drvOpen q of
        Some e \<Rightarrow> (Some e, w)
      | None \<Rightarrow> (case ac_Channel cl w of
                   (Some e, w') \<Rightarrow> (Some (Wrap (''rabbitmq: create producer channel failed: '' @ Error e) e), w')
                 | (None, w') \<Rightarrow> (None, w')))"

definition rabbit_Consumer :: "('cert, 'w) amqpClient \<Rightarrow> rabbitQueue \<Rightarrow> 'w \<Rightarrow> error option \<times> 'w" where
  "rabbit_Consumer cl q w =
     (case drvOpen q of
        Some e \<Rightarrow> (Some e, w)
      | None \<Rightarrow> (case ac_Channel cl w of
                   (Some e, w') \<Rightarrow> (Some (Wrap (''rabbitmq: create consumer channel failed: '' @ Error e) e), w')
                 | (None, w') \<Rightarrow> (None, w')))"

definition rabbit_Ping :: "('cert, 'w) amqpClient \<Rightarrow> rabbitQueue \<Rightarrow> 'w \<Rightarrow> error option" where
  "rabbit_Ping cl q w = check (dq_closed q \<or> ac_IsClosed cl w) ErrQueueClosed"

definition rabbit_Stats :: "('cert, 'w) amqpClient \<Rightarrow> rabbitQueue \<Rightarrow> BaseStats \<times> 'w \<Rightarrow> error + Stats" where
  "rabbit_Stats cl q s =
     (case drvOpen q of
        Some e \<Rightarrow> Inl e
      | None \<Rightarrow>
          (let (inFlight, totalSent, consumers) = Snapshot (fst s); r = dq_section q
           in case ac_QueueDeclarePassive cl (rb_Queue r) (snd s) of
                Inl _ \<Rightarrow> Inr \<lparr>st_Driver = DriverRabbitMQ, st_Name = rb_Queue r, st_Ready = 0, st_InFlight = inFlight,
                            st_Delayed = 0, st_Total = totalSent, st_Consumers = consumers, st_Extra = []\<rparr>
              | Inr (messages, cons) \<Rightarrow>
                  Inr \<lparr>st_Driver = DriverRabbitMQ, st_Name = rb_Queue r, st_Ready = messages, st_InFlight = inFlight,
                       st_Delayed = 0, st_Total = totalSent, st_Consumers = cons,
                       st_Extra = [(''exchange'', AnyString (rb_Exchange r)), (''vhost'', AnyString (rb_VHost r))]\<rparr>))"

section \<open>Producer\<close>

definition rabbitRoute :: "RabbitMQConfig \<Rightarrow> PublishOptions \<Rightarrow> ('a, 'n) message \<Rightarrow> string" where
  "rabbitRoute c po m =
     (if po_Key po \<noteq> [] then po_Key po else publishTopic (rb_RoutingKey c) po m)"

definition rabbitPublishing :: "PublishOptions \<Rightarrow> ('a, 'n) message \<Rightarrow> amqpPublishing" where
  "rabbitPublishing po m =
     (let table = mergeHeaders po m
      in \<lparr>ap_Headers = table,
          ap_ContentType = (case table ''Content-Type'' of
                              Some ct \<Rightarrow> if ct \<noteq> [] then ct else ''application/octet-stream''
                            | None \<Rightarrow> ''application/octet-stream''),
          ap_Persistent = True, ap_MessageId = m_ID m, ap_Timestamp = m_Timestamp m, ap_Body = m_Payload m\<rparr>)"

definition rabbit_Publish ::
    "('cert, 'w) amqpClient \<Rightarrow> rabbitQueue \<Rightarrow> PublishOption list \<Rightarrow> ('a, 'n) message option \<Rightarrow> BaseStats \<times> 'w \<Rightarrow>
     error option \<times> BaseStats \<times> 'w" where
  "rabbit_Publish cl q opts msg s =
     (case msg of
        None \<Rightarrow> (Some ErrInvalidMessage, s)
      | Some m \<Rightarrow>
          (let po = publishOptions opts; r = dq_section q
           in case ac_Publish cl (rb_Exchange r) (rabbitRoute r po m) (rabbitPublishing po m) (snd s) of
                (Some e, w') \<Rightarrow> (Some (publishFailed e), fst s, w')
              | (None, w') \<Rightarrow> (None, IncTotalSent 1 (fst s), w')))"

definition rabbit_PublishBatch ::
    "('cert, 'w) amqpClient \<Rightarrow> rabbitQueue \<Rightarrow> PublishOption list \<Rightarrow> ('a, 'n) message option list \<Rightarrow> BaseStats \<times> 'w \<Rightarrow>
     error option \<times> BaseStats \<times> 'w" where
  "rabbit_PublishBatch cl q opts msgs s = publishBatch (rabbit_Publish cl q opts) msgs s"

section \<open>Consumer\<close>

text \<open>
  Header values are strings for a message this program published; \<open>%v\<close>
  prints a string as it is.
\<close>

definition rabbitMessage :: "amqpDelivery \<Rightarrow> (amqpDelivery, amqpDelivery) message" where
  "rabbitMessage d =
     SetNackFunc (SetAckFunc
       \<lparr>m_ID = (if ad_MessageId d = [] then ''amqp-'' @ Itoa (ad_DeliveryTag d) else ad_MessageId d),
        m_Topic = ad_RoutingKey d, m_Payload = ad_Body d, m_Headers = Some (ad_Headers d), m_Key = [], m_Delay = 0,
        m_Timestamp = ad_Timestamp d, m_Attempts = 1, m_acknowledged = False, m_ackFn = None, m_nackFn = None\<rparr> d) d"

definition rabbit_nack ::
    "('cert, 'w) amqpClient \<Rightarrow> amqpDelivery \<Rightarrow> bool \<Rightarrow> (amqpDelivery, amqpDelivery) message \<Rightarrow> 'w \<Rightarrow> error option \<times> 'w" where
  "rabbit_nack cl d requeue m w = ac_Nack cl d requeue w"

definition rabbit_begin ::
    "('cert, 'w) amqpClient \<Rightarrow> rabbitQueue \<Rightarrow> 'mw ConsumeOptions \<Rightarrow> amqpDelivery \<Rightarrow> BaseStats \<times> 'w \<Rightarrow>
     (amqpDelivery, amqpDelivery, 'w) delivery" where
  "rabbit_begin cl q co d = deliverBegin (ac_Ack cl) (co_AutoAck co \<or> rb_AutoAck (dq_section q)) (rabbitMessage d)"

definition rabbit_end ::
    "('cert, 'w) amqpClient \<Rightarrow> error option \<Rightarrow> (amqpDelivery, amqpDelivery, 'w) delivery \<Rightarrow>
     (amqpDelivery, amqpDelivery, 'w) delivery" where
  "rabbit_end cl = deliverEnd (ac_Ack cl)"

definition processDelivery ::
    "('cert, 'w) amqpClient \<Rightarrow> rabbitQueue \<Rightarrow> 'mw ConsumeOptions \<Rightarrow> (amqpDelivery, amqpDelivery, 'w) delivery handler \<Rightarrow>
     amqpDelivery \<Rightarrow> BaseStats \<times> 'w \<Rightarrow> unit outcome \<times> BaseStats \<times> 'w" where
  "processDelivery cl q co handler d s =
     (case handler (rabbit_begin cl q co d s) of
        (Ret err, s') \<Rightarrow> (Ret (), snd (rabbit_end cl err s'))
      | (Panic p, (m, b, w)) \<Rightarrow> (Panic p, DecInFlight b, w))"

text \<open>One worker reads the delivery channel until the context ends or the channel is closed.\<close>

fun rabbit_worker ::
    "('cert, 'w) amqpClient \<Rightarrow> rabbitQueue \<Rightarrow> 'mw ConsumeOptions \<Rightarrow> (amqpDelivery, amqpDelivery, 'w) delivery handler \<Rightarrow>
     amqpDelivery option list \<Rightarrow> BaseStats \<times> 'w \<Rightarrow> loopEnd \<times> BaseStats \<times> 'w" where
  "rabbit_worker cl q co handler [] s = (LoopRunning, s)"
| "rabbit_worker cl q co handler (None # ds) s = (LoopReturned, s)"
| "rabbit_worker cl q co handler (Some d # ds) s =
     (case processDelivery cl q co handler d s of
        (Ret _, s') \<Rightarrow> rabbit_worker cl q co handler ds s'
      | (Panic p, s') \<Rightarrow> (LoopPanicked p, s'))"

definition rabbitPrefetch :: "RabbitMQConfig \<Rightarrow> 'mw ConsumeOptions \<Rightarrow> int" where
  "rabbitPrefetch c co =
     (if co_PrefetchCount co > 0 then co_PrefetchCount co
      else if rb_PrefetchCount c > 0 then rb_PrefetchCount c else 10)"

definition rabbit_Consume ::
    "('cert, 'w) amqpClient \<Rightarrow> rabbitQueue \<Rightarrow> bool \<Rightarrow> 'mw ConsumeOption list \<Rightarrow> BaseStats \<times> 'w \<Rightarrow>
     error option \<Rightarrow> BaseStats \<times> 'w \<Rightarrow> bool" where
  "rabbit_Consume cl q handlerNil opts s r s' \<longleftrightarrow>
     (if handlerNil then r = Some ErrNilHandler \<and> s' = s
      else let co = consumeOptions opts; c = dq_section q in
        (case ac_Qos cl (rabbitPrefetch c co) (snd s) of
           (Some e, w1) \<Rightarrow> r = Some (Wrap (''rabbitmq: set qos failed: '' @ Error e) e) \<and> s' = (fst s, w1)
         | (None, w1) \<Rightarrow>
             (case ac_Consume cl (if co_Topic co \<noteq> [] then co_Topic co else rb_Queue c)
                     (rb_AutoAck c \<or> co_AutoAck co) (rb_Exclusive c) (rb_NoWait c) w1 of
                (Some e, w2) \<Rightarrow> r = Some (Wrap (''rabbitmq: consume failed: '' @ Error e) e) \<and> s' = (fst s, w2)
              | (None, w2) \<Rightarrow>
                  r = None \<and> consumes (nat (drvConcurrency co (dq_cfg q))) (rabbit_begin cl q co) (rabbit_end cl)
                    (ac_Ack cl) (rabbit_nack cl) (fst s, w2) s')))"

definition rabbit_Receive ::
    "('cert, 'w) amqpClient \<Rightarrow> rabbitQueue \<Rightarrow> 'w \<Rightarrow> (error + (amqpDelivery, amqpDelivery) message) \<times> 'w" where
  "rabbit_Receive cl q w =
     (case ac_Get cl (rb_Queue (dq_section q)) (rb_AutoAck (dq_section q)) w of
        (Inl e, w') \<Rightarrow> (Inl e, w')
      | (Inr None, w') \<Rightarrow> (Inl ErrTimeout, w')
      | (Inr (Some d), w') \<Rightarrow>
          (Inr (SetNackFunc (SetAckFunc
             \<lparr>m_ID = ad_MessageId d, m_Topic = ad_RoutingKey d, m_Payload = ad_Body d, m_Headers = Some (ad_Headers d),
              m_Key = [], m_Delay = 0, m_Timestamp = ad_Timestamp d, m_Attempts = 1, m_acknowledged = False,
              m_ackFn = None, m_nackFn = None\<rparr> d) d), w'))"

text \<open>Closing a producer or a consumer closes its channel, if it has one.\<close>

definition rabbit_producerClose :: "('cert, 'w) amqpClient \<Rightarrow> bool \<Rightarrow> 'w \<Rightarrow> error option \<times> 'w" where
  "rabbit_producerClose cl chNil w = (if \<not> chNil then ac_chClose cl w else (None, w))"

definition rabbit_consumerClose :: "('cert, 'w) amqpClient \<Rightarrow> bool \<Rightarrow> 'w \<Rightarrow> error option \<times> 'w" where
  "rabbit_consumerClose cl chNil w = (if \<not> chNil then ac_chClose cl w else (None, w))"

section \<open>The driver meets the contracts\<close>

lemma rabbitMessage_ackFn [simp]: "m_ackFn (rabbitMessage d) = Some d"
  by (simp add: rabbitMessage_def message_defs)

interpretation rabbit_drv: broker_process "rabbit_begin cl q co" "rabbit_end cl" "ac_Ack cl" "rabbit_nack cl"
    "processDelivery cl q co"
  for cl :: "('cert, 'w) amqpClient" and q :: rabbitQueue and co :: "'mw ConsumeOptions"
  by unfold_locales (auto simp: rabbit_begin_def rabbit_end_def processDelivery_def dest: deliver_contract)

interpretation rabbit_prod: broker_producer "rabbit_Publish cl q opts"
    "\<lambda>m. ac_Publish cl (rb_Exchange (dq_section q)) (rabbitRoute (dq_section q) (publishOptions opts) m)
       (rabbitPublishing (publishOptions opts) m)"
  for cl :: "('cert, 'w) amqpClient" and q :: rabbitQueue and opts
  by unfold_locales (simp_all add: rabbit_Publish_def)

interpretation rabbit_life: closable_queue "rabbit_Close cl" dq_closed
  for cl :: "('cert, 'w) amqpClient"
  by unfold_locales (auto simp: rabbit_Close_def Let_def split: if_splits prod.splits)

lemma rabbit_Consume_restores: "rabbit_Consume cl q nilH opts s r s' \<Longrightarrow> fst s' = fst s"
  by (auto simp: rabbit_Consume_def Let_def split: if_splits prod.splits option.splits
      dest: rabbit_drv.consumes_restores)

text \<open>A delivery that the broker made from a publishing.\<close>

definition delivers :: "amqpPublishing \<Rightarrow> string \<Rightarrow> amqpDelivery \<Rightarrow> bool" where
  "delivers p route d \<longleftrightarrow> ad_MessageId d = ap_MessageId p \<and> ad_RoutingKey d = route \<and> ad_Body d = ap_Body p \<and>
     ad_Headers d = ap_Headers p \<and> ad_Timestamp d = ap_Timestamp p"

lemma rabbit_roundtrip:
  assumes "delivers (rabbitPublishing po m) route d" "m_ID m \<noteq> []"
  shows "m_ID (rabbitMessage d) = m_ID m" "m_Payload (rabbitMessage d) = m_Payload m"
    "m_Headers (rabbitMessage d) = Some (mergeHeaders po m)" "m_Timestamp (rabbitMessage d) = m_Timestamp m"
  using assms by (simp_all add: delivers_def rabbitMessage_def rabbitPublishing_def message_defs Let_def)

text \<open>With automatic acknowledgement the driver still acknowledges: it asks for a delivery
  without acknowledgement and sends one.\<close>

lemma rabbit_autoack_acks:
  assumes "rb_AutoAck (dq_section q) \<or> co_AutoAck co" "rabbit_begin cl q co d (b, w) = (m, b', w')"
  shows "w' = snd (ac_Ack cl d w)"
  using assms
  by (auto simp: rabbit_begin_def deliverBegin_def ackDelivery_def Ack_def ackBegin_def rabbitMessage_def message_defs
      split: prod.splits)

end
