(* ===== verification/SqsDriver.thy ===== *)
theory SqsDriver
  imports DriverCore
begin

text \<open>
  The Amazon SQS driver, \<open>internal/queue/driver/sqs/sqs.go\<close>. The service
  client is the record \<open>sqsClient\<close> of functions on its state. A nil string
  pointer of the SDK is \<open>None\<close>.
\<close>

section \<open>Client\<close>

record sqsMsg =
  sm_MessageId :: "string option"
  sm_Body :: "string option"
  sm_ReceiptHandle :: "string option"
  sm_Attributes :: "string \<rightharpoonup> string option"

record sqsSend =
  ss_QueueUrl :: string
  ss_Body :: string
  ss_Attributes :: "string \<rightharpoonup> string"
  ss_DelaySeconds :: int
  ss_GroupId :: "string option"

record sqsReceive =
  sr_QueueUrl :: string
  sr_MaxNumberOfMessages :: int
  sr_WaitTimeSeconds :: int
  sr_VisibilityTimeout :: int

record sqsAws =
  sa_Region :: "string option"
  sa_Credentials :: "(string \<times> string \<times> string) option"
  sa_Endpoint :: "string option"

record 'w sqsClient =
  sc_LoadConfig :: "sqsAws \<Rightarrow> 'w \<Rightarrow> error option \<times> 'w"
  sc_GetQueueAttributes :: "string \<Rightarrow> string list \<Rightarrow> 'w \<Rightarrow> (error + (string \<rightharpoonup> string)) \<times> 'w"
  sc_SendMessage :: "sqsSend \<Rightarrow> 'w \<Rightarrow> error option \<times> 'w"
  sc_ReceiveMessage :: "sqsReceive \<Rightarrow> 'w \<Rightarrow> (error + sqsMsg list) \<times> 'w"
  sc_DeleteMessage :: "string \<Rightarrow> string \<Rightarrow> 'w \<Rightarrow> error option \<times> 'w"
  sc_ChangeVisibility :: "string \<Rightarrow> string \<Rightarrow> int \<Rightarrow> 'w \<Rightarrow> error option \<times> 'w"

text \<open>The conversion of an \<open>int\<close> to an \<open>int32\<close>.\<close>

definition wrap32 :: "int \<Rightarrow> int" where
  "wrap32 x = sint (word_of_int x :: 32 word)"

text \<open>\<open>int32(d.Seconds())\<close>: the fraction is dropped, then the conversion.\<close>

definition durSeconds32 :: "int \<Rightarrow> int" where
  "durSeconds32 d = wrap32 (d div Second)"

section \<open>Queue\<close>

type_synonym sqsQueue = "SQSConfig drvQueue"

definition sqsOptions :: "SQSConfig \<Rightarrow> sqsAws" where
  "sqsOptions c =
     \<lparr>sa_Region = (if sq_Region c \<noteq> [] then Some (sq_Region c) else None),
      sa_Credentials = (if sq_AccessKeyID c \<noteq> [] \<and> sq_SecretAccessKey c \<noteq> []
                        then Some (sq_AccessKeyID c, sq_SecretAccessKey c, sq_SessionToken c) else None),
      sa_Endpoint = (if sq_Endpoint c \<noteq> [] then Some (sq_Endpoint c) else None)\<rparr>"

definition sqs_New :: "'w sqsClient \<Rightarrow> Config option \<Rightarrow> 'w \<Rightarrow> (error + sqsQueue) \<times> 'w" where
  "sqs_New cl cfg w =
     (case openSection ''sqs'' ErrInvalidConfig qc_SQS SQSConfig_Validate cfg of
        Inl e \<Rightarrow> (Inl e, w)
      | Inr (c, r) \<Rightarrow>
          (case sc_LoadConfig cl (sqsOptions r) w of
             (Some e, w') \<Rightarrow> (Inl (Wrap (''sqs: load aws config failed: '' @ Error e) e), w')
           | (None, w') \<Rightarrow> (Inr \<lparr>dq_cfg = c, dq_section = r, dq_closed = False\<rparr>, w')))"

definition sqs_Name :: "sqsQueue \<Rightarrow> string" where
  "sqs_Name q = sq_QueueURL (dq_section q)"

definition sqs_Producer :: "sqsQueue \<Rightarrow> error option" where
  "sqs_Producer q = drvOpen q"

definition sqs_Consumer :: "sqsQueue \<Rightarrow> error option" where
  "sqs_Consumer q = drvOpen q"

abbreviation attrReady :: string where "attrReady \<equiv> ''ApproximateNumberOfMessages''"
abbreviation attrNotVisible :: string where "attrNotVisible \<equiv> ''ApproximateNumberOfMessagesNotVisible''"
abbreviation attrDelayed :: string where "attrDelayed \<equiv> ''ApproximateNumberOfMessagesDelayed''"

definition sqs_Ping :: "'w sqsClient \<Rightarrow> sqsQueue \<Rightarrow> 'w \<Rightarrow> error option \<times> 'w" where
  "sqs_Ping cl q w =
     (case drvOpen q of
        Some e \<Rightarrow> (Some e, w)
      | None \<Rightarrow> (case sc_GetQueueAttributes cl (sq_QueueURL (dq_section q)) [attrReady] w of
                   (Inl e, w') \<Rightarrow> (Some e, w')
                 | (Inr _, w') \<Rightarrow> (None, w')))"

text \<open>\<open>parseInt\<close> is \<open>strconv.ParseInt(val, 10, 64)\<close> with its error dropped.\<close>

definition sqs_Stats ::
    "'w sqsClient \<Rightarrow> (string \<Rightarrow> int) \<Rightarrow> sqsQueue \<Rightarrow> BaseStats \<times> 'w \<Rightarrow> (error + Stats) \<times> 'w" where
  "sqs_Stats cl parseInt q s =
     (case drvOpen q of
        Some e \<Rightarrow> (Inl e, snd s)
      | None \<Rightarrow>
          (let url = sq_QueueURL (dq_section q); b = fst s
           in case sc_GetQueueAttributes cl url [attrReady, attrNotVisible, attrDelayed] (snd s) of
                (Inl _, w') \<Rightarrow>
                  (Inr \<lparr>st_Driver = DriverSQS, st_Name = url, st_Ready = 0, st_InFlight = bs_InFlight b, st_Delayed = 0,
                        st_Total = bs_TotalSent b, st_Consumers = bs_ActiveCons b, st_Extra = []\<rparr>, w')
              | (Inr attrs, w') \<Rightarrow>
                  (let num = (\<lambda>k. case attrs k of Some v \<Rightarrow> parseInt v | None \<Rightarrow> 0)
                   in (Inr \<lparr>st_Driver = DriverSQS, st_Name = url, st_Ready = num attrReady,
                            st_InFlight = num attrNotVisible, st_Delayed = num attrDelayed,
                            st_Total = bs_TotalSent b, st_Consumers = bs_ActiveCons b,
                            st_Extra = [(''region'', AnyString (sq_Region (dq_section q)))]\<rparr>, w'))))"

definition sqs_Close :: "sqsQueue \<Rightarrow> error option \<times> sqsQueue" where
  "sqs_Close q = (None, q\<lparr>dq_closed := True\<rparr>)"

section \<open>Producer\<close>

definition sqsInput :: "string \<Rightarrow> PublishOptions \<Rightarrow> ('a, 'n) message \<Rightarrow> sqsSend" where
  "sqsInput url po m =
     \<lparr>ss_QueueUrl = (if po_Topic po \<noteq> [] then po_Topic po else url), ss_Body = m_Payload m,
      ss_Attributes = (if m_ID m \<noteq> [] then (mergeHeaders po m)(''MessageId'' \<mapsto> m_ID m) else mergeHeaders po m),
      ss_DelaySeconds = (if po_Delay po > 0 then durSeconds32 (po_Delay po)
                         else if m_Delay m > 0 then durSeconds32 (m_Delay m) else 0),
      ss_GroupId = (if po_Key po \<noteq> [] then Some (po_Key po) else if m_Key m \<noteq> [] then Some (m_Key m) else None)\<rparr>"

definition sqs_Publish ::
    "'w sqsClient \<Rightarrow> sqsQueue \<Rightarrow> PublishOption list \<Rightarrow> ('a, 'n) message option \<Rightarrow> BaseStats \<times> 'w \<Rightarrow>
     error option \<times> BaseStats \<times> 'w" where
  "sqs_Publish cl q opts msg s =
     (case msg of
        None \<Rightarrow> (Some ErrInvalidMessage, s)
      | Some m \<Rightarrow>
          (case sc_SendMessage cl (sqsInput (sq_QueueURL (dq_section q)) (publishOptions opts) m) (snd s) of
             (Some e, w') \<Rightarrow> (Some (publishFailed e), fst s, w')
           | (None, w') \<Rightarrow> (None, IncTotalSent 1 (fst s), w')))"

definition sqs_PublishBatch ::
    "'w sqsClient \<Rightarrow> sqsQueue \<Rightarrow> PublishOption list \<Rightarrow> ('a, 'n) message option list \<Rightarrow> BaseStats \<times> 'w \<Rightarrow>
     error option \<times> BaseStats \<times> 'w" where
  "sqs_PublishBatch cl q opts msgs s = publishBatch (sqs_Publish cl q opts) msgs s"

section \<open>Consumer\<close>

text \<open>The callbacks close over the queue URL and the message.\<close>

type_synonym sqsItem = "string \<times> sqsMsg"

definition toStr :: "string option \<Rightarrow> string" where
  "toStr p = (case p of None \<Rightarrow> [] | Some s \<Rightarrow> s)"

definition sqsHeaders :: "(string \<rightharpoonup> string option) \<Rightarrow> (string \<rightharpoonup> string)" where
  "sqsHeaders attrs k = (case attrs k of Some (Some v) \<Rightarrow> Some v | _ \<Rightarrow> None)"

definition sqsMessage :: "int \<Rightarrow> sqsItem \<Rightarrow> (sqsItem, sqsItem) message" where
  "sqsMessage now x =
     SetNackFunc (SetAckFunc
       \<lparr>m_ID = toStr (sm_MessageId (snd x)), m_Topic = fst x, m_Payload = toStr (sm_Body (snd x)),
        m_Headers = Some (sqsHeaders (sm_Attributes (snd x))), m_Key = [], m_Delay = 0, m_Timestamp = Some now,
        m_Attempts = 1, m_acknowledged = False, m_ackFn = None, m_nackFn = None\<rparr> x) x"

definition sqs_ack :: "'w sqsClient \<Rightarrow> sqsItem \<Rightarrow> 'w \<Rightarrow> error option \<times> 'w" where
  "sqs_ack cl x w =
     (let handle = toStr (sm_ReceiptHandle (snd x))
      in if handle = [] then (None, w) else sc_DeleteMessage cl (fst x) handle w)"

definition sqs_nack :: "'w sqsClient \<Rightarrow> sqsItem \<Rightarrow> bool \<Rightarrow> (sqsItem, sqsItem) message \<Rightarrow> 'w \<Rightarrow> error option \<times> 'w" where
  "sqs_nack cl x requeue m w =
     (let handle = toStr (sm_ReceiptHandle (snd x))
      in if handle = [] then (None, w)
         else if requeue then sc_ChangeVisibility cl (fst x) handle 0 w
         else (None, w))"

definition sqs_begin ::
    "'w sqsClient \<Rightarrow> int \<Rightarrow> 'mw ConsumeOptions \<Rightarrow> sqsItem \<Rightarrow> BaseStats \<times> 'w \<Rightarrow> (sqsItem, sqsItem, 'w) delivery" where
  "sqs_begin cl now co x = deliverBegin (sqs_ack cl) (co_AutoAck co) (sqsMessage now x)"

definition sqs_end ::
    "'w sqsClient \<Rightarrow> error option \<Rightarrow> (sqsItem, sqsItem, 'w) delivery \<Rightarrow> (sqsItem, sqsItem, 'w) delivery" where
  "sqs_end cl = deliverEnd (sqs_ack cl)"

definition sqs_processMessage ::
    "'w sqsClient \<Rightarrow> int \<Rightarrow> 'mw ConsumeOptions \<Rightarrow> (sqsItem, sqsItem, 'w) delivery handler \<Rightarrow> sqsItem \<Rightarrow>
     BaseStats \<times> 'w \<Rightarrow> unit outcome \<times> BaseStats \<times> 'w" where
  "sqs_processMessage cl now co handler x s =
     (case handler (sqs_begin cl now co x s) of
        (Ret err, s') \<Rightarrow> (Ret (), snd (sqs_end cl err s'))
      | (Panic p, (m, b, w)) \<Rightarrow> (Panic p, DecInFlight b, w))"

text \<open>What every poll of \<open>Consume\<close> asks for.\<close>

definition sqsPoll :: "SQSConfig \<Rightarrow> 'mw ConsumeOptions \<Rightarrow> sqsReceive" where
  "sqsPoll c co =
     (let max0 = (if sq_MaxNumberOfMessages c > 0 then sq_MaxNumberOfMessages c else 10);
          max1 = (if co_BatchSize co > 0 \<and> wrap32 (co_BatchSize co) < max0 then wrap32 (co_BatchSize co) else max0)
      in \<lparr>sr_QueueUrl = (if co_Topic co \<noteq> [] then co_Topic co else sq_QueueURL c),
          sr_MaxNumberOfMessages = (if max1 > 10 then 10 else max1),
          sr_WaitTimeSeconds = (if sq_WaitTimeSeconds c > 0 then sq_WaitTimeSeconds c else 20),
          sr_VisibilityTimeout = (if sq_VisibilityTimeout c > 0 then sq_VisibilityTimeout c else 30)\<rparr>)"

definition sqs_worker ::
    "'w sqsClient \<Rightarrow> int \<Rightarrow> 'mw ConsumeOptions \<Rightarrow> (sqsItem, sqsItem, 'w) delivery handler \<Rightarrow> (int \<Rightarrow> int) \<Rightarrow>
     sqsItem fetch list \<Rightarrow> Backoff \<times> BaseStats \<times> 'w \<Rightarrow> loopEnd \<times> Backoff \<times> BaseStats \<times> 'w" where
  "sqs_worker cl now co handler rnd polls s = receiveLoop (sqs_processMessage cl now co handler) rnd polls s"

definition sqs_Consume ::
    "'w sqsClient \<Rightarrow> int \<Rightarrow> sqsQueue \<Rightarrow> bool \<Rightarrow> 'mw ConsumeOption list \<Rightarrow> BaseStats \<times> 'w \<Rightarrow>
     error option \<Rightarrow> BaseStats \<times> 'w \<Rightarrow> bool" where
  "sqs_Consume cl now q handlerNil opts s r s' \<longleftrightarrow>
     (if handlerNil then r = Some ErrNilHandler \<and> s' = s
      else let co = consumeOptions opts in
        r = None \<and> consumes (nat (drvConcurrency co (dq_cfg q))) (sqs_begin cl now co) (sqs_end cl) (sqs_ack cl)
          (sqs_nack cl) s s')"

definition sqs_Receive ::
    "'w sqsClient \<Rightarrow> int \<Rightarrow> sqsQueue \<Rightarrow> ReceiveOption list \<Rightarrow> 'w \<Rightarrow> (error + (sqsItem, unit) message) \<times> 'w" where
  "sqs_Receive cl now q opts w =
     (let ro = receiveOptions opts; url = sq_QueueURL (dq_section q);
          timeout = (if ro_Timeout ro > 0 then durSeconds32 (ro_Timeout ro) else 5)
      in case sc_ReceiveMessage cl \<lparr>sr_QueueUrl = url, sr_MaxNumberOfMessages = 1, sr_WaitTimeSeconds = timeout,
                sr_VisibilityTimeout = 0\<rparr> w of
           (Inl e, w') \<Rightarrow> (Inl e, w')
         | (Inr [], w') \<Rightarrow> (Inl ErrTimeout, w')
         | (Inr (x # _), w') \<Rightarrow>
             (Inr (SetNackFunc (SetAckFunc
                \<lparr>m_ID = toStr (sm_MessageId x), m_Topic = url, m_Payload = toStr (sm_Body x), m_Headers = None,
                 m_Key = [], m_Delay = 0, m_Timestamp = Some now, m_Attempts = 1, m_acknowledged = False,
                 m_ackFn = None, m_nackFn = None\<rparr> (url, x)) ()), w'))"

section \<open>The driver meets the contracts\<close>

lemma sqsMessage_ackFn [simp]: "m_ackFn (sqsMessage now x) = Some x"
  by (simp add: sqsMessage_def message_defs)

interpretation sqs_drv: broker_process "sqs_begin cl now co" "sqs_end cl" "sqs_ack cl" "sqs_nack cl"
    "sqs_processMessage cl now co"
  for cl :: "'w sqsClient" and now and co :: "'mw ConsumeOptions"
  by unfold_locales (auto simp: sqs_begin_def sqs_end_def sqs_processMessage_def dest: deliver_contract)

interpretation sqs_prod: broker_producer "sqs_Publish cl q opts"
    "\<lambda>m. sc_SendMessage cl (sqsInput (sq_QueueURL (dq_section q)) (publishOptions opts) m)"
  for cl :: "'w sqsClient" and q :: sqsQueue and opts
  by unfold_locales (simp_all add: sqs_Publish_def)

text \<open>\<open>Close\<close> of this driver touches nothing but the flag.\<close>

definition sqsCloseW :: "sqsQueue \<times> 'w \<Rightarrow> error option \<times> sqsQueue \<times> 'w" where
  "sqsCloseW s = (case sqs_Close (fst s) of (r, q) \<Rightarrow> (r, q, snd s))"

interpretation sqs_life: closable_queue sqsCloseW dq_closed
  by unfold_locales (auto simp: sqsCloseW_def sqs_Close_def)

lemma sqs_Consume_restores: "sqs_Consume cl now q nilH opts s r s' \<Longrightarrow> fst s' = fst s"
  by (auto simp: sqs_Consume_def Let_def split: if_splits dest: sqs_drv.consumes_restores)

lemma wrap32_id: "- (2 ^ 31) \<le> x \<Longrightarrow> x < 2 ^ 31 \<Longrightarrow> wrap32 x = x"
  by (simp add: wrap32_def int_word_sint)

text \<open>A message that the service made from a send request; it gives it an identifier of its own.\<close>

definition sqsDelivers :: "sqsSend \<Rightarrow> sqsMsg \<Rightarrow> bool" where
  "sqsDelivers p x \<longleftrightarrow> sm_Body x = Some (ss_Body p) \<and> sm_Attributes x = (\<lambda>k. map_option Some (ss_Attributes p k))"

lemma sqs_roundtrip:
  assumes "sqsDelivers (sqsInput url po m) x" "m_ID m \<noteq> []"
  shows "m_Payload (sqsMessage now (url', x)) = m_Payload m"
    "m_Headers (sqsMessage now (url', x)) = Some ((mergeHeaders po m)(''MessageId'' \<mapsto> m_ID m))"
    "m_ID (sqsMessage now (url', x)) = toStr (sm_MessageId x)"
proof -
  have "sqsHeaders (\<lambda>k. map_option Some (h k)) = h" for h :: "string \<rightharpoonup> string"
    by (auto simp: sqsHeaders_def fun_eq_iff split: option.splits)
  then show "m_Payload (sqsMessage now (url', x)) = m_Payload m"
    "m_Headers (sqsMessage now (url', x)) = Some ((mergeHeaders po m)(''MessageId'' \<mapsto> m_ID m))"
    "m_ID (sqsMessage now (url', x)) = toStr (sm_MessageId x)"
    using assms by (simp_all add: sqsMessage_def sqsDelivers_def sqsInput_def message_defs toStr_def fun_upd_def)
qed

end
