(* ===== verification/NatsDriver.thy ===== *)
theory NatsDriver
  imports DriverCore
begin

text \<open>
  The NATS driver, \<open>internal/queue/driver/nats/nats.go\<close>, with and without
  JetStream. The client is the record \<open>natsClient\<close> of functions on its state.
  A header of the client maps a name to a list of values.
\<close>

section \<open>Client\<close>

record natsMsg =
  nm_Subject :: string
  nm_Data :: string
  nm_Header :: "string \<rightharpoonup> string list"

datatype natsAuth = NatsNone | NatsToken string | NatsUser string string | NatsCreds string

record 'cert natsOptions =
  no_Servers :: string
  no_Auth :: "natsAuth"
  no_TLS :: "'cert tlsClient option"

record ('cert, 'w) natsClient =
  nc_Connect :: "'cert natsOptions \<Rightarrow> 'w \<Rightarrow> error option \<times> 'w"
  nc_JetStream :: "'w \<Rightarrow> error option \<times> 'w"
  nc_Close :: "'w \<Rightarrow> 'w"
  nc_IsConnected :: "'w \<Rightarrow> bool"
  nc_Stats :: "'w \<Rightarrow> int \<times> int \<times> int"
  nc_PublishMsg :: "natsMsg \<Rightarrow> 'w \<Rightarrow> error option \<times> 'w"
  nc_jsPublishMsg :: "natsMsg \<Rightarrow> 'w \<Rightarrow> error option \<times> 'w"
  nc_QueueSubscribe :: "string \<Rightarrow> string \<Rightarrow> 'w \<Rightarrow> error option \<times> 'w"
  nc_jsQueueSubscribe :: "string \<Rightarrow> string \<Rightarrow> string option \<Rightarrow> 'w \<Rightarrow> error option \<times> 'w"
  nc_Subscribe :: "string \<Rightarrow> 'w \<Rightarrow> error option \<times> 'w"
  nc_NextMsg :: "int \<Rightarrow> 'w \<Rightarrow> (error + natsMsg) \<times> 'w"
  nc_Unsubscribe :: "'w \<Rightarrow> 'w"
  nc_Ack :: "natsMsg \<Rightarrow> 'w \<Rightarrow> error option \<times> 'w"
  nc_Nak :: "natsMsg \<Rightarrow> 'w \<Rightarrow> error option \<times> 'w"

abbreviation natsErrTimeout :: error where "natsErrTimeout \<equiv> Err ''nats: timeout''"

text \<open>The package has its own copy of \<open>buildTLSConfig\<close>, the same line by line.\<close>

definition nats_buildTLSConfig ::
    "(string \<Rightarrow> error + string) \<Rightarrow> (string \<Rightarrow> string \<Rightarrow> error + 'cert) \<Rightarrow> TLSConfig \<Rightarrow> error + 'cert tlsClient" where
  "nats_buildTLSConfig readFile loadPair cfg = buildTLSConfig readFile loadPair cfg"

section \<open>Queue\<close>

text \<open>\<open>nq_js\<close>: the JetStream context is set, which it is exactly when the section asks for it.\<close>

record natsQueue = "NATSConfig drvQueue" +
  nq_js :: bool

definition natsAuthOf :: "NATSConfig \<Rightarrow> natsAuth" where
  "natsAuthOf c =
     (if na_Token c \<noteq> [] then NatsToken (na_Token c)
      else if na_Username c \<noteq> [] then NatsUser (na_Username c) (na_Password c)
      else if na_CredsFile c \<noteq> [] then NatsCreds (na_CredsFile c) else NatsNone)"

definition nats_New ::
    "('cert, 'w) natsClient \<Rightarrow> (TLSConfig \<Rightarrow> error + 'cert tlsClient) \<Rightarrow> Config option \<Rightarrow> 'w \<Rightarrow> (error + natsQueue) \<times> 'w" where
  "nats_New cl tlsOf cfg w =
     (case openSection ''nats'' ErrInvalidConfig qc_NATS NATSConfig_Validate cfg of
        Inl e \<Rightarrow> (Inl e, w)
      | Inr (c, n) \<Rightarrow>
          (case (if tls_Enable (na_TLS n) then map_sum id Some (tlsOf (na_TLS n)) else Inr None) of
             Inl e \<Rightarrow> (Inl (Wrap (''nats: build tls config failed: '' @ Error e) e), w)
           | Inr tls \<Rightarrow>
               (case nc_Connect cl \<lparr>no_Servers = Join (na_Servers n) '','', no_Auth = natsAuthOf n, no_TLS = tls\<rparr> w of
                  (Some e, w1) \<Rightarrow> (Inl (Wrap (''nats: connect failed: '' @ Error e) e), w1)
                | (None, w1) \<Rightarrow>
                    if na_JetStream n then
                      (case nc_JetStream cl w1 of
                         (Some e, w2) \<Rightarrow> (Inl (Wrap (''nats: init jetstream failed: '' @ Error e) e), nc_Close cl w2)
                       | (None, w2) \<Rightarrow> (Inr \<lparr>dq_cfg = c, dq_section = n, dq_closed = False, nq_js = True\<rparr>, w2))
                    else (Inr \<lparr>dq_cfg = c, dq_section = n, dq_closed = False, nq_js = False\<rparr>, w1))))"

definition nats_Name :: "natsQueue \<Rightarrow> string" where
  "nats_Name q = na_Subject (dq_section q)"

definition nats_Producer :: "natsQueue \<Rightarrow> error option" where
  "nats_Producer q = drvOpen q"

definition nats_Consumer :: "natsQueue \<Rightarrow> error option" where
  "nats_Consumer q = drvOpen q"

definition nats_Ping :: "('cert, 'w) natsClient \<Rightarrow> natsQueue \<Rightarrow> 'w \<Rightarrow> error option" where
  "nats_Ping cl q w = check (dq_closed q \<or> \<not> nc_IsConnected cl w) ErrQueueClosed"

definition nats_Stats :: "('cert, 'w) natsClient \<Rightarrow> natsQueue \<Rightarrow> BaseStats \<times> 'w \<Rightarrow> error + Stats" where
  "nats_Stats cl q s =
     (case drvOpen q of
        Some e \<Rightarrow> Inl e
      | None \<Rightarrow>
          (let (inMsgs, outMsgs, reconnects) = nc_Stats cl (snd s);
               (inFlight, totalSent, consumers) = Snapshot (fst s)
           in Inr \<lparr>st_Driver = DriverNATS, st_Name = na_Subject (dq_section q), st_Ready = 0, st_InFlight = inFlight,
                   st_Delayed = 0, st_Total = totalSent, st_Consumers = consumers,
                   st_Extra = [(''jetstream'', AnyBool (na_JetStream (dq_section q))), (''in_msgs'', AnyInt inMsgs),
                               (''out_msgs'', AnyInt outMsgs), (''reconnects'', AnyInt reconnects)]\<rparr>))"

definition nats_Close :: "('cert, 'w) natsClient \<Rightarrow> natsQueue \<times> 'w \<Rightarrow> error option \<times> natsQueue \<times> 'w" where
  "nats_Close cl s =
     (case s of (q, w) \<Rightarrow>
        if dq_closed q then (None, q, w) else (None, q\<lparr>dq_closed := True\<rparr>, nc_Close cl w))"

section \<open>Producer\<close>

text \<open>\<open>Header.Set\<close> replaces the values of a name by one.\<close>

definition natsRecord :: "string \<Rightarrow> PublishOptions \<Rightarrow> ('a, 'n) message \<Rightarrow> natsMsg" where
  "natsRecord subject po m =
     (let hs = mergeHeaders po m;
          hs' = (if m_ID m \<noteq> [] then hs(''Nats-Msg-Id'' \<mapsto> m_ID m) else hs)
      in \<lparr>nm_Subject = publishTopic subject po m, nm_Data = m_Payload m,
          nm_Header = (\<lambda>k. map_option (\<lambda>v. [v]) (hs' k))\<rparr>)"

definition nats_Publish ::
    "('cert, 'w) natsClient \<Rightarrow> natsQueue \<Rightarrow> PublishOption list \<Rightarrow> ('a, 'n) message option \<Rightarrow> BaseStats \<times> 'w \<Rightarrow>
     error option \<times> BaseStats \<times> 'w" where
  "nats_Publish cl q opts msg s =
     (case msg of
        None \<Rightarrow> (Some ErrInvalidMessage, s)
      | Some m \<Rightarrow>
          (let n = natsRecord (na_Subject (dq_section q)) (publishOptions opts) m
           in case (if na_JetStream (dq_section q) \<and> nq_js q then nc_jsPublishMsg cl n (snd s)
                    else nc_PublishMsg cl n (snd s)) of
                (Some e, w') \<Rightarrow> (Some (publishFailed e), fst s, w')
              | (None, w') \<Rightarrow> (None, IncTotalSent 1 (fst s), w')))"

definition nats_PublishBatch ::
    "('cert, 'w) natsClient \<Rightarrow> natsQueue \<Rightarrow> PublishOption list \<Rightarrow> ('a, 'n) message option list \<Rightarrow> BaseStats \<times> 'w \<Rightarrow>
     error option \<times> BaseStats \<times> 'w" where
  "nats_PublishBatch cl q opts msgs s = publishBatch (nats_Publish cl q opts) msgs s"

section \<open>Consumer\<close>

definition firstValue :: "(string \<rightharpoonup> string list) \<Rightarrow> (string \<rightharpoonup> string)" where
  "firstValue h k = (case h k of Some (v # _) \<Rightarrow> Some v | _ \<Rightarrow> None)"

definition natsMessage :: "int \<Rightarrow> natsMsg \<Rightarrow> (natsMsg, natsMsg) message" where
  "natsMessage now n =
     (let headers = firstValue (nm_Header n);
          ident = (case headers ''Nats-Msg-Id'' of Some v \<Rightarrow> v | None \<Rightarrow> [])
      in SetNackFunc (SetAckFunc
           \<lparr>m_ID = (if ident = [] then ''nats-'' @ Itoa now else ident), m_Topic = nm_Subject n, m_Payload = nm_Data n,
            m_Headers = Some headers, m_Key = [], m_Delay = 0, m_Timestamp = Some now, m_Attempts = 1,
            m_acknowledged = False, m_ackFn = None, m_nackFn = None\<rparr> n) n)"

definition nats_nack ::
    "('cert, 'w) natsClient \<Rightarrow> natsQueue \<Rightarrow> natsMsg \<Rightarrow> bool \<Rightarrow> (natsMsg, natsMsg) message \<Rightarrow> 'w \<Rightarrow> error option \<times> 'w" where
  "nats_nack cl q n requeue m w = (if na_JetStream (dq_section q) then nc_Nak cl n w else (None, w))"

definition nats_begin ::
    "('cert, 'w) natsClient \<Rightarrow> int \<Rightarrow> 'mw ConsumeOptions \<Rightarrow> natsMsg \<Rightarrow> BaseStats \<times> 'w \<Rightarrow> (natsMsg, natsMsg, 'w) delivery" where
  "nats_begin cl now co n = deliverBegin (nc_Ack cl) (co_AutoAck co) (natsMessage now n)"

definition nats_end ::
    "('cert, 'w) natsClient \<Rightarrow> error option \<Rightarrow> (natsMsg, natsMsg, 'w) delivery \<Rightarrow> (natsMsg, natsMsg, 'w) delivery" where
  "nats_end cl = deliverEnd (nc_Ack cl)"

definition processMsg ::
    "('cert, 'w) natsClient \<Rightarrow> int \<Rightarrow> 'mw ConsumeOptions \<Rightarrow> (natsMsg, natsMsg, 'w) delivery handler \<Rightarrow> natsMsg \<Rightarrow>
     BaseStats \<times> 'w \<Rightarrow> unit outcome \<times> BaseStats \<times> 'w" where
  "processMsg cl now co handler n s =
     (case handler (nats_begin cl now co n s) of
        (Ret err, s') \<Rightarrow> (Ret (), snd (nats_end cl err s'))
      | (Panic p, (m, b, w)) \<Rightarrow> (Panic p, DecInFlight b, w))"

text \<open>One worker reads the message channel until the context ends or the channel is closed.\<close>

fun nats_worker ::
    "('cert, 'w) natsClient \<Rightarrow> int \<Rightarrow> 'mw ConsumeOptions \<Rightarrow> (natsMsg, natsMsg, 'w) delivery handler \<Rightarrow>
     natsMsg option list \<Rightarrow> BaseStats \<times> 'w \<Rightarrow> loopEnd \<times> BaseStats \<times> 'w" where
  "nats_worker cl now co handler [] s = (LoopRunning, s)"
| "nats_worker cl now co handler (None # ns) s = (LoopReturned, s)"
| "nats_worker cl now co handler (Some n # ns) s =
     (case processMsg cl now co handler n s of
        (Ret _, s') \<Rightarrow> nats_worker cl now co handler ns s'
      | (Panic p, s') \<Rightarrow> (LoopPanicked p, s'))"

text \<open>
  One iteration of the fetcher loop, which fills that channel and closes it
  when it returns. \<open>NextMsg n stop\<close> is a message of the subscription, where
  \<open>stop\<close> says that the select on the full or ready channel took the end of the
  context; \<open>NextErr ctxErr fired\<close> is an error, with the context ended or not and
  the timer of the wait fired or not. The result is \<open>None\<close> while the channel
  is full and the context alive.
\<close>

datatype natsNext = NextDone | NextErr bool bool | NextMsg natsMsg bool

definition closeOnReturn :: "natsMsg chan \<Rightarrow> natsMsg chan" where
  "closeOnReturn ch = (case chanClose ch of Ret ch' \<Rightarrow> ch' | Panic _ \<Rightarrow> ch)"

fun natsFetch ::
    "(int \<Rightarrow> int) \<Rightarrow> natsNext \<Rightarrow> Backoff \<times> natsMsg chan \<Rightarrow> (loopEnd \<times> Backoff \<times> natsMsg chan) option" where
  "natsFetch rnd NextDone (bo, ch) = Some (LoopReturned, bo, closeOnReturn ch)"
| "natsFetch rnd (NextErr ctxErr fired) (bo, ch) =
     (if ctxErr then Some (LoopReturned, bo, closeOnReturn ch)
      else case Wait False (\<lambda>_. fired) rnd bo of
             (True, bo') \<Rightarrow> Some (LoopRunning, bo', ch)
           | (False, bo') \<Rightarrow> Some (LoopReturned, bo', closeOnReturn ch))"
| "natsFetch rnd (NextMsg n stop) (bo, ch) =
     (if stop then Some (LoopReturned, bo, closeOnReturn ch)
      else case chanSend ch n of
             SendOk ch' \<Rightarrow> Some (LoopRunning, bo, ch')
           | SendBlock \<Rightarrow> None
           | SendPanic \<Rightarrow> Some (LoopPanicked ''send on closed channel'', bo, ch))"

text \<open>
  \<open>Consume\<close> subscribes with a queue group and hands the messages of the
  subscription to the workers through a channel. It counts one active
  consumer, whatever the number of workers, and uncounts it on every path.
\<close>

definition natsSubscribe ::
    "('cert, 'w) natsClient \<Rightarrow> natsQueue \<Rightarrow> 'mw ConsumeOptions \<Rightarrow> 'w \<Rightarrow> error option \<times> 'w" where
  "natsSubscribe cl q co w =
     (let c = dq_section q;
          subject = (if co_Topic co \<noteq> [] then co_Topic co else na_Subject c);
          grp = (if na_QueueGroup c = [] then ''mailbaby_workers'' else na_QueueGroup c)
      in if na_JetStream c \<and> nq_js q
         then nc_jsQueueSubscribe cl subject grp (if na_Durable c \<noteq> [] then Some (na_Durable c) else None) w
         else nc_QueueSubscribe cl subject grp w)"

definition nats_Consume ::
    "('cert, 'w) natsClient \<Rightarrow> int \<Rightarrow> natsQueue \<Rightarrow> bool \<Rightarrow> 'mw ConsumeOption list \<Rightarrow> BaseStats \<times> 'w \<Rightarrow>
     error option \<Rightarrow> BaseStats \<times> 'w \<Rightarrow> bool" where
  "nats_Consume cl now q handlerNil opts s r s' \<longleftrightarrow>
     (if handlerNil then r = Some ErrNilHandler \<and> s' = s
      else let co = consumeOptions opts in
        (case natsSubscribe cl q co (snd s) of
           (Some e, w1) \<Rightarrow> r = Some (Wrap (''nats: subscribe failed: '' @ Error e) e) \<and> s' = (fst s, w1)
         | (None, w1) \<Rightarrow>
             r = None \<and>
             (\<exists>ws. workers_reachable (nat (drvConcurrency co (dq_cfg q))) (nats_begin cl now co) (nats_end cl) (nc_Ack cl)
                     (nats_nack cl q) (IncActiveCons 1 (fst s), w1) ws \<and> wp_proc ws = [] \<and>
                s' = (DecActiveCons 1 (wp_stats ws), nc_Unsubscribe cl (wp_world ws)))))"

definition nats_Receive ::
    "('cert, 'w) natsClient \<Rightarrow> int \<Rightarrow> natsQueue \<Rightarrow> ReceiveOption list \<Rightarrow> 'w \<Rightarrow> (error + (natsMsg, unit) message) \<times> 'w" where
  "nats_Receive cl now q opts w =
     (let ro = receiveOptions opts; timeout = (if ro_Timeout ro > 0 then ro_Timeout ro else 5 * Second)
      in case nc_Subscribe cl (na_Subject (dq_section q)) w of
           (Some e, w1) \<Rightarrow> (Inl e, w1)
         | (None, w1) \<Rightarrow>
             (case nc_NextMsg cl timeout w1 of
                (Inl e, w2) \<Rightarrow> (Inl (if e = natsErrTimeout then ErrTimeout else e), nc_Unsubscribe cl w2)
              | (Inr n, w2) \<Rightarrow>
                  (Inr (SetNackFunc (SetAckFunc
                     \<lparr>m_ID = (case firstValue (nm_Header n) ''Nats-Msg-Id'' of Some v \<Rightarrow> v | None \<Rightarrow> []),
                      m_Topic = nm_Subject n, m_Payload = nm_Data n, m_Headers = None, m_Key = [], m_Delay = 0,
                      m_Timestamp = Some now, m_Attempts = 1, m_acknowledged = False, m_ackFn = None,
                      m_nackFn = None\<rparr> n) ()), nc_Unsubscribe cl w2)))"

section \<open>The driver meets the contracts\<close>

lemma natsMessage_ackFn [simp]: "m_ackFn (natsMessage now n) = Some n"
  by (simp add: natsMessage_def message_defs Let_def)

interpretation nats_drv: broker_process "nats_begin cl now co" "nats_end cl" "nc_Ack cl" "nats_nack cl q"
    "processMsg cl now co"
  for cl :: "('cert, 'w) natsClient" and now and co :: "'mw ConsumeOptions" and q :: natsQueue
  by unfold_locales (auto simp: nats_begin_def nats_end_def processMsg_def dest: deliver_contract)

interpretation nats_prod: broker_producer "nats_Publish cl q opts"
    "\<lambda>m. if na_JetStream (dq_section q) \<and> nq_js q
         then nc_jsPublishMsg cl (natsRecord (na_Subject (dq_section q)) (publishOptions opts) m)
         else nc_PublishMsg cl (natsRecord (na_Subject (dq_section q)) (publishOptions opts) m)"
  for cl :: "('cert, 'w) natsClient" and q :: natsQueue and opts
  by unfold_locales (auto simp: nats_Publish_def Let_def split: if_splits)

interpretation nats_life: closable_queue "nats_Close cl" dq_closed
  for cl :: "('cert, 'w) natsClient"
  by unfold_locales (auto simp: nats_Close_def split: if_splits)

lemma nats_Consume_restores: "nats_Consume cl now q nilH opts s r s' \<Longrightarrow> fst s' = fst s"
  using nats_drv.workers_exact [where cl = cl and now = now and co = "consumeOptions opts" and q = q]
  by (force simp: nats_Consume_def Let_def workersExact_def workers_inv_def IncActiveCons_def DecActiveCons_def
      split: if_splits prod.splits option.splits)

lemma nats_roundtrip:
  assumes "m_ID m \<noteq> []" "n = natsRecord subject po m"
  shows "m_ID (natsMessage now n) = m_ID m" "m_Payload (natsMessage now n) = m_Payload m"
    "m_Headers (natsMessage now n) = Some ((mergeHeaders po m)(''Nats-Msg-Id'' \<mapsto> m_ID m))"
    "m_Topic (natsMessage now n) = publishTopic subject po m"
proof -
  have "firstValue (\<lambda>k. map_option (\<lambda>v. [v]) (h k)) = h" for h :: "string \<rightharpoonup> string"
    by (auto simp: firstValue_def fun_eq_iff split: option.splits)
  then show "m_ID (natsMessage now n) = m_ID m" "m_Payload (natsMessage now n) = m_Payload m"
    "m_Headers (natsMessage now n) = Some ((mergeHeaders po m)(''Nats-Msg-Id'' \<mapsto> m_ID m))"
    "m_Topic (natsMessage now n) = publishTopic subject po m"
    using assms by (simp_all add: natsMessage_def natsRecord_def message_defs Let_def fun_upd_def)
qed

end
