(* ===== verification/PulsarDriver.thy ===== *)
theory PulsarDriver
  imports DriverCore
begin

text \<open>
  The Pulsar driver, \<open>internal/queue/driver/pulsar/pulsar.go\<close>. The client is
  the record \<open>pulsarClient\<close> of functions on its state.
\<close>

section \<open>Client\<close>

text \<open>\<open>pm_ID\<close> is the identifier of the broker as \<open>%v\<close> prints it.\<close>

record pulsarMsg =
  pm_ID :: string
  pm_Topic :: string
  pm_Payload :: string
  pm_Properties :: "(string \<rightharpoonup> string) option"
  pm_Key :: string
  pm_PublishTime :: "int option"
  pm_RedeliveryCount :: int

record pulsarProduced =
  pp_Payload :: string
  pp_Key :: string
  pp_Properties :: "string \<rightharpoonup> string"
  pp_EventTime :: "int option"
  pp_DeliverAfter :: int

record pulsarOptions =
  pl_URL :: string
  pl_Token :: "string option"
  pl_TrustCerts :: string
  pl_AllowInsecure :: bool

datatype subscriptionType = SubExclusive | SubFailover | SubKeyShared | SubShared

record 'w pulsarClient =
  pc_NewClient :: "pulsarOptions \<Rightarrow> 'w \<Rightarrow> error option \<times> 'w"
  pc_CreateProducer :: "string \<Rightarrow> 'w \<Rightarrow> error option \<times> 'w"
  pc_Subscribe :: "string \<Rightarrow> string \<Rightarrow> subscriptionType \<Rightarrow> 'w \<Rightarrow> error option \<times> 'w"
  pc_Close :: "'w \<Rightarrow> 'w"
  pc_prodClose :: "'w \<Rightarrow> 'w"
  pc_consClose :: "'w \<Rightarrow> 'w"
  pc_Send :: "pulsarProduced \<Rightarrow> 'w \<Rightarrow> error option \<times> 'w"
  pc_Receive :: "int \<Rightarrow> 'w \<Rightarrow> (error + pulsarMsg) \<times> bool \<times> 'w"
  pc_Ack :: "pulsarMsg \<Rightarrow> 'w \<Rightarrow> error option \<times> 'w"
  pc_Nack :: "pulsarMsg \<Rightarrow> 'w \<Rightarrow> 'w"

section \<open>Queue\<close>

type_synonym pulsarQueue = "PulsarConfig drvQueue"

definition pulsarConnect :: "PulsarConfig \<Rightarrow> pulsarOptions" where
  "pulsarConnect c =
     \<lparr>pl_URL = pu_URL c, pl_Token = (if pu_AuthToken c \<noteq> [] then Some (pu_AuthToken c) else None),
      pl_TrustCerts = (if tls_Enable (pu_TLS c) then tls_CAFile (pu_TLS c) else []),
      pl_AllowInsecure = (tls_Enable (pu_TLS c) \<and> tls_InsecureSkipVerify (pu_TLS c))\<rparr>"

definition pulsar_New :: "'w pulsarClient \<Rightarrow> Config option \<Rightarrow> 'w \<Rightarrow> (error + pulsarQueue) \<times> 'w" where
  "pulsar_New cl cfg w =
     (case openSection ''pulsar'' ErrInvalidConfig qc_Pulsar PulsarConfig_Validate cfg of
        Inl e \<Rightarrow> (Inl e, w)
      | Inr (c, p) \<Rightarrow>
          (case pc_NewClient cl (pulsarConnect p) w of
             (Some e, w') \<Rightarrow> (Inl (Wrap (''pulsar: create client failed: '' @ Error e) e), w')
           | (None, w') \<Rightarrow> (Inr \<lparr>dq_cfg = c, dq_section = p, dq_closed = False\<rparr>, w')))"

definition pulsar_Name :: "pulsarQueue \<Rightarrow> string" where
  "pulsar_Name q = pu_Topic (dq_section q)"

definition pulsar_Producer :: "'w pulsarClient \<Rightarrow> pulsarQueue \<Rightarrow> 'w \<Rightarrow> error option \<times> 'w" where
  "pulsar_Producer cl q w =
     (case drvOpen q of
        Some e \<Rightarrow> (Some e, w)
      | None \<Rightarrow> (case pc_CreateProducer cl (pu_Topic (dq_section q)) w of
                   (Some e, w') \<Rightarrow> (Some (Wrap (''pulsar: create producer failed: '' @ Error e) e), w')
                 | (None, w') \<Rightarrow> (None, w')))"

definition subTypeOf :: "string \<Rightarrow> subscriptionType" where
  "subTypeOf s =
     (let t = ToLower s
      in if t = ''exclusive'' then SubExclusive
         else if t = ''failover'' then SubFailover
         else if t = ''key_shared'' then SubKeyShared else SubShared)"

definition pulsar_Consumer :: "'w pulsarClient \<Rightarrow> pulsarQueue \<Rightarrow> 'w \<Rightarrow> error option \<times> 'w" where
  "pulsar_Consumer cl q w =
     (case drvOpen q of
        Some e \<Rightarrow> (Some e, w)
      | None \<Rightarrow>
          (let p = dq_section q
           in case pc_Subscribe cl (pu_Topic p) (pu_SubscriptionName p) (subTypeOf (pu_SubscriptionType p)) w of
                (Some e, w') \<Rightarrow> (Some (Wrap (''pulsar: create consumer failed: '' @ Error e) e), w')
              | (None, w') \<Rightarrow> (None, w')))"

definition pulsar_Ping :: "pulsarQueue \<Rightarrow> error option" where
  "pulsar_Ping q = drvOpen q"

definition pulsar_Stats :: "pulsarQueue \<Rightarrow> BaseStats \<Rightarrow> error + Stats" where
  "pulsar_Stats q b =
     (case drvOpen q of
        Some e \<Rightarrow> Inl e
      | None \<Rightarrow>
          (let (inFlight, totalSent, consumers) = Snapshot b; p = dq_section q
           in Inr \<lparr>st_Driver = DriverPulsar, st_Name = pu_Topic p, st_Ready = 0, st_InFlight = inFlight, st_Delayed = 0,
                   st_Total = totalSent, st_Consumers = consumers,
                   st_Extra = [(''subscription'', AnyString (pu_SubscriptionName p)),
                               (''subscription_type'', AnyString (pu_SubscriptionType p))]\<rparr>))"

definition pulsar_Close :: "'w pulsarClient \<Rightarrow> pulsarQueue \<times> 'w \<Rightarrow> error option \<times> pulsarQueue \<times> 'w" where
  "pulsar_Close cl s =
     (case s of (q, w) \<Rightarrow>
        if dq_closed q then (None, q, w) else (None, q\<lparr>dq_closed := True\<rparr>, pc_Close cl w))"

section \<open>Producer\<close>

text \<open>The topic is the one of the queue: a topic in the options or the message has no effect.\<close>

definition pulsarRecord :: "PublishOptions \<Rightarrow> ('a, 'n) message \<Rightarrow> pulsarProduced" where
  "pulsarRecord po m =
     \<lparr>pp_Payload = m_Payload m, pp_Key = (if po_Key po \<noteq> [] then po_Key po else m_Key m),
      pp_Properties = (if m_ID m \<noteq> [] then (mergeHeaders po m)(''X-Message-ID'' \<mapsto> m_ID m) else mergeHeaders po m),
      pp_EventTime = m_Timestamp m,
      pp_DeliverAfter = (if po_Delay po > 0 then po_Delay po else if m_Delay m > 0 then m_Delay m else 0)\<rparr>"

definition pulsar_Publish ::
    "'w pulsarClient \<Rightarrow> PublishOption list \<Rightarrow> ('a, 'n) message option \<Rightarrow> BaseStats \<times> 'w \<Rightarrow>
     error option \<times> BaseStats \<times> 'w" where
  "pulsar_Publish cl opts msg s =
     (case msg of
        None \<Rightarrow> (Some ErrInvalidMessage, s)
      | Some m \<Rightarrow>
          (case pc_Send cl (pulsarRecord (publishOptions opts) m) (snd s) of
             (Some e, w') \<Rightarrow> (Some (publishFailed e), fst s, w')
           | (None, w') \<Rightarrow> (None, IncTotalSent 1 (fst s), w')))"

definition pulsar_PublishBatch ::
    "'w pulsarClient \<Rightarrow> PublishOption list \<Rightarrow> ('a, 'n) message option list \<Rightarrow> BaseStats \<times> 'w \<Rightarrow>
     error option \<times> BaseStats \<times> 'w" where
  "pulsar_PublishBatch cl opts msgs s = publishBatch (pulsar_Publish cl opts) msgs s"

section \<open>Consumer\<close>

definition pulsarMessage :: "pulsarMsg \<Rightarrow> (pulsarMsg, pulsarMsg) message" where
  "pulsarMessage p =
     (let ident = (case headerMap (pm_Properties p) ''X-Message-ID'' of Some v \<Rightarrow> v | None \<Rightarrow> [])
      in SetNackFunc (SetAckFunc
           \<lparr>m_ID = (if ident = [] then pm_ID p else ident), m_Topic = pm_Topic p, m_Payload = pm_Payload p,
            m_Headers = pm_Properties p, m_Key = pm_Key p, m_Delay = 0, m_Timestamp = pm_PublishTime p,
            m_Attempts = pm_RedeliveryCount p + 1, m_acknowledged = False, m_ackFn = None, m_nackFn = None\<rparr> p) p)"

definition pulsar_nack ::
    "'w pulsarClient \<Rightarrow> pulsarMsg \<Rightarrow> bool \<Rightarrow> (pulsarMsg, pulsarMsg) message \<Rightarrow> 'w \<Rightarrow> error option \<times> 'w" where
  "pulsar_nack cl p requeue m w = (None, pc_Nack cl p w)"

definition pulsar_begin ::
    "'w pulsarClient \<Rightarrow> 'mw ConsumeOptions \<Rightarrow> pulsarMsg \<Rightarrow> BaseStats \<times> 'w \<Rightarrow> (pulsarMsg, pulsarMsg, 'w) delivery" where
  "pulsar_begin cl co p = deliverBegin (pc_Ack cl) (co_AutoAck co) (pulsarMessage p)"

definition pulsar_end ::
    "'w pulsarClient \<Rightarrow> error option \<Rightarrow> (pulsarMsg, pulsarMsg, 'w) delivery \<Rightarrow> (pulsarMsg, pulsarMsg, 'w) delivery" where
  "pulsar_end cl = deliverEnd (pc_Ack cl)"

definition pulsar_processMessage ::
    "'w pulsarClient \<Rightarrow> 'mw ConsumeOptions \<Rightarrow> (pulsarMsg, pulsarMsg, 'w) delivery handler \<Rightarrow> pulsarMsg \<Rightarrow>
     BaseStats \<times> 'w \<Rightarrow> unit outcome \<times> BaseStats \<times> 'w" where
  "pulsar_processMessage cl co handler p s =
     (case handler (pulsar_begin cl co p s) of
        (Ret err, s') \<Rightarrow> (Ret (), snd (pulsar_end cl err s'))
      | (Panic x, (m, b, w)) \<Rightarrow> (Panic x, DecInFlight b, w))"

definition pulsar_worker ::
    "'w pulsarClient \<Rightarrow> 'mw ConsumeOptions \<Rightarrow> (pulsarMsg, pulsarMsg, 'w) delivery handler \<Rightarrow> (int \<Rightarrow> int) \<Rightarrow>
     pulsarMsg fetch list \<Rightarrow> Backoff \<times> BaseStats \<times> 'w \<Rightarrow> loopEnd \<times> Backoff \<times> BaseStats \<times> 'w" where
  "pulsar_worker cl co handler rnd polls s = receiveLoop (pulsar_processMessage cl co handler) rnd polls s"

definition pulsar_Consume ::
    "'w pulsarClient \<Rightarrow> pulsarQueue \<Rightarrow> bool \<Rightarrow> 'mw ConsumeOption list \<Rightarrow> BaseStats \<times> 'w \<Rightarrow>
     error option \<Rightarrow> BaseStats \<times> 'w \<Rightarrow> bool" where
  "pulsar_Consume cl q handlerNil opts s r s' \<longleftrightarrow>
     (if handlerNil then r = Some ErrNilHandler \<and> s' = s
      else let co = consumeOptions opts in
        r = None \<and> consumes (nat (drvConcurrency co (dq_cfg q))) (pulsar_begin cl co) (pulsar_end cl) (pc_Ack cl)
          (pulsar_nack cl) s s')"

text \<open>The flag of \<open>pc_Receive\<close> says whether the context with the timeout has ended.\<close>

definition pulsar_Receive ::
    "'w pulsarClient \<Rightarrow> ReceiveOption list \<Rightarrow> 'w \<Rightarrow> (error + (pulsarMsg, pulsarMsg) message) \<times> 'w" where
  "pulsar_Receive cl opts w =
     (let ro = receiveOptions opts; timeout = (if ro_Timeout ro > 0 then ro_Timeout ro else 5 * Second)
      in case pc_Receive cl timeout w of
           (Inl e, ctxErr, w') \<Rightarrow> (Inl (if ctxErr then ErrTimeout else e), w')
         | (Inr p, _, w') \<Rightarrow>
             (Inr (SetNackFunc (SetAckFunc
                \<lparr>m_ID = pm_ID p, m_Topic = pm_Topic p, m_Payload = pm_Payload p, m_Headers = pm_Properties p,
                 m_Key = pm_Key p, m_Delay = 0, m_Timestamp = pm_PublishTime p, m_Attempts = 1,
                 m_acknowledged = False, m_ackFn = None, m_nackFn = None\<rparr> p) p), w'))"

definition pulsar_producerClose :: "'w pulsarClient \<Rightarrow> bool \<Rightarrow> 'w \<Rightarrow> error option \<times> 'w" where
  "pulsar_producerClose cl prodNil w = (None, if \<not> prodNil then pc_prodClose cl w else w)"

definition pulsar_consumerClose :: "'w pulsarClient \<Rightarrow> bool \<Rightarrow> 'w \<Rightarrow> error option \<times> 'w" where
  "pulsar_consumerClose cl consNil w = (None, if \<not> consNil then pc_consClose cl w else w)"

section \<open>The driver meets the contracts\<close>

lemma pulsarMessage_ackFn [simp]: "m_ackFn (pulsarMessage p) = Some p"
  by (simp add: pulsarMessage_def message_defs Let_def)

interpretation pulsar_drv: broker_process "pulsar_begin cl co" "pulsar_end cl" "pc_Ack cl" "pulsar_nack cl"
    "pulsar_processMessage cl co"
  for cl :: "'w pulsarClient" and co :: "'mw ConsumeOptions"
  by unfold_locales (auto simp: pulsar_begin_def pulsar_end_def pulsar_processMessage_def dest: deliver_contract)

interpretation pulsar_prod: broker_producer "pulsar_Publish cl opts"
    "\<lambda>m. pc_Send cl (pulsarRecord (publishOptions opts) m)"
  for cl :: "'w pulsarClient" and opts
  by unfold_locales (simp_all add: pulsar_Publish_def)

interpretation pulsar_life: closable_queue "pulsar_Close cl" dq_closed
  for cl :: "'w pulsarClient"
  by unfold_locales (auto simp: pulsar_Close_def split: if_splits)

lemma pulsar_Consume_restores: "pulsar_Consume cl q nilH opts s r s' \<Longrightarrow> fst s' = fst s"
  by (auto simp: pulsar_Consume_def Let_def split: if_splits dest: pulsar_drv.consumes_restores)

text \<open>A message that the broker made from a produced one.\<close>

definition pulsarDelivers :: "pulsarProduced \<Rightarrow> pulsarMsg \<Rightarrow> bool" where
  "pulsarDelivers r p \<longleftrightarrow> pm_Payload p = pp_Payload r \<and> pm_Key p = pp_Key r \<and> pm_Properties p = Some (pp_Properties r)"

lemma pulsar_roundtrip:
  assumes "pulsarDelivers (pulsarRecord po m) p" "m_ID m \<noteq> []"
  shows "m_ID (pulsarMessage p) = m_ID m" "m_Payload (pulsarMessage p) = m_Payload m"
    "m_Headers (pulsarMessage p) = Some ((mergeHeaders po m)(''X-Message-ID'' \<mapsto> m_ID m))"
    "m_Key (pulsarMessage p) = (if po_Key po \<noteq> [] then po_Key po else m_Key m)"
  using assms
  by (simp_all add: pulsarDelivers_def pulsarMessage_def pulsarRecord_def message_defs Let_def headerMap_def)

end
