(* ===== verification/RocketDriver.thy ===== *)
theory RocketDriver
  imports DriverCore
begin

text \<open>
  The RocketMQ driver, \<open>internal/queue/driver/rocketmq/rocketmq.go\<close>. It uses
  a push consumer: the client library calls a function with a batch of
  messages and takes its result for the whole batch. The client is the record
  \<open>rocketClient\<close> of functions on its state.
\<close>

section \<open>Client\<close>

record rocketExt =
  rx_MsgId :: string
  rx_Topic :: string
  rx_Body :: string
  rx_Properties :: "string \<rightharpoonup> string"
  rx_ReconsumeTimes :: int
  rx_BornTimestamp :: int

record rocketMsg =
  rm_Topic :: string
  rm_Body :: string
  rm_Properties :: "string \<rightharpoonup> string"
  rm_Keys :: "string list"

record rocketOptions =
  rp_NameServers :: "string list"
  rp_Group :: string
  rp_Credentials :: "(string \<times> string \<times> string) option"
  rp_Namespace :: "string option"

record 'w rocketClient =
  rk_NewProducer :: "rocketOptions \<Rightarrow> 'w \<Rightarrow> error option \<times> 'w"
  rk_Start :: "'w \<Rightarrow> error option \<times> 'w"
  rk_Shutdown :: "'w \<Rightarrow> error option \<times> 'w"
  rk_SendSync :: "rocketMsg \<Rightarrow> 'w \<Rightarrow> error option \<times> 'w"
  rk_NewPushConsumer :: "rocketOptions \<Rightarrow> int \<Rightarrow> 'w \<Rightarrow> error option \<times> 'w"
  rk_Subscribe :: "string \<Rightarrow> 'w \<Rightarrow> error option \<times> 'w"
  rk_consumerStart :: "'w \<Rightarrow> error option \<times> 'w"
  rk_consumerShutdown :: "'w \<Rightarrow> error option \<times> 'w"

section \<open>Queue\<close>

type_synonym rocketQueue = "RocketMQConfig drvQueue"

definition rocketOpts :: "RocketMQConfig \<Rightarrow> rocketOptions" where
  "rocketOpts c =
     \<lparr>rp_NameServers = rk_NameServers c, rp_Group = rk_Group c,
      rp_Credentials = (if rk_AccessKey c \<noteq> [] \<and> rk_SecretKey c \<noteq> []
                        then Some (rk_AccessKey c, rk_SecretKey c, rk_SecurityToken c) else None),
      rp_Namespace = (if rk_Namespace c \<noteq> [] then Some (rk_Namespace c) else None)\<rparr>"

text \<open>The error for a nil configuration wraps the sentinel of an invalid message.\<close>

definition rocket_New :: "'w rocketClient \<Rightarrow> Config option \<Rightarrow> 'w \<Rightarrow> (error + rocketQueue) \<times> 'w" where
  "rocket_New cl cfg w =
     (case openSection ''rocketmq'' ErrInvalidMessage qc_RocketMQ RocketMQConfig_Validate cfg of
        Inl e \<Rightarrow> (Inl e, w)
      | Inr (c, r) \<Rightarrow>
          (case rk_NewProducer cl (rocketOpts r) w of
             (Some e, w1) \<Rightarrow> (Inl (Wrap (''rocketmq: create producer failed: '' @ Error e) e), w1)
           | (None, w1) \<Rightarrow>
               (case rk_Start cl w1 of
                  (Some e, w2) \<Rightarrow> (Inl (Wrap (''rocketmq: start producer failed: '' @ Error e) e), w2)
                | (None, w2) \<Rightarrow> (Inr \<lparr>dq_cfg = c, dq_section = r, dq_closed = False\<rparr>, w2))))"

definition rocket_Name :: "rocketQueue \<Rightarrow> string" where
  "rocket_Name q = rk_Topic (dq_section q)"

definition rocket_Producer :: "rocketQueue \<Rightarrow> error option" where
  "rocket_Producer q = drvOpen q"

definition rocket_Consumer :: "rocketQueue \<Rightarrow> error option" where
  "rocket_Consumer q = drvOpen q"

definition rocket_Ping :: "rocketQueue \<Rightarrow> error option" where
  "rocket_Ping q = drvOpen q"

definition rocket_Stats :: "rocketQueue \<Rightarrow> BaseStats \<Rightarrow> error + Stats" where
  "rocket_Stats q b =
     (case drvOpen q of
        Some e \<Rightarrow> Inl e
      | None \<Rightarrow>
          (let (inFlight, totalSent, consumers) = Snapshot b; r = dq_section q
           in Inr \<lparr>st_Driver = DriverRocketMQ, st_Name = rk_Topic r, st_Ready = 0, st_InFlight = inFlight,
                   st_Delayed = 0, st_Total = totalSent, st_Consumers = consumers,
                   st_Extra = [(''group'', AnyString (rk_Group r)),
                               (''name_servers'', AnyList (map AnyString (rk_NameServers r)))]\<rparr>))"

definition rocket_Close :: "'w rocketClient \<Rightarrow> rocketQueue \<times> 'w \<Rightarrow> error option \<times> rocketQueue \<times> 'w" where
  "rocket_Close cl s =
     (case s of (q, w) \<Rightarrow>
        if dq_closed q then (None, q, w) else (None, q\<lparr>dq_closed := True\<rparr>, snd (rk_Shutdown cl w)))"

section \<open>Producer\<close>

text \<open>The identifier of the message is not sent.\<close>

definition rocketRecord :: "string \<Rightarrow> PublishOptions \<Rightarrow> ('a, 'n) message \<Rightarrow> rocketMsg" where
  "rocketRecord topic po m =
     \<lparr>rm_Topic = publishTopic topic po m, rm_Body = m_Payload m, rm_Properties = mergeHeaders po m,
      rm_Keys = (if po_Key po \<noteq> [] then [po_Key po] else if m_Key m \<noteq> [] then [m_Key m] else [])\<rparr>"

definition rocket_Publish ::
    "'w rocketClient \<Rightarrow> rocketQueue \<Rightarrow> PublishOption list \<Rightarrow> ('a, 'n) message option \<Rightarrow> BaseStats \<times> 'w \<Rightarrow>
     error option \<times> BaseStats \<times> 'w" where
  "rocket_Publish cl q opts msg s =
     (case msg of
        None \<Rightarrow> (Some ErrInvalidMessage, s)
      | Some m \<Rightarrow>
          (case rk_SendSync cl (rocketRecord (rk_Topic (dq_section q)) (publishOptions opts) m) (snd s) of
             (Some e, w') \<Rightarrow> (Some (publishFailed e), fst s, w')
           | (None, w') \<Rightarrow> (None, IncTotalSent 1 (fst s), w')))"

definition rocket_PublishBatch ::
    "'w rocketClient \<Rightarrow> rocketQueue \<Rightarrow> PublishOption list \<Rightarrow> ('a, 'n) message option list \<Rightarrow> BaseStats \<times> 'w \<Rightarrow>
     error option \<times> BaseStats \<times> 'w" where
  "rocket_PublishBatch cl q opts msgs s = publishBatch (rocket_Publish cl q opts) msgs s"

section \<open>Consumer\<close>

definition rocketMessage :: "rocketExt \<Rightarrow> (unit, unit) message" where
  "rocketMessage x =
     SetNackFunc (SetAckFunc
       \<lparr>m_ID = rx_MsgId x, m_Topic = rx_Topic x, m_Payload = rx_Body x, m_Headers = Some (rx_Properties x),
        m_Key = [], m_Delay = 0, m_Timestamp = Some (rx_BornTimestamp x * Millisecond),
        m_Attempts = rx_ReconsumeTimes x + 1, m_acknowledged = False, m_ackFn = None, m_nackFn = None\<rparr> ()) ()"

text \<open>
  The function given to the push consumer. Its deferred decrements run when
  it returns, and it returns success for the batch, at the end as well as at
  the first error of the handler, which leaves the rest of the batch unread.
\<close>

datatype consumeResult = ConsumeSuccess

fun rocketCallback ::
    "(unit, unit, 'w) delivery handler \<Rightarrow> rocketExt list \<Rightarrow> BaseStats \<times> 'w \<Rightarrow> consumeResult outcome \<times> BaseStats \<times> 'w" where
  "rocketCallback handler [] s = (Ret ConsumeSuccess, s)"
| "rocketCallback handler (x # xs) (b, w) =
     (case handler (rocketMessage x, IncInFlight b, w) of
        (Ret None, (m, b', w')) \<Rightarrow>
          (case rocketCallback handler xs (b', w') of (r, b'', w'') \<Rightarrow> (r, DecInFlight b'', w''))
      | (Ret (Some e), (m, b', w')) \<Rightarrow> (Ret ConsumeSuccess, DecInFlight b', w')
      | (Panic p, (m, b', w')) \<Rightarrow> (Panic p, DecInFlight b', w'))"

text \<open>
  \<open>Consume\<close>: between the start of the push consumer and the end of the context
  the library calls the function for \<open>batches\<close>, here one call after another.
\<close>

definition rocketServe ::
    "(unit, unit, 'w) delivery handler \<Rightarrow> rocketExt list list \<Rightarrow> BaseStats \<times> 'w \<Rightarrow> BaseStats \<times> 'w" where
  "rocketServe handler batches s = fold (\<lambda>xs s. snd (rocketCallback handler xs s)) batches s"

definition rocket_Consume ::
    "'w rocketClient \<Rightarrow> rocketExt list list \<Rightarrow> rocketQueue \<Rightarrow> (unit, unit, 'w) delivery handler option \<Rightarrow>
     (unit, unit, 'w) delivery middleware option ConsumeOption list \<Rightarrow> BaseStats \<times> 'w \<Rightarrow> error option \<times> BaseStats \<times> 'w" where
  "rocket_Consume cl batches q handler opts s =
     (case handler of
        None \<Rightarrow> (Some ErrNilHandler, s)
      | Some h \<Rightarrow>
          (let co = consumeOptions opts; r = dq_section q;
               topic = (if co_Topic co \<noteq> [] then co_Topic co else rk_Topic r)
           in case rk_NewPushConsumer cl (rocketOpts r) (drvConcurrency co (dq_cfg q)) (snd s) of
                (Some e, w1) \<Rightarrow> (Some (Wrap (''rocketmq: create push consumer failed: '' @ Error e) e), fst s, w1)
              | (None, w1) \<Rightarrow>
                  (let b1 = IncActiveCons 1 (fst s)
                   in case rk_Subscribe cl topic w1 of
                        (Some e, w2) \<Rightarrow>
                          (Some (Wrap (''rocketmq: subscribe failed: '' @ Error e) e), DecActiveCons 1 b1, w2)
                      | (None, w2) \<Rightarrow>
                          (case rk_consumerStart cl w2 of
                             (Some e, w3) \<Rightarrow>
                               (Some (Wrap (''rocketmq: start consumer failed: '' @ Error e) e), DecActiveCons 1 b1, w3)
                           | (None, w3) \<Rightarrow>
                               (case rocketServe (drvHandler h co) batches (b1, w3) of (b2, w4) \<Rightarrow>
                                  (None, DecActiveCons 1 b2, snd (rk_consumerShutdown cl w4)))))))"

definition rocket_Receive :: "error + (unit, unit) message" where
  "rocket_Receive = Inl (Err ''rocketmq: pull-based Receive is not supported in PushConsumer model'')"

definition rocket_consumerClose :: "'w rocketClient \<Rightarrow> bool \<Rightarrow> 'w \<Rightarrow> error option \<times> 'w" where
  "rocket_consumerClose cl consumerNil w = (if \<not> consumerNil then rk_consumerShutdown cl w else (None, w))"

section \<open>The driver meets the contracts\<close>

interpretation rocket_prod: broker_producer "rocket_Publish cl q opts"
    "\<lambda>m. rk_SendSync cl (rocketRecord (rk_Topic (dq_section q)) (publishOptions opts) m)"
  for cl :: "'w rocketClient" and q :: rocketQueue and opts
  by unfold_locales (simp_all add: rocket_Publish_def)

interpretation rocket_life: closable_queue "rocket_Close cl" dq_closed
  for cl :: "'w rocketClient"
  by unfold_locales (auto simp: rocket_Close_def split: if_splits)

lemma rocketCallback_returning:
  "returning h \<Longrightarrow> \<exists>w'. rocketCallback h xs (b, w) = (Ret ConsumeSuccess, b, w')"
proof (induction h xs "(b, w)" arbitrary: b w rule: rocketCallback.induct)
  case (2 h x xs b w)
  obtain e m w' where h: "h (rocketMessage x, IncInFlight b, w) = (Ret e, m, IncInFlight b, w')"
    using 2(2) unfolding returning_def by blast
  show ?case
  proof (cases e)
    case None
    then obtain w'' where "rocketCallback h xs (IncInFlight b, w') = (Ret ConsumeSuccess, IncInFlight b, w'')"
      using 2(1) [OF h [symmetric]] 2(2) by blast
    then show ?thesis
      using h None by (simp add: IncInFlight_def DecInFlight_def)
  next
    case (Some e')
    then show ?thesis
      using h by (simp add: IncInFlight_def DecInFlight_def)
  qed
qed simp

end
