(* ===== verification/Email.thy ===== *)
theory Email
  imports ConfigSections
begin

text \<open>
  \<open>internal/sender/email.go\<close> and \<open>errors.go\<close>: the email value, its
  setters, the redacted rendering, the recipient list and validation.
  \<open>net/mail.ParseAddress\<close> is the parameter \<open>parseAddress\<close>, which gives the
  error or the bare address; \<open>encoding/json\<close> is \<open>marshal\<close>. A map is an
  association list in the order a \<open>range\<close> loop visits it. A nil attachment
  pointer is \<open>None\<close>.
\<close>

abbreviation ErrNilEmail :: error where "ErrNilEmail \<equiv> Err ''sender: email cannot be nil''"
abbreviation ErrNoRecipients :: error where
  "ErrNoRecipients \<equiv> Err ''sender: at least one recipient (To, Cc, or Bcc) is required''"
abbreviation ErrInvalidFrom :: error where "ErrInvalidFrom \<equiv> Err ''sender: invalid from email address''"
abbreviation ErrInvalidRecipient :: error where
  "ErrInvalidRecipient \<equiv> Err ''sender: invalid recipient email address''"
abbreviation ErrMaxRecipientsExceeded :: error where
  "ErrMaxRecipientsExceeded \<equiv> Err ''sender: number of recipients exceeds account limit''"
abbreviation ErrSenderAccountNotFound :: error where
  "ErrSenderAccountNotFound \<equiv> Err ''sender: smtp account not found''"
abbreviation ErrPoolClosed :: error where "ErrPoolClosed \<equiv> Err ''sender: connection pool is closed''"
abbreviation ErrPoolExhausted :: error where "ErrPoolExhausted \<equiv> Err ''sender: connection pool exhausted''"
abbreviation ErrAuthFailed :: error where "ErrAuthFailed \<equiv> Err ''sender: smtp authentication failed''"
abbreviation ErrRateLimitExceeded :: error where "ErrRateLimitExceeded \<equiv> Err ''sender: rate limit exceeded''"
abbreviation ErrEmailTooLarge :: error where
  "ErrEmailTooLarge \<equiv> Err ''sender: email payload exceeds configured size limit''"

section \<open>The value and its setters\<close>

record Attachment =
  at_Filename :: string
  at_ContentType :: string
  at_Data :: string
  at_Inline :: bool
  at_ContentID :: string

record Email =
  em_ID :: string
  em_Account :: string
  em_From :: string
  em_FromName :: string
  em_ReplyTo :: string
  em_To :: "string list"
  em_Cc :: "string list"
  em_Bcc :: "string list"
  em_Subject :: string
  em_TextBody :: string
  em_HTMLBody :: string
  em_Headers :: "(string \<times> string) list"
  em_Attachments :: "Attachment option list"
  em_Tags :: "string list"
  em_Metadata :: "(string \<times> string) list"

definition NewEmail :: Email where
  "NewEmail = \<lparr>em_ID = [], em_Account = [], em_From = [], em_FromName = [], em_ReplyTo = [],
     em_To = [], em_Cc = [], em_Bcc = [], em_Subject = [], em_TextBody = [], em_HTMLBody = [],
     em_Headers = [], em_Attachments = [], em_Tags = [], em_Metadata = []\<rparr>"

definition SetAccount :: "string \<Rightarrow> Email \<Rightarrow> Email" where
  "SetAccount account e = e\<lparr>em_Account := TrimSpace account\<rparr>"

definition SetFrom :: "string \<Rightarrow> string list \<Rightarrow> Email \<Rightarrow> Email" where
  "SetFrom from name e =
     (let e1 = e\<lparr>em_From := TrimSpace from\<rparr>
      in case name of [] \<Rightarrow> e1 | n # _ \<Rightarrow> e1\<lparr>em_FromName := TrimSpace n\<rparr>)"

definition SetReplyTo :: "string \<Rightarrow> Email \<Rightarrow> Email" where
  "SetReplyTo replyTo e = e\<lparr>em_ReplyTo := TrimSpace replyTo\<rparr>"

definition trimmedNonblank :: "string list \<Rightarrow> string list" where
  "trimmedNonblank addresses = filter (\<lambda>t. t \<noteq> []) (map TrimSpace addresses)"

definition AddTo :: "string list \<Rightarrow> Email \<Rightarrow> Email" where
  "AddTo addresses e = e\<lparr>em_To := em_To e @ trimmedNonblank addresses\<rparr>"

definition AddCc :: "string list \<Rightarrow> Email \<Rightarrow> Email" where
  "AddCc addresses e = e\<lparr>em_Cc := em_Cc e @ trimmedNonblank addresses\<rparr>"

definition AddBcc :: "string list \<Rightarrow> Email \<Rightarrow> Email" where
  "AddBcc addresses e = e\<lparr>em_Bcc := em_Bcc e @ trimmedNonblank addresses\<rparr>"

definition SetSubject :: "string \<Rightarrow> Email \<Rightarrow> Email" where
  "SetSubject subject e = e\<lparr>em_Subject := subject\<rparr>"

definition SetTextBody :: "string \<Rightarrow> Email \<Rightarrow> Email" where
  "SetTextBody body e = e\<lparr>em_TextBody := body\<rparr>"

definition SetHTMLBody :: "string \<Rightarrow> Email \<Rightarrow> Email" where
  "SetHTMLBody body e = e\<lparr>em_HTMLBody := body\<rparr>"

definition Email_SetHeader :: "string \<Rightarrow> string \<Rightarrow> Email \<Rightarrow> Email" where
  "Email_SetHeader key v e =
     e\<lparr>em_Headers := (if key \<in> fst ` set (em_Headers e)
                      then map (\<lambda>(k, w). (k, if k = key then v else w)) (em_Headers e)
                      else em_Headers e @ [(key, v)])\<rparr>"

text \<open>\<open>filepath.Ext\<close>: from the last dot of the last path element, if it has one.\<close>

definition filepathExt :: "string \<Rightarrow> string" where
  "filepathExt path =
     (let base = takeWhile (\<lambda>c. c \<noteq> CHR ''/'') (rev path)
      in if CHR ''.'' \<in> set base
         then CHR ''.'' # rev (takeWhile (\<lambda>c. c \<noteq> CHR ''.'') base) else [])"

text \<open>\<open>typeByExtension\<close> is \<open>mime.TypeByExtension\<close>, empty for an unknown extension.\<close>

definition detectContentType :: "(string \<Rightarrow> string) \<Rightarrow> string \<Rightarrow> string list \<Rightarrow> string" where
  "detectContentType typeByExtension filename custom =
     (if custom \<noteq> [] \<and> TrimSpace (hd custom) \<noteq> [] then hd custom
      else
       (let ext = filepathExt filename
        in if ext \<noteq> [] \<and> typeByExtension ext \<noteq> [] then typeByExtension ext
           else ''application/octet-stream''))"

definition Attach :: "(string \<Rightarrow> string) \<Rightarrow> string \<Rightarrow> string \<Rightarrow> string list \<Rightarrow> Email \<Rightarrow> Email" where
  "Attach typeByExtension filename data contentType e =
     e\<lparr>em_Attachments := em_Attachments e @
        [Some \<lparr>at_Filename = filename, at_ContentType = detectContentType typeByExtension filename contentType,
               at_Data = data, at_Inline = False, at_ContentID = []\<rparr>]\<rparr>"

definition AttachInline ::
    "(string \<Rightarrow> string) \<Rightarrow> string \<Rightarrow> string \<Rightarrow> string \<Rightarrow> string list \<Rightarrow> Email \<Rightarrow> Email" where
  "AttachInline typeByExtension filename contentID data contentType e =
     e\<lparr>em_Attachments := em_Attachments e @
        [Some \<lparr>at_Filename = filename, at_ContentType = detectContentType typeByExtension filename contentType,
               at_Data = data, at_Inline = True, at_ContentID = Trim contentID ''<>''\<rparr>]\<rparr>"

section \<open>Redacted rendering\<close>

record attInfo =
  ai_Filename :: string
  ai_ContentType :: string
  ai_Size :: int
  ai_Inline :: bool
  ai_ContentID :: string

record emailInfo =
  ei_ID :: string
  ei_Account :: string
  ei_From :: string
  ei_ReplyTo :: string
  ei_To :: "string list"
  ei_Cc :: "string list"
  ei_Bcc :: "string list"
  ei_Subject :: string
  ei_Tags :: "string list"
  ei_Metadata :: "(string \<times> string) list"
  ei_Attachments :: "attInfo list"

definition attInfoOf :: "Attachment \<Rightarrow> attInfo" where
  "attInfoOf a = \<lparr>ai_Filename = at_Filename a, ai_ContentType = at_ContentType a,
     ai_Size = int (length (at_Data a)), ai_Inline = at_Inline a, ai_ContentID = at_ContentID a\<rparr>"

text \<open>\<open>String\<close>; the error of \<open>json.Marshal\<close> is ignored, which leaves no bytes.\<close>

definition Email_String :: "(emailInfo \<Rightarrow> error + string) \<Rightarrow> Email option \<Rightarrow> string" where
  "Email_String marshal eo =
     (case eo of
        None \<Rightarrow> ''<nil email>''
      | Some e \<Rightarrow>
          (case marshal
             \<lparr>ei_ID = em_ID e, ei_Account = em_Account e, ei_From = em_From e, ei_ReplyTo = em_ReplyTo e,
              ei_To = em_To e, ei_Cc = em_Cc e, ei_Bcc = em_Bcc e, ei_Subject = em_Subject e,
              ei_Tags = em_Tags e, ei_Metadata = em_Metadata e,
              ei_Attachments = map attInfoOf (map the (filter (\<lambda>a. a \<noteq> None) (em_Attachments e)))\<rparr> of
             Inl _ \<Rightarrow> []
           | Inr b \<Rightarrow> b))"

section \<open>Recipients\<close>

definition cleanAddress :: "(string \<Rightarrow> error + string) \<Rightarrow> string \<Rightarrow> string" where
  "cleanAddress parseAddress addr =
     TrimSpace (case parseAddress addr of Inr a \<Rightarrow> a | Inl _ \<Rightarrow> addr)"

text \<open>The closure \<open>add\<close>, on the set \<open>seen\<close> (as a list) and \<open>result\<close>.\<close>

fun addRecipients ::
    "(string \<Rightarrow> error + string) \<Rightarrow> string list \<Rightarrow> string list \<times> string list \<Rightarrow> string list \<times> string list" where
  "addRecipients parseAddress [] st = st"
| "addRecipients parseAddress (addr # rest) (seen, result) =
     (let clean = cleanAddress parseAddress addr; lower = ToLower clean
      in if clean = [] then addRecipients parseAddress rest (seen, result)
         else if lower \<in> set seen then addRecipients parseAddress rest (seen, result)
         else addRecipients parseAddress rest (lower # seen, result @ [clean]))"

definition AllRecipients :: "(string \<Rightarrow> error + string) \<Rightarrow> Email \<Rightarrow> string list" where
  "AllRecipients parseAddress e =
     snd (addRecipients parseAddress (em_Bcc e)
       (addRecipients parseAddress (em_Cc e)
         (addRecipients parseAddress (em_To e) ([], []))))"

section \<open>Validation\<close>

fun validateAddresses :: "(string \<Rightarrow> error + string) \<Rightarrow> string list \<Rightarrow> string \<Rightarrow> error option" where
  "validateAddresses parseAddress [] field = None"
| "validateAddresses parseAddress (addr # rest) field =
     (case parseAddress addr of
        Inl err \<Rightarrow>
          Some (Wrap (Error ErrInvalidRecipient @ '' in '' @ field @ '': '' @ Quote addr @ '' ('' @ Error err @ '')'')
                 ErrInvalidRecipient)
      | Inr _ \<Rightarrow> validateAddresses parseAddress rest field)"

definition Email_Validate :: "(string \<Rightarrow> error + string) \<Rightarrow> Email option \<Rightarrow> error option" where
  "Email_Validate parseAddress eo =
     (case eo of
        None \<Rightarrow> Some ErrNilEmail
      | Some e \<Rightarrow>
          if em_To e = [] \<and> em_Cc e = [] \<and> em_Bcc e = [] then Some ErrNoRecipients
          else firstErr
            [(if em_From e \<noteq> [] then
                (case parseAddress (em_From e) of
                   Inl err \<Rightarrow> Some (Wrap (Error ErrInvalidFrom @ '': '' @ Quote (em_From e) @ '' ('' @ Error err @ '')'')
                                     ErrInvalidFrom)
                 | Inr _ \<Rightarrow> None)
              else None),
             validateAddresses parseAddress (em_To e) ''To'',
             validateAddresses parseAddress (em_Cc e) ''Cc'',
             validateAddresses parseAddress (em_Bcc e) ''Bcc'',
             (if em_ReplyTo e \<noteq> [] then
                (case parseAddress (em_ReplyTo e) of
                   Inl err \<Rightarrow> Some (Wrap (''sender: invalid reply_to email '' @ Quote (em_ReplyTo e) @ '': '' @ Error err) err)
                 | Inr _ \<Rightarrow> None)
              else None)])"

section \<open>Lemmas\<close>

text \<open>The reference: keep the first occurrence of every address up to case.\<close>

fun firstByCase :: "string list \<Rightarrow> string list \<Rightarrow> string list" where
  "firstByCase seen [] = []"
| "firstByCase seen (x # xs) =
     (if ToLower x \<in> set seen then firstByCase seen xs
      else x # firstByCase (ToLower x # seen) xs)"

definition cleaned :: "(string \<Rightarrow> error + string) \<Rightarrow> string list \<Rightarrow> string list" where
  "cleaned parseAddress xs = filter (\<lambda>a. a \<noteq> []) (map (cleanAddress parseAddress) xs)"

lemma cleaned_append: "cleaned p (xs @ ys) = cleaned p xs @ cleaned p ys"
  by (simp add: cleaned_def)

lemma addRecipients_append:
  "addRecipients p (xs @ ys) st = addRecipients p ys (addRecipients p xs st)"
  by (induction p xs st rule: addRecipients.induct) (auto simp: Let_def)

lemma addRecipients_firstByCase:
  "snd (addRecipients p xs (seen, res)) = res @ firstByCase seen (cleaned p xs)"
  by (induction p xs "(seen, res)" arbitrary: seen res rule: addRecipients.induct)
    (auto simp: cleaned_def Let_def)

lemma firstByCase_set: "set (firstByCase seen xs) \<subseteq> set xs"
  by (induction seen xs rule: firstByCase.induct) auto

lemma firstByCase_fresh: "x \<in> set (firstByCase seen xs) \<Longrightarrow> ToLower x \<notin> set seen"
  by (induction seen xs rule: firstByCase.induct) (auto split: if_splits)

lemma firstByCase_distinct: "distinct (map ToLower (firstByCase seen xs))"
  by (induction seen xs rule: firstByCase.induct) (auto dest: firstByCase_fresh)

lemma firstByCase_complete:
  "x \<in> set xs \<Longrightarrow> ToLower x \<in> set seen \<or> (\<exists>y \<in> set (firstByCase seen xs). EqualFold y x)"
  by (induction seen xs rule: firstByCase.induct) (auto simp: EqualFold_def)

lemma validateAddresses_None:
  "validateAddresses p xs f = None \<longleftrightarrow> (\<forall>a \<in> set xs. \<exists>b. p a = Inr b)"
  by (induction xs) (auto split: sum.splits)

lemma validateAddresses_Some:
  "validateAddresses p xs f = Some err \<Longrightarrow> errorsIs err ErrInvalidRecipient"
  by (induction xs) (auto split: sum.splits)

lemma errorsIs_refl [simp]: "errorsIs x x"
  by (cases x) auto

lemma Email_Validate_None:
  "Email_Validate p (Some e) = None \<longleftrightarrow>
      (em_To e \<noteq> [] \<or> em_Cc e \<noteq> [] \<or> em_Bcc e \<noteq> []) \<and>
      (em_From e \<noteq> [] \<longrightarrow> (\<exists>b. p (em_From e) = Inr b)) \<and>
      (em_ReplyTo e \<noteq> [] \<longrightarrow> (\<exists>b. p (em_ReplyTo e) = Inr b)) \<and>
      (\<forall>a \<in> set (em_To e @ em_Cc e @ em_Bcc e). \<exists>b. p a = Inr b)"
proof (cases "em_To e = [] \<and> em_Cc e = [] \<and> em_Bcc e = []")
  case False
  have opt: "(case p a of Inl err \<Rightarrow> Some (f err) | Inr b \<Rightarrow> None) = None \<longleftrightarrow> (\<exists>b. p a = Inr b)" for a f
    by (auto split: sum.splits)
  have "(em_To e \<noteq> [] \<or> em_Cc e \<noteq> [] \<or> em_Bcc e \<noteq> []) = True"
    using False by blast
  then show ?thesis
    unfolding Email_Validate_def option.case if_not_P [OF False] firstErr_None list.set ball_simps
      validateAddresses_None set_append ball_Un opt
    by (simp add: opt conj_ac)
qed (simp add: Email_Validate_def)

lemma Email_Validate_class:
  assumes "Email_Validate p (Some e) = Some err"
  shows "err = ErrNoRecipients \<or> errorsIs err ErrInvalidFrom \<or> errorsIs err ErrInvalidRecipient \<or>
      (\<exists>e'. p (em_ReplyTo e) = Inl e' \<and> errorsIs err e')"
proof (cases "em_To e = [] \<and> em_Cc e = [] \<and> em_Bcc e = []")
  case False
  from assms [unfolded Email_Validate_def option.case if_not_P [OF False]] show ?thesis
  proof (drule_tac firstErr_SomeD, unfold list.set insert_iff empty_iff, elim disjE)
    assume "Some err = validateAddresses p (em_To e) ''To''"
    then show ?thesis by (simp add: validateAddresses_Some [OF sym])
  next
    assume "Some err = validateAddresses p (em_Cc e) ''Cc''"
    then show ?thesis by (simp add: validateAddresses_Some [OF sym])
  next
    assume "Some err = validateAddresses p (em_Bcc e) ''Bcc''"
    then show ?thesis by (simp add: validateAddresses_Some [OF sym])
  qed (simp_all split: if_splits sum.splits)
qed (use assms in \<open>simp add: Email_Validate_def\<close>)

section \<open>Properties\<close>



text \<open>
  \<open>Validate\<close> accepts an email exactly when it is not nil, has a
  recipient, and every address in it parses; and each refusal carries the error
  class that belongs to the field at fault.
\<close>

theorem Email_Validate_iff:
  "Email_Validate p None = Some ErrNilEmail \<and>
   (Email_Validate p (Some e) = None \<longleftrightarrow>
      (em_To e \<noteq> [] \<or> em_Cc e \<noteq> [] \<or> em_Bcc e \<noteq> []) \<and>
      (em_From e \<noteq> [] \<longrightarrow> (\<exists>b. p (em_From e) = Inr b)) \<and>
      (em_ReplyTo e \<noteq> [] \<longrightarrow> (\<exists>b. p (em_ReplyTo e) = Inr b)) \<and>
      (\<forall>a \<in> set (em_To e @ em_Cc e @ em_Bcc e). \<exists>b. p a = Inr b)) \<and>
   (\<forall>err. Email_Validate p (Some e) = Some err \<longrightarrow>
      err = ErrNoRecipients \<or> errorsIs err ErrInvalidFrom \<or> errorsIs err ErrInvalidRecipient \<or>
      (\<exists>e'. p (em_ReplyTo e) = Inl e' \<and> errorsIs err e'))"
  using Email_Validate_None [of p e] Email_Validate_class [of p e]
  by (simp add: Email_Validate_def [of p None])

theorem Email_Validate_iff_witness:
  "errorsIs (the (Email_Validate (\<lambda>a. Inl (Err ''bad'')) (Some (NewEmail\<lparr>em_To := [''x'']\<rparr>))))
     ErrInvalidRecipient"
proof -
  let ?p = "\<lambda>a. Inl (Err ''bad'')" and ?e = "NewEmail\<lparr>em_To := [''x'']\<rparr>"
  have "Email_Validate ?p (Some ?e) \<noteq> None"
    using Email_Validate_iff [of ?p ?e] by (auto simp: NewEmail_def)
  then show ?thesis
    by (simp add: Email_Validate_def NewEmail_def firstErr.simps)
qed

text \<open>
  The rendering used in logs is redacted: it does not depend on the text
  body, the HTML body or the bytes of any attachment, only on their sizes.
\<close>

theorem Email_String_redacted:
  assumes "map (map_option attInfoOf) atts = map (map_option attInfoOf) (em_Attachments e)"
  shows "Email_String marshal (Some (e\<lparr>em_TextBody := t, em_HTMLBody := h, em_Attachments := atts\<rparr>)) =
         Email_String marshal (Some e)"
proof -
  have "map attInfoOf (map the (filter (\<lambda>a. a \<noteq> None) xs)) =
      map the (filter (\<lambda>a. a \<noteq> None) (map (map_option attInfoOf) xs))" for xs
    by (induction xs) auto
  then show ?thesis
    by (simp add: Email_String_def assms del: map_map)
qed

theorem Email_String_redacted_witness:
  "Email_String (\<lambda>i. Inr (ei_Subject i))
     (Some (NewEmail\<lparr>em_TextBody := ''secret'', em_HTMLBody := [],
        em_Attachments := [Some \<lparr>at_Filename = ''f'', at_ContentType = [], at_Data = ''top'', at_Inline = False, at_ContentID = []\<rparr>]\<rparr>)) =
   Email_String (\<lambda>i. Inr (ei_Subject i))
     (Some (NewEmail\<lparr>
        em_Attachments := [Some \<lparr>at_Filename = ''f'', at_ContentType = [], at_Data = ''abc'', at_Inline = False, at_ContentID = []\<rparr>]\<rparr>))"
  using Email_String_redacted [of
      "[Some \<lparr>at_Filename = ''f'', at_ContentType = [], at_Data = ''top'', at_Inline = False, at_ContentID = []\<rparr>]"
      "NewEmail\<lparr>em_Attachments := [Some \<lparr>at_Filename = ''f'', at_ContentType = [], at_Data = ''abc'', at_Inline = False, at_ContentID = []\<rparr>]\<rparr>"
      "\<lambda>i. Inr (ei_Subject i)" "[]" "''secret''"]
  by (simp add: attInfoOf_def)

end
