(* ===== verification/Pool.thy ===== *)
theory Pool
  imports GoChan ConfigSmtp Email
begin

text \<open>
  The SMTP connection pool, \<open>internal/sender/pool.go\<close>. A connection is a
  value of a type \<open>'c\<close>; whether an idle one may still be used (its idle time,
  the answer to RSET) and what dialling gives are arguments. \<open>Acquire\<close> run on
  its own comes first, then the interleaving of any number of calls of
  \<open>Acquire\<close>, \<open>Release\<close> and \<open>Close\<close>, and the counting semaphore the pool
  refines.
\<close>

section \<open>State and operations\<close>

text \<open>The semaphore channel holds empty structs: it is its length.\<close>

record 'c pool =
  pl_cfg :: SmtpAccountConfig
  pl_idle :: "'c chan"
  pl_active :: int
  pl_maxOpen :: nat
  pl_maxIdle :: nat
  pl_idleTimeout :: int
  pl_closed :: bool
  pl_sem :: nat

definition NewSmtpConnPool :: "SmtpAccountConfig \<Rightarrow> 'c pool" where
  "NewSmtpConnPool cfg =
     (let mi = (if sp_MaxIdleConns (ac_Pool cfg) = 0 then 5 else sp_MaxIdleConns (ac_Pool cfg));
          maxIdle = (if mi < 0 then 0 else mi);
          maxOpen = defPos 20 (sp_MaxOpenConns (ac_Pool cfg));
          maxIdle = (if maxIdle > maxOpen then maxOpen else maxIdle)
      in \<lparr>pl_cfg = cfg, pl_idle = makeChan (nat maxIdle), pl_active = 0, pl_maxOpen = nat maxOpen,
          pl_maxIdle = nat maxIdle, pl_idleTimeout = defPos (60 * Second) (sp_IdleTimeout (ac_Pool cfg)),
          pl_closed = False, pl_sem = 0\<rparr>)"

definition decrementActive :: "'c pool \<Rightarrow> 'c pool" where
  "decrementActive p = p\<lparr>pl_active := pl_active p - 1, pl_sem := pl_sem p - 1\<rparr>"

text \<open>
  The checks on an idle connection: \<open>idleFor\<close> is \<open>time.Since(client.LastUsed())\<close>,
  \<open>reset\<close> the result of RSET.
\<close>

definition idleUsable :: "int \<Rightarrow> error option \<Rightarrow> 'c pool \<Rightarrow> bool" where
  "idleUsable idleFor reset p \<longleftrightarrow> \<not> idleFor > pl_idleTimeout p \<and> reset = None"

datatype 'c idleResult = GotIdle 'c | NoIdle | IdleClosed

text \<open>
  Phase 1 of \<open>Acquire\<close>: take idle connections until one is usable, closing the
  others. \<open>idleFor\<close> and \<open>reset\<close> give the answers for each connection.
\<close>

function phase1 :: "('c \<Rightarrow> int) \<Rightarrow> ('c \<Rightarrow> error option) \<Rightarrow> 'c pool \<Rightarrow> 'c idleResult \<times> 'c pool" where
  "phase1 idleFor reset p =
     (case chanRecv (pl_idle p) of
        RecvBlock \<Rightarrow> (NoIdle, p)
      | RecvClosed \<Rightarrow> (IdleClosed, p)
      | RecvVal c ch \<Rightarrow>
          (let p' = p\<lparr>pl_idle := ch\<rparr>
           in if idleUsable (idleFor c) (reset c) p then (GotIdle c, p')
              else phase1 idleFor reset (decrementActive p')))"
  by pat_completeness auto
termination
  by (relation "measure (\<lambda>(f, r, p). length (ch_buf (pl_idle p)))")
    (auto simp: decrementActive_def dest: gochan.recv_val)

declare phase1.simps [simp del]

text \<open>
  \<open>Acquire\<close> on its own: the semaphore or the context in phase 2 (the idle
  channel is empty then); \<open>None\<close> while it waits. \<open>ctxDone\<close> is the error of
  the context when the select takes that branch.
\<close>

definition Acquire ::
    "('c \<Rightarrow> int) \<Rightarrow> ('c \<Rightarrow> error option) \<Rightarrow> (error + 'c) \<Rightarrow> error option \<Rightarrow> 'c pool \<Rightarrow>
     ((error + 'c) \<times> 'c pool) option" where
  "Acquire idleFor reset dial ctxDone p =
     (if pl_closed p then Some (Inl ErrPoolClosed, p)
      else case phase1 idleFor reset p of
        (GotIdle c, p') \<Rightarrow> Some (Inr c, p')
      | (IdleClosed, p') \<Rightarrow> Some (Inl ErrPoolClosed, p')
      | (NoIdle, p') \<Rightarrow>
          (case ctxDone of
             Some e \<Rightarrow> Some (Inl e, p')
           | None \<Rightarrow>
               if pl_sem p' < pl_maxOpen p' then
                 (let p1 = p'\<lparr>pl_sem := pl_sem p' + 1\<rparr>
                  in case dial of
                       Inl e \<Rightarrow> Some (Inl (Wrap (''sender pool: failed to dial SMTP: '' @ Error e) e),
                                     decrementActive p1)
                     | Inr c \<Rightarrow> Some (Inr c, p1\<lparr>pl_active := pl_active p1 + 1\<rparr>))
               else None))"

text \<open>\<open>Release\<close> holds the read lock throughout. It tells whether it closed the connection.\<close>

definition Release :: "'c option \<Rightarrow> error option \<Rightarrow> 'c pool \<Rightarrow> (bool \<times> 'c pool) outcome" where
  "Release client err p =
     (case client of
        None \<Rightarrow> Ret (False, p)
      | Some c \<Rightarrow>
          if err \<noteq> None \<or> pl_closed p then Ret (True, decrementActive p)
          else (case chanSend (pl_idle p) c of
                  SendOk ch \<Rightarrow> Ret (False, p\<lparr>pl_idle := ch\<rparr>)
                | SendBlock \<Rightarrow> Ret (True, decrementActive p)
                | SendPanic \<Rightarrow> Panic ''send on closed channel''))"
text \<open>\<open>Close\<close>: its locked part, and one round of its loop over the idle connections.\<close>

definition closeBegin :: "'c pool \<Rightarrow> 'c pool outcome" where
  "closeBegin p =
     (if pl_closed p then Ret p
      else case chanClose (pl_idle p) of
             Ret ch \<Rightarrow> Ret (p\<lparr>pl_closed := True, pl_idle := ch\<rparr>)
           | Panic s \<Rightarrow> Panic s)"
definition closeDrain :: "'c pool \<Rightarrow> 'c pool option" where
  "closeDrain p =
     (case chanRecv (pl_idle p) of
        RecvVal c ch \<Rightarrow> Some (decrementActive (p\<lparr>pl_idle := ch\<rparr>))
      | _ \<Rightarrow> None)"

function closeLoop :: "'c pool \<Rightarrow> 'c pool" where
  "closeLoop p = (case closeDrain p of None \<Rightarrow> p | Some p' \<Rightarrow> closeLoop p')"
  by pat_completeness auto
termination
  by (relation "measure (\<lambda>p. length (ch_buf (pl_idle p)))")
    (auto simp: closeDrain_def decrementActive_def dest: gochan.recv_val split: recvResult.splits)

declare closeLoop.simps [simp del]

definition Pool_Close :: "'c pool \<Rightarrow> 'c pool outcome" where
  "Pool_Close p =
     (if pl_closed p then Ret p
      else case closeBegin p of Ret p' \<Rightarrow> Ret (closeLoop p') | Panic s \<Rightarrow> Panic s)"
record PoolStats =
  ps_MaxOpenConns :: int
  ps_MaxIdleConns :: int
  ps_ActiveConns :: int
  ps_IdleConns :: int

definition Pool_Stats :: "'c pool \<Rightarrow> PoolStats" where
  "Pool_Stats p = \<lparr>ps_MaxOpenConns = int (pl_maxOpen p), ps_MaxIdleConns = int (pl_maxIdle p),
     ps_ActiveConns = pl_active p, ps_IdleConns = int (length (ch_buf (pl_idle p)))\<rparr>"

section \<open>Interleaving\<close>

text \<open>
  \<open>px_dialing\<close> counts calls that hold a semaphore slot and are dialling,
  \<open>px_checking\<close> are idle connections taken out and being checked,
  \<open>px_out\<close> connections handed to callers. \<open>px_failed\<close> counts failed dials.
\<close>

record 'c poolSys =
  px_p :: "'c pool"
  px_dialing :: nat
  px_checking :: "'c list"
  px_out :: "'c list"
  px_failed :: nat

definition poolStart :: "'c pool \<Rightarrow> 'c poolSys" where
  "poolStart p = \<lparr>px_p = p, px_dialing = 0, px_checking = [], px_out = [], px_failed = 0\<rparr>"

inductive pool_step :: "'c poolSys \<Rightarrow> 'c poolSys \<Rightarrow> bool" where
  takes_idle: "chanRecv (pl_idle (px_p s)) = RecvVal c ch \<Longrightarrow>
    pool_step s (s\<lparr>px_p := (px_p s)\<lparr>pl_idle := ch\<rparr>, px_checking := c # px_checking s\<rparr>)"
| keeps_idle: "c \<in> set (px_checking s) \<Longrightarrow> idleUsable idleFor reset (px_p s) \<Longrightarrow>
    pool_step s (s\<lparr>px_checking := remove1 c (px_checking s), px_out := c # px_out s\<rparr>)"
| drops_idle: "c \<in> set (px_checking s) \<Longrightarrow> \<not> idleUsable idleFor reset (px_p s) \<Longrightarrow>
    pool_step s (s\<lparr>px_p := decrementActive (px_p s), px_checking := remove1 c (px_checking s)\<rparr>)"
| takes_slot: "pl_sem (px_p s) < pl_maxOpen (px_p s) \<Longrightarrow>
    pool_step s (s\<lparr>px_p := (px_p s)\<lparr>pl_sem := pl_sem (px_p s) + 1\<rparr>, px_dialing := Suc (px_dialing s)\<rparr>)"
| dials: "px_dialing s = Suc n \<Longrightarrow>
    pool_step s (s\<lparr>px_p := (px_p s)\<lparr>pl_active := pl_active (px_p s) + 1\<rparr>, px_dialing := n,
      px_out := c # px_out s\<rparr>)"
| dial_fails: "px_dialing s = Suc n \<Longrightarrow>
    pool_step s (s\<lparr>px_p := decrementActive (px_p s), px_dialing := n, px_failed := Suc (px_failed s)\<rparr>)"
| releases: "c \<in> set (px_out s) \<Longrightarrow> Release (Some c) err (px_p s) = Ret (b, p') \<Longrightarrow>
    pool_step s (s\<lparr>px_p := p', px_out := remove1 c (px_out s)\<rparr>)"
| hands_over: "c \<in> set (px_out s) \<Longrightarrow> \<not> pl_closed (px_p s) \<Longrightarrow> pool_step s
    (s\<lparr>px_out := remove1 c (px_out s), px_checking := c # px_checking s\<rparr>)"
| closes: "closeBegin (px_p s) = Ret p' \<Longrightarrow> pool_step s (s\<lparr>px_p := p'\<rparr>)"
| drains: "pl_closed (px_p s) \<Longrightarrow> closeDrain (px_p s) = Some p' \<Longrightarrow> pool_step s (s\<lparr>px_p := p'\<rparr>)"

inductive pool_reachable :: "'c pool \<Rightarrow> 'c poolSys \<Rightarrow> bool" for p0 where
  pool_init: "pool_reachable p0 (poolStart p0)"
| pool_next: "pool_reachable p0 s \<Longrightarrow> pool_step s s' \<Longrightarrow> pool_reachable p0 s'"

definition openConns :: "'c poolSys \<Rightarrow> nat" where
  "openConns s = length (px_out s) + length (px_checking s) + length (ch_buf (pl_idle (px_p s)))"

definition pool_inv :: "nat \<Rightarrow> nat \<Rightarrow> 'c poolSys \<Rightarrow> bool" where
  "pool_inv mo mi s \<longleftrightarrow>
     pl_sem (px_p s) = px_dialing s + openConns s \<and> pl_sem (px_p s) \<le> mo \<and>
     pl_maxOpen (px_p s) = mo \<and> chanWf (pl_idle (px_p s)) \<and> ch_cap (pl_idle (px_p s)) = mi \<and>
     pl_active (px_p s) = int (openConns s) - int (px_failed s) \<and>
     ch_closed (pl_idle (px_p s)) = pl_closed (px_p s)"

lemma length_remove1_in: "c \<in> set xs \<Longrightarrow> Suc (length (remove1 c xs)) = length xs"
  by (induction xs) auto

lemma pool_inv_start:
  "pool_inv (pl_maxOpen p) (pl_maxIdle p) (poolStart p)" if "p = NewSmtpConnPool cfg" for p :: "'c pool"
  unfolding that by (simp add: pool_inv_def poolStart_def openConns_def NewSmtpConnPool_def Let_def)

lemma Release_inv:
  assumes "pool_inv mo mi s" "c \<in> set (px_out s)" "Release (Some c) err (px_p s) = Ret (b, p')"
  shows "pool_inv mo mi (s\<lparr>px_p := p', px_out := remove1 c (px_out s)\<rparr>)"
proof (cases "b")
  case True
  then have "p' = decrementActive (px_p s)"
    using assms(3) by (auto simp: Release_def split: if_splits sendResult.splits)
  then show ?thesis
    using assms(1) length_remove1_in [OF assms(2)]
    by (auto simp: pool_inv_def openConns_def decrementActive_def)
next
  case False
  then obtain ch where send: "chanSend (pl_idle (px_p s)) c = SendOk ch" and p': "p' = (px_p s)\<lparr>pl_idle := ch\<rparr>"
    using assms(3) by (auto simp: Release_def split: if_splits sendResult.splits)
  then show ?thesis
    using assms(1) length_remove1_in [OF assms(2)] gochan.send_ok [OF send] gochan.send_wf [OF _ send]
    by (auto simp: pool_inv_def openConns_def)
qed

lemma pool_step_inv: "pool_step s s' \<Longrightarrow> pool_inv mo mi s \<Longrightarrow> pool_inv mo mi s'"
proof (induction rule: pool_step.induct)
  case (takes_idle s c ch)
  then show ?case
    using gochan.recv_val [OF takes_idle(1)] gochan.recv_wf [OF _ takes_idle(1)]
    by (auto simp: pool_inv_def openConns_def)
next
  case (keeps_idle c s idleFor reset)
  then show ?case
    using length_remove1_in [OF keeps_idle(1)] by (auto simp: pool_inv_def openConns_def)
next
  case (drops_idle c s idleFor reset)
  then show ?case
    using length_remove1_in [OF drops_idle(1)]
    by (auto simp: pool_inv_def openConns_def decrementActive_def)
next
  case (releases c s err b p')
  then show ?case
    by (intro Release_inv)
next
  case (hands_over c s)
  then show ?case
    using length_remove1_in [OF hands_over(1)] by (auto simp: pool_inv_def openConns_def)
next
  case (closes s p')
  then show ?case
    by (auto simp: pool_inv_def openConns_def closeBegin_def chan_defs split: if_splits)
next
  case (drains s p')
  then obtain c ch where recv: "chanRecv (pl_idle (px_p s)) = RecvVal c ch"
    and p': "p' = decrementActive ((px_p s)\<lparr>pl_idle := ch\<rparr>)"
    by (auto simp: closeDrain_def split: recvResult.splits)
  then show ?case
    using drains gochan.recv_val [OF recv] gochan.recv_wf [OF _ recv]
    by (auto simp: pool_inv_def openConns_def decrementActive_def)
qed (auto simp: pool_inv_def openConns_def decrementActive_def)

lemma pool_reachable_inv:
  "pool_reachable p0 s \<Longrightarrow> pool_inv mo mi (poolStart p0) \<Longrightarrow> pool_inv mo mi s"
  by (induction rule: pool_reachable.induct) (auto dest: pool_step_inv)

section \<open>The semaphore the pool refines\<close>

inductive slot_step :: "nat \<Rightarrow> nat \<Rightarrow> nat \<Rightarrow> bool" for mo where
  slot_acquire: "n < mo \<Longrightarrow> slot_step mo n (Suc n)"
| slot_release: "slot_step mo (Suc n) n"

inductive slot_reachable :: "nat \<Rightarrow> nat \<Rightarrow> bool" for mo where
  slot_start: "slot_reachable mo 0"
| slot_next: "slot_reachable mo n \<Longrightarrow> slot_step mo n n' \<Longrightarrow> slot_reachable mo n'"

lemma slot_releaseI: "0 < n \<Longrightarrow> slot_step mo n (n - 1)"
  using slot_release [of mo "n - 1"] by simp

lemma decrement_simulates:
  "0 < pl_sem p \<Longrightarrow> slot_step mo (pl_sem p) (pl_sem (decrementActive p))"
  using slot_releaseI [of "pl_sem p" mo] by (simp add: decrementActive_def)

lemma pool_step_simulates:
  assumes "pool_step s s'" "pool_inv mo mi s"
  shows "pl_sem (px_p s') = pl_sem (px_p s) \<or> slot_step mo (pl_sem (px_p s)) (pl_sem (px_p s'))"
  using assms
proof (induction rule: pool_step.induct)
  case (drops_idle c s idleFor reset)
  then have "0 < pl_sem (px_p s)"
    by (cases "px_checking s") (auto simp: pool_inv_def openConns_def)
  then show ?case
    by (simp add: decrement_simulates)
next
  case (takes_slot s)
  then show ?case
    using slot_acquire [of "pl_sem (px_p s)" mo] by (simp add: pool_inv_def)
next
  case (dial_fails s n)
  then have "0 < pl_sem (px_p s)"
    by (simp add: pool_inv_def)
  then show ?case
    by (simp add: decrement_simulates)
next
  case (releases c s err b p')
  then have pos: "0 < pl_sem (px_p s)"
    by (cases "px_out s") (auto simp: pool_inv_def openConns_def)
  show ?case
    using releases(2) decrement_simulates [OF pos, of mo]
    by (auto simp: Release_def split: if_splits sendResult.splits)
next
  case (drains s p')
  then obtain c ch where recv: "chanRecv (pl_idle (px_p s)) = RecvVal c ch"
    and p': "p' = decrementActive ((px_p s)\<lparr>pl_idle := ch\<rparr>)"
    by (auto simp: closeDrain_def split: recvResult.splits)
  have "0 < pl_sem (px_p s)"
    using drains gochan.recv_val [OF recv] by (auto simp: pool_inv_def openConns_def)
  then show ?case
    using decrement_simulates [of "(px_p s)\<lparr>pl_idle := ch\<rparr>" mo] by (simp add: p')
qed (auto simp: closeBegin_def split: outcome.splits if_splits)

section \<open>Sequential contract\<close>

text \<open>Connections handed out, as the pool can tell: slots that hold no idle connection.\<close>

definition outstanding :: "'c pool \<Rightarrow> nat" where
  "outstanding p = pl_sem p - length (ch_buf (pl_idle p))"

definition poolWf :: "'c pool \<Rightarrow> bool" where
  "poolWf p \<longleftrightarrow> chanWf (pl_idle p) \<and> length (ch_buf (pl_idle p)) \<le> pl_sem p \<and> pl_sem p \<le> pl_maxOpen p \<and>
     ch_closed (pl_idle p) = pl_closed p"

locale conn_pool =
  fixes acquire :: "'p \<Rightarrow> ((error + 'c) \<times> 'p) option"
    and release :: "'c \<Rightarrow> error option \<Rightarrow> 'p \<Rightarrow> 'p outcome"
    and held :: "'p \<Rightarrow> nat"
    and wf :: "'p \<Rightarrow> bool"
  assumes acquire_ok: "wf p \<Longrightarrow> acquire p = Some (Inr c, p') \<Longrightarrow> held p' = Suc (held p) \<and> wf p'"
    and acquire_err: "wf p \<Longrightarrow> acquire p = Some (Inl e, p') \<Longrightarrow> held p' = held p \<and> wf p'"
    and release_held: "wf p \<Longrightarrow> 0 < held p \<Longrightarrow> \<exists>p'. release c r p = Ret p' \<and> held p' = held p - 1 \<and> wf p'"
begin

text \<open>A client that acquires, works and releases leaves the number of connections in use alone.\<close>

definition borrow :: "('c \<Rightarrow> error option \<times> 'c) \<Rightarrow> 'p \<Rightarrow> (error option \<times> 'p) outcome option" where
  "borrow use p =
     (case acquire p of
        None \<Rightarrow> None
      | Some (Inl e, p') \<Rightarrow> Some (Ret (Some e, p'))
      | Some (Inr c, p') \<Rightarrow>
          (case use c of (r, c') \<Rightarrow>
             Some (case release c' r p' of Ret p'' \<Rightarrow> Ret (r, p'') | Panic s \<Rightarrow> Panic s)))"

lemma borrow_balanced:
  assumes "wf p" "borrow use p = Some out"
  shows "\<exists>r p'. out = Ret (r, p') \<and> held p' = held p \<and> wf p'"
proof (cases "acquire p")
  case None
  then show ?thesis using assms(2) by (simp add: borrow_def)
next
  case (Some a)
  then obtain r p' where acq: "acquire p = Some (r, p')"
    by (cases a) simp
  show ?thesis
  proof (cases r)
    case (Inl e)
    then show ?thesis
      using assms acq acquire_err by (simp add: borrow_def) blast
  next
    case (Inr c)
    then have "held p' = Suc (held p) \<and> wf p'"
      using acquire_ok assms(1) acq by blast
    then show ?thesis
      using release_held [of p' "snd (use c)" "fst (use c)"] assms(2) acq Inr
      by (auto simp: borrow_def split: prod.splits)
  qed
qed

end
lemma phase1_reference:
  "phase1 idleFor reset p =
     (let usable = (\<lambda>c. idleUsable (idleFor c) (reset c) p);
          bad = length (takeWhile (\<lambda>c. \<not> usable c) (ch_buf (pl_idle p)));
          rest = dropWhile (\<lambda>c. \<not> usable c) (ch_buf (pl_idle p));
          p' = p\<lparr>pl_idle := (pl_idle p)\<lparr>ch_buf := tl rest\<rparr>,
                 pl_active := pl_active p - int bad, pl_sem := pl_sem p - bad\<rparr>
      in (if rest \<noteq> [] then GotIdle (hd rest) else if ch_closed (pl_idle p) then IdleClosed else NoIdle, p'))"
proof (induction idleFor reset p rule: phase1.induct)
  case (1 idleFor reset p)
  show ?case
  proof (cases "ch_buf (pl_idle p)")
    case Nil
    then show ?thesis
      by (subst phase1.simps) (simp add: chanRecv_def)
  next
    case (Cons c cs)
    have recv: "chanRecv (pl_idle p) = RecvVal c ((pl_idle p)\<lparr>ch_buf := cs\<rparr>)"
      by (simp add: chanRecv_def Cons)
    have time: "idleUsable i r (decrementActive (p\<lparr>pl_idle := ch\<rparr>)) = idleUsable i r p" for i r ch
      by (simp add: idleUsable_def decrementActive_def)
    show ?thesis
      using "1.IH" [OF recv refl] unfolding time
      by (subst phase1.simps) (simp add: recv Cons Let_def decrementActive_def)
  qed
qed
lemma phase1_wf:
  assumes "poolWf p" "phase1 idleFor reset p = (r, p')"
  shows "poolWf p' \<and> pl_closed p' = pl_closed p \<and> pl_maxOpen p' = pl_maxOpen p \<and>
    outstanding p' = (case r of GotIdle c \<Rightarrow> Suc (outstanding p) | _ \<Rightarrow> outstanding p)"
proof -
  define u where "u = (\<lambda>c. \<not> idleUsable (idleFor c) (reset c) p)"
  define b where "b = length (takeWhile u (ch_buf (pl_idle p)))"
  have len: "b + length (dropWhile u (ch_buf (pl_idle p))) = length (ch_buf (pl_idle p))"
    unfolding b_def by (metis length_append takeWhile_dropWhile_id)
  have p': "p' = p\<lparr>pl_idle := (pl_idle p)\<lparr>ch_buf := tl (dropWhile u (ch_buf (pl_idle p)))\<rparr>,
      pl_active := pl_active p - int b, pl_sem := pl_sem p - b\<rparr>"
    and r: "r = (if dropWhile u (ch_buf (pl_idle p)) \<noteq> [] then GotIdle (hd (dropWhile u (ch_buf (pl_idle p))))
      else if ch_closed (pl_idle p) then IdleClosed else NoIdle)"
    using assms(2) [unfolded phase1_reference Let_def, folded u_def, folded b_def] by simp_all
  show ?thesis
    unfolding p' r using assms(1) len
    by (cases "dropWhile u (ch_buf (pl_idle p))")
      (auto simp: poolWf_def outstanding_def chanWf_def simp del: dropWhile_eq_Nil_conv)
qed
text \<open>What the sender does with the result of \<open>Release\<close>: only the pool changes.\<close>

definition giveBack :: "'c \<Rightarrow> error option \<Rightarrow> 'c pool \<Rightarrow> 'c pool outcome" where
  "giveBack c r p = (case Release (Some c) r p of Ret (b, p') \<Rightarrow> Ret p' | Panic s \<Rightarrow> Panic s)"

lemma decrementActive_wf:
  "poolWf p \<Longrightarrow> 0 < outstanding p \<Longrightarrow>
   outstanding (decrementActive p) = outstanding p - 1 \<and> poolWf (decrementActive p)"
  by (auto simp: poolWf_def outstanding_def decrementActive_def)

lemma Acquire_ok_wf:
  assumes "poolWf p" "Acquire idleFor reset dial ctxDone p = Some (Inr c, p')"
  shows "outstanding p' = Suc (outstanding p) \<and> poolWf p'"
proof -
  obtain q p1 where ph: "phase1 idleFor reset p = (q, p1)"
    by fastforce
  show ?thesis
    using assms ph phase1_wf [OF assms(1) ph]
    by (auto simp: Acquire_def Let_def poolWf_def outstanding_def Suc_diff_le
        split: if_splits idleResult.splits option.splits sum.splits)
qed

lemma Acquire_err_wf:
  assumes "poolWf p" "Acquire idleFor reset dial ctxDone p = Some (Inl e, p')"
  shows "outstanding p' = outstanding p \<and> poolWf p'"
proof -
  obtain q p1 where ph: "phase1 idleFor reset p = (q, p1)"
    by fastforce
  show ?thesis
    using assms ph phase1_wf [OF assms(1) ph]
    by (auto simp: Acquire_def Let_def poolWf_def outstanding_def decrementActive_def
        split: if_splits idleResult.splits option.splits sum.splits)
qed

lemma giveBack_wf:
  assumes "poolWf p" "0 < outstanding p"
  shows "\<exists>p'. giveBack c r p = Ret p' \<and> outstanding p' = outstanding p - 1 \<and> poolWf p'"
proof (cases "r \<noteq> None \<or> pl_closed p")
  case True
  then show ?thesis
    using decrementActive_wf [OF assms] by (simp add: giveBack_def Release_def)
next
  case False
  then have "chanSend (pl_idle p) c \<noteq> SendPanic"
    using assms(1) by (simp add: gochan.send_panic poolWf_def)
  then consider ch where "chanSend (pl_idle p) c = SendOk ch" | "chanSend (pl_idle p) c = SendBlock"
    by (cases "chanSend (pl_idle p) c") auto
  then show ?thesis
  proof cases
    case 1
    then show ?thesis
      using False assms gochan.send_ok [OF 1] gochan.send_wf [OF _ 1]
      by (auto simp: giveBack_def Release_def poolWf_def outstanding_def)
  next
    case 2
    then show ?thesis
      using False decrementActive_wf [OF assms] by (simp add: giveBack_def Release_def)
  qed
qed

interpretation smtp_pool: conn_pool "Acquire idleFor reset dial ctxDone" giveBack outstanding poolWf
  for idleFor reset dial ctxDone
  by unfold_locales (blast dest: Acquire_ok_wf Acquire_err_wf intro: giveBack_wf)+

lemma NewSmtpConnPool_wf: "poolWf (NewSmtpConnPool cfg) \<and> outstanding (NewSmtpConnPool cfg) = 0"
  by (simp add: NewSmtpConnPool_def Let_def poolWf_def outstanding_def chan_defs)

lemma closeLoop_drains:
  "closeLoop p = p\<lparr>pl_idle := (pl_idle p)\<lparr>ch_buf := []\<rparr>,
     pl_active := pl_active p - int (length (ch_buf (pl_idle p))),
     pl_sem := pl_sem p - length (ch_buf (pl_idle p))\<rparr>"
proof (induction p rule: closeLoop.induct)
  case (1 p)
  show ?case
  proof (cases "ch_buf (pl_idle p)")
    case Nil
    then show ?thesis
      by (subst closeLoop.simps) (simp add: closeDrain_def chanRecv_def)
  next
    case (Cons c cs)
    then have "closeDrain p = Some (decrementActive (p\<lparr>pl_idle := (pl_idle p)\<lparr>ch_buf := cs\<rparr>\<rparr>))"
      by (simp add: closeDrain_def chanRecv_def)
    from this "1.IH" [OF this] show ?thesis
      by (subst closeLoop.simps) (simp add: Cons decrementActive_def)
  qed
qed

lemma Pool_Close_open:
  assumes "poolWf p" "\<not> pl_closed p"
  shows "Pool_Close p = Ret (p\<lparr>pl_closed := True, pl_idle := (pl_idle p)\<lparr>ch_buf := [], ch_closed := True\<rparr>,
    pl_active := pl_active p - int (length (ch_buf (pl_idle p))), pl_sem := outstanding p\<rparr>)"
  using assms
  by (simp add: Pool_Close_def closeBegin_def chanClose_def poolWf_def closeLoop_drains outstanding_def)

section \<open>Properties\<close>

text \<open>
  C6. Bounded connections. Whatever calls of Acquire, Release and Close
  interleave on a new pool: every slot of the semaphore belongs to a call that
  dials or to an open connection, at most maxOpen connections are open, at
  most maxIdle of them idle; Release never sends on the closed idle channel
  and Close never closes it twice. The active counter is the number of open
  connections less the number of failed dials, since a failed dial decrements
  it without having incremented it.\<close>

theorem pool_bounded:
  assumes "pool_reachable p s" "p = NewSmtpConnPool cfg"
  shows "pl_sem (px_p s) = px_dialing s + openConns s \<and> openConns s \<le> pl_maxOpen p \<and>
    length (ch_buf (pl_idle (px_p s))) \<le> pl_maxIdle p \<and>
    ps_ActiveConns (Pool_Stats (px_p s)) = int (openConns s) - int (px_failed s) \<and>
    (\<forall>c err m. Release c err (px_p s) \<noteq> Panic m) \<and> (\<forall>m. closeBegin (px_p s) \<noteq> Panic m)"
proof -
  have inv: "pool_inv (pl_maxOpen p) (pl_maxIdle p) s"
    using pool_reachable_inv [OF assms(1) pool_inv_start [OF assms(2)]] .
  have "Release c err (px_p s) \<noteq> Panic m" for c err m
    using inv by (auto simp: Release_def pool_inv_def gochan.send_panic split: option.splits sendResult.splits)
  moreover have "closeBegin (px_p s) \<noteq> Panic m" for m
    using inv by (auto simp: closeBegin_def pool_inv_def chanClose_def)
  ultimately show ?thesis
    using inv by (simp add: pool_inv_def Pool_Stats_def chanWf_def)
qed


text \<open>
  Phase 1 of Acquire ends and does what its reference says: the idle
  connections before the first usable one are closed, each giving its slot
  back, and that one is handed out; when none is usable all are closed, and
  the call goes on to wait unless the pool was closed.\<close>

theorem phase1_first_usable:
  "phase1 idleFor reset p =
     (let usable = (\<lambda>c. idleUsable (idleFor c) (reset c) p);
          bad = length (takeWhile (\<lambda>c. \<not> usable c) (ch_buf (pl_idle p)));
          rest = dropWhile (\<lambda>c. \<not> usable c) (ch_buf (pl_idle p));
          p' = p\<lparr>pl_idle := (pl_idle p)\<lparr>ch_buf := tl rest\<rparr>,
                 pl_active := pl_active p - int bad, pl_sem := pl_sem p - bad\<rparr>
      in (if rest \<noteq> [] then GotIdle (hd rest) else if ch_closed (pl_idle p) then IdleClosed else NoIdle, p'))"
  by (rule phase1_reference)

text \<open>
  Close on an open pool closes every idle connection and gives back its
  slot, so that only connections in use keep one; a second Close changes
  nothing, and from then on Acquire fails with ErrPoolClosed and Release
  closes what it is given.\<close>

theorem Pool_Close_final:
  assumes "poolWf p" "\<not> pl_closed p"
  shows "\<exists>p'. Pool_Close p = Ret p' \<and> Pool_Close p' = Ret p' \<and> ch_buf (pl_idle p') = [] \<and>
    pl_sem p' = outstanding p \<and> outstanding p' = outstanding p \<and>
    Acquire idleFor reset dial ctxDone p' = Some (Inl ErrPoolClosed, p') \<and>
    Release (Some c) err p' = Ret (True, decrementActive p')"
proof -
  obtain p' where "Pool_Close p = Ret p'" "pl_closed p'" "ch_buf (pl_idle p') = []" "pl_sem p' = outstanding p"
    using Pool_Close_open [OF assms] by simp
  then show ?thesis
    by (simp add: Pool_Close_def [of p'] outstanding_def [of p'] Acquire_def Release_def)
qed

section \<open>Witnesses\<close>

definition demoPool :: "nat pool" where
  "demoPool = (NewSmtpConnPool sampleAccount)
     \<lparr>pl_idle := \<lparr>ch_buf = [1, 2], ch_cap = 5, ch_closed = False\<rparr>, pl_active := 3, pl_sem := 3\<rparr>"

definition demoRun :: "nat poolSys" where
  "demoRun =
     (let p = NewSmtpConnPool sampleAccount
      in \<lparr>px_p = decrementActive (p\<lparr>pl_sem := 1\<rparr>), px_dialing = 0, px_checking = [], px_out = [], px_failed = 1\<rparr>)"

lemma demoRun_reachable: "pool_reachable (NewSmtpConnPool sampleAccount) demoRun"
proof -
  let ?p = "NewSmtpConnPool sampleAccount :: nat pool"
  let ?s = "(poolStart ?p)\<lparr>px_p := ?p\<lparr>pl_sem := 1\<rparr>, px_dialing := 1\<rparr>"
  have new: "pl_sem ?p = 0" "0 < pl_maxOpen ?p"
    by (simp_all add: NewSmtpConnPool_def Let_def defPos_def)
  have "pool_step (poolStart ?p) ?s"
    using takes_slot [of "poolStart ?p"] new by (simp add: poolStart_def)
  moreover have "pool_step ?s demoRun"
    using dial_fails [of ?s 0] by (simp add: poolStart_def demoRun_def Let_def)
  ultimately show ?thesis
    by (blast intro: pool_init pool_next)
qed

theorem pool_bounded_witness: "ps_ActiveConns (Pool_Stats (px_p demoRun)) = - 1"
  using pool_bounded [OF demoRun_reachable refl]
  by (simp add: openConns_def demoRun_def decrementActive_def NewSmtpConnPool_def Let_def makeChan_def)


theorem Pool_Close_final_witness: "\<exists>p'. Pool_Close demoPool = Ret p' \<and> pl_sem p' = 1"
proof -
  have "poolWf demoPool" "\<not> pl_closed demoPool" "outstanding demoPool = 1"
    by (simp_all add: demoPool_def poolWf_def outstanding_def chanWf_def NewSmtpConnPool_def Let_def defPos_def
        sampleAccount_def)
  then show ?thesis
    using Pool_Close_final [of demoPool "\<lambda>c. 0" "\<lambda>c. None" "Inr 3" None 3 None] by auto
qed

end
