(* ===== verification/SmtpClient.thy ===== *)
theory SmtpClient
  imports ConfigSmtp Email
begin

text \<open>
  One SMTP connection, \<open>internal/sender/client.go\<close>, and the choice of the
  authentication mechanism, \<open>internal/sender/auth.go\<close>. What the network and
  the server answer to each call of \<open>net\<close>, \<open>crypto/tls\<close> and \<open>net/smtp\<close> is
  the record \<open>dialEnv\<close> or \<open>sendEnv\<close>; the calls that touch the connection are
  recorded in order in a trace, which the properties read. Metrics, spans and
  log lines are left out.
\<close>

section \<open>Authentication\<close>

abbreviation SmtpAuthTypeLogin :: string where "SmtpAuthTypeLogin \<equiv> ''LOGIN''"
abbreviation SmtpAuthTypeNone :: string where "SmtpAuthTypeNone \<equiv> ''None''"

record loginAuth =
  la_username :: string
  la_password :: string
  la_host :: string

datatype smtpAuth = PlainAuth string string string string | LoginAuth loginAuth | CRAMMD5Auth string string

definition isLocalhost :: "string \<Rightarrow> bool" where
  "isLocalhost name \<longleftrightarrow> name = ''localhost'' \<or> name = ''127.0.0.1'' \<or> name = ''::1''"

text \<open>\<open>smtp.ServerInfo\<close>: the name and whether the connection is encrypted.\<close>

definition loginAuth_Start :: "loginAuth \<Rightarrow> string \<Rightarrow> bool \<Rightarrow> error + (string \<times> string)" where
  "loginAuth_Start a name tls =
     (if \<not> tls \<and> \<not> isLocalhost name then Inl (Err ''unencrypted connection'')
      else if name \<noteq> la_host a then Inl (Err ''wrong host name'')
      else Inr (''LOGIN'', la_username a))"

definition HasSuffix :: "string \<Rightarrow> string \<Rightarrow> bool" where
  "HasSuffix s t \<longleftrightarrow> suffix t s"

definition loginPrompt :: "string \<Rightarrow> string" where
  "loginPrompt fromServer =
     TrimRight (ToLower (TrimSpace fromServer)) [CHR '':'', CHR '' '', CHR 0x09, CHR 0x0D, CHR 0x0A]"

definition loginAuth_Next :: "loginAuth \<Rightarrow> string \<Rightarrow> bool \<Rightarrow> error + string option" where
  "loginAuth_Next a fromServer moreData =
     (if \<not> moreData then Inr None
      else let prompt = loginPrompt fromServer
      in if HasSuffix prompt ''username'' \<or> HasSuffix prompt ''user name'' \<or> prompt = ''user'' \<or>
            HasSuffix prompt ''auth id'' \<or> HasSuffix prompt ''login id''
         then Inr (Some (la_username a))
         else if HasSuffix prompt ''password'' \<or> HasSuffix prompt ''pass word'' \<or> prompt = ''pass''
         then Inr (Some (la_password a))
         else if prompt = [] then Inr (Some (la_password a))
         else Inl (Err ''sender: SASL LOGIN server sent unexpected prompt''))"

definition BuildAuth :: "string \<Rightarrow> string \<Rightarrow> string \<Rightarrow> string \<Rightarrow> smtpAuth option" where
  "BuildAuth authType username password host =
     (if TrimSpace username = [] \<and> TrimSpace password = [] then None
      else let t = ToUpper authType
      in if t = ''PLAIN'' then Some (PlainAuth [] username password host)
         else if t = ''LOGIN''
         then Some (LoginAuth \<lparr>la_username = username, la_password = password, la_host = host\<rparr>)
         else if t = ''CRAM-MD5'' then Some (CRAMMD5Auth username password)
         else if t = ''NONE'' then None
         else Some (PlainAuth [] username password host))"

section \<open>Connecting\<close>

text \<open>The client: \<open>sc_client\<close> is nil or an \<open>smtp.Client\<close>, of which \<open>TLSConnectionState\<close> is kept.\<close>

record SmtpClient =
  sc_client :: "bool option"
  sc_conn :: bool
  sc_cfg :: SmtpAccountConfig
  sc_lastUsed :: int

record dialEnv =
  de_hostname :: "error + string"
  de_dial :: "bool \<Rightarrow> error option"
  de_newClient :: "error option"
  de_hello :: "string \<Rightarrow> error option"
  de_starttls :: bool
  de_startTLS :: "error option"
  de_auth :: "smtpAuth \<Rightarrow> error option"
  de_now :: int

text \<open>
  What happens to the connection: it is opened (encrypted or not, with the
  connect timeout), STARTTLS secures it, an authentication starts, it is
  closed.
\<close>

datatype dialEvent = EvOpen bool int | EvSecure | EvAuth smtpAuth | EvClose

definition heloHost :: "dialEnv \<Rightarrow> SmtpAccountConfig \<Rightarrow> string" where
  "heloHost env cfg =
     (if ac_HeloHostname cfg \<noteq> [] then ac_HeloHostname cfg
      else case de_hostname env of
             Inr h \<Rightarrow> if h \<noteq> [] then h else ''localhost''
           | Inl _ \<Rightarrow> ''localhost'')"

text \<open>Whether the encryption was asked for by name, and the one to use.\<close>

definition dialEncryption :: "SmtpAccountConfig \<Rightarrow> bool \<times> string" where
  "dialEncryption cfg =
     (if ac_Encryption cfg = [] \<or> EqualFold (ac_Encryption cfg) SmtpEncryptionAuto
      then (False, if ac_Port cfg = 465 then ''SSL'' else ''STARTTLS'')
      else (True, ac_Encryption cfg))"

definition dialAddr :: "SmtpAccountConfig \<Rightarrow> string" where
  "dialAddr cfg = ac_Host cfg @ '':'' @ Itoa (ac_Port cfg)"

text \<open>Opening the socket, the SMTP greeting and HELO, which all three encryptions share.\<close>

definition openClient :: "dialEnv \<Rightarrow> SmtpAccountConfig \<Rightarrow> bool \<Rightarrow> error option \<times> dialEvent list" where
  "openClient env cfg tls =
     (let opened = EvOpen tls (defPos (10 * Second) (ac_ConnectTimeout cfg)) in
      case de_dial env tls of
        Some e \<Rightarrow>
          (Some (Wrap ((if tls then ''sender: failed to dial TLS '' else ''sender: failed to dial '') @
             dialAddr cfg @ '': '' @ Error e) e), [])
      | None \<Rightarrow>
          (case de_newClient env of
             Some e \<Rightarrow> (Some (Wrap (''sender: failed to create smtp client: '' @ Error e) e), [opened, EvClose])
           | None \<Rightarrow>
               (case de_hello env (heloHost env cfg) of
                  Some e \<Rightarrow> (Some (Wrap (''sender: HELO/EHLO failed: '' @ Error e) e), [opened, EvClose])
                | None \<Rightarrow> (None, [opened]))))"

text \<open>The STARTTLS step on an open plain connection: whether it is encrypted afterwards.\<close>

definition startTLSStep :: "dialEnv \<Rightarrow> SmtpAccountConfig \<Rightarrow> bool \<Rightarrow> (error + bool) \<times> dialEvent list" where
  "startTLSStep env cfg explicitEncryption =
     (if de_starttls env then
        (case de_startTLS env of
           Some e \<Rightarrow> (Inl (Wrap (''sender: STARTTLS failed: '' @ Error e) e), [EvClose])
         | None \<Rightarrow> (Inr True, [EvSecure]))
      else if explicitEncryption then
        (Inl (Err ''sender: server does not advertise STARTTLS but encryption is required''), [EvClose])
      else if ac_Username cfg \<noteq> [] \<or> ac_Password cfg \<noteq> [] then
        (Inl (Err ''sender: server does not advertise STARTTLS; refusing to authenticate in plaintext''), [EvClose])
      else (Inr False, []))"

definition connectStep :: "dialEnv \<Rightarrow> SmtpAccountConfig \<Rightarrow> (error + bool) \<times> dialEvent list" where
  "connectStep env cfg =
     (case dialEncryption cfg of (explicitEncryption, encryption) \<Rightarrow>
      let mode = ToUpper encryption in
      if mode = ''SSL'' \<or> mode = ''TLS'' then
        (case openClient env cfg True of
           (Some e, tr) \<Rightarrow> (Inl e, tr)
         | (None, tr) \<Rightarrow> (Inr True, tr))
      else if mode = ''STARTTLS'' then
        (case openClient env cfg False of
           (Some e, tr) \<Rightarrow> (Inl e, tr)
         | (None, tr) \<Rightarrow>
             (case startTLSStep env cfg explicitEncryption of (r, tr') \<Rightarrow> (r, tr @ tr')))
      else if mode = ''NONE'' then
        (case openClient env cfg False of
           (Some e, tr) \<Rightarrow> (Inl e, tr)
         | (None, tr) \<Rightarrow> (Inr False, tr))
      else (Inl (Err (''sender: unsupported encryption '' @ Quote encryption)), []))"

definition authStep :: "dialEnv \<Rightarrow> SmtpAccountConfig \<Rightarrow> bool \<Rightarrow> error option \<times> dialEvent list" where
  "authStep env cfg isTLS =
     (if \<not> (ac_Username cfg \<noteq> [] \<or> ac_Password cfg \<noteq> []) then (None, [])
      else case BuildAuth (ac_AuthType cfg) (ac_Username cfg) (ac_Password cfg) (ac_Host cfg) of
        None \<Rightarrow> (None, [])
      | Some auth \<Rightarrow>
          if \<not> isTLS \<and> \<not> isLocalhost (ac_Host cfg) \<and> ac_AuthType cfg = SmtpAuthTypeLogin then
            (Some (Err ''sender: refusing to authenticate over plaintext SMTP''), [EvClose])
          else if \<not> isTLS \<and> \<not> isLocalhost (ac_Host cfg) \<and> ac_AuthType cfg \<noteq> SmtpAuthTypeNone then
            (Some (Err (''sender: refusing to send plaintext credentials over unencrypted SMTP connection;'' @
               '' enable STARTTLS/SSL'')), [EvClose])
          else
            (case de_auth env auth of
               Some e \<Rightarrow> (Some (Wrap (Error ErrAuthFailed @ '': '' @ Error e) ErrAuthFailed), [EvAuth auth, EvClose])
             | None \<Rightarrow> (None, [EvAuth auth])))"

definition Dial :: "dialEnv \<Rightarrow> SmtpAccountConfig \<Rightarrow> (error + SmtpClient) \<times> dialEvent list" where
  "Dial env cfg =
     (case connectStep env cfg of
        (Inl e, tr) \<Rightarrow> (Inl e, tr)
      | (Inr isTLS, tr) \<Rightarrow>
          (case authStep env cfg isTLS of
             (Some e, tr') \<Rightarrow> (Inl e, tr @ tr')
           | (None, tr') \<Rightarrow>
               (Inr \<lparr>sc_client = Some isTLS, sc_conn = True, sc_cfg = cfg, sc_lastUsed = de_now env\<rparr>, tr @ tr')))"

section \<open>The SMTP transaction\<close>

record sendEnv =
  se_ctxErr :: "error option"
  se_ctxDeadline :: "int option"
  se_mail :: "string \<Rightarrow> error option"
  se_rcpt :: "string \<Rightarrow> error option"
  se_data :: "error option"
  se_write :: "error option"
  se_close :: "error option"
  se_start :: int
  se_end :: int

datatype smtpCmd =
  Deadline "int option" | Mail string | Rcpt string | Data | Body string | BodyEnd | Rset

text \<open>The deadline of the exchange: the send timeout, or the one of the context when it is earlier.\<close>

definition sendDeadline :: "sendEnv \<Rightarrow> SmtpAccountConfig \<Rightarrow> int" where
  "sendDeadline env cfg =
     (let deadline = se_start env + defPos (30 * Second) (ac_SendTimeout cfg)
      in case se_ctxDeadline env of
           Some d \<Rightarrow> if d < deadline then d else deadline
         | None \<Rightarrow> deadline)"

fun rcptLoop :: "sendEnv \<Rightarrow> string list \<Rightarrow> error option \<times> smtpCmd list" where
  "rcptLoop env [] = (None, [])"
| "rcptLoop env (rcpt # rest) =
     (case se_rcpt env rcpt of
        Some e \<Rightarrow> (Some (Wrap (''sender: RCPT TO <'' @ rcpt @ ''> failed: '' @ Error e) e), [Rcpt rcpt, Rset])
      | None \<Rightarrow> (case rcptLoop env rest of (r, tr) \<Rightarrow> (r, Rcpt rcpt # tr)))"

definition dataStep :: "sendEnv \<Rightarrow> string \<Rightarrow> error option \<times> smtpCmd list" where
  "dataStep env msg =
     (case se_data env of
        Some e \<Rightarrow> (Some (Wrap (''sender: DATA command failed: '' @ Error e) e), [Data, Rset])
      | None \<Rightarrow>
          (case se_write env of
             Some e \<Rightarrow> (Some (Wrap (''sender: writing message body failed: '' @ Error e) e),
                        [Data, Body msg, BodyEnd, Rset])
           | None \<Rightarrow>
               (case se_close env of
                  Some e \<Rightarrow> (Some (Wrap (''sender: closing DATA writer failed: '' @ Error e) e),
                             [Data, Body msg, BodyEnd, Rset])
                | None \<Rightarrow> (None, [Data, Body msg, BodyEnd]))))"

definition transaction :: "sendEnv \<Rightarrow> string \<Rightarrow> string list \<Rightarrow> string \<Rightarrow> error option \<times> smtpCmd list" where
  "transaction env from recipients msg =
     (case se_ctxErr env of
        Some e \<Rightarrow> (Some e, [])
      | None \<Rightarrow>
          (case se_mail env from of
             Some e \<Rightarrow> (Some (Wrap (''sender: MAIL FROM <'' @ from @ ''> failed: '' @ Error e) e), [Mail from])
           | None \<Rightarrow>
               (case rcptLoop env recipients of
                  (Some e, tr) \<Rightarrow> (Some e, Mail from # tr)
                | (None, tr) \<Rightarrow> (case dataStep env msg of (r, tr') \<Rightarrow> (r, Mail from # tr @ tr')))))"

definition Client_Send ::
    "sendEnv \<Rightarrow> SmtpClient \<Rightarrow> string \<Rightarrow> string list \<Rightarrow> string \<Rightarrow> error option \<times> SmtpClient \<times> smtpCmd list" where
  "Client_Send env c from recipients msg =
     (if recipients = [] then (Some ErrNoRecipients, c, [])
      else case transaction env from recipients msg of (r, tr) \<Rightarrow>
        (r, (if r = None then c\<lparr>sc_lastUsed := se_end env\<rparr> else c),
         if sc_conn c then Deadline (Some (sendDeadline env (sc_cfg c))) # tr @ [Deadline None] else tr))"

definition Noop :: "error option \<Rightarrow> SmtpClient \<Rightarrow> error option" where
  "Noop answer c = (case sc_client c of None \<Rightarrow> Some (Err ''client is nil'') | Some _ \<Rightarrow> answer)"

definition Client_Reset :: "error option \<Rightarrow> SmtpClient \<Rightarrow> error option" where
  "Client_Reset answer c = (case sc_client c of None \<Rightarrow> Some (Err ''client is nil'') | Some _ \<Rightarrow> answer)"

text \<open>
  \<open>Close\<close>: \<open>quit\<close> is the answer to QUIT when it comes within two seconds;
  the second component tells whether the socket was closed.
\<close>

definition Client_Close :: "error option option \<Rightarrow> error option \<Rightarrow> SmtpClient \<Rightarrow> error option \<times> bool" where
  "Client_Close quit connClose c =
     (case sc_client c of
        None \<Rightarrow> (None, False)
      | Some _ \<Rightarrow>
          (let quitErr = (case quit of
                            Some r \<Rightarrow> r
                          | None \<Rightarrow> Some (Err ''sender: SMTP QUIT timed out, forcing close''))
           in if sc_conn c then
                (case connClose of
                   Some cerr \<Rightarrow> (if quitErr = None then Some cerr else quitErr, True)
                 | None \<Rightarrow> (quitErr, True))
              else (quitErr, False)))"

definition LastUsed :: "SmtpClient \<Rightarrow> int" where
  "LastUsed c = sc_lastUsed c"

section \<open>Reading the trace of a connection\<close>

text \<open>Every authentication happens while the connection is encrypted.\<close>

fun authSecure :: "bool \<Rightarrow> dialEvent list \<Rightarrow> bool" where
  "authSecure tls [] = True"
| "authSecure tls (EvOpen t _ # tr) = authSecure t tr"
| "authSecure tls (EvSecure # tr) = authSecure True tr"
| "authSecure tls (EvAuth _ # tr) = (tls \<and> authSecure tls tr)"
| "authSecure tls (EvClose # tr) = authSecure False tr"

text \<open>The number of connections left open.\<close>

fun leftOpen :: "dialEvent list \<Rightarrow> int" where
  "leftOpen [] = 0"
| "leftOpen (EvOpen _ _ # tr) = leftOpen tr + 1"
| "leftOpen (EvClose # tr) = leftOpen tr - 1"
| "leftOpen (_ # tr) = leftOpen tr"

lemma leftOpen_append [simp]: "leftOpen (xs @ ys) = leftOpen xs + leftOpen ys"
  by (induction xs rule: leftOpen.induct) auto

text \<open>The encryption after a trace.\<close>

fun tlsAfter :: "bool \<Rightarrow> dialEvent list \<Rightarrow> bool" where
  "tlsAfter tls [] = tls"
| "tlsAfter tls (EvOpen t _ # tr) = tlsAfter t tr"
| "tlsAfter tls (EvSecure # tr) = tlsAfter True tr"
| "tlsAfter tls (EvAuth _ # tr) = tlsAfter tls tr"
| "tlsAfter tls (EvClose # tr) = tlsAfter False tr"

lemma authSecure_append [simp]:
  "authSecure tls (xs @ ys) \<longleftrightarrow> authSecure tls xs \<and> authSecure (tlsAfter tls xs) ys"
  by (induction tls xs rule: authSecure.induct) auto

lemma tlsAfter_append [simp]: "tlsAfter tls (xs @ ys) = tlsAfter (tlsAfter tls xs) ys"
  by (induction tls xs rule: authSecure.induct) auto

lemma openClient_trace:
  assumes "openClient env cfg tls = (r, tr)"
  shows "authSecure b tr \<and> leftOpen tr = (if r = None then 1 else 0) \<and> (r = None \<longrightarrow> tlsAfter b tr = tls)"
  using assms by (auto simp: openClient_def Let_def split: option.splits)

lemma startTLSStep_trace:
  assumes "startTLSStep env cfg ex = (r, tr)"
  shows "authSecure b tr \<and>
    (case r of Inl _ \<Rightarrow> leftOpen tr = - 1
     | Inr t \<Rightarrow> leftOpen tr = 0 \<and> (tlsAfter False tr = t) \<and> (ex \<longrightarrow> t))"
  using assms by (auto simp: startTLSStep_def split: option.splits if_splits)

lemma connectStep_trace:
  assumes "connectStep env cfg = (r, tr)"
  shows "authSecure False tr \<and>
    (case r of Inl _ \<Rightarrow> leftOpen tr = 0
     | Inr t \<Rightarrow> leftOpen tr = 1 \<and> tlsAfter False tr = t \<and>
         (\<not> t \<longrightarrow> \<not> fst (dialEncryption cfg) \<or> ToUpper (snd (dialEncryption cfg)) = ''NONE''))"
proof -
  obtain ex en where enc: "dialEncryption cfg = (ex, en)"
    by fastforce
  obtain r1 tr1 where o1: "openClient env cfg True = (r1, tr1)"
    by fastforce
  obtain r2 tr2 where o2: "openClient env cfg False = (r2, tr2)"
    by fastforce
  obtain r3 tr3 where st: "startTLSStep env cfg ex = (r3, tr3)"
    by fastforce
  show ?thesis
    using assms openClient_trace [OF o1, of False] openClient_trace [OF o2, of False]
      startTLSStep_trace [OF st, of False]
    by (cases r1; cases r2; cases r3) (auto simp: connectStep_def Let_def enc o1 o2 st split: if_splits)
qed

lemma BuildAuth_None_type: "ac_AuthType cfg = SmtpAuthTypeNone \<Longrightarrow> BuildAuth (ac_AuthType cfg) u p h = None"
proof -
  have "ToUpper SmtpAuthTypeNone = ''NONE''"
    by code_simp
  then show "ac_AuthType cfg = SmtpAuthTypeNone \<Longrightarrow> BuildAuth (ac_AuthType cfg) u p h = None"
    by (simp add: BuildAuth_def)
qed

lemma authStep_trace:
  assumes "authStep env cfg t = (r, tr)"
  shows "(\<not> isLocalhost (ac_Host cfg) \<longrightarrow> authSecure t tr) \<and> leftOpen tr = (if r = None then 0 else - 1) \<and>
    (r = None \<longrightarrow> tlsAfter t tr = t)"
proof (cases "BuildAuth (ac_AuthType cfg) (ac_Username cfg) (ac_Password cfg) (ac_Host cfg)")
  case None
  then show ?thesis using assms by (auto simp: authStep_def split: if_splits)
next
  case (Some auth)
  then have "ac_AuthType cfg \<noteq> SmtpAuthTypeNone"
    using BuildAuth_None_type [of cfg] by auto
  then show ?thesis
    using assms Some by (cases "de_auth env auth") (auto simp: authStep_def split: if_splits)
qed

lemma Dial_cases:
  obtains e tr where "connectStep env cfg = (Inl e, tr)" "Dial env cfg = (Inl e, tr)"
  | t tr e tr' where "connectStep env cfg = (Inr t, tr)" "authStep env cfg t = (Some e, tr')"
      "Dial env cfg = (Inl e, tr @ tr')"
  | t tr c tr' where "connectStep env cfg = (Inr t, tr)" "authStep env cfg t = (None, tr')"
      "Dial env cfg = (Inr c, tr @ tr')" "sc_client c = Some t" "sc_cfg c = cfg" "sc_conn c"
proof (cases "connectStep env cfg")
  case (Pair r tr)
  then show thesis
  proof (cases r)
    case (Inr t)
    then show thesis
      using Pair that(2,3) by (cases "authStep env cfg t"; cases "fst (authStep env cfg t)") (simp_all add: Dial_def)
  qed (simp add: Dial_def that(1))
qed

section \<open>Properties\<close>

text \<open>
  C7. Credentials stay off plaintext connections: whatever the server
  answers, Dial starts an authentication only while the connection is
  encrypted, unless the host is the local one.\<close>

theorem Dial_auth_encrypted:
  assumes "\<not> isLocalhost (ac_Host cfg)"
  shows "authSecure False (snd (Dial env cfg))"
  using assms
  by (cases rule: Dial_cases [of env cfg]) (auto dest!: connectStep_trace authStep_trace)

text \<open>
  C17. Dial accounts for the socket on every path: when it fails the
  connection it opened is closed, when it succeeds exactly one is open and it
  is the one returned; and when the account asks for an encryption by name
  other than None the connection returned is encrypted (no downgrade).\<close>

theorem Dial_socket_accounted:
  "(case Dial env cfg of
      (Inl e, tr) \<Rightarrow> leftOpen tr = 0
    | (Inr c, tr) \<Rightarrow> leftOpen tr = 1 \<and> sc_conn c \<and> sc_client c = Some (tlsAfter False tr) \<and>
        (\<not> tlsAfter False tr \<longrightarrow> \<not> fst (dialEncryption cfg) \<or> ToUpper (ac_Encryption cfg) = ''NONE''))"
proof (cases rule: Dial_cases [of env cfg])
  case (3 t tr c tr')
  moreover have "ToUpper (snd (dialEncryption cfg)) = ''NONE'' \<longrightarrow>
      \<not> fst (dialEncryption cfg) \<or> ToUpper (ac_Encryption cfg) = ''NONE''"
    by (simp add: dialEncryption_def)
  ultimately show ?thesis
    using connectStep_trace [OF 3(1)] authStep_trace [OF 3(2)] by auto
qed (auto dest!: connectStep_trace authStep_trace)

lemma rcptLoop_result:
  "rcptLoop env rs = (r, tr) \<Longrightarrow>
     (r = None \<longleftrightarrow> (\<forall>x \<in> set rs. se_rcpt env x = None)) \<and>
     (r = None \<longrightarrow> tr = map Rcpt rs) \<and> (r \<noteq> None \<longrightarrow> (\<exists>tr'. tr = tr' @ [Rset] \<and> set tr' \<subseteq> Rcpt ` set rs))"
proof (induction rs arbitrary: r tr)
  case (Cons x xs)
  show ?case
  proof (cases "se_rcpt env x")
    case None
    obtain r' tr' where loop: "rcptLoop env xs = (r', tr')"
      by fastforce
    then have "r = r'" "tr = Rcpt x # tr'"
      using Cons.prems None by simp_all
    then show ?thesis
      using Cons.IH [OF loop] None by (auto intro: exI [of _ "Rcpt x # _"])
  next
    case (Some e)
    then show ?thesis
      using Cons.prems by (auto intro: exI [of _ "[Rcpt x]"])
  qed
qed simp

definition accepted :: "sendEnv \<Rightarrow> string \<Rightarrow> string list \<Rightarrow> bool" where
  "accepted env from recipients \<longleftrightarrow>
     se_ctxErr env = None \<and> se_mail env from = None \<and> (\<forall>x \<in> set recipients. se_rcpt env x = None)"

lemma dataStep_result:
  "dataStep env msg = (r, tr) \<Longrightarrow>
     (r = None \<longleftrightarrow> se_data env = None \<and> se_write env = None \<and> se_close env = None) \<and>
     tr = (if se_data env = None then [Data, Body msg, BodyEnd] else [Data]) @ (if r = None then [] else [Rset])"
  by (auto simp: dataStep_def split: option.splits)

lemma transaction_result:
  assumes "transaction env from rs msg = (r, tr)"
  shows "(r = None \<longleftrightarrow> accepted env from rs \<and> se_data env = None \<and> se_write env = None \<and> se_close env = None) \<and>
    (r = None \<longrightarrow> tr = Mail from # map Rcpt rs @ [Data, Body msg, BodyEnd]) \<and>
    (r \<noteq> None \<and> se_ctxErr env = None \<and> se_mail env from = None \<longrightarrow> last tr = Rset) \<and>
    (Data \<in> set tr \<longrightarrow> accepted env from rs)"
proof -
  obtain r1 tr1 where loop: "rcptLoop env rs = (r1, tr1)"
    by fastforce
  obtain r2 tr2 where dat: "dataStep env msg = (r2, tr2)"
    by fastforce
  note loop_r = rcptLoop_result [OF loop] and dat_r = dataStep_result [OF dat]
  consider e where "se_ctxErr env = Some e" | e where "se_ctxErr env = None" "se_mail env from = Some e"
    | e where "se_ctxErr env = None" "se_mail env from = None" "r1 = Some e"
    | "se_ctxErr env = None" "se_mail env from = None" "r1 = None"
    by (cases "se_ctxErr env"; cases "se_mail env from"; cases r1) auto
  then show ?thesis
  proof cases
    case 3
    then have "r = Some e" "tr = Mail from # tr1"
      using assms by (simp_all add: transaction_def loop)
    then show ?thesis
      using 3 loop_r by (auto simp: accepted_def)
  next
    case 4
    then have "r = r2" "tr = Mail from # tr1 @ tr2" "accepted env from rs" "tr1 = map Rcpt rs"
      using assms loop_r by (simp_all add: transaction_def loop dat accepted_def)
    then show ?thesis
      using dat_r by (cases r2) simp_all
  qed (use assms in \<open>auto simp: transaction_def accepted_def dest: sym\<close>)
qed

text \<open>
  C16. The SMTP transaction. Send succeeds exactly when the context is live and
  the server accepts the sender, every recipient, DATA and the body; the
  commands are then MAIL, one RCPT per recipient in order, DATA, the body and
  its end, between setting the deadline and clearing it. The body is never
  offered unless every recipient was accepted, a failure after an accepted
  MAIL ends with RSET, and the deadline is cleared on every path.\<close>

theorem Client_Send_transaction:
  assumes "recipients \<noteq> []" "sc_conn c" "Client_Send env c from recipients msg = (r, c', tr)"
  shows "(r = None \<longleftrightarrow> accepted env from recipients \<and> se_data env = None \<and> se_write env = None \<and> se_close env = None) \<and>
    (\<exists>cmds. tr = Deadline (Some (sendDeadline env (sc_cfg c))) # cmds @ [Deadline None] \<and>
       (r = None \<longrightarrow> cmds = Mail from # map Rcpt recipients @ [Data, Body msg, BodyEnd]) \<and>
       (Data \<in> set cmds \<longrightarrow> accepted env from recipients) \<and>
       (r \<noteq> None \<and> se_ctxErr env = None \<and> se_mail env from = None \<longrightarrow> last cmds = Rset)) \<and>
    sendDeadline env (sc_cfg c) \<le> se_start env + defPos (30 * Second) (ac_SendTimeout (sc_cfg c))"
proof -
  obtain r1 cmds where t: "transaction env from recipients msg = (r1, cmds)"
    by fastforce
  have "r1 = r" "tr = Deadline (Some (sendDeadline env (sc_cfg c))) # cmds @ [Deadline None]"
    using assms by (simp_all add: Client_Send_def t)
  moreover have "sendDeadline env (sc_cfg c) \<le> se_start env + defPos (30 * Second) (ac_SendTimeout (sc_cfg c))"
    by (simp add: sendDeadline_def Let_def split: option.splits)
  ultimately show ?thesis
    using transaction_result [OF t] by blast
qed

section \<open>Witnesses\<close>

definition plainServer :: dialEnv where
  "plainServer = \<lparr>de_hostname = Inr ''mx'', de_dial = (\<lambda>_. None), de_newClient = None, de_hello = (\<lambda>_. None),
     de_starttls = False, de_startTLS = None, de_auth = (\<lambda>_. None), de_now = 0\<rparr>"

definition tlsServer :: dialEnv where
  "tlsServer = plainServer\<lparr>de_starttls := True\<rparr>"

definition loginAccount :: SmtpAccountConfig where
  "loginAccount = sampleAccount\<lparr>ac_Username := ''u'', ac_Password := ''p'', ac_Port := 587\<rparr>"

theorem Dial_auth_encrypted_witness:
  "authSecure False (snd (Dial tlsServer loginAccount)) \<and>
   snd (Dial tlsServer loginAccount) =
     [EvOpen False (10 * Second), EvSecure, EvAuth (PlainAuth [] ''u'' ''p'' ''smtp.example.com'')]"
proof -
  have "\<not> isLocalhost (ac_Host loginAccount)"
    by code_simp
  moreover have "snd (Dial tlsServer loginAccount) =
     [EvOpen False (10 * Second), EvSecure, EvAuth (PlainAuth [] ''u'' ''p'' ''smtp.example.com'')]"
    by code_simp
  ultimately show ?thesis
    using Dial_auth_encrypted [of loginAccount tlsServer] by blast
qed

theorem Dial_socket_accounted_witness: "leftOpen (snd (Dial plainServer loginAccount)) = 0"
proof -
  have "isl (fst (Dial plainServer loginAccount))"
    by code_simp
  then obtain e tr where "Dial plainServer loginAccount = (Inl e, tr)"
    by (cases "Dial plainServer loginAccount"; cases "fst (Dial plainServer loginAccount)") auto
  then show ?thesis
    using Dial_socket_accounted [where env = plainServer and cfg = loginAccount] by simp
qed

definition okServer :: sendEnv where
  "okServer = \<lparr>se_ctxErr = None, se_ctxDeadline = None, se_mail = (\<lambda>_. None), se_rcpt = (\<lambda>_. None), se_data = None,
     se_write = None, se_close = None, se_start = 0, se_end = 1\<rparr>"

definition someClient :: SmtpClient where
  "someClient = \<lparr>sc_client = Some True, sc_conn = True, sc_cfg = sampleAccount, sc_lastUsed = 0\<rparr>"

theorem Client_Send_transaction_witness:
  "\<exists>c' tr. Client_Send okServer someClient ''a@b'' [''x@y'', ''z@y''] ''m'' = (None, c', tr) \<and>
     butlast (tl tr) = [Mail ''a@b'', Rcpt ''x@y'', Rcpt ''z@y'', Data, Body ''m'', BodyEnd]"
proof -
  obtain r c' tr where send: "Client_Send okServer someClient ''a@b'' [''x@y'', ''z@y''] ''m'' = (r, c', tr)"
    by (cases "Client_Send okServer someClient ''a@b'' [''x@y'', ''z@y''] ''m''") simp
  have "accepted okServer ''a@b'' [''x@y'', ''z@y'']" "sc_conn someClient"
    by (simp_all add: accepted_def okServer_def someClient_def)
  then have "r = None"
    using Client_Send_transaction [OF _ _ send] by (simp add: okServer_def)
  then show ?thesis
    using Client_Send_transaction [OF _ _ send] \<open>sc_conn someClient\<close> send by auto
qed

end
