(* ===== verification/Base64.thy ===== *)
theory Base64
  imports Prelude
begin

text \<open>
  \<open>base64.StdEncoding\<close> as the MIME builder uses it, with its decoder as the
  reference for the round trip, and the line wrapping of
  \<open>wrapBase64\<close> in \<open>internal/sender/mime.go\<close>.
\<close>

definition b64alphabet :: string where
  "b64alphabet = ''ABCDEFGHIJKLMNOPQRSTUVWXYZabcdefghijklmnopqrstuvwxyz0123456789+/''"

definition b64char :: "nat \<Rightarrow> char" where
  "b64char n = b64alphabet ! n"

fun b64encode :: "string \<Rightarrow> string" where
  "b64encode [] = []"
| "b64encode [a] =
     (let x = of_char a in [b64char (x div 4), b64char (x mod 4 * 16), CHR ''='', CHR ''=''])"
| "b64encode [a, b] =
     (let x = of_char a; y = of_char b
      in [b64char (x div 4), b64char (x mod 4 * 16 + y div 16), b64char (y mod 16 * 4), CHR ''=''])"
| "b64encode (a # b # c # rest) =
     (let x = of_char a; y = of_char b; z = of_char c
      in [b64char (x div 4), b64char (x mod 4 * 16 + y div 16),
          b64char (y mod 16 * 4 + z div 64), b64char (z mod 64)] @ b64encode rest)"

text \<open>The decoder: the value of a digit, and four digits at a time.\<close>

definition b64val :: "char \<Rightarrow> nat option" where
  "b64val c = map_of (zip b64alphabet [0..<64]) c"

fun b64decode :: "string \<Rightarrow> string option" where
  "b64decode [] = Some []"
| "b64decode (c1 # c2 # c3 # c4 # rest) =
     (case (b64val c1, b64val c2) of
        (Some p, Some q) \<Rightarrow>
          (let x = char_of (p * 4 + q div 16)
           in if c3 = CHR ''='' then (if c4 = CHR ''='' \<and> rest = [] then Some [x] else None)
              else case b64val c3 of
                     None \<Rightarrow> None
                   | Some r \<Rightarrow>
                       (let y = char_of (q mod 16 * 16 + r div 4)
                        in if c4 = CHR ''='' then (if rest = [] then Some [x, y] else None)
                           else case (b64val c4, b64decode rest) of
                                  (Some s, Some ys) \<Rightarrow> Some (x # y # char_of (r mod 4 * 64 + s) # ys)
                                | _ \<Rightarrow> None))
      | _ \<Rightarrow> None)"
| "b64decode _ = None"

text \<open>\<open>wrapBase64\<close>: lines of 76 characters, each with CR LF; the last one's is trimmed off.\<close>

definition crlf :: string where
  "crlf = [CHR 0x0D, CHR 0x0A]"

function wrapLines :: "string \<Rightarrow> string" where
  "wrapLines s = (if s = [] then [] else take 76 s @ crlf @ wrapLines (drop 76 s))"
  by pat_completeness auto
termination
  by (relation "measure length") auto

declare wrapLines.simps [simp del]

definition wrapBase64 :: "string \<Rightarrow> string" where
  "wrapBase64 data =
     (let encoded = b64encode data
      in if length encoded \<le> 76 then encoded else TrimRight (wrapLines encoded) crlf)"

section \<open>The alphabet\<close>

lemma b64_table: "\<forall>n \<in> set [0..<64]. b64val (b64char n) = Some n \<and> b64char n \<noteq> CHR ''='' \<and>
    b64char n \<notin> set crlf"
  by code_simp

lemma b64val_char [simp]: "n < 64 \<Longrightarrow> b64val (b64char n) = Some n"
  and b64char_pad [simp]: "n < 64 \<Longrightarrow> b64char n \<noteq> CHR ''=''"
  and b64char_crlf: "n < 64 \<Longrightarrow> b64char n \<notin> set crlf"
  using b64_table by auto

section \<open>Round trip\<close>

lemma divmod_pack: "b < k \<Longrightarrow> (a * k + b) div k = (a :: nat)" "b < k \<Longrightarrow> (a * k + b) mod k = b"
  by simp_all

lemma sextets:
  fixes x y z :: nat
  assumes "x < 256" "y < 256" "z < 256"
  shows "x div 4 < 64" "x mod 4 * 16 + y div 16 < 64" "y mod 16 * 4 + z div 64 < 64"
    "x mod 4 * 16 < 64" "y mod 16 * 4 < 64"
    "x div 4 * 4 + (x mod 4 * 16 + y div 16) div 16 = x"
    "(x mod 4 * 16 + y div 16) mod 16 * 16 + (y mod 16 * 4 + z div 64) div 4 = y"
    "(y mod 16 * 4 + z div 64) mod 4 * 64 + z mod 64 = z"
    "x div 4 * 4 + x mod 4 * 16 div 16 = x"
    "(x mod 4 * 16 + y div 16) mod 16 * 16 + y mod 16 * 4 div 4 = y"
proof -
  have y: "y div 16 < 16" "z div 64 < 4"
    using assms by (auto simp: less_mult_imp_div_less)
  show "x div 4 < 64"
    using assms by (auto simp: less_mult_imp_div_less)
  have m: "x mod 4 < 4" "y mod 16 < 16"
    by auto
  show "x mod 4 * 16 + y div 16 < 64" "y mod 16 * 4 + z div 64 < 64" "x mod 4 * 16 < 64" "y mod 16 * 4 < 64"
    using y m by linarith+
  show "x div 4 * 4 + (x mod 4 * 16 + y div 16) div 16 = x"
    "(x mod 4 * 16 + y div 16) mod 16 * 16 + (y mod 16 * 4 + z div 64) div 4 = y"
    "(y mod 16 * 4 + z div 64) mod 4 * 64 + z mod 64 = z"
    "x div 4 * 4 + x mod 4 * 16 div 16 = x"
    "(x mod 4 * 16 + y div 16) mod 16 * 16 + y mod 16 * 4 div 4 = y"
    unfolding divmod_pack(1) [OF y(1)] divmod_pack(2) [OF y(1)] divmod_pack(1) [OF y(2)]
      divmod_pack(2) [OF y(2)]
    by (simp_all add: div_mult_mod_eq)
qed

lemmas byte_sextets = sextets [OF nat_of_char_less_256 nat_of_char_less_256 nat_of_char_less_256]

lemma byte_div:
  "(of_char c :: nat) div 16 div 16 = 0" "(of_char c :: nat) div 16 mod 16 = of_char c div 16"
  "(of_char c :: nat) div 64 div 4 = 0" "(of_char c :: nat) div 64 mod 4 = of_char c div 64"
proof -
  have "(of_char c :: nat) div 16 < 16" "(of_char c :: nat) div 64 < 4"
    using nat_of_char_less_256 [of c] by (auto simp: less_mult_imp_div_less)
  then show "(of_char c :: nat) div 16 div 16 = 0" "(of_char c :: nat) div 16 mod 16 = of_char c div 16"
    "(of_char c :: nat) div 64 div 4 = 0" "(of_char c :: nat) div 64 mod 4 = of_char c div 64"
    by simp_all
qed

lemma b64decode_encode: "b64decode (b64encode s) = Some s"
proof (induction s rule: b64encode.induct)
  case (2 a)
  show ?case
    by (simp add: Let_def byte_sextets)
next
  case (3 a b)
  show ?case
    by (simp add: Let_def byte_sextets byte_div)
next
  case (4 a b c rest)
  then show ?case
    by (simp add: Let_def byte_sextets byte_div)
qed simp

lemma pad_crlf: "CHR ''='' \<notin> set crlf"
  by (simp add: crlf_def)

lemma b64encode_no_crlf: "set (b64encode s) \<inter> set crlf = {}"
proof (induction s rule: b64encode.induct)
  case (4 a b c rest)
  then show ?case
    using b64char_crlf [OF byte_sextets(1)] b64char_crlf [OF byte_sextets(2)]
      b64char_crlf [OF byte_sextets(3)]
    by (auto simp: Let_def b64char_crlf)
qed (auto simp: Let_def b64char_crlf byte_sextets pad_crlf)

section \<open>Wrapping\<close>

fun chunks :: "string \<Rightarrow> string list" where
  "chunks s = (if s = [] then [] else take 76 s # chunks (drop 76 s))"

declare chunks.simps [simp del]

text \<open>The lines of a text whose line ends are CR LF.\<close>

fun crlfLines :: "string \<Rightarrow> string list" where
  "crlfLines [] = [[]]"
| "crlfLines (c # s) =
     (if c = CHR 0x0D \<and> s \<noteq> [] \<and> hd s = CHR 0x0A then [] # crlfLines (tl s)
      else case crlfLines s of l # ls \<Rightarrow> (c # l) # ls | [] \<Rightarrow> [[c]])"

lemma chunks_props:
  "concat (chunks s) = s" "\<forall>l \<in> set (chunks s). l \<noteq> [] \<and> length l \<le> 76 \<and> set l \<subseteq> set s"
proof (induction s rule: chunks.induct)
  case (1 s)
  { case 1 show ?case by (subst chunks.simps) (use "1.IH" in auto) }
  { case 2 show ?case
      by (subst chunks.simps) (use "1.IH" in \<open>auto dest: in_set_takeD in_set_dropD\<close>) }
qed

lemma chunks_Nil [simp]: "chunks s = [] \<longleftrightarrow> s = []"
  by (subst chunks.simps) simp

lemma TrimRight_append:
  "TrimRight t cs \<noteq> [] \<Longrightarrow> TrimRight (s @ t) cs = s @ TrimRight t cs"
  by (auto simp: TrimRight_def dropWhile_eq_Nil_conv dropWhile_append split: if_splits)

lemma TrimRight_tail: "set t \<subseteq> set cs \<Longrightarrow> TrimRight (s @ t) cs = TrimRight s cs"
  by (auto simp: TrimRight_def dropWhile_append)

lemma TrimRight_id: "s \<noteq> [] \<Longrightarrow> set s \<inter> set cs = {} \<Longrightarrow> TrimRight s cs = s"
  by (cases s rule: rev_cases) (auto simp: TrimRight_def)

lemma Join_not_Nil: "xs \<noteq> [] \<Longrightarrow> \<forall>x \<in> set xs. x \<noteq> [] \<Longrightarrow> Join xs sep \<noteq> []"
  by (induction xs sep rule: Join.induct) auto

lemma wrapLines_Join:
  "s \<noteq> [] \<Longrightarrow> set s \<inter> set crlf = {} \<Longrightarrow> TrimRight (wrapLines s) crlf = Join (chunks s) crlf"
proof (induction s rule: wrapLines.induct)
  case (1 s)
  have t: "take 76 s \<noteq> []" "set (take 76 s) \<inter> set crlf = {}"
    using "1.prems" by (auto dest: in_set_takeD)
  show ?case
  proof (cases "drop 76 s = []")
    case True
    then have "wrapLines s = take 76 s @ crlf" "chunks s = [take 76 s]"
      using "1.prems" by (simp_all add: wrapLines.simps [of s] wrapLines.simps [of "[]"] chunks.simps [of s])
    then show ?thesis
      using t by (simp add: TrimRight_tail TrimRight_id)
  next
    case False
    then have ih: "TrimRight (wrapLines (drop 76 s)) crlf = Join (chunks (drop 76 s)) crlf"
      using "1" by (auto dest: in_set_dropD)
    have ne: "Join (chunks (drop 76 s)) crlf \<noteq> []"
      using False chunks_props(2) [of "drop 76 s"] by (intro Join_not_Nil) auto
    obtain c cs where c: "chunks (drop 76 s) = c # cs"
      using False by (cases "chunks (drop 76 s)") auto
    have "TrimRight (wrapLines s) crlf = take 76 s @ crlf @ Join (chunks (drop 76 s)) crlf"
      using "1.prems" ih ne
        TrimRight_append [of "wrapLines (drop 76 s)" crlf "take 76 s @ crlf"]
      by (simp add: wrapLines.simps [of s])
    then show ?thesis
      using "1.prems" c by (simp add: chunks.simps [of s])
  qed
qed

lemma crlfLines_plain:
  "set l \<inter> set crlf = {} \<Longrightarrow> crlfLines l = [l]"
  "set l \<inter> set crlf = {} \<Longrightarrow> crlfLines (l @ crlf @ s) = l # crlfLines s"
  by (induction l) (auto simp: crlf_def)

lemma crlfLines_Join:
  "xs \<noteq> [] \<Longrightarrow> \<forall>x \<in> set xs. set x \<inter> set crlf = {} \<Longrightarrow> crlfLines (Join xs crlf) = xs"
  by (induction xs crlf rule: Join.induct) (auto simp: crlfLines_plain)

lemma filter_Join:
  "\<forall>x \<in> set xs. set x \<inter> set sep = {} \<Longrightarrow> filter (\<lambda>c. c \<notin> set sep) (Join xs sep) = concat xs"
proof (induction xs sep rule: Join.induct)
  case (2 x sep)
  then show ?case by (auto simp: filter_id_conv)
next
  case (3 x y ys sep)
  then have "filter (\<lambda>c. c \<notin> set sep) x = x" "filter (\<lambda>c. c \<notin> set sep) sep = []"
    by (auto simp: filter_id_conv filter_empty_conv)
  then show ?case using 3 by simp
qed simp

section \<open>Properties\<close>

text \<open>
  C38. Bodies survive their transfer encoding: every line \<open>wrapBase64\<close>
  produces has at most 76 characters, as RFC 2045 demands, and decoding the
  result with the line breaks dropped gives back exactly the bytes.
\<close>

theorem wrapBase64_roundtrip:
  "(\<forall>l \<in> set (crlfLines (wrapBase64 d)). length l \<le> 76) \<and>
   b64decode (filter (\<lambda>c. c \<notin> set crlf) (wrapBase64 d)) = Some d"
proof (cases "length (b64encode d) \<le> 76")
  case True
  have "filter (\<lambda>c. c \<notin> set crlf) (b64encode d) = b64encode d"
    using b64encode_no_crlf [of d] by (auto simp: filter_id_conv)
  then show ?thesis
    using True crlfLines_plain(1) [OF b64encode_no_crlf, of d]
    by (simp add: wrapBase64_def b64decode_encode)
next
  case False
  then have ne: "b64encode d \<noteq> []"
    by auto
  let ?cs = "chunks (b64encode d)"
  have plain: "\<forall>x \<in> set ?cs. set x \<inter> set crlf = {}"
    using chunks_props(2) [of "b64encode d"] b64encode_no_crlf [of d] by blast
  have "wrapBase64 d = Join ?cs crlf"
    using False wrapLines_Join [OF ne b64encode_no_crlf] by (simp add: wrapBase64_def)
  then show ?thesis
    using chunks_props(2) [of "b64encode d"] crlfLines_Join [OF _ plain] ne filter_Join [OF plain]
      chunks_props(1) [of "b64encode d"]
    by (simp add: b64decode_encode)
qed

theorem wrapBase64_roundtrip_witness:
  "b64decode (filter (\<lambda>c. c \<notin> set crlf) (wrapBase64 ''Hi!'')) = Some ''Hi!'' \<and>
   crlfLines (wrapBase64 ''Hi!'') = [''SGkh'']"
proof
  show "b64decode (filter (\<lambda>c. c \<notin> set crlf) (wrapBase64 ''Hi!'')) = Some ''Hi!''"
    by (rule wrapBase64_roundtrip [THEN conjunct2])
  show "crlfLines (wrapBase64 ''Hi!'') = [''SGkh'']"
    by code_simp
qed

end
