(* ===== verification/Utf8.thy ===== *)
theory Utf8
  imports Prelude
begin

text \<open>
  UTF-8 as package \<open>unicode/utf8\<close> and a range loop over a string read it. The
  message builder (\<open>sender/mime.go\<close>) and the label values of the metrics
  (\<open>metrics/labels.go\<close>) go through the runes of strings they do not control.
\<close>

text \<open>
  Ranging over a string decodes UTF-8: the bytes \<open>WriteRune\<close> writes for the
  first rune, and the number of bytes read. An invalid byte is read alone and
  written as U+FFFD.
\<close>

definition inRange :: "nat \<Rightarrow> nat \<Rightarrow> char \<Rightarrow> bool" where
  "inRange lo hi c \<longleftrightarrow> lo \<le> of_char c \<and> of_char c \<le> hi"

definition secondByteOk :: "char \<Rightarrow> char \<Rightarrow> bool" where
  "secondByteOk c d =
     (if c = CHR 0xE0 then inRange 160 191 d
      else if c = CHR 0xED then inRange 128 159 d
      else if c = CHR 0xF0 then inRange 144 191 d
      else if c = CHR 0xF4 then inRange 128 143 d
      else inRange 128 191 d)"

definition runeAt :: "string \<Rightarrow> nat \<times> string" where
  "runeAt s =
     (let c = hd s; t = tl s; bad = (1, [CHR 0xEF, CHR 0xBF, CHR 0xBD])
      in if inRange 0 127 c then (1, [c])
         else if inRange 194 223 c \<and> t \<noteq> [] \<and> secondByteOk c (t ! 0) then (2, [c, t ! 0])
         else if inRange 224 239 c \<and> length t \<ge> 2 \<and> secondByteOk c (t ! 0) \<and> inRange 128 191 (t ! 1)
           then (3, [c, t ! 0, t ! 1])
         else if inRange 240 244 c \<and> length t \<ge> 3 \<and> secondByteOk c (t ! 0) \<and> inRange 128 191 (t ! 1)
              \<and> inRange 128 191 (t ! 2)
           then (4, [c, t ! 0, t ! 1, t ! 2])
         else bad)"

lemma runeAt_width: "0 < fst (runeAt s)"
  by (simp add: runeAt_def Let_def)

text \<open>\<open>strings.Map\<close> with a function that drops some runes and keeps the others.\<close>

function dropRunes :: "string list \<Rightarrow> string \<Rightarrow> string" where
  "dropRunes forbidden s =
     (if s = [] then []
      else (let (n, r) = runeAt s in (if r \<in> set forbidden then [] else r) @ dropRunes forbidden (drop n s)))"
  by pat_completeness auto
termination
  by (relation "measure (\<lambda>(f, s). length s)") (auto dest: arg_cong [of _ _ fst] simp: runeAt_width [simplified])

declare dropRunes.simps [simp del]

text \<open>\<open>utf8.ValidString\<close>: every rune is written back as it was read.\<close>

function validUTF8 :: "string \<Rightarrow> bool" where
  "validUTF8 s =
     (if s = [] then True else (let (n, r) = runeAt s in if r = take n s then validUTF8 (drop n s) else False))"
  by pat_completeness auto
termination
  by (relation "measure length") (auto dest: arg_cong [of _ _ fst] simp: runeAt_width [simplified])

declare validUTF8.simps [simp del]

lemma validUTF8_Nil [simp]: "validUTF8 []"
  by (simp add: validUTF8.simps)

text \<open>A rune read from anywhere is read back the same in front of any other text.\<close>

lemma runeAt_cases:
  assumes "runeAt s = (n, r)"
  obtains (ascii) c where "r = [c]" "inRange 0 127 c"
  | (two) c d where "r = [c, d]" "\<not> inRange 0 127 c" "inRange 194 223 c" "secondByteOk c d"
  | (three) c d e where "r = [c, d, e]" "inRange 224 239 c" "secondByteOk c d" "inRange 128 191 e"
  | (four) c d e f where "r = [c, d, e, f]" "inRange 240 244 c" "secondByteOk c d" "inRange 128 191 e" "inRange 128 191 f"
proof -
  let ?c = "hd s" and ?t = "tl s"
  let ?two = "inRange 194 223 ?c \<and> ?t \<noteq> [] \<and> secondByteOk ?c (?t ! 0)"
  let ?three = "inRange 224 239 ?c \<and> length ?t \<ge> 2 \<and> secondByteOk ?c (?t ! 0) \<and> inRange 128 191 (?t ! 1)"
  let ?four = "inRange 240 244 ?c \<and> length ?t \<ge> 3 \<and> secondByteOk ?c (?t ! 0) \<and> inRange 128 191 (?t ! 1) \<and>
    inRange 128 191 (?t ! 2)"
  have r: "(n, r) =
      (if inRange 0 127 ?c then (1, [?c]) else if ?two then (2, [?c, ?t ! 0])
       else if ?three then (3, [?c, ?t ! 0, ?t ! 1]) else if ?four then (4, [?c, ?t ! 0, ?t ! 1, ?t ! 2])
       else (1, [CHR 0xEF, CHR 0xBF, CHR 0xBD]))"
    using assms by (simp only: runeAt_def Let_def)
  consider "inRange 0 127 ?c" | "\<not> inRange 0 127 ?c \<and> ?two" | "\<not> inRange 0 127 ?c \<and> \<not> ?two \<and> ?three"
    | "\<not> inRange 0 127 ?c \<and> \<not> ?two \<and> \<not> ?three \<and> ?four"
    | "\<not> inRange 0 127 ?c \<and> \<not> ?two \<and> \<not> ?three \<and> \<not> ?four"
    by argo
  then show ?thesis
  proof cases
    case 1
    then show ?thesis using r ascii by simp
  next
    case 2
    then show ?thesis using r two by simp
  next
    case 3
    then have "r = [?c, ?t ! 0, ?t ! 1]" using r by (auto split: if_splits)
    then show ?thesis using 3 three by blast
  next
    case 4
    then have "r = [?c, ?t ! 0, ?t ! 1, ?t ! 2]" using r by (auto split: if_splits)
    then show ?thesis using 4 four by blast
  next
    case 5
    then have "r = [CHR 0xEF, CHR 0xBF, CHR 0xBD]" using r by (auto split: if_splits)
    moreover have "inRange 224 239 (CHR 0xEF)" "secondByteOk (CHR 0xEF) (CHR 0xBF)" "inRange 128 191 (CHR 0xBD)"
      by (simp_all add: inRange_def secondByteOk_def)
    ultimately show ?thesis using three by blast
  qed
qed

lemma runeAt_again:
  assumes "runeAt s = (n, r)"
  shows "runeAt (r @ t) = (length r, r)"
  using assms
proof (cases rule: runeAt_cases)
  case (three c d e)
  then have "\<not> inRange 0 127 c" "\<not> inRange 194 223 c"
    by (simp_all add: inRange_def)
  with three show ?thesis
    by (simp add: runeAt_def numeral_2_eq_2)
next
  case (four c d e f)
  then have "\<not> inRange 0 127 c" "\<not> inRange 194 223 c" "\<not> inRange 224 239 c"
    by (simp_all add: inRange_def)
  with four show ?thesis
    by (simp add: runeAt_def numeral_2_eq_2 numeral_3_eq_3)
qed (simp_all add: runeAt_def)

lemma validUTF8_rune: "runeAt s = (n, r) \<Longrightarrow> validUTF8 t \<Longrightarrow> validUTF8 (r @ t)"
  by (subst validUTF8.simps) (simp add: runeAt_again)

lemma dropRunes_valid: "validUTF8 (dropRunes forbidden s)"
proof (induction forbidden s rule: dropRunes.induct)
  case (1 forbidden s)
  then show ?case
    by (subst dropRunes.simps) (auto simp: Let_def intro: validUTF8_rune split: prod.splits)
qed

lemma validUTF8_ascii: "\<forall>c \<in> set s. of_char c < (128 :: nat) \<Longrightarrow> validUTF8 s"
proof (induction s)
  case (Cons c s)
  then have "runeAt (c # s) = (1, [c])"
    by (simp add: runeAt_def inRange_def)
  with Cons show ?case
    by (subst validUTF8.simps) simp
qed simp

text \<open>No byte of a forbidden ASCII rune is left.\<close>

lemma secondByteOk_high: "secondByteOk c d \<Longrightarrow> (128 :: nat) \<le> of_char d"
  by (simp add: secondByteOk_def inRange_def split: if_splits)

lemma runeAt_ascii: "runeAt s = (n, r) \<Longrightarrow> c \<in> set r \<Longrightarrow> of_char c < (128 :: nat) \<Longrightarrow> r = [c]"
  by (erule runeAt_cases) (auto simp: inRange_def dest: secondByteOk_high)

lemma dropRunes_forbidden:
  "of_char c < (128 :: nat) \<Longrightarrow> [c] \<in> set forbidden \<Longrightarrow> c \<notin> set (dropRunes forbidden s)"
proof (induction forbidden s rule: dropRunes.induct)
  case (1 forbidden s)
  show ?case
  proof (cases "s = []")
    case True
    then show ?thesis by (simp add: dropRunes.simps)
  next
    case False
    obtain n r where r: "runeAt s = (n, r)"
      by fastforce
    then have "dropRunes forbidden s = (if r \<in> set forbidden then [] else r) @ dropRunes forbidden (drop n s)"
      using False by (subst dropRunes.simps) simp
    then show ?thesis
      using "1.IH" [OF False r [symmetric] refl "1.prems"] runeAt_ascii [OF r _ "1.prems"(1)] "1.prems"(2) by auto
  qed
qed

end
