(* ===== verification/Mime.thy ===== *)
theory Mime
  imports Email Base64 Utf8
begin

text \<open>
  \<open>internal/sender/mime.go\<close>: \<open>BuildMIME\<close> and its helpers. The header
  fields are built as a list of names and values in the order the code writes
  them and rendered as text; the body is written through a model of
  \<open>mime/multipart.Writer\<close>. The parameters are the clock, the host name, the
  random identifiers (\<open>mimeEnv\<close>) and \<open>mime.BEncoding.Encode\<close>
  (\<open>bEncode\<close>).
\<close>

section \<open>Header values\<close>

definition validHeaderFieldName :: "string \<Rightarrow> bool" where
  "validHeaderFieldName s \<longleftrightarrow>
     s \<noteq> [] \<and> list_all (\<lambda>c. (CHR 0x21 \<le> c \<and> c \<le> CHR 0x39) \<or> (CHR 0x3B \<le> c \<and> c \<le> CHR 0x7E)) s"

function dropNewlines :: "string \<Rightarrow> string" where
  "dropNewlines s =
     (if s = [] then []
      else (let (n, r) = runeAt s
            in (if r = [CHR 0x0D] \<or> r = [CHR 0x0A] then [] else r) @ dropNewlines (drop n s)))"
  by pat_completeness auto
termination
  by (relation "measure length") (auto dest: arg_cong [of _ _ fst] simp: runeAt_width [simplified])

declare dropNewlines.simps [simp del]

definition sanitizeHeaderValue :: "string \<Rightarrow> string" where
  "sanitizeHeaderValue v =
     (if CHR 0x0D \<notin> set v \<and> CHR 0x0A \<notin> set v then v else dropNewlines v)"

definition encodeHeader :: "(string \<Rightarrow> string) \<Rightarrow> string \<Rightarrow> string" where
  "encodeHeader bEncode s =
     (if list_ex (\<lambda>c. c > CHR 127 \<or> (c < CHR 32 \<and> c \<noteq> CHR 0x09)) s then bEncode s else s)"

definition formatAddress :: "(string \<Rightarrow> string) \<Rightarrow> string \<Rightarrow> string \<Rightarrow> string" where
  "formatAddress bEncode name address =
     (if name = [] then address else encodeHeader bEncode name @ '' <'' @ address @ ''>'')"

section \<open>Multipart writer\<close>

record mpWriter =
  mp_boundary :: string
  mp_started :: bool

definition NewWriter :: "string \<Rightarrow> mpWriter" where
  "NewWriter boundary = \<lparr>mp_boundary = boundary, mp_started = False\<rparr>"

definition renderFields :: "(string \<times> string) list \<Rightarrow> string" where
  "renderFields fs = concat (map (\<lambda>(k, v). k @ '': '' @ v @ crlf) fs)"

definition CreatePart :: "(string \<times> string) list \<Rightarrow> mpWriter \<times> string \<Rightarrow> mpWriter \<times> string" where
  "CreatePart header wb =
     (case wb of (w, buf) \<Rightarrow>
       (w\<lparr>mp_started := True\<rparr>,
        buf @ (if mp_started w then crlf else []) @ ''--'' @ mp_boundary w @ crlf @
        renderFields (sort_key fst header) @ crlf))"

definition writePart :: "string \<Rightarrow> mpWriter \<times> string \<Rightarrow> mpWriter \<times> string" where
  "writePart data wb = (fst wb, snd wb @ data)"

definition closeWriter :: "mpWriter \<times> string \<Rightarrow> string" where
  "closeWriter wb = snd wb @ crlf @ ''--'' @ mp_boundary (fst wb) @ ''--'' @ crlf"

section \<open>Body\<close>

definition bodyHeader :: "string \<Rightarrow> (string \<times> string) list" where
  "bodyHeader contentType =
     [(''Content-Type'', contentType), (''Content-Transfer-Encoding'', ''base64'')]"

abbreviation textPlain :: string where "textPlain \<equiv> ''text/plain; charset=UTF-8''"
abbreviation textHTML :: string where "textHTML \<equiv> ''text/html; charset=UTF-8''"

definition writeBodyPart :: "string \<Rightarrow> string \<Rightarrow> mpWriter \<times> string \<Rightarrow> mpWriter \<times> string" where
  "writeBodyPart contentType body wb =
     writePart (wrapBase64 body @ crlf) (CreatePart (bodyHeader contentType) wb)"

definition writeAlternativeBodyParts :: "Email \<Rightarrow> mpWriter \<times> string \<Rightarrow> mpWriter \<times> string" where
  "writeAlternativeBodyParts email wb =
     (let wb1 = (if em_TextBody email \<noteq> [] then writeBodyPart textPlain (em_TextBody email) wb else wb)
      in if em_HTMLBody email \<noteq> [] then writeBodyPart textHTML (em_HTMLBody email) wb1 else wb1)"

text \<open>A part that holds a nested multipart/alternative of its own.\<close>

definition writeAlternative :: "string \<Rightarrow> Email \<Rightarrow> mpWriter \<times> string \<Rightarrow> mpWriter \<times> string" where
  "writeAlternative altBoundary email wb =
     (let (w, buf) = CreatePart [(''Content-Type'', ''multipart/alternative; boundary='' @ Quote altBoundary)] wb
      in (w, closeWriter (writeAlternativeBodyParts email (NewWriter altBoundary, buf))))"

definition writeAlternativeOrSingle :: "string \<Rightarrow> Email \<Rightarrow> mpWriter \<times> string \<Rightarrow> mpWriter \<times> string" where
  "writeAlternativeOrSingle altBoundary email parent =
     (if em_TextBody email \<noteq> [] \<and> em_HTMLBody email \<noteq> [] then writeAlternative altBoundary email parent
      else if em_HTMLBody email \<noteq> [] then writeBodyPart textHTML (em_HTMLBody email) parent
      else writeBodyPart textPlain (em_TextBody email) parent)"

definition attachmentName :: "(string \<Rightarrow> string) \<Rightarrow> Attachment \<Rightarrow> string" where
  "attachmentName bEncode att = Quote (sanitizeHeaderValue (encodeHeader bEncode (at_Filename att)))"

definition writeInlinePart :: "(string \<Rightarrow> string) \<Rightarrow> Attachment \<Rightarrow> mpWriter \<times> string \<Rightarrow> mpWriter \<times> string" where
  "writeInlinePart bEncode att wb =
     writePart (wrapBase64 (at_Data att) @ crlf) (CreatePart
       [(''Content-Type'', at_ContentType att @ ''; name='' @ attachmentName bEncode att),
        (''Content-Transfer-Encoding'', ''base64''),
        (''Content-Disposition'', ''inline; filename='' @ attachmentName bEncode att),
        (''Content-Id'', ''<'' @ at_ContentID att @ ''>'')] wb)"

definition writeAttachmentPart :: "(string \<Rightarrow> string) \<Rightarrow> Attachment \<Rightarrow> mpWriter \<times> string \<Rightarrow> mpWriter \<times> string" where
  "writeAttachmentPart bEncode att wb =
     writePart (wrapBase64 (at_Data att) @ crlf) (CreatePart
       [(''Content-Type'', at_ContentType att @ ''; name='' @ attachmentName bEncode att),
        (''Content-Transfer-Encoding'', ''base64''),
        (''Content-Disposition'', ''attachment; filename='' @ attachmentName bEncode att)] wb)"

text \<open>\<open>writeRelatedBody\<close> also closes its writer, so it returns the buffer only.\<close>

definition writeRelatedBody ::
    "(string \<Rightarrow> string) \<Rightarrow> string \<Rightarrow> Email \<Rightarrow> Attachment list \<Rightarrow> mpWriter \<times> string \<Rightarrow> string" where
  "writeRelatedBody bEncode altBoundary email inline relWriter =
     closeWriter (fold (writeInlinePart bEncode) inline
       (writeAlternativeOrSingle altBoundary email relWriter))"

section \<open>BuildMIME\<close>

record mimeEnv =
  me_Date :: string
  me_Hostname :: string
  me_RandomID :: string
  me_mixedBoundary :: string
  me_relatedBoundary :: string
  me_altBoundary :: string

definition reservedHeader :: "string \<Rightarrow> bool" where
  "reservedHeader k \<longleftrightarrow>
     list_ex (EqualFold k) [''From'', ''To'', ''Cc'', ''Bcc'', ''Subject'', ''Date'', ''Reply-To'',
                            ''MIME-Version'', ''Content-Type'']"

fun customFields :: "(string \<Rightarrow> string) \<Rightarrow> (string \<times> string) list \<Rightarrow> error + (string \<times> string) list" where
  "customFields bEncode [] = Inr []"
| "customFields bEncode ((k, v) # rest) =
     (if \<not> validHeaderFieldName k then Inl (Err (''sender: invalid custom header name '' @ Quote k))
      else case customFields bEncode rest of
             Inl e \<Rightarrow> Inl e
           | Inr fs \<Rightarrow>
               if reservedHeader k then Inr fs
               else Inr ((k, sanitizeHeaderValue (encodeHeader bEncode v)) # fs))"

text \<open>Steps 1 to 8: the fields the code writes itself.\<close>

definition standardFields ::
    "mimeEnv \<Rightarrow> (string \<Rightarrow> string) \<Rightarrow> Email \<Rightarrow> string \<Rightarrow> string \<Rightarrow> (string \<times> string) list" where
  "standardFields env bEncode email defaultFrom defaultFromName =
     (let fromAddr = defStr defaultFrom (em_From email);
          fromName = defStr defaultFromName (em_FromName email)
      in [(''From'', sanitizeHeaderValue (formatAddress bEncode fromName fromAddr))] @
         (if em_To email \<noteq> [] then [(''To'', sanitizeHeaderValue (Join (em_To email) '', ''))] else []) @
         (if em_Cc email \<noteq> [] then [(''Cc'', sanitizeHeaderValue (Join (em_Cc email) '', ''))] else []) @
         (if em_ReplyTo email \<noteq> [] then [(''Reply-To'', sanitizeHeaderValue (em_ReplyTo email))] else []) @
         [(''Date'', me_Date env),
          (''Subject'', sanitizeHeaderValue (encodeHeader bEncode (em_Subject email)))] @
         (if list_ex (\<lambda>(k, v). EqualFold k ''Message-ID'') (em_Headers email) then []
          else [(''Message-ID'', ''<'' @ me_RandomID env @ ''@'' @ defStr ''mailbaby.local'' (me_Hostname env) @ ''>'')]) @
         [(''MIME-Version'', ''1.0'')])"

definition contentTypeField :: "string \<Rightarrow> string \<Rightarrow> string" where
  "contentTypeField kind boundary =
     ''Content-Type: multipart/'' @ kind @ ''; boundary='' @ Quote boundary @ crlf @ crlf"

definition singleBody :: "string \<Rightarrow> string \<Rightarrow> string" where
  "singleBody contentType body =
     ''Content-Type: '' @ contentType @ crlf @ ''Content-Transfer-Encoding: base64'' @ crlf @ crlf @
     wrapBase64 body @ crlf"

text \<open>Step 10 and the cases A, B and C, appended to the header.\<close>

definition mimeBody ::
    "mimeEnv \<Rightarrow> (string \<Rightarrow> string) \<Rightarrow> Email \<Rightarrow> Attachment list \<Rightarrow> string \<Rightarrow> string" where
  "mimeBody env bEncode email atts buf =
     (let regular = filter (\<lambda>a. \<not> at_Inline a) atts;
          inline = filter at_Inline atts;
          alt = me_altBoundary env; rel = me_relatedBoundary env
      in if regular \<noteq> [] then
           (let mixed = (NewWriter (me_mixedBoundary env),
                         buf @ contentTypeField ''mixed'' (me_mixedBoundary env));
                body = (if inline \<noteq> [] then
                          (let (w, b) = CreatePart [(''Content-Type'', ''multipart/related; boundary='' @ Quote rel)] mixed
                           in (w, writeRelatedBody bEncode alt email inline (NewWriter rel, b)))
                        else writeAlternativeOrSingle alt email mixed)
            in closeWriter (fold (writeAttachmentPart bEncode) regular body))
         else if inline \<noteq> [] then
           writeRelatedBody bEncode alt email inline
             (NewWriter rel, buf @ contentTypeField ''related'' rel)
         else if em_TextBody email \<noteq> [] \<and> em_HTMLBody email \<noteq> [] then
           closeWriter (writeAlternativeBodyParts email
             (NewWriter alt, buf @ contentTypeField ''alternative'' alt))
         else if em_HTMLBody email \<noteq> [] then buf @ singleBody textHTML (em_HTMLBody email)
         else buf @ singleBody textPlain (em_TextBody email))"

text \<open>A nil attachment is dereferenced when the attachments are sorted, which panics.\<close>

definition BuildMIME ::
    "mimeEnv \<Rightarrow> (string \<Rightarrow> string) \<Rightarrow> Email \<Rightarrow> string \<Rightarrow> string \<Rightarrow> (error + string) outcome" where
  "BuildMIME env bEncode email defaultFrom defaultFromName =
     (case customFields bEncode (em_Headers email) of
        Inl e \<Rightarrow> Ret (Inl e)
      | Inr custom \<Rightarrow>
          if None \<in> set (em_Attachments email) then
            Panic ''invalid memory address or nil pointer dereference''
          else
            Ret (Inr (mimeBody env bEncode email (map the (em_Attachments email))
              (renderFields (standardFields env bEncode email defaultFrom defaultFromName @ custom)))))"

section \<open>Lemmas\<close>

definition highByte :: "char \<Rightarrow> bool" where
  "highByte c \<longleftrightarrow> 128 \<le> (of_char c :: nat)"

lemma highByte_not_newline: "highByte c \<Longrightarrow> c \<notin> set crlf"
  by (auto simp: highByte_def crlf_def)

lemma inRange_high: "inRange lo hi c \<Longrightarrow> 128 \<le> lo \<Longrightarrow> highByte c"
  by (simp add: highByte_def inRange_def)

lemma secondByte_high: "secondByteOk c d \<Longrightarrow> highByte d"
  by (simp add: secondByteOk_def highByte_def inRange_def split: if_splits)

lemma runeAt_high:
  assumes "runeAt s = (n, r)"
  shows "r = [hd s] \<or> list_all highByte r"
proof -
  have bad: "list_all highByte [CHR 0xEF, CHR 0xBF, CHR 0xBD]"
    by code_simp
  consider "inRange 0 127 (hd s)" | "\<not> inRange 0 127 (hd s)"
    by blast
  then show ?thesis
  proof cases
    case 2
    note high = secondByte_high inRange_high [of 194 223, simplified] inRange_high [of 224 239, simplified]
      inRange_high [of 240 244, simplified] inRange_high [of 128 191, simplified]
    have "list_all highByte (snd (runeAt s))"
      unfolding runeAt_def Let_def if_not_P [OF 2] using bad
      by (auto split: if_split dest: high)
    then show ?thesis
      by (simp add: assms)
  qed (use assms in \<open>simp add: runeAt_def\<close>)
qed

lemma runeAt_bytes:
  assumes "runeAt s = (n, r)"
  shows "r = [CHR 0x0D] \<or> r = [CHR 0x0A] \<or> set r \<inter> set crlf = {}"
  using runeAt_high [OF assms] highByte_not_newline by (auto simp: list_all_iff crlf_def)

lemma dropNewlines_clean: "set (dropNewlines s) \<inter> set crlf = {}"
proof (induction s rule: dropNewlines.induct)
  case (1 s)
  show ?case
  proof (cases "s = []")
    case False
    obtain n r where r: "runeAt s = (n, r)"
      by fastforce
    show ?thesis
      using False "1.IH" [OF False r [symmetric] refl] runeAt_bytes [OF r] r
      by (subst dropNewlines.simps) auto
  qed (simp add: dropNewlines.simps)
qed

lemma sanitizeHeaderValue_clean: "set (sanitizeHeaderValue v) \<inter> set crlf = {}"
  using dropNewlines_clean [of v] by (auto simp: sanitizeHeaderValue_def crlf_def)

lemma sanitizeHeaderValue_id: "set v \<inter> set crlf = {} \<Longrightarrow> sanitizeHeaderValue v = v"
  by (auto simp: sanitizeHeaderValue_def crlf_def)

lemma validHeaderFieldName_clean: "validHeaderFieldName k \<Longrightarrow> set k \<inter> set crlf = {}"
  by (auto simp: validHeaderFieldName_def list_all_iff crlf_def less_eq_char_def)

lemma customFields_ok:
  "customFields benc hs = Inr fs \<Longrightarrow>
   list_all (\<lambda>(k, v). validHeaderFieldName k \<and> \<not> reservedHeader k \<and> set v \<inter> set crlf = {}) fs"
  by (induction hs arbitrary: fs)
    (auto simp: sanitizeHeaderValue_clean split: if_splits sum.splits)

lemma customFields_error:
  "(\<exists>err. customFields benc hs = Inl err) \<longleftrightarrow> (\<exists>(k, v) \<in> set hs. \<not> validHeaderFieldName k)"
  by (induction hs) (auto split: sum.splits if_splits)

definition standardNames :: "string list" where
  "standardNames = [''From'', ''To'', ''Cc'', ''Reply-To'', ''Date'', ''Subject'', ''Message-ID'', ''MIME-Version'']"

lemma standardNames_ok:
  "\<forall>k \<in> set standardNames. validHeaderFieldName k \<and> \<not> EqualFold k ''Bcc'' \<and>
     (EqualFold k ''From'' \<longleftrightarrow> k = ''From'') \<and> (EqualFold k ''Subject'' \<longleftrightarrow> k = ''Subject'')"
  by code_simp

lemma standardFields_names: "fst ` set (standardFields env benc e df dn) \<subseteq> set standardNames"
  by (auto simp: standardFields_def standardNames_def Let_def)

lemma standardFields_clean:
  assumes "set (me_Date env) \<inter> set crlf = {}" "set (me_RandomID env) \<inter> set crlf = {}"
    "set (me_Hostname env) \<inter> set crlf = {}"
  shows "list_all (\<lambda>f. set (snd f) \<inter> set crlf = {}) (standardFields env benc e df dn)"
proof -
  have lit: "set ''<'' \<inter> set crlf = {}" "set ''@'' \<inter> set crlf = {}" "set ''>'' \<inter> set crlf = {}"
    "set ''1.0'' \<inter> set crlf = {}" "set ''mailbaby.local'' \<inter> set crlf = {}"
    by code_simp+
  have host: "set (defStr ''mailbaby.local'' (me_Hostname env)) \<inter> set crlf = {}"
    using assms(3) lit(5)
    by (cases "me_Hostname env = []") (simp_all only: defStr_def if_True if_False simp_thms)
  show ?thesis
    unfolding standardFields_def Let_def
    by (simp only: list_all_append list.pred_inject if_distrib [of "list_all _"] snd_conv
        sanitizeHeaderValue_clean set_append Int_Un_distrib2 assms lit host Un_empty simp_thms if_cancel)
qed

lemma standardFields_counts:
  "map snd (filter (\<lambda>f. fst f = ''From'') (standardFields env benc e df dn)) =
     [sanitizeHeaderValue (formatAddress benc (defStr dn (em_FromName e)) (defStr df (em_From e)))]"
  "map snd (filter (\<lambda>f. fst f = ''Subject'') (standardFields env benc e df dn)) =
     [sanitizeHeaderValue (encodeHeader benc (em_Subject e))]"
  by (simp_all add: standardFields_def Let_def)

lemma crlfLines_render:
  "\<forall>(k, v) \<in> set fs. set k \<inter> set crlf = {} \<and> set v \<inter> set crlf = {} \<Longrightarrow>
   crlfLines (renderFields fs) = map (\<lambda>(k, v). k @ '': '' @ v) fs @ [[]]"
proof (induction fs)
  case (Cons f fs)
  obtain k v where f: "f = (k, v)"
    by fastforce
  have "set (k @ '': '' @ v) \<inter> set crlf = {}"
    using Cons.prems f by (auto simp: crlf_def)
  from crlfLines_plain(2) [OF this] show ?case
    using Cons f by (simp add: renderFields_def)
qed (simp add: renderFields_def)

text \<open>The body is appended to the header and starts with its own content type field.\<close>

lemma CreatePart_app: "\<exists>r. snd (CreatePart h wb) = snd wb @ r"
  by (simp add: CreatePart_def split: prod.splits)

lemma app_trans: "\<exists>r. y = x @ r \<Longrightarrow> \<exists>r. z = y @ r \<Longrightarrow> \<exists>r. z = x @ (r :: 'x list)"
  by auto

lemma writeBodyPart_app: "\<exists>r. snd (writeBodyPart ct b wb) = snd wb @ r"
  using CreatePart_app [of "bodyHeader ct" wb] by (auto simp: writeBodyPart_def writePart_def)

lemma writeAlternativeBodyParts_app: "\<exists>r. snd (writeAlternativeBodyParts e wb) = snd wb @ r"
  using writeBodyPart_app app_trans [OF writeBodyPart_app writeBodyPart_app]
  by (simp add: writeAlternativeBodyParts_def Let_def)

lemma closeWriter_app: "\<exists>r. closeWriter wb = snd wb @ r"
  by (simp add: closeWriter_def)

lemma writeAlternativeOrSingle_app: "\<exists>r. snd (writeAlternativeOrSingle ab e wb) = snd wb @ r"
proof -
  obtain w buf where c: "CreatePart [(''Content-Type'', ''multipart/alternative; boundary='' @ Quote ab)] wb = (w, buf)"
    by fastforce
  have "\<exists>r. buf = snd wb @ r"
    using CreatePart_app [of "[(''Content-Type'', ''multipart/alternative; boundary='' @ Quote ab)]" wb]
    unfolding c snd_conv .
  moreover have "\<exists>r. closeWriter (writeAlternativeBodyParts e (NewWriter ab, buf)) = buf @ r"
    using app_trans [OF writeAlternativeBodyParts_app closeWriter_app, of e "(NewWriter ab, buf)"] by simp
  ultimately have "\<exists>r. snd (writeAlternative ab e wb) = snd wb @ r"
    unfolding writeAlternative_def c using app_trans by fastforce
  then show ?thesis
    using writeBodyPart_app by (simp add: writeAlternativeOrSingle_def)
qed

lemma fold_app:
  "(\<And>a wb. \<exists>r. snd (f a wb) = snd wb @ r) \<Longrightarrow> \<exists>r. snd (fold f xs wb) = snd wb @ r"
proof (induction xs arbitrary: wb)
  case (Cons x xs)
  then have "\<exists>r. snd (fold f xs (f x wb)) = snd (f x wb) @ r"
    by blast
  then show ?case
    using app_trans [OF Cons.prems] by simp
qed simp

lemma parts_app:
  "\<exists>r. snd (writeInlinePart benc a wb) = snd wb @ r" "\<exists>r. snd (writeAttachmentPart benc a wb) = snd wb @ r"
  unfolding writeInlinePart_def writeAttachmentPart_def writePart_def snd_conv
  using CreatePart_app by (metis append_assoc)+

lemma writeRelatedBody_app: "\<exists>r. writeRelatedBody benc ab e inl wb = snd wb @ r"
  unfolding writeRelatedBody_def
  by (rule app_trans [OF app_trans [OF writeAlternativeOrSingle_app fold_app [OF parts_app(1)]] closeWriter_app])

lemma contentType_start:
  "\<exists>r. contentTypeField k b = ''Content-Type: '' @ r" "\<exists>r. singleBody ct b = ''Content-Type: '' @ r"
  by (simp_all add: contentTypeField_def singleBody_def)

lemma app_start:
  "\<exists>r. c = p @ r \<Longrightarrow> \<exists>r. z = (buf @ c) @ r \<Longrightarrow> \<exists>r. z = buf @ p @ (r :: 'x list)"
  by auto

lemma mimeBody_app: "\<exists>r. mimeBody env benc e atts buf = buf @ ''Content-Type: '' @ r"
proof -
  let ?inl = "filter at_Inline atts" and ?reg = "filter (\<lambda>a. \<not> at_Inline a) atts"
  let ?rel = "me_relatedBoundary env" and ?alt = "me_altBoundary env"
  let ?mixed = "(NewWriter (me_mixedBoundary env), buf @ contentTypeField ''mixed'' (me_mixedBoundary env))"
  let ?hdr = "[(''Content-Type'', ''multipart/related; boundary='' @ Quote ?rel)]"
  let ?body = "if ?inl \<noteq> [] then (let (w, b) = CreatePart ?hdr ?mixed
        in (w, writeRelatedBody benc ?alt e ?inl (NewWriter ?rel, b)))
      else writeAlternativeOrSingle ?alt e ?mixed"
  have start: "\<exists>r. z = buf @ ''Content-Type: '' @ r"
    if "\<exists>r. z = (buf @ contentTypeField k b) @ r" for z k b
    by (rule app_start [OF contentType_start(1) that])
  have body: "\<exists>r. snd ?body = (buf @ contentTypeField ''mixed'' (me_mixedBoundary env)) @ r"
  proof (cases "?inl = []")
    case True
    then show ?thesis
      using writeAlternativeOrSingle_app [of ?alt e ?mixed] by simp
  next
    case False
    obtain w b where c: "CreatePart ?hdr ?mixed = (w, b)"
      by fastforce
    have "\<exists>r. b = snd ?mixed @ r"
      using CreatePart_app [of ?hdr ?mixed] unfolding c snd_conv .
    then have "\<exists>r. writeRelatedBody benc ?alt e ?inl (NewWriter ?rel, b) = snd ?mixed @ r"
      by (rule app_trans) (use writeRelatedBody_app [of benc ?alt e ?inl "(NewWriter ?rel, b)"] in simp)
    then show ?thesis
      using False unfolding c by simp
  qed
  have mixed: "\<exists>r. closeWriter (fold (writeAttachmentPart benc) ?reg ?body) =
      (buf @ contentTypeField ''mixed'' (me_mixedBoundary env)) @ r"
    by (rule app_trans [OF app_trans [OF body fold_app [OF parts_app(2)]] closeWriter_app])
  consider "?reg \<noteq> []" | "?reg = []" "?inl \<noteq> []" | "?reg = []" "?inl = []"
    by blast
  then show ?thesis
  proof cases
    case 1
    then have "mimeBody env benc e atts buf = closeWriter (fold (writeAttachmentPart benc) ?reg ?body)"
      by (simp only: mimeBody_def Let_def simp_thms if_True)
    then show ?thesis
      using start [OF mixed] by (simp only:)
  next
    case 2
    then show ?thesis
      using start [OF writeRelatedBody_app [of benc ?alt e ?inl
            "(NewWriter ?rel, buf @ contentTypeField ''related'' ?rel)", unfolded snd_conv]]
      by (simp only: mimeBody_def Let_def simp_thms if_True if_False)
  next
    case 3
    have alt: "\<exists>r. closeWriter (writeAlternativeBodyParts e
        (NewWriter ?alt, buf @ contentTypeField ''alternative'' ?alt)) = buf @ ''Content-Type: '' @ r"
      by (rule start, rule app_trans [OF writeAlternativeBodyParts_app [of e
            "(NewWriter ?alt, buf @ contentTypeField ''alternative'' ?alt)", unfolded snd_conv] closeWriter_app])
    have single: "\<exists>r. buf @ singleBody ct b = buf @ ''Content-Type: '' @ r" for ct b
      using contentType_start(2) [of ct b] by (auto simp only: append_assoc)
    have "mimeBody env benc e atts buf =
        (if em_TextBody e \<noteq> [] \<and> em_HTMLBody e \<noteq> [] then
           closeWriter (writeAlternativeBodyParts e (NewWriter ?alt, buf @ contentTypeField ''alternative'' ?alt))
         else if em_HTMLBody e \<noteq> [] then buf @ singleBody textHTML (em_HTMLBody e)
         else buf @ singleBody textPlain (em_TextBody e))"
      by (simp only: mimeBody_def Let_def 3 simp_thms if_False)
    then show ?thesis
      using alt single by presburger
  qed
qed

section \<open>Properties\<close>

text \<open>
  C4. No header injection. When a message is built, its header consists of
  the fields the code writes followed by the custom fields: a reader that splits
  at CR LF sees exactly one line per field, every field name is a valid name and
  no value contains CR or LF, whatever the email, the display names and the
  encoder say. There is exactly one From and one Subject field, and never a Bcc
  field. The content type of the body follows.
\<close>

theorem BuildMIME_no_injection:
  assumes "BuildMIME env benc e df dn = Ret (Inr msg)"
    and "set (me_Date env) \<inter> set crlf = {}" "set (me_RandomID env) \<inter> set crlf = {}"
    and "set (me_Hostname env) \<inter> set crlf = {}"
  shows "\<exists>custom rest. customFields benc (em_Headers e) = Inr custom \<and>
     msg = renderFields (standardFields env benc e df dn @ custom) @ ''Content-Type: '' @ rest \<and>
     crlfLines (renderFields (standardFields env benc e df dn @ custom)) =
       map (\<lambda>(k, v). k @ '': '' @ v) (standardFields env benc e df dn @ custom) @ [[]] \<and>
     list_all (\<lambda>(k, v). validHeaderFieldName k \<and> set v \<inter> set crlf = {} \<and> \<not> EqualFold k ''Bcc'')
       (standardFields env benc e df dn @ custom) \<and>
     length (filter (\<lambda>f. EqualFold (fst f) ''From'') (standardFields env benc e df dn @ custom)) = 1 \<and>
     length (filter (\<lambda>f. EqualFold (fst f) ''Subject'') (standardFields env benc e df dn @ custom)) = 1"
proof -
  let ?std = "standardFields env benc e df dn"
  obtain custom where c: "customFields benc (em_Headers e) = Inr custom"
    and msg: "msg = mimeBody env benc e (map the (em_Attachments e)) (renderFields (?std @ custom))"
    using assms(1) by (auto simp: BuildMIME_def split: sum.splits if_splits)
  have cust: "list_all (\<lambda>(k, v). validHeaderFieldName k \<and> \<not> reservedHeader k \<and> set v \<inter> set crlf = {}) custom"
    by (rule customFields_ok [OF c])
  have resv: "\<not> reservedHeader k \<Longrightarrow> \<not> EqualFold k ''Bcc'' \<and> \<not> EqualFold k ''From'' \<and> \<not> EqualFold k ''Subject''" for k
    by (simp only: reservedHeader_def list_ex_iff list.set ball_simps bex_simps simp_thms de_Morgan_disj)
  have ok: "list_all (\<lambda>(k, v). validHeaderFieldName k \<and> set v \<inter> set crlf = {} \<and> \<not> EqualFold k ''Bcc'') (?std @ custom)"
    using cust resv standardFields_clean [OF assms(2-4), of benc e df dn]
      standardFields_names [of env benc e df dn] standardNames_ok
    unfolding list_all_iff by fastforce
  have lines: "crlfLines (renderFields (?std @ custom)) = map (\<lambda>(k, v). k @ '': '' @ v) (?std @ custom) @ [[]]"
    by (rule crlfLines_render) (use ok validHeaderFieldName_clean in \<open>fastforce simp: list_all_iff\<close>)
  have none: "filter (\<lambda>f. EqualFold (fst f) ''From'') custom = []"
    "filter (\<lambda>f. EqualFold (fst f) ''Subject'') custom = []"
    using cust resv by (auto simp: filter_empty_conv list_all_iff)
  have std: "filter (\<lambda>f. EqualFold (fst f) ''From'') ?std = filter (\<lambda>f. fst f = ''From'') ?std"
    "filter (\<lambda>f. EqualFold (fst f) ''Subject'') ?std = filter (\<lambda>f. fst f = ''Subject'') ?std"
    using standardFields_names [of env benc e df dn] standardNames_ok
    by (auto intro!: filter_cong)
  have one: "length (filter (\<lambda>f. EqualFold (fst f) ''From'') (?std @ custom)) = 1"
    "length (filter (\<lambda>f. EqualFold (fst f) ''Subject'') (?std @ custom)) = 1"
    unfolding filter_append none std using standardFields_counts [of env benc e df dn, THEN arg_cong, of length]
    by simp_all
  obtain rest where "msg = renderFields (?std @ custom) @ ''Content-Type: '' @ rest"
    using mimeBody_app msg by blast
  with c lines ok one show ?thesis
    by blast
qed

definition sampleMimeEnv :: mimeEnv where
  "sampleMimeEnv = \<lparr>me_Date = ''Mon, 02 Jan 2006 15:04:05 -0700'', me_Hostname = [], me_RandomID = ''0a1b'',
     me_mixedBoundary = ''m1'', me_relatedBoundary = ''r1'', me_altBoundary = ''a1''\<rparr>"

definition hostileEmail :: Email where
  "hostileEmail = NewEmail\<lparr>em_To := [''a@x.org''], em_Bcc := [''b@x.org''],
     em_Subject := ''Hi'' @ crlf @ ''Bcc: c@x.org'', em_TextBody := ''hello'',
     em_Headers := [(''bcc'', ''d@x.org''), (''X-Tag'', ''t'' @ crlf @ ''From: evil'')]\<rparr>"

theorem BuildMIME_no_injection_witness:
  "\<exists>msg custom rest. BuildMIME sampleMimeEnv (\<lambda>s. s) hostileEmail ''noreply@x.org'' [] = Ret (Inr msg) \<and>
     msg = renderFields (standardFields sampleMimeEnv (\<lambda>s. s) hostileEmail ''noreply@x.org'' [] @ custom) @
       ''Content-Type: '' @ rest \<and>
     list_all (\<lambda>(k, v). \<not> EqualFold k ''Bcc'')
       (standardFields sampleMimeEnv (\<lambda>s. s) hostileEmail ''noreply@x.org'' [] @ custom)"
proof -
  have "list_all (\<lambda>(k, v). validHeaderFieldName k) (em_Headers hostileEmail)"
    "None \<notin> set (em_Attachments hostileEmail)"
    by code_simp+
  then obtain msg where b: "BuildMIME sampleMimeEnv (\<lambda>s. s) hostileEmail ''noreply@x.org'' [] = Ret (Inr msg)"
    using customFields_error [of "\<lambda>s. s" "em_Headers hostileEmail"]
    by (cases "customFields (\<lambda>s. s) (em_Headers hostileEmail)") (auto simp: BuildMIME_def list_all_iff)
  have "set (me_Date sampleMimeEnv) \<inter> set crlf = {}" "set (me_RandomID sampleMimeEnv) \<inter> set crlf = {}"
    "set (me_Hostname sampleMimeEnv) \<inter> set crlf = {}"
    by code_simp+
  from BuildMIME_no_injection [OF b this] obtain custom rest where
    "msg = renderFields (standardFields sampleMimeEnv (\<lambda>s. s) hostileEmail ''noreply@x.org'' [] @ custom) @
       ''Content-Type: '' @ rest"
    "list_all (\<lambda>(k, v). validHeaderFieldName k \<and> set v \<inter> set crlf = {} \<and> \<not> EqualFold k ''Bcc'')
       (standardFields sampleMimeEnv (\<lambda>s. s) hostileEmail ''noreply@x.org'' [] @ custom)"
    by blast
  moreover from this(2) have "list_all (\<lambda>(k, v). \<not> EqualFold k ''Bcc'')
       (standardFields sampleMimeEnv (\<lambda>s. s) hostileEmail ''noreply@x.org'' [] @ custom)"
    by (rule list.pred_mono_strong) auto
  ultimately show ?thesis
    using b by blast
qed

text \<open>
  The three ways \<open>BuildMIME\<close> ends: an error exactly when a custom header
  name is not a valid field name, a panic exactly when all names are valid and
  an attachment is nil, a message otherwise.
\<close>

theorem BuildMIME_outcomes:
  "((\<exists>err. BuildMIME env benc e df dn = Ret (Inl err)) \<longleftrightarrow>
      (\<exists>(k, v) \<in> set (em_Headers e). \<not> validHeaderFieldName k)) \<and>
   ((\<exists>p. BuildMIME env benc e df dn = Panic p) \<longleftrightarrow>
      \<not> (\<exists>(k, v) \<in> set (em_Headers e). \<not> validHeaderFieldName k) \<and> None \<in> set (em_Attachments e))"
  unfolding customFields_error [of benc "em_Headers e", symmetric]
  by (cases "customFields benc (em_Headers e)") (simp_all add: BuildMIME_def)

theorem BuildMIME_outcomes_witness:
  "(\<exists>p. BuildMIME sampleMimeEnv (\<lambda>s. s) (hostileEmail\<lparr>em_Attachments := [None]\<rparr>) [] [] = Panic p)"
proof -
  have "list_all (\<lambda>(k, v). validHeaderFieldName k) (em_Headers (hostileEmail\<lparr>em_Attachments := [None]\<rparr>))"
    by code_simp
  then show ?thesis
    using BuildMIME_outcomes [of sampleMimeEnv "\<lambda>s. s" "hostileEmail\<lparr>em_Attachments := [None]\<rparr>" "[]" "[]"]
    by (auto simp: list_all_iff)
qed

text \<open>
  The content type of an attachment is copied into its part header as it
  is: one that contains CR LF starts a header line of its own there.
\<close>

theorem attachment_type_injects:
  "case BuildMIME sampleMimeEnv (\<lambda>s. s)
          (NewEmail\<lparr>em_To := [''a@x.org''],
             em_Attachments := [Some \<lparr>at_Filename = ''f'', at_ContentType = ''text/plain'' @ crlf @ ''X-Evil: 1'',
               at_Data = ''d'', at_Inline = False, at_ContentID = []\<rparr>]\<rparr>) ''n@x.org'' [] of
     Ret (Inr msg) \<Rightarrow> list_ex (\<lambda>l. prefix ''X-Evil: 1'' l) (crlfLines msg)
   | _ \<Rightarrow> False"
  by code_simp

end
