(* ===== verification/Sender.thy ===== *)
theory Sender
  imports Pool SmtpClient Mime "HOL-Library.AList"
begin

text \<open>
  \<open>internal/sender/sender.go\<close>: the sender of one account (validation, limits,
  the token bucket, MIME, the pool and the counters) and the sender over all
  accounts. The account map is an association list keyed by the lower-cased
  name. What the environment answers during one \<open>Send\<close> is the record
  \<open>sendWorld\<close>; a call that waits (for a token, for a slot of the pool) is
  \<open>None\<close>.
\<close>

section \<open>The sender of one account\<close>

record AccountStats =
  st_Name :: string
  st_Host :: string
  st_Port :: int
  st_TotalSent :: int
  st_TotalFailed :: int
  st_Pool :: PoolStats

record accountSender =
  as_name :: string
  as_cfg :: SmtpAccountConfig
  as_pool :: "SmtpClient pool"
  as_rateLimiter :: "unit chan option"
  as_stopRate :: "unit chan option"
  as_totalSent :: int
  as_totalFailed :: int

definition bucketCapacity :: "int \<Rightarrow> nat" where
  "bucketCapacity rate = nat (if rate > 1000 then 1000 else rate)"

definition newAccountSender :: "string \<Rightarrow> SmtpAccountConfig \<Rightarrow> accountSender" where
  "newAccountSender name cfg0 =
     (let cfg = SmtpAccountConfig_ApplyDefaults cfg0;
          rate = rl_EmailsPerSecond (ac_RateLimit cfg);
          capacity = bucketCapacity rate
      in \<lparr>as_name = name, as_cfg = cfg, as_pool = NewSmtpConnPool cfg,
          as_rateLimiter =
            (if rate > 0 then Some ((makeChan capacity)\<lparr>ch_buf := replicate capacity ()\<rparr>) else None),
          as_stopRate = (if rate > 0 then Some (makeChan 0) else None),
          as_totalSent = 0, as_totalFailed = 0\<rparr>)"

text \<open>The goroutine that refills the bucket: its interval and one tick, until it is told to stop.\<close>

definition refillInterval :: "int \<Rightarrow> int" where
  "refillInterval rate =
     (let interval = Second div rate in if interval < Millisecond then Millisecond else interval)"

definition refillTick :: "accountSender \<Rightarrow> accountSender" where
  "refillTick a =
     (case as_rateLimiter a of
        None \<Rightarrow> a
      | Some ch \<Rightarrow> (case chanSend ch () of SendOk ch' \<Rightarrow> a\<lparr>as_rateLimiter := Some ch'\<rparr> | _ \<Rightarrow> a))"

record sendWorld =
  sw_parse :: "string \<Rightarrow> error + string"
  sw_toJSON :: "Email \<Rightarrow> error + string"
  sw_rateDone :: "error option"
  sw_mime :: mimeEnv
  sw_bEncode :: "string \<Rightarrow> string"
  sw_now :: int
  sw_reset :: "SmtpClient \<Rightarrow> error option"
  sw_dial :: dialEnv
  sw_acquireDone :: "error option"
  sw_send :: sendEnv

definition countFailed :: "accountSender \<Rightarrow> accountSender" where
  "countFailed a = a\<lparr>as_totalFailed := as_totalFailed a + 1\<rparr>"

text \<open>The checks before anything is consumed.\<close>

definition preflight :: "sendWorld \<Rightarrow> accountSender \<Rightarrow> Email \<Rightarrow> error option" where
  "preflight w a email =
     (let recipients = AllRecipients (sw_parse w) email;
          maxRcpt = rl_MaxRecipientsPerEmail (ac_RateLimit (as_cfg a));
          limit = rl_EmailSizeLimit (ac_RateLimit (as_cfg a))
      in firstErr
        [Email_Validate (sw_parse w) (Some email),
         check (recipients = []) ErrNoRecipients,
         check (maxRcpt > 0 \<and> int (length recipients) > maxRcpt)
           (Wrap (Error ErrMaxRecipientsExceeded @ '': got '' @ Itoa (int (length recipients)) @
              '' recipients, limit is '' @ Itoa maxRcpt) ErrMaxRecipientsExceeded),
         (if limit > 0 then
            (case sw_toJSON w email of
               Inl _ \<Rightarrow> None
             | Inr data \<Rightarrow>
                 check (int (length data) > limit)
                   (Wrap (Error ErrEmailTooLarge @ '': payload '' @ Itoa (int (length data)) @
                      '' bytes exceeds limit '' @ Itoa limit) ErrEmailTooLarge))
          else None)])"

text \<open>The token bucket: the context when the select takes it, or a token, or wait.\<close>

definition takeToken :: "sendWorld \<Rightarrow> accountSender \<Rightarrow> (error option \<times> accountSender) option" where
  "takeToken w a =
     (case as_rateLimiter a of
        None \<Rightarrow> Some (None, a)
      | Some ch \<Rightarrow>
          (case sw_rateDone w of
             Some e \<Rightarrow> Some (Some e, a)
           | None \<Rightarrow>
               (case chanRecv ch of
                  RecvVal _ ch' \<Rightarrow> Some (None, a\<lparr>as_rateLimiter := Some ch'\<rparr>)
                | RecvClosed \<Rightarrow> Some (None, a)
                | RecvBlock \<Rightarrow> None)))"

definition envelopeFrom :: "accountSender \<Rightarrow> Email \<Rightarrow> string" where
  "envelopeFrom a email = (if em_From email = [] then ac_From (as_cfg a) else em_From email)"

text \<open>A connection from the pool, the transaction, and the connection back.\<close>

definition deliver ::
    "sendWorld \<Rightarrow> accountSender \<Rightarrow> string \<Rightarrow> string list \<Rightarrow> string \<Rightarrow> (error option outcome \<times> accountSender) option" where
  "deliver w a from recipients msg =
     (case Acquire (\<lambda>c. sw_now w - LastUsed c) (\<lambda>c. Client_Reset (sw_reset w c) c)
             (fst (Dial (sw_dial w) (pl_cfg (as_pool a)))) (sw_acquireDone w) (as_pool a) of
        None \<Rightarrow> None
      | Some (Inl e, p) \<Rightarrow> Some (Ret (Some e), a\<lparr>as_pool := p\<rparr>)
      | Some (Inr client, p) \<Rightarrow>
          (case Client_Send (sw_send w) client from recipients msg of (sendErr, client', _) \<Rightarrow>
             Some (case Release (Some client') sendErr p of
                     Ret (_, p') \<Rightarrow> (Ret sendErr, a\<lparr>as_pool := p'\<rparr>)
                   | Panic s \<Rightarrow> (Panic s, a\<lparr>as_pool := p\<rparr>))))"

definition account_Send ::
    "sendWorld \<Rightarrow> accountSender \<Rightarrow> Email option \<Rightarrow> (error option outcome \<times> accountSender) option" where
  "account_Send w a eo =
     (case eo of
        None \<Rightarrow> Some (Ret (Some ErrNilEmail), a)
      | Some email \<Rightarrow>
          (case preflight w a email of
             Some err \<Rightarrow> Some (Ret (Some err), countFailed a)
           | None \<Rightarrow>
               (case takeToken w a of
                  None \<Rightarrow> None
                | Some (Some err, a1) \<Rightarrow> Some (Ret (Some err), countFailed a1)
                | Some (None, a1) \<Rightarrow>
                    (case BuildMIME (sw_mime w) (sw_bEncode w) email (ac_From (as_cfg a)) (ac_FromName (as_cfg a)) of
                       Panic s \<Rightarrow> Some (Panic s, a1)
                     | Ret (Inl err) \<Rightarrow>
                         Some (Ret (Some (Wrap (''sender: failed to build MIME message: '' @ Error err) err)),
                               countFailed a1)
                     | Ret (Inr msg) \<Rightarrow>
                         (case deliver w a1 (envelopeFrom a email) (AllRecipients (sw_parse w) email) msg of
                            None \<Rightarrow> None
                          | Some (Panic s, a2) \<Rightarrow> Some (Panic s, a2)
                          | Some (Ret (Some err), a2) \<Rightarrow> Some (Ret (Some err), countFailed a2)
                          | Some (Ret None, a2) \<Rightarrow>
                              Some (Ret None, a2\<lparr>as_totalSent := as_totalSent a2 + 1\<rparr>))))))"

definition account_Stats :: "accountSender \<Rightarrow> AccountStats" where
  "account_Stats a =
     \<lparr>st_Name = as_name a, st_Host = ac_Host (as_cfg a), st_Port = ac_Port (as_cfg a),
      st_TotalSent = as_totalSent a, st_TotalFailed = as_totalFailed a, st_Pool = Pool_Stats (as_pool a)\<rparr>"

definition account_Close :: "accountSender \<Rightarrow> accountSender outcome" where
  "account_Close a =
     (case (case as_stopRate a of
              None \<Rightarrow> Ret None
            | Some ch \<Rightarrow> (case chanClose ch of Ret ch' \<Rightarrow> Ret (Some ch') | Panic s \<Rightarrow> Panic s)) of
        Panic s \<Rightarrow> Panic s
      | Ret stop \<Rightarrow>
          (case Pool_Close (as_pool a) of
             Panic s \<Rightarrow> Panic s
           | Ret p \<Rightarrow> Ret (a\<lparr>as_stopRate := stop, as_pool := p\<rparr>)))"

section \<open>The sender over all accounts\<close>

record MultiAccountSender =
  ms_accounts :: "(string \<times> accountSender) list"
  ms_batchLimit :: int

abbreviation maxBatchConcurrencyUpper :: int where "maxBatchConcurrencyUpper \<equiv> 512"
abbreviation minBatchConcurrency :: int where "minBatchConcurrency \<equiv> 16"

definition batchLimit :: "SmtpConfig \<Rightarrow> int" where
  "batchLimit cfg =
     (let total = sum_list (map (\<lambda>(_, a). defPos 20 (sp_MaxOpenConns (ac_Pool a))) cfg);
          l = (if total < minBatchConcurrency then minBatchConcurrency else total)
      in if l > maxBatchConcurrencyUpper then maxBatchConcurrencyUpper else l)"

definition addAccounts :: "SmtpConfig \<Rightarrow> (string \<times> accountSender) list" where
  "addAccounts cfg =
     fold (\<lambda>(name, accCfg) m. AList.update (ToLower name) (newAccountSender name accCfg) m) cfg []"

definition Sender_New :: "(string \<Rightarrow> error option) \<Rightarrow> SmtpConfig \<Rightarrow> error + MultiAccountSender" where
  "Sender_New parseAddr cfg =
     (case SmtpConfig_Validate parseAddr cfg of
        (Some err, _) \<Rightarrow> Inl (Wrap (''sender: invalid smtp config: '' @ Error err) err)
      | (None, cfg') \<Rightarrow> Inr \<lparr>ms_accounts = addAccounts cfg', ms_batchLimit = batchLimit cfg'\<rparr>)"

definition senderTarget :: "string \<Rightarrow> string" where
  "senderTarget name = (let t = ToLower (TrimSpace name) in if t = [] then DefaultAccountName else t)"

definition Sender_Account :: "MultiAccountSender \<Rightarrow> string \<Rightarrow> error + accountSender" where
  "Sender_Account m name =
     (case map_of (ms_accounts m) (senderTarget name) of
        None \<Rightarrow> Inl (Wrap (Error ErrSenderAccountNotFound @ '': '' @ Quote (senderTarget name)) ErrSenderAccountNotFound)
      | Some acc \<Rightarrow> Inr acc)"

definition Sender_Send ::
    "sendWorld \<Rightarrow> MultiAccountSender \<Rightarrow> Email option \<Rightarrow> (error option outcome \<times> MultiAccountSender) option" where
  "Sender_Send w m eo =
     (case eo of
        None \<Rightarrow> Some (Ret (Some ErrNilEmail), m)
      | Some email \<Rightarrow>
          (case map_of (ms_accounts m) (senderTarget (em_Account email)) of
             None \<Rightarrow> Some (Ret (Some (Wrap (Error ErrSenderAccountNotFound @ '': '' @ Quote (senderTarget (em_Account email)))
                             ErrSenderAccountNotFound)), m)
           | Some acc \<Rightarrow>
               (case account_Send w acc eo of
                  None \<Rightarrow> None
                | Some (r, acc') \<Rightarrow>
                    Some (r, m\<lparr>ms_accounts := AList.update (senderTarget (em_Account email)) acc' (ms_accounts m)\<rparr>))))"

definition Sender_AccountNames :: "MultiAccountSender \<Rightarrow> string list" where
  "Sender_AccountNames m = map (as_name \<circ> snd) (ms_accounts m)"

definition Sender_Stats :: "MultiAccountSender \<Rightarrow> (string \<times> AccountStats) list" where
  "Sender_Stats m = map (\<lambda>(k, acc). (k, account_Stats acc)) (ms_accounts m)"

fun closeAccounts :: "(string \<times> accountSender) list \<Rightarrow> (string \<times> accountSender) list outcome" where
  "closeAccounts [] = Ret []"
| "closeAccounts ((k, acc) # rest) =
     (case account_Close acc of
        Panic s \<Rightarrow> Panic s
      | Ret acc' \<Rightarrow> (case closeAccounts rest of Panic s \<Rightarrow> Panic s | Ret rest' \<Rightarrow> Ret ((k, acc') # rest')))"

definition Sender_Close :: "MultiAccountSender \<Rightarrow> MultiAccountSender outcome" where
  "Sender_Close m =
     (case closeAccounts (ms_accounts m) of
        Panic s \<Rightarrow> Panic s
      | Ret accs \<Rightarrow> Ret (m\<lparr>ms_accounts := accs\<rparr>))"

section \<open>SendBatch\<close>

text \<open>
  One goroutine per email: it waits for a slot of \<open>batchSem\<close> or for the
  context, sends, stores its result and gives the slot back. \<open>SendBatch\<close>
  returns when no goroutine is left.
\<close>

record batchSys =
  bs_sender :: MultiAccountSender
  bs_waiting :: "nat list"
  bs_running :: "nat list"
  bs_errors :: "error option list"
  bs_done :: "nat list"

definition batchStart :: "MultiAccountSender \<Rightarrow> Email option list \<Rightarrow> batchSys" where
  "batchStart m emails = \<lparr>bs_sender = m, bs_waiting = [0..<length emails], bs_running = [],
     bs_errors = replicate (length emails) None, bs_done = []\<rparr>"

inductive batch_step :: "Email option list \<Rightarrow> batchSys \<Rightarrow> batchSys \<Rightarrow> bool" for emails where
  gets_slot: "i \<in> set (bs_waiting s) \<Longrightarrow> int (length (bs_running s)) < ms_batchLimit (bs_sender s) \<Longrightarrow>
    batch_step emails s (s\<lparr>bs_waiting := remove1 i (bs_waiting s), bs_running := i # bs_running s\<rparr>)"
| cancelled: "i \<in> set (bs_waiting s) \<Longrightarrow>
    batch_step emails s (s\<lparr>bs_waiting := remove1 i (bs_waiting s), bs_errors := (bs_errors s)[i := Some ctxErr],
      bs_done := i # bs_done s\<rparr>)"
| sends: "i \<in> set (bs_running s) \<Longrightarrow> Sender_Send w (bs_sender s) (emails ! i) = Some (Ret r, m') \<Longrightarrow>
    batch_step emails s (s\<lparr>bs_running := remove1 i (bs_running s), bs_errors := (bs_errors s)[i := r],
      bs_done := i # bs_done s, bs_sender := m'\<rparr>)"

inductive batch_reachable :: "MultiAccountSender \<Rightarrow> Email option list \<Rightarrow> batchSys \<Rightarrow> bool" for m emails where
  batch_init: "batch_reachable m emails (batchStart m emails)"
| batch_next: "batch_reachable m emails s \<Longrightarrow> batch_step emails s s' \<Longrightarrow> batch_reachable m emails s'"

section \<open>Lemmas\<close>

definition accountWf :: "accountSender \<Rightarrow> bool" where
  "accountWf a \<longleftrightarrow> poolWf (as_pool a) \<and>
     (case as_rateLimiter a of None \<Rightarrow> True | Some ch \<Rightarrow> chanWf ch \<and> \<not> ch_closed ch)"

lemma newAccountSender_wf: "accountWf (newAccountSender name cfg)"
  by (simp add: accountWf_def newAccountSender_def Let_def NewSmtpConnPool_wf chan_defs)

lemma accountWf_simps [simp]:
  "accountWf (countFailed a) = accountWf a"
  "accountWf (a\<lparr>as_totalSent := n\<rparr>) = accountWf a"
  "as_pool (countFailed a) = as_pool a"
  "as_totalSent (countFailed a) = as_totalSent a"
  "as_totalFailed (countFailed a) = as_totalFailed a + 1"
  by (simp_all add: accountWf_def countFailed_def)

lemma refillTick_wf: "accountWf a \<Longrightarrow> accountWf (refillTick a)"
  by (auto simp: accountWf_def refillTick_def chanSend_def chanWf_def split: option.splits)

lemma takeToken_wf:
  assumes "accountWf a" "takeToken w a = Some (r, a')"
  shows "accountWf a' \<and> as_pool a' = as_pool a \<and> as_totalSent a' = as_totalSent a \<and>
    as_totalFailed a' = as_totalFailed a \<and> as_cfg a' = as_cfg a"
  using assms
  by (auto simp: takeToken_def accountWf_def split: option.splits recvResult.splits
      dest: gochan.recv_val gochan.recv_wf)

text \<open>The delivery is a use of a borrowed connection.\<close>

definition useClient :: "sendWorld \<Rightarrow> string \<Rightarrow> string list \<Rightarrow> string \<Rightarrow> SmtpClient \<Rightarrow> error option \<times> SmtpClient" where
  "useClient w from recipients msg client =
     (case Client_Send (sw_send w) client from recipients msg of (r, client', _) \<Rightarrow> (r, client'))"

abbreviation borrowClient where
  "borrowClient w a from recipients msg \<equiv>
     smtp_pool.borrow (\<lambda>c. sw_now w - LastUsed c) (\<lambda>c. Client_Reset (sw_reset w c) c)
       (fst (Dial (sw_dial w) (pl_cfg (as_pool a)))) (sw_acquireDone w) (useClient w from recipients msg) (as_pool a)"

lemma deliver_borrow:
  "borrowClient w a from rs msg = None \<Longrightarrow> deliver w a from rs msg = None"
  "borrowClient w a from rs msg = Some (Ret (r, p')) \<Longrightarrow> deliver w a from rs msg = Some (Ret r, a\<lparr>as_pool := p'\<rparr>)"
  by (auto simp: deliver_def smtp_pool.borrow_def useClient_def giveBack_def
      split: option.splits sum.splits prod.splits outcome.splits)

lemma deliver_wf:
  assumes "accountWf a" "deliver w a from rs msg = Some (out, a')"
  shows "\<exists>r p'. out = Ret r \<and> a' = a\<lparr>as_pool := p'\<rparr> \<and> poolWf p' \<and> outstanding p' = outstanding (as_pool a)"
proof (cases "borrowClient w a from rs msg")
  case None
  then show ?thesis using deliver_borrow(1) assms(2) by simp
next
  case (Some b)
  moreover have "poolWf (as_pool a)"
    using assms(1) by (simp add: accountWf_def)
  ultimately obtain r p' where "b = Ret (r, p')" "outstanding p' = outstanding (as_pool a)" "poolWf p'"
    using smtp_pool.borrow_balanced by blast
  then show ?thesis
    using Some deliver_borrow(2) assms(2) by auto
qed

text \<open>The ways one \<open>Send\<close> ends.\<close>

lemma account_Send_cases:
  assumes "accountWf a" "account_Send w a (Some e) = Some (out, a')"
  obtains err where "out = Ret (Some err)" "a' = countFailed a"
  | err a1 where "takeToken w a = Some (Some err, a1)" "out = Ret (Some err)" "a' = countFailed a1"
  | s a1 where "takeToken w a = Some (None, a1)" "out = Panic s" "a' = a1"
      "BuildMIME (sw_mime w) (sw_bEncode w) e (ac_From (as_cfg a)) (ac_FromName (as_cfg a)) = Panic s"
  | err a1 where "takeToken w a = Some (None, a1)" "out = Ret (Some err)" "a' = countFailed a1"
  | msg a1 r a2 where "takeToken w a = Some (None, a1)" "preflight w a e = None"
      "BuildMIME (sw_mime w) (sw_bEncode w) e (ac_From (as_cfg a)) (ac_FromName (as_cfg a)) = Ret (Inr msg)"
      "deliver w a1 (envelopeFrom a e) (AllRecipients (sw_parse w) e) msg = Some (Ret r, a2)" "out = Ret r"
      "a' = (if r = None then a2\<lparr>as_totalSent := as_totalSent a2 + 1\<rparr> else countFailed a2)"
proof (cases "preflight w a e")
  case (Some err)
  then show thesis using that(1) assms(2) by (auto simp: account_Send_def)
next
  case pre: None
  then obtain t a1 where tok: "takeToken w a = Some (t, a1)"
    using assms(2) by (auto simp: account_Send_def split: option.splits)
  show thesis
  proof (cases t)
    case (Some err)
    then show thesis using that(2) assms(2) pre tok by (auto simp: account_Send_def)
  next
    case None
    show thesis
    proof (cases "BuildMIME (sw_mime w) (sw_bEncode w) e (ac_From (as_cfg a)) (ac_FromName (as_cfg a))")
      case (Panic s)
      then show thesis using that(3) assms(2) pre tok None by (auto simp: account_Send_def)
    next
      case (Ret b)
      show thesis
      proof (cases b)
        case (Inl err)
        then show thesis using that(4) assms(2) pre tok None Ret by (auto simp: account_Send_def)
      next
        case (Inr msg)
        then obtain o2 a2 where dl: "deliver w a1 (envelopeFrom a e) (AllRecipients (sw_parse w) e) msg = Some (o2, a2)"
          using assms(2) pre tok None Ret by (auto simp: account_Send_def split: option.splits)
        moreover obtain r where "o2 = Ret r"
          using deliver_wf [OF _ dl] takeToken_wf [OF assms(1) tok] by blast
        ultimately show thesis
          using that(5) [OF _ pre _ _ _] assms(2) pre tok None Ret Inr
          by (cases r) (auto simp: account_Send_def)
      qed
    qed
  qed
qed

section \<open>Properties of one account\<close>

text \<open>
  C9. The books of one account. A Send of an email counts exactly once, as
  sent when it returns nil and as failed otherwise, and it gives back the
  connection it borrowed on every path; only a nil attachment makes it panic,
  and then nothing is counted and no connection is held.\<close>

theorem account_Send_accounting:
  assumes "accountWf a" "account_Send w a (Some e) = Some (out, a')"
  shows "accountWf a' \<and> outstanding (as_pool a') = outstanding (as_pool a) \<and>
    (case out of
       Ret r \<Rightarrow> as_totalSent a' = as_totalSent a + (if r = None then 1 else 0) \<and>
               as_totalFailed a' = as_totalFailed a + (if r = None then 0 else 1)
     | Panic s \<Rightarrow> None \<in> set (em_Attachments e) \<and>
               as_totalSent a' = as_totalSent a \<and> as_totalFailed a' = as_totalFailed a)"
  using assms
proof (cases rule: account_Send_cases)
  case (3 s a1)
  then have "None \<in> set (em_Attachments e)"
    by (auto simp: BuildMIME_def split: sum.splits if_splits)
  then show ?thesis
    using takeToken_wf [OF assms(1) 3(1)] 3 assms(1) by simp
next
  case (5 msg a1 r a2)
  have tok: "accountWf a1" "as_pool a1 = as_pool a" "as_totalSent a1 = as_totalSent a"
      "as_totalFailed a1 = as_totalFailed a"
    using takeToken_wf [OF assms(1) 5(1)] by simp_all
  obtain p' where p': "a2 = a1\<lparr>as_pool := p'\<rparr>" "poolWf p'" "outstanding p' = outstanding (as_pool a1)"
    using deliver_wf [OF tok(1) 5(4)] by auto
  then have "accountWf a2"
    using tok(1) by (simp add: accountWf_def)
  then show ?thesis
    using tok 5(5,6) p' by auto
qed (use assms(1) in \<open>auto dest: takeToken_wf [OF assms(1)]\<close>)

lemma deliver_success:
  assumes "deliver w a from rs msg = Some (Ret None, a')"
  shows "\<exists>client client' cmds. Client_Send (sw_send w) client from rs msg = (None, client', cmds)"
  using assms by (auto simp: deliver_def split: option.splits prod.splits sum.splits outcome.splits)

text \<open>
  C15. What success means. When Send returns nil, the email is valid, its
  recipients are between one and the account's limit, its JSON form is within
  the size limit, and the server accepted on some connection the whole
  message BuildMIME made of it, for exactly those recipients.\<close>

theorem account_Send_delivered:
  assumes "accountWf a" "account_Send w a (Some e) = Some (Ret None, a')"
  shows "Email_Validate (sw_parse w) (Some e) = None \<and>
    (let rs = AllRecipients (sw_parse w) e; maxRcpt = rl_MaxRecipientsPerEmail (ac_RateLimit (as_cfg a));
         limit = rl_EmailSizeLimit (ac_RateLimit (as_cfg a))
     in rs \<noteq> [] \<and> (maxRcpt \<le> 0 \<or> int (length rs) \<le> maxRcpt) \<and>
        (\<forall>data. limit \<le> 0 \<or> sw_toJSON w e \<noteq> Inr data \<or> int (length data) \<le> limit) \<and>
        (\<exists>msg client client' cmds.
           BuildMIME (sw_mime w) (sw_bEncode w) e (ac_From (as_cfg a)) (ac_FromName (as_cfg a)) = Ret (Inr msg) \<and>
           Client_Send (sw_send w) client (envelopeFrom a e) rs msg = (None, client', cmds) \<and>
           accepted (sw_send w) (envelopeFrom a e) rs))"
  using assms
proof (cases rule: account_Send_cases)
  case (5 msg a1 r a2)
  have pre: "Email_Validate (sw_parse w) (Some e) = None" "AllRecipients (sw_parse w) e \<noteq> []"
      "\<not> (rl_MaxRecipientsPerEmail (ac_RateLimit (as_cfg a)) > 0 \<and>
         int (length (AllRecipients (sw_parse w) e)) > rl_MaxRecipientsPerEmail (ac_RateLimit (as_cfg a)))"
    using 5(2) unfolding preflight_def by (simp_all only: checks_pass simp_thms)
  have size: "\<not> (rl_EmailSizeLimit (ac_RateLimit (as_cfg a)) > 0 \<and> sw_toJSON w e = Inr data \<and>
      int (length data) > rl_EmailSizeLimit (ac_RateLimit (as_cfg a)))" for data
    using 5(2) unfolding preflight_def by (auto simp only: checks_pass simp_thms sum.case if_True split: if_splits)
  obtain client client' cmds where
      snd: "Client_Send (sw_send w) client (envelopeFrom a e) (AllRecipients (sw_parse w) e) msg = (None, client', cmds)"
    using deliver_success 5(4,5) by blast
  then have "accepted (sw_send w) (envelopeFrom a e) (AllRecipients (sw_parse w) e)"
    using transaction_result pre(2) by (fastforce simp: Client_Send_def split: prod.splits)
  then show ?thesis
    using pre size snd 5(3) unfolding Let_def by (metis not_less)
qed simp_all

text \<open>Sends that ask for a token, and ticks of the refill goroutine, in any order.\<close>

datatype bucketOp = Tick | Ask

fun tokensTaken :: "sendWorld \<Rightarrow> accountSender \<Rightarrow> bucketOp list \<Rightarrow> nat" where
  "tokensTaken w a [] = 0"
| "tokensTaken w a (Tick # ops) = tokensTaken w (refillTick a) ops"
| "tokensTaken w a (Ask # ops) =
     (case takeToken w a of
        Some (None, a') \<Rightarrow> Suc (tokensTaken w a' ops)
      | _ \<Rightarrow> tokensTaken w a ops)"

lemma tokensTaken_bound:
  "as_rateLimiter a = Some ch \<Longrightarrow> \<not> ch_closed ch \<Longrightarrow>
   tokensTaken w a ops \<le> length (ch_buf ch) + count_list ops Tick"
proof (induction w a ops arbitrary: ch rule: tokensTaken.induct)
  case (2 w a ops)
  show ?case
  proof (cases "chanSend ch ()")
    case (SendOk ch')
    then show ?thesis
      using "2.IH" [of ch'] "2.prems" gochan.send_ok [OF SendOk] by (auto simp: refillTick_def)
  qed (use "2.IH" [of ch] "2.prems" in \<open>simp_all add: refillTick_def\<close>)
next
  case (3 w a ops)
  show ?case
  proof (cases "takeToken w a")
    case None
    then show ?thesis
      using "3.IH"(1) "3.prems" by simp
  next
    case (Some t)
    then obtain r a' where t: "takeToken w a = Some (r, a')"
      by (cases t) simp
    show ?thesis
    proof (cases r)
      case None
      then obtain u ch' where "a' = a\<lparr>as_rateLimiter := Some ch'\<rparr>" "chanRecv ch = RecvVal u ch'"
        using t "3.prems" by (auto simp: takeToken_def gochan.recv_closed split: option.splits recvResult.splits)
      then show ?thesis
        using "3.IH"(2) [OF t refl None, of ch'] "3.prems" t None gochan.recv_val [of ch u ch'] by simp
    next
      case (Some e)
      then show ?thesis
        using "3.IH"(3) [OF t refl Some] t "3.prems" by simp
    qed
  qed
qed simp

text \<open>
  C28. The token bucket. In any sequence of sends and refill ticks on a new
  account with a rate, the sends that get a token are at most the capacity of
  the bucket plus the ticks. The capacity is the rate, at most 1000; the ticks
  come once per configured rate up to 1000 a second, and above that rate once
  per millisecond, so the refill is never faster than 1000 a second.\<close>

theorem bucket_bound:
  assumes "rate = rl_EmailsPerSecond (ac_RateLimit (as_cfg (newAccountSender name cfg)))" "0 < rate"
  shows "tokensTaken w (newAccountSender name cfg) ops \<le> bucketCapacity rate + count_list ops Tick \<and>
    int (bucketCapacity rate) = min rate 1000 \<and>
    refillInterval rate = (if rate > 1000 then Millisecond else Second div rate)"
proof -
  let ?a = "newAccountSender name cfg"
  obtain ch where ch: "as_rateLimiter ?a = Some ch" "\<not> ch_closed ch" "length (ch_buf ch) = bucketCapacity rate"
    using assms by (simp add: newAccountSender_def Let_def makeChan_def)
  have "refillInterval rate = (if rate > 1000 then Millisecond else Second div rate)"
  proof (cases "rate > 1000")
    case True
    have "Second div rate \<le> Second div 1001"
      using True by (intro zdiv_mono2) simp_all
    then show ?thesis
      using True by (simp add: refillInterval_def Let_def)
  next
    case False
    have "Second div 1000 \<le> Second div rate"
      using False assms(2) by (intro zdiv_mono2) simp_all
    then show ?thesis
      using False by (simp add: refillInterval_def Let_def)
  qed
  then show ?thesis
    using tokensTaken_bound [OF ch(1,2), of w ops] ch(3) assms(2) by (simp add: bucketCapacity_def)
qed
section \<open>Properties of the sender over all accounts\<close>

lemma addAccounts_lookup:
  "map_of (addAccounts cfg) k =
     map_option (\<lambda>(name, c). newAccountSender name c) (find (\<lambda>(name, c). ToLower name = k) (rev cfg))"
proof (induction cfg rule: rev_induct)
  case (snoc x xs)
  then show ?case
    by (cases x) (simp add: addAccounts_def update_conv')
qed (simp add: addAccounts_def)

lemma Validate_result:
  assumes "SmtpConfig_Validate parseAddr cfg = (None, cfg')"
  shows "cfg' = SmtpConfig_ApplyDefaults cfg" "list_ex (\<lambda>(name, acc). EqualFold name DefaultAccountName) cfg"
  using assms unfolding SmtpConfig_Validate_def Let_def
  by (simp_all only: split: if_splits) (simp_all only: prod.inject option.distinct simp_thms)

lemma newAccountSender_ready:
  assumes "SmtpConfig_Validate parseAddr cfg = (None, cfg')" "(k, c) \<in> set cfg'"
  shows "as_name (newAccountSender k c) = k \<and> accountReady (as_cfg (newAccountSender k c))"
proof -
  have ready: "accountReady c"
    using assms smtp_validated_accounts [OF assms(1)] by blast
  obtain c0 where "c = SmtpAccountConfig_ApplyDefaults c0"
    using assms(2) unfolding Validate_result(1) [OF assms(1)] SmtpConfig_ApplyDefaults_def by auto
  then have "SmtpAccountConfig_ApplyDefaults c = c"
    by (simp only: account_section.idem)
  then show ?thesis
    using ready by (simp add: newAccountSender_def Let_def)
qed

lemma Validate_keys:
  "SmtpConfig_Validate parseAddr cfg = (None, cfg') \<Longrightarrow> fst ` set cfg' = fst ` set cfg"
  using Validate_result(1) ApplyDefaults_keys by (metis list.set_map)

lemma Sender_Account_New:
  assumes "Sender_New parseAddr cfg = Inr m" "SmtpConfig_Validate parseAddr cfg = (None, cfg')"
  shows "(\<exists>a. Sender_Account m name = Inr a) \<longleftrightarrow> senderTarget name \<in> ToLower ` fst ` set cfg"
    and "Sender_Account m name = Inr a \<Longrightarrow>
      \<exists>k c. (k, c) \<in> set cfg' \<and> ToLower k = senderTarget name \<and> a = newAccountSender k c"
proof -
  define f where "f = find (\<lambda>(n, c). ToLower n = senderTarget name) (rev cfg')"
  have m: "ms_accounts m = addAccounts cfg'"
    using assms by (auto simp: Sender_New_def)
  have look: "Sender_Account m name = (case f of
      None \<Rightarrow> Inl (Wrap (Error ErrSenderAccountNotFound @ '': '' @ Quote (senderTarget name)) ErrSenderAccountNotFound)
    | Some (k, c) \<Rightarrow> Inr (newAccountSender k c))"
    unfolding Sender_Account_def m addAccounts_lookup f_def [symmetric]
    by (simp split: option.split prod.split)
  have acc: "Sender_Account m name = Inr a \<longleftrightarrow> (\<exists>k c. f = Some (k, c) \<and> a = newAccountSender k c)" for a
    unfolding look by (cases f) auto
  show "(\<exists>a. Sender_Account m name = Inr a) \<longleftrightarrow> senderTarget name \<in> ToLower ` fst ` set cfg"
  proof (cases f)
    case None
    then have "\<not> (\<exists>x \<in> set cfg'. ToLower (fst x) = senderTarget name)"
      unfolding f_def by (auto simp: find_None_iff case_prod_beta)
    then show ?thesis
      unfolding acc Validate_keys [OF assms(2), symmetric] using None by (auto simp: image_iff)
  next
    case (Some kc)
    then have "kc \<in> set cfg' \<and> ToLower (fst kc) = senderTarget name"
      using find_SomeD [of _ "rev cfg'" kc] unfolding f_def by (fastforce simp: case_prod_beta)
    then have "senderTarget name \<in> ToLower ` fst ` set cfg'"
      by (metis imageI)
    then show ?thesis
      unfolding acc Validate_keys [OF assms(2), symmetric] using Some by (cases kc) blast
  qed
  show "\<exists>k c. (k, c) \<in> set cfg' \<and> ToLower k = senderTarget name \<and> a = newAccountSender k c"
    if "Sender_Account m name = Inr a"
    using that unfolding acc f_def by (auto dest!: find_SomeD) blast
qed
lemma batchLimit_bounds: "minBatchConcurrency \<le> batchLimit cfg" "batchLimit cfg \<le> maxBatchConcurrencyUpper"
  by (simp_all add: batchLimit_def Let_def)

text \<open>
  New builds a sender for a valid configuration only. Then the batch
  limit is between 16 and 512, an account is found exactly for the names that
  fold, trimmed, to a configured one (the empty name is the default), it is
  made from that ready account, and the empty name is always found.\<close>

theorem Sender_New_accounts:
  assumes "Sender_New parseAddr cfg = Inr m"
  shows "minBatchConcurrency \<le> ms_batchLimit m \<and> ms_batchLimit m \<le> maxBatchConcurrencyUpper \<and>
    (\<forall>name. (\<exists>a. Sender_Account m name = Inr a) \<longleftrightarrow> senderTarget name \<in> ToLower ` fst ` set cfg) \<and>
    (\<forall>name a. Sender_Account m name = Inr a \<longrightarrow>
       ToLower (as_name a) = senderTarget name \<and> accountReady (as_cfg a) \<and> accountWf a) \<and>
    (\<exists>a. Sender_Account m [] = Inr a)"
proof -
  obtain cfg' where v: "SmtpConfig_Validate parseAddr cfg = (None, cfg')"
    and m: "ms_batchLimit m = batchLimit cfg'"
    using assms by (auto simp: Sender_New_def split: prod.splits option.splits)
  note acc = Sender_Account_New [OF assms v]
  have "ToLower DefaultAccountName = senderTarget []"
    by code_simp
  moreover have "list_ex (\<lambda>(name, acc). EqualFold name DefaultAccountName) cfg"
    by (rule Validate_result(2) [OF v])
  ultimately have "senderTarget [] \<in> ToLower ` fst ` set cfg"
    by (force simp: list_ex_iff EqualFold_def)
  moreover have "ToLower (as_name a) = senderTarget name \<and> accountReady (as_cfg a) \<and> accountWf a"
    if "Sender_Account m name = Inr a" for name a
    using acc(2) [OF that] newAccountSender_ready [OF v] newAccountSender_wf by force
  ultimately show ?thesis
    using acc(1) batchLimit_bounds m by auto
qed

text \<open>
  Closing a sender twice panics when an account has a rate limit: the stop
  channel of its refill goroutine is closed again, although the pool itself
  can be closed any number of times.\<close>

theorem account_Close_twice:
  assumes "accountWf a"
  shows "(as_stopRate a = None \<longrightarrow> (\<exists>a'. account_Close a = Ret a' \<and> account_Close a' = Ret a')) \<and>
    (\<forall>ch. as_stopRate a = Some ch \<and> \<not> ch_closed ch \<longrightarrow>
       (\<exists>a'. account_Close a = Ret a' \<and> account_Close a' = Panic ''close of closed channel''))"
proof -
  obtain p' where p': "Pool_Close (as_pool a) = Ret p'" "Pool_Close p' = Ret p'"
    using assms Pool_Close_open [of "as_pool a"] by (cases "pl_closed (as_pool a)") (auto simp: accountWf_def Pool_Close_def)
  have "\<exists>a'. account_Close a = Ret a' \<and> account_Close a' = Ret a'" if "as_stopRate a = None"
    using p' that by (simp add: account_Close_def)
  moreover have "\<exists>a'. account_Close a = Ret a' \<and> account_Close a' = Panic ''close of closed channel''"
    if "as_stopRate a = Some ch" "\<not> ch_closed ch" for ch
    using p' that by (simp add: account_Close_def chanClose_def)
  ultimately show ?thesis
    by blast
qed

section \<open>Properties of a batch\<close>

definition batch_inv :: "Email option list \<Rightarrow> int \<Rightarrow> batchSys \<Rightarrow> bool" where
  "batch_inv emails cap s \<longleftrightarrow>
     distinct (bs_waiting s @ bs_running s @ bs_done s) \<and>
     set (bs_waiting s @ bs_running s @ bs_done s) = {..<length emails} \<and>
     int (length (bs_running s)) \<le> cap \<and> ms_batchLimit (bs_sender s) = cap \<and>
     length (bs_errors s) = length emails \<and>
     (\<forall>i \<in> set (bs_done s). bs_errors s ! i = None \<longrightarrow>
        (\<exists>w m m'. Sender_Send w m (emails ! i) = Some (Ret None, m')))"

lemma Sender_Send_limit: "Sender_Send w m eo = Some (r, m') \<Longrightarrow> ms_batchLimit m' = ms_batchLimit m"
  by (auto simp: Sender_Send_def split: option.splits)

lemma batch_step_inv: "batch_step emails s s' \<Longrightarrow> batch_inv emails cap s \<Longrightarrow> batch_inv emails cap s'"
proof (induction rule: batch_step.induct)
  case (gets_slot i s)
  then show ?case
    by (auto simp: batch_inv_def set_remove1_eq)
next
  case (cancelled i s ctxErr)
  then have "i < length emails" "i \<notin> set (bs_done s)"
    by (auto simp: batch_inv_def)
  then show ?case
    using cancelled by (auto simp: batch_inv_def set_remove1_eq nth_list_update)
next
  case (sends i s w r m')
  then have "i < length emails" "i \<notin> set (bs_done s)" "length (remove1 i (bs_running s)) \<le> length (bs_running s)"
    by (auto simp: batch_inv_def length_remove1)
  then show ?case
    using sends Sender_Send_limit [OF sends(2)]
    by (auto simp: batch_inv_def set_remove1_eq nth_list_update)
qed

lemma batch_reachable_inv:
  "batch_reachable m emails s \<Longrightarrow> 0 \<le> ms_batchLimit m \<Longrightarrow> batch_inv emails (ms_batchLimit m) s"
proof (induction rule: batch_reachable.induct)
  case batch_init
  then show ?case by (auto simp: batch_inv_def batchStart_def)
qed (use batch_step_inv in blast)


section \<open>Witnesses\<close>

definition sampleWorld :: sendWorld where
  "sampleWorld = \<lparr>sw_parse = Inr, sw_toJSON = (\<lambda>_. Inr ''{}''), sw_rateDone = None, sw_mime = sampleMimeEnv,
     sw_bEncode = (\<lambda>s. s), sw_now = 0, sw_reset = (\<lambda>_. None), sw_dial = tlsServer, sw_acquireDone = None,
     sw_send = okServer\<rparr>"

definition sampleEmail :: Email where
  "sampleEmail = NewEmail\<lparr>em_To := [''x@y'', ''X@y'', ''z@y''], em_Subject := ''s'', em_TextBody := ''t''\<rparr>"

definition limitedAccount :: SmtpAccountConfig where
  "limitedAccount = sampleAccount\<lparr>ac_RateLimit :=
     \<lparr>rl_EmailsPerSecond = 2, rl_MaxRecipientsPerEmail = 2, rl_EmailSizeLimit = 10\<rparr>\<rparr>"

lemma sample_Send:
  "\<exists>a'. account_Send sampleWorld (newAccountSender ''default'' limitedAccount) (Some sampleEmail) = Some (Ret None, a')"
proof -
  have "map_option fst (account_Send sampleWorld (newAccountSender ''default'' limitedAccount) (Some sampleEmail)) =
      Some (Ret None)"
    by code_simp
  then show ?thesis
    by (cases "account_Send sampleWorld (newAccountSender ''default'' limitedAccount) (Some sampleEmail)") auto
qed

theorem account_Send_accounting_witness:
  "\<exists>a'. account_Send sampleWorld (newAccountSender ''default'' limitedAccount) (Some sampleEmail) = Some (Ret None, a') \<and>
     as_totalSent a' = 1"
proof -
  obtain a' where snd: "account_Send sampleWorld (newAccountSender ''default'' limitedAccount) (Some sampleEmail) =
      Some (Ret None, a')"
    using sample_Send by blast
  have "as_totalSent (newAccountSender ''default'' limitedAccount) = 0"
    by (simp add: newAccountSender_def Let_def)
  then show ?thesis
    using account_Send_accounting [OF newAccountSender_wf snd] snd by simp
qed

theorem account_Send_delivered_witness:
  "\<exists>msg client client' cmds.
     Client_Send okServer client (envelopeFrom (newAccountSender ''default'' limitedAccount) sampleEmail)
       (AllRecipients Inr sampleEmail) msg = (None, client', cmds)"
proof -
  obtain a' where snd: "account_Send sampleWorld (newAccountSender ''default'' limitedAccount) (Some sampleEmail) =
      Some (Ret None, a')"
    using sample_Send by blast
  have world: "sw_send sampleWorld = okServer" "sw_parse sampleWorld = Inr"
    by (simp_all add: sampleWorld_def)
  show ?thesis
    using account_Send_delivered [OF newAccountSender_wf snd] unfolding Let_def world by blast
qed

theorem bucket_bound_witness:
  "tokensTaken sampleWorld (newAccountSender ''default'' limitedAccount) [Ask, Ask, Ask, Tick, Ask, Ask] \<le> 3"
proof -
  have "2 = rl_EmailsPerSecond (ac_RateLimit (as_cfg (newAccountSender ''default'' limitedAccount)))"
    by code_simp
  then show ?thesis
    using bucket_bound [of 2 "''default''" limitedAccount sampleWorld "[Ask, Ask, Ask, Tick, Ask, Ask]"]
    by (simp add: bucketCapacity_def)
qed

definition sampleSender :: MultiAccountSender where
  "sampleSender = \<lparr>ms_accounts = addAccounts (SmtpConfig_ApplyDefaults [(''Default'', sampleAccount)]),
     ms_batchLimit = 20\<rparr>"

lemma sampleSender_New: "Sender_New (\<lambda>_. None) [(''Default'', sampleAccount)] = Inr sampleSender"
proof -
  have "fst (SmtpConfig_Validate (\<lambda>_. None) [(''Default'', sampleAccount)]) = None"
    by code_simp
  then obtain cfg' where v: "SmtpConfig_Validate (\<lambda>_. None) [(''Default'', sampleAccount)] = (None, cfg')"
    by (cases "SmtpConfig_Validate (\<lambda>_. None) [(''Default'', sampleAccount)]") simp
  moreover have "batchLimit (SmtpConfig_ApplyDefaults [(''Default'', sampleAccount)]) = 20"
    by code_simp
  ultimately show ?thesis
    by (simp add: Sender_New_def Validate_result(1) [OF v] sampleSender_def)
qed

theorem Sender_New_accounts_witness:
  "\<exists>a. Sender_Account sampleSender '' dEFAULT'' = Inr a \<and> accountReady (as_cfg a)"
proof -
  have "senderTarget '' dEFAULT'' \<in> ToLower ` fst ` set [(''Default'', sampleAccount)]"
    by code_simp
  then show ?thesis
    using Sender_New_accounts [OF sampleSender_New] by blast
qed

theorem account_Close_twice_witness:
  "\<exists>a'. account_Close (newAccountSender ''default'' limitedAccount) = Ret a' \<and>
     account_Close a' = Panic ''close of closed channel''"
proof -
  have "as_stopRate (newAccountSender ''default'' limitedAccount) = Some (makeChan 0)"
    by (simp add: newAccountSender_def Let_def limitedAccount_def SmtpAccountConfig_ApplyDefaults_def)
  then show ?thesis
    using account_Close_twice [OF newAccountSender_wf] by fastforce
qed


end
