(* ===== verification/Pipeline.thy ===== *)
theory Pipeline
  imports MemoryQueue Sender
begin

text \<open>
  \<open>internal/runtime/pipeline.go\<close> and \<open>internal/runtime/middleware.go\<close>: what
  the engine does with one message. The sender, the dead letter queue, the
  error handler and the acknowledgement callbacks act on a state \<open>'w\<close> of
  the outside world; they are the functions of \<open>pipeEnv\<close>, together with the
  engine's fields. The counters of the engine are part of the state, and so
  are the events it leaves behind: metrics, and the spans and log lines of
  the middlewares (their attributes are functions of the message identifier
  and the email). Other log lines are left out.
\<close>

abbreviation ErrInvalidPayload :: error where
  "ErrInvalidPayload \<equiv> Err ''runtime: invalid email payload JSON''"
abbreviation defaultRetryInterval :: int where "defaultRetryInterval \<equiv> 5 * Second"
abbreviation maxBackoff :: int where "maxBackoff \<equiv> 5 * Minute"

section \<open>State\<close>

datatype metricEvent =
    IncQueueReceived | ObserveQueueProcessDuration | IncQueueProcessed string | IncEmailsSent string string
  | ObserveEmailDuration string | AddEmailRecipients string string nat | IncQueueRetried | IncQueueDeadLetter
  | SpanStart string Email | SpanError error | SpanEnd | LogDelivery string Email "error option"

record ('a, 'n, 'w) pipe =
  pp_msg :: "('a, 'n) message"
  pp_inFlight :: int
  pp_totalReceived :: int
  pp_totalSuccess :: int
  pp_totalFailed :: int
  pp_totalRetried :: int
  pp_totalDeadLetter :: int
  pp_metrics :: "metricEvent list"
  pp_world :: 'w

text \<open>
  \<open>pe_sleep\<close> is the select between the timer and the context,
  \<open>pe_rand\<close> is \<open>rand.Int63n\<close>, \<open>pe_dlq\<close> the producer of the dead letter
  queue when there is one.
\<close>

record ('a, 'n, 'w) pipeEnv =
  pe_fromJSON :: "string \<Rightarrow> error + Email"
  pe_parse :: "string \<Rightarrow> error + string"
  pe_ack :: "'a \<Rightarrow> 'w \<Rightarrow> error option \<times> 'w"
  pe_send :: "Email \<Rightarrow> 'w \<Rightarrow> error option outcome \<times> 'w"
  pe_ctxErr :: "'w \<Rightarrow> error option"
  pe_sleep :: "int \<Rightarrow> 'w \<Rightarrow> error option \<times> 'w"
  pe_rand :: "int \<Rightarrow> int"
  pe_dlq :: "(('a, 'n) message \<Rightarrow> 'w \<Rightarrow> error option \<times> 'w) option"
  pe_dlqTopic :: string
  pe_errorHandler :: "(('a, 'n) message \<Rightarrow> Email option \<Rightarrow> error \<Rightarrow> 'w \<Rightarrow> 'w) option"
  pe_maxRetries :: int
  pe_retryInterval :: int

definition emit :: "metricEvent list \<Rightarrow> ('a, 'n, 'w) pipe \<Rightarrow> ('a, 'n, 'w) pipe" where
  "emit es s = s\<lparr>pp_metrics := pp_metrics s @ es\<rparr>"

section \<open>Middlewares (middleware.go)\<close>

text \<open>A handler of a decoded email.\<close>

type_synonym ('a, 'n, 'w) ProcessFunc = "Email \<Rightarrow> ('a, 'n, 'w) pipe handler"
type_synonym ('a, 'n, 'w) Middleware = "('a, 'n, 'w) ProcessFunc \<Rightarrow> ('a, 'n, 'w) ProcessFunc"

definition rt_RecoveryMiddleware :: "('a, 'n, 'w) Middleware" where
  "rt_RecoveryMiddleware next1 email s =
     (case next1 email s of
        (Ret r, s') \<Rightarrow> (Ret r, s')
      | (Panic p, s') \<Rightarrow> (Ret (Some (Err (''runtime panic: '' @ p))), s'))"

definition metricAccount :: "Email \<Rightarrow> string" where
  "metricAccount email = (if em_Account email \<noteq> [] then em_Account email else ''default'')"

definition MetricsMiddleware :: "('a, 'n, 'w) Middleware" where
  "MetricsMiddleware next1 email s =
     (case next1 email (emit [IncQueueReceived] s) of
        (Panic p, s') \<Rightarrow> (Panic p, s')
      | (Ret (Some e), s') \<Rightarrow>
          (Ret (Some e), emit [ObserveQueueProcessDuration, IncQueueProcessed ''failed'',
             IncEmailsSent (metricAccount email) ''failed''] s')
      | (Ret None, s') \<Rightarrow>
          (Ret None, emit [ObserveQueueProcessDuration, IncQueueProcessed ''success'',
             IncEmailsSent (metricAccount email) ''success'', ObserveEmailDuration (metricAccount email),
             AddEmailRecipients (metricAccount email) ''to'' (length (em_To email)),
             AddEmailRecipients (metricAccount email) ''cc'' (length (em_Cc email)),
             AddEmailRecipients (metricAccount email) ''bcc'' (length (em_Bcc email))] s'))"

definition buildChain :: "('a, 'n, 'w) Middleware list \<Rightarrow> ('a, 'n, 'w) ProcessFunc \<Rightarrow> ('a, 'n, 'w) ProcessFunc" where
  "buildChain middlewares final = foldr (\<lambda>mw chain. mw chain) middlewares final"

definition rt_TracingMiddleware :: "('a, 'n, 'w) Middleware" where
  "rt_TracingMiddleware next1 email s =
     (case next1 email (emit [SpanStart (m_ID (pp_msg s)) email] s) of
        (Panic p, s') \<Rightarrow> (Panic p, emit [SpanEnd] s')
      | (Ret (Some e), s') \<Rightarrow> (Ret (Some e), emit [SpanError e, SpanEnd] s')
      | (Ret None, s') \<Rightarrow> (Ret None, emit [SpanEnd] s'))"

definition rt_LoggingMiddleware :: "('a, 'n, 'w) Middleware" where
  "rt_LoggingMiddleware next1 email s =
     (case next1 email s of
        (Panic p, s') \<Rightarrow> (Panic p, s')
      | (Ret e, s') \<Rightarrow> (Ret e, emit [LogDelivery (m_ID (pp_msg s)) email e] s'))"

text \<open>The built-in middlewares of an engine (\<open>NewEngine\<close>).\<close>

definition defaultMiddlewares :: "('a, 'n, 'w) Middleware list" where
  "defaultMiddlewares =
     [rt_RecoveryMiddleware, rt_TracingMiddleware, MetricsMiddleware, rt_LoggingMiddleware]"

section \<open>Sending with retries\<close>

text \<open>The back-off before an attempt, and how long it sleeps; a draw below one panics.\<close>

definition retryBackoff :: "int \<Rightarrow> int \<Rightarrow> int \<Rightarrow> int" where
  "retryBackoff interval startAttempt attempt =
     (let backoff = wrap64 (interval * 2 ^ nat (attempt - startAttempt - 1))
      in if backoff \<le> 0 \<or> backoff > maxBackoff then maxBackoff else backoff)"

definition retrySleep :: "(int \<Rightarrow> int) \<Rightarrow> int \<Rightarrow> int outcome" where
  "retrySleep Int63n backoff =
     (if backoff div 2 \<le> 0 then Panic ''invalid argument to Int63n''
      else Ret (backoff - backoff div 4 + Int63n (backoff div 2)))"

definition maxAttempts :: "('a, 'n, 'w) pipeEnv \<Rightarrow> int" where
  "maxAttempts env = (if pe_maxRetries env < 1 then 1 else pe_maxRetries env)"

definition startAttempt :: "('a, 'n, 'w) pipeEnv \<Rightarrow> ('a, 'n) message \<Rightarrow> int" where
  "startAttempt env msg =
     (let start = (if m_Attempts msg > 1 then m_Attempts msg else 1)
      in if start > maxAttempts env then maxAttempts env else start)"

text \<open>The wait before an attempt: nothing before the first one.\<close>

definition beforeAttempt ::
    "('a, 'n, 'w) pipeEnv \<Rightarrow> int \<Rightarrow> int \<Rightarrow> ('a, 'n, 'w) pipe \<Rightarrow> error option outcome \<times> ('a, 'n, 'w) pipe" where
  "beforeAttempt env start attempt s =
     (case pe_ctxErr env (pp_world s) of
        Some e \<Rightarrow> (Ret (Some e), s)
      | None \<Rightarrow>
          if attempt > start then
            (case retrySleep (pe_rand env)
                    (retryBackoff (defPos defaultRetryInterval (pe_retryInterval env)) start attempt) of
               Panic p \<Rightarrow> (Panic p, s)
             | Ret d \<Rightarrow> (case pe_sleep env d (pp_world s) of (r, w) \<Rightarrow> (Ret r, s\<lparr>pp_world := w\<rparr>)))
          else (Ret None, s))"

definition trySend ::
    "('a, 'n, 'w) pipeEnv \<Rightarrow> Email \<Rightarrow> ('a, 'n, 'w) pipe \<Rightarrow> error option outcome \<times> ('a, 'n, 'w) pipe" where
  "trySend env email s =
     (case pe_send env email (pp_world s) of
        (Ret (Some e), w) \<Rightarrow>
          (Ret (Some e), emit [IncQueueRetried] (s\<lparr>pp_world := w, pp_totalRetried := pp_totalRetried s + 1\<rparr>))
      | (r, w) \<Rightarrow> (r, s\<lparr>pp_world := w\<rparr>))"

function sendLoop ::
    "('a, 'n, 'w) pipeEnv \<Rightarrow> Email \<Rightarrow> int \<Rightarrow> int \<Rightarrow> error option \<Rightarrow> ('a, 'n, 'w) pipe handler" where
  "sendLoop env email start attempt lastErr s =
     (if attempt > maxAttempts env then (Ret lastErr, s)
      else case beforeAttempt env start attempt s of
        (Panic p, s1) \<Rightarrow> (Panic p, s1)
      | (Ret (Some e), s1) \<Rightarrow> (Ret (Some e), s1)
      | (Ret None, s1) \<Rightarrow>
          (case trySend env email s1 of
             (Ret (Some e), s2) \<Rightarrow> sendLoop env email start (attempt + 1) (Some e) s2
           | (r, s2) \<Rightarrow> (r, s2)))"
  by pat_completeness auto
termination
  by (relation "measure (\<lambda>(env, email, start, attempt, e, s). nat (maxAttempts env + 1 - attempt))") auto

declare sendLoop.simps [simp del]

definition sendWithRetry :: "('a, 'n, 'w) pipeEnv \<Rightarrow> ('a, 'n, 'w) ProcessFunc" where
  "sendWithRetry env email s =
     (let start = startAttempt env (pp_msg s) in sendLoop env email start start None s)"

section \<open>Dead letters\<close>

definition dlqMessage :: "('a, 'n, 'w) pipeEnv \<Rightarrow> ('a, 'n) message \<Rightarrow> error \<Rightarrow> ('a, 'n) message" where
  "dlqMessage env msg err =
     \<lparr>m_ID = m_ID msg, m_Topic = pe_dlqTopic env, m_Payload = m_Payload msg,
      m_Headers = Some ((case m_Headers msg of None \<Rightarrow> Map.empty | Some h \<Rightarrow> h)(''X-DLQ-Error'' \<mapsto> Error err)),
      m_Key = [], m_Delay = 0, m_Timestamp = m_Timestamp msg, m_Attempts = m_Attempts msg,
      m_acknowledged = False, m_ackFn = None, m_nackFn = None\<rparr>"

text \<open>\<open>msg.Ack(ctx)\<close> on the message of the state.\<close>

definition ackMsg :: "('a, 'n, 'w) pipeEnv \<Rightarrow> ('a, 'n, 'w) pipe \<Rightarrow> ('a, 'n, 'w) pipe" where
  "ackMsg env s = (case Ack (pe_ack env) (pp_msg s) (pp_world s) of (_, m, w) \<Rightarrow> s\<lparr>pp_msg := m, pp_world := w\<rparr>)"

text \<open>The end of \<open>routeToDLQ\<close>: the error handler, then the acknowledgement.\<close>

definition finishDLQ ::
    "('a, 'n, 'w) pipeEnv \<Rightarrow> Email option \<Rightarrow> error \<Rightarrow> ('a, 'n, 'w) pipe \<Rightarrow> ('a, 'n, 'w) pipe" where
  "finishDLQ env email err s =
     ackMsg env (case pe_errorHandler env of
                   None \<Rightarrow> s
                 | Some h \<Rightarrow> s\<lparr>pp_world := h (pp_msg s) email err (pp_world s)\<rparr>)"

definition routeToDLQ ::
    "('a, 'n, 'w) pipeEnv \<Rightarrow> Email option \<Rightarrow> error \<Rightarrow> ('a, 'n, 'w) pipe \<Rightarrow> error option \<times> ('a, 'n, 'w) pipe" where
  "routeToDLQ env email err s0 =
     (let s = emit [IncQueueDeadLetter] (s0\<lparr>pp_totalDeadLetter := pp_totalDeadLetter s0 + 1\<rparr>) in
      case pe_dlq env of
        None \<Rightarrow> (None, finishDLQ env email err s)
      | Some publish \<Rightarrow>
          (case publish (dlqMessage env (pp_msg s) err) (pp_world s) of
             (Some e, w) \<Rightarrow> (Some (Wrap (''runtime: DLQ publish failed: '' @ Error e) e), s\<lparr>pp_world := w\<rparr>)
           | (None, w) \<Rightarrow> (None, finishDLQ env email err (s\<lparr>pp_world := w\<rparr>))))"

section \<open>One message\<close>

definition countFail :: "('a, 'n, 'w) pipe \<Rightarrow> ('a, 'n, 'w) pipe" where
  "countFail s = s\<lparr>pp_totalFailed := pp_totalFailed s + 1\<rparr>"

text \<open>A payload that cannot be sent: to the dead letter queue, and acknowledged in any case.\<close>

definition discard ::
    "('a, 'n, 'w) pipeEnv \<Rightarrow> Email option \<Rightarrow> error \<Rightarrow> ('a, 'n, 'w) pipe \<Rightarrow> error option outcome \<times> ('a, 'n, 'w) pipe" where
  "discard env email err s =
     (case routeToDLQ env email err (countFail s) of
        (Some _, s') \<Rightarrow> (Ret (Some err), ackMsg env s')
      | (None, s') \<Rightarrow> (Ret (Some err), s'))"

definition handleMessage ::
    "('a, 'n, 'w) pipeEnv \<Rightarrow> ('a, 'n, 'w) Middleware list \<Rightarrow> ('a, 'n, 'w) pipe handler" where
  "handleMessage env middlewares s =
     (if m_Payload (pp_msg s) = [] then (Ret (Some ErrInvalidPayload), ackMsg env (countFail s))
      else case pe_fromJSON env (m_Payload (pp_msg s)) of
        Inl err \<Rightarrow>
          discard env None (Wrap (Error ErrInvalidPayload @ '': '' @ Error err) ErrInvalidPayload) s
      | Inr email \<Rightarrow>
          (case Email_Validate (pe_parse env) (Some email) of
             Some err \<Rightarrow>
               discard env (Some email) (Wrap (''runtime: email validation failed: '' @ Error err) err) s
           | None \<Rightarrow>
               (case buildChain middlewares (sendWithRetry env) email s of
                  (Panic p, s1) \<Rightarrow> (Panic p, s1)
                | (Ret (Some err), s1) \<Rightarrow>
                    (case routeToDLQ env (Some email) err (countFail s1) of
                       (Some dlqErr, s2) \<Rightarrow> (Ret (Some dlqErr), s2)
                     | (None, s2) \<Rightarrow> (Ret (Some err), s2))
                | (Ret None, s1) \<Rightarrow> (Ret None, s1\<lparr>pp_totalSuccess := pp_totalSuccess s1 + 1\<rparr>))))"

text \<open>
  \<open>Engine.processMessage\<close>; the first flag tells whether the message pointer
  is nil. The in-flight counter goes down again on every path, also when the
  body panics.
\<close>

definition rt_processMessage ::
    "('a, 'n, 'w) pipeEnv \<Rightarrow> ('a, 'n, 'w) Middleware list \<Rightarrow> bool \<Rightarrow> ('a, 'n, 'w) pipe handler" where
  "rt_processMessage env middlewares isNil s =
     (let s1 = s\<lparr>pp_inFlight := pp_inFlight s + 1, pp_totalReceived := pp_totalReceived s + 1\<rparr> in
      case (if isNil then (Ret (Some ErrInvalidPayload), countFail s1) else handleMessage env middlewares s1) of
        (r, s') \<Rightarrow> (r, s'\<lparr>pp_inFlight := pp_inFlight s' - 1\<rparr>))"

section \<open>Lemmas\<close>

text \<open>What no stage of the pipeline touches, except the parts it is for.\<close>

definition sameBooks :: "('a, 'n, 'w) pipe \<Rightarrow> ('a, 'n, 'w) pipe \<Rightarrow> bool" where
  "sameBooks s s' \<longleftrightarrow> pp_inFlight s' = pp_inFlight s \<and> pp_totalReceived s' = pp_totalReceived s \<and>
     pp_totalSuccess s' = pp_totalSuccess s \<and> pp_totalFailed s' = pp_totalFailed s \<and>
     pp_totalDeadLetter s' = pp_totalDeadLetter s"

lemma sameBooks_refl [simp]: "sameBooks s s"
  by (simp add: sameBooks_def)

lemma sameBooks_trans: "sameBooks s t \<Longrightarrow> sameBooks t u \<Longrightarrow> sameBooks s u"
  by (simp add: sameBooks_def)

lemma sameBooks_simps [simp]:
  "sameBooks s (emit es t) = sameBooks s t"
  "sameBooks (emit es s) t = sameBooks s t"
  "sameBooks s (t\<lparr>pp_world := w\<rparr>) = sameBooks s t"
  "sameBooks s (t\<lparr>pp_totalRetried := n\<rparr>) = sameBooks s t"
  "pp_msg (emit es s) = pp_msg s" "pp_world (emit es s) = pp_world s"
  by (simp_all add: sameBooks_def emit_def)

text \<open>A handler that leaves the books and the message alone.\<close>

definition discreet :: "('a, 'n, 'w) ProcessFunc \<Rightarrow> bool" where
  "discreet f \<longleftrightarrow> (\<forall>email s r s'. f email s = (r, s') \<longrightarrow> sameBooks s s' \<and> pp_msg s' = pp_msg s)"

lemma discreetD: "discreet f \<Longrightarrow> f email s = (r, s') \<Longrightarrow> sameBooks s s' \<and> pp_msg s' = pp_msg s"
  by (simp add: discreet_def)

lemma beforeAttempt_books:
  "beforeAttempt env start a s = (r, s') \<Longrightarrow> sameBooks s s' \<and> pp_msg s' = pp_msg s"
  by (auto simp: beforeAttempt_def split: option.splits if_splits outcome.splits prod.splits)

lemma trySend_books: "trySend env email s = (r, s') \<Longrightarrow> sameBooks s s' \<and> pp_msg s' = pp_msg s"
  by (auto simp: trySend_def split: option.splits outcome.splits prod.splits)

text \<open>
  An invariant rule for the send loop: \<open>P n\<close> relates the start and the state
  after \<open>n\<close> attempts.
\<close>

lemma sendLoop_rule:
  assumes "\<And>n u r u'. P n u \<Longrightarrow> beforeAttempt env start (attempt + int n) u = (r, u') \<Longrightarrow> P n u'"
    and "\<And>n u r u'. P n u \<Longrightarrow> trySend env email u = (r, u') \<Longrightarrow> P (Suc n) u'"
    and "P 0 s" "sendLoop env email start attempt lastErr s = (r, s')"
  shows "\<exists>n. P n s' \<and> int n \<le> max 0 (maxAttempts env + 1 - attempt)"
  using assms
proof (induction env email start attempt lastErr s arbitrary: P rule: sendLoop.induct)
  case (1 env email start attempt lastErr s)
  show ?case
  proof (cases "attempt > maxAttempts env")
    case True
    then show ?thesis
      using "1.prems"(3,4) by (subst (asm) sendLoop.simps) (auto intro: exI [of _ 0])
  next
    case False
    obtain b s1 where b: "beforeAttempt env start attempt s = (b, s1)"
      by fastforce
    have P1: "P 0 s1"
      using "1.prems"(1) [of 0 s b s1] "1.prems"(3) b by simp
    obtain t s2 where t: "trySend env email s1 = (t, s2)"
      by fastforce
    have P2: "P 1 s2"
      using "1.prems"(2) [OF P1 t] by simp
    consider "b \<noteq> Ret None" | "b = Ret None" "\<not> (\<exists>e. t = Ret (Some e))" | e where "b = Ret None" "t = Ret (Some e)"
      by blast
    then show ?thesis
    proof cases
      case 1
      then have "s' = s1"
        using "1.prems"(4) False b by (subst (asm) sendLoop.simps) (auto split: outcome.splits option.splits)
      then show ?thesis using P1 False by (auto intro: exI [of _ 0])
    next
      case 2
      then have "s' = s2"
        using "1.prems"(4) False b t by (subst (asm) sendLoop.simps) (auto split: outcome.splits option.splits)
      then show ?thesis using P2 False by (auto intro: exI [of _ 1])
    next
      case (3 e)
      then have rec: "sendLoop env email start (attempt + 1) (Some e) s2 = (r, s')"
        using "1.prems"(4) False b t by (subst (asm) sendLoop.simps) simp
      have "\<exists>n. P (Suc n) s' \<and> int n \<le> max 0 (maxAttempts env + 1 - (attempt + 1))"
      proof (rule "1.IH" [OF False b [symmetric] 3(1) refl t [symmetric] 3(2) refl, of "\<lambda>n. P (Suc n)"])
        show "P (Suc n) u'" if "P (Suc n) u" "beforeAttempt env start (attempt + 1 + int n) u = (r, u')" for n u r u'
          using "1.prems"(1) [of "Suc n" u r u'] that by (simp add: algebra_simps)
        show "P (Suc (Suc n)) u'" if "P (Suc n) u" "trySend env email u = (r, u')" for n u r u'
          using "1.prems"(2) that by blast
      qed (use P2 rec in simp_all)
      then obtain n where "P (Suc n) s'" "int n \<le> max 0 (maxAttempts env - attempt)"
        by auto
      then show ?thesis
        using False by (intro exI [of _ "Suc n"]) auto
    qed
  qed
qed

lemma sendWithRetry_discreet: "discreet (sendWithRetry env)"
  unfolding discreet_def sendWithRetry_def Let_def
proof (intro allI impI)
  fix email s r s'
  assume "sendLoop env email (startAttempt env (pp_msg s)) (startAttempt env (pp_msg s)) None s = (r, s')"
  then show "sameBooks s s' \<and> pp_msg s' = pp_msg s"
    using sendLoop_rule [of "\<lambda>n u. sameBooks s u \<and> pp_msg u = pp_msg s"]
    by (smt (verit, best) beforeAttempt_books trySend_books sameBooks_trans sameBooks_refl)
qed

definition modest :: "('a, 'n, 'w) Middleware \<Rightarrow> bool" where
  "modest mw \<longleftrightarrow> (\<forall>f. discreet f \<longrightarrow> discreet (mw f))"

lemma rt_RecoveryMiddleware_modest: "modest rt_RecoveryMiddleware"
  unfolding modest_def discreet_def rt_RecoveryMiddleware_def
  by (fastforce split: prod.splits outcome.splits)

text \<open>The other middlewares only add events before and after the next one.\<close>

lemma emit_Nil [simp]: "emit [] s = s"
  by (simp add: emit_def)

lemma observer_modest:
  fixes mw :: "('a, 'n, 'w) Middleware"
  assumes "\<And>f email s. \<exists>es g. mw f email s = (case f email (emit es s) of (r, s') \<Rightarrow> (r, emit (g r) s'))"
  shows "modest mw"
  unfolding modest_def
proof (intro allI impI)
  fix f :: "('a, 'n, 'w) ProcessFunc"
  assume f: "discreet f"
  show "discreet (mw f)"
    unfolding discreet_def
  proof (intro allI impI)
    fix email s r s'
    assume m: "mw f email s = (r, s')"
    obtain es g where o: "mw f email s = (case f email (emit es s) of (r, s') \<Rightarrow> (r, emit (g r) s'))"
      using assms by blast
    obtain r1 s1 where n: "f email (emit es s) = (r1, s1)"
      by fastforce
    show "sameBooks s s' \<and> pp_msg s' = pp_msg s"
      using discreetD [OF f n] m o n by auto
  qed
qed

lemma MetricsMiddleware_modest: "modest MetricsMiddleware"
proof (rule observer_modest)
  fix f :: "('a, 'n, 'w) ProcessFunc" and email s
  let ?a = "metricAccount email"
  show "\<exists>es g. MetricsMiddleware f email s = (case f email (emit es s) of (r, s') \<Rightarrow> (r, emit (g r) s'))"
    by (rule exI [of _ "[IncQueueReceived]"],
        rule exI [of _ "\<lambda>r. case r of Panic p \<Rightarrow> []
          | Ret (Some e) \<Rightarrow> [ObserveQueueProcessDuration, IncQueueProcessed ''failed'', IncEmailsSent ?a ''failed'']
          | Ret None \<Rightarrow> [ObserveQueueProcessDuration, IncQueueProcessed ''success'', IncEmailsSent ?a ''success'',
              ObserveEmailDuration ?a, AddEmailRecipients ?a ''to'' (length (em_To email)),
              AddEmailRecipients ?a ''cc'' (length (em_Cc email)), AddEmailRecipients ?a ''bcc'' (length (em_Bcc email))]"])
       (simp add: MetricsMiddleware_def split: prod.splits outcome.splits option.splits)
qed

lemma rt_TracingMiddleware_modest: "modest rt_TracingMiddleware"
proof (rule observer_modest)
  fix f :: "('a, 'n, 'w) ProcessFunc" and email s
  show "\<exists>es g. rt_TracingMiddleware f email s = (case f email (emit es s) of (r, s') \<Rightarrow> (r, emit (g r) s'))"
    by (rule exI [of _ "[SpanStart (m_ID (pp_msg s)) email]"],
        rule exI [of _ "\<lambda>r. case r of Ret (Some e) \<Rightarrow> [SpanError e, SpanEnd] | _ \<Rightarrow> [SpanEnd]"])
       (simp add: rt_TracingMiddleware_def split: prod.splits outcome.splits option.splits)
qed

lemma rt_LoggingMiddleware_modest: "modest rt_LoggingMiddleware"
proof (rule observer_modest)
  fix f :: "('a, 'n, 'w) ProcessFunc" and email s
  show "\<exists>es g. rt_LoggingMiddleware f email s = (case f email (emit es s) of (r, s') \<Rightarrow> (r, emit (g r) s'))"
    by (rule exI [of _ "[]"],
        rule exI [of _ "\<lambda>r. case r of Ret e \<Rightarrow> [LogDelivery (m_ID (pp_msg s)) email e] | Panic p \<Rightarrow> []"])
       (simp add: rt_LoggingMiddleware_def split: prod.splits outcome.splits)
qed

lemma buildChain_discreet: "list_all modest mws \<Longrightarrow> discreet f \<Longrightarrow> discreet (buildChain mws f)"
  by (induction mws) (auto simp: buildChain_def modest_def)

lemma defaultMiddlewares_modest: "list_all modest defaultMiddlewares"
  by (simp add: defaultMiddlewares_def rt_RecoveryMiddleware_modest MetricsMiddleware_modest
      rt_TracingMiddleware_modest rt_LoggingMiddleware_modest)

lemma pipeline_discreet: "list_all modest custom \<Longrightarrow> discreet (buildChain (defaultMiddlewares @ custom) (sendWithRetry env))"
  by (intro buildChain_discreet sendWithRetry_discreet) (simp add: defaultMiddlewares_modest)

lemma pipeline_returns: "\<exists>e. fst (buildChain (defaultMiddlewares @ custom) f email s) = Ret e"
  by (auto simp: buildChain_def defaultMiddlewares_def rt_RecoveryMiddleware_def split: prod.splits outcome.splits)

lemma ackMsg_books: "sameBooks s (ackMsg env t) = sameBooks s t"
  by (auto simp: ackMsg_def sameBooks_def split: prod.splits)

lemma finishDLQ_books: "sameBooks s (finishDLQ env email err t) = sameBooks s t"
  by (auto simp: finishDLQ_def ackMsg_books split: option.splits)

text \<open>One more dead letter, everything else as before.\<close>

lemma routeToDLQ_books:
  "routeToDLQ env email err s = (r, s') \<Longrightarrow>
   sameBooks (s\<lparr>pp_totalDeadLetter := pp_totalDeadLetter s + 1\<rparr>) s'"
  by (auto simp: routeToDLQ_def Let_def finishDLQ_books split: option.splits prod.splits)

lemma discard_books:
  "discard env email err s = (r, s') \<Longrightarrow> r = Ret (Some err) \<and>
   sameBooks (s\<lparr>pp_totalFailed := pp_totalFailed s + 1, pp_totalDeadLetter := pp_totalDeadLetter s + 1\<rparr>) s'"
  by (auto simp: discard_def countFail_def ackMsg_books dest!: routeToDLQ_books split: prod.splits option.splits)

section \<open>Properties\<close>

text \<open>The ways the engine ends with a non-empty message.\<close>

lemma handleMessage_cases:
  assumes "list_all modest custom" "handleMessage env (defaultMiddlewares @ custom) s = (r, s')"
  obtains "m_Payload (pp_msg s) = []" "r = Ret (Some ErrInvalidPayload)" "s' = ackMsg env (countFail s)"
  | email err where "discard env email err s = (r, s')" "m_Payload (pp_msg s) \<noteq> []"
      "\<not> (\<exists>e. pe_fromJSON env (m_Payload (pp_msg s)) = Inr e \<and> Email_Validate (pe_parse env) (Some e) = None)"
  | email err s1 d where "pe_fromJSON env (m_Payload (pp_msg s)) = Inr email"
      "buildChain (defaultMiddlewares @ custom) (sendWithRetry env) email s = (Ret (Some err), s1)"
      "routeToDLQ env (Some email) err (countFail s1) = (d, s')" "r = Ret (Some (case d of Some e \<Rightarrow> e | None \<Rightarrow> err))"
      "m_Payload (pp_msg s) \<noteq> []"
  | email s1 where "pe_fromJSON env (m_Payload (pp_msg s)) = Inr email"
      "buildChain (defaultMiddlewares @ custom) (sendWithRetry env) email s = (Ret None, s1)"
      "r = Ret None" "s' = s1\<lparr>pp_totalSuccess := pp_totalSuccess s1 + 1\<rparr>" "m_Payload (pp_msg s) \<noteq> []"
proof (cases "m_Payload (pp_msg s) = []")
  case True
  then show thesis using that(1) assms(2) by (simp add: handleMessage_def)
next
  case ne: False
  show thesis
  proof (cases "pe_fromJSON env (m_Payload (pp_msg s))")
    case (Inl err)
    then show thesis using that(2) assms(2) ne by (simp add: handleMessage_def)
  next
    case (Inr email)
    show thesis
    proof (cases "Email_Validate (pe_parse env) (Some email)")
      case (Some err)
      then show thesis using that(2) assms(2) ne Inr by (simp add: handleMessage_def)
    next
      case None
      obtain e s1 where ch: "buildChain (defaultMiddlewares @ custom) (sendWithRetry env) email s = (Ret e, s1)"
        using pipeline_returns [of custom "sendWithRetry env" email s]
        by (metis prod.collapse)
      show thesis
      proof (cases e)
        case e: None
        then show thesis using that(4) [OF Inr] assms(2) ne Inr None ch by (simp add: handleMessage_def)
      next
        case (Some err)
        then show thesis
          using that(3) [OF Inr, of err s1 "fst (routeToDLQ env (Some email) err (countFail s1))"] assms(2) ne Inr None ch
          by (auto simp: handleMessage_def split: prod.splits option.splits)
      qed
    qed
  qed
qed

lemma rt_processMessage_nil:
  "rt_processMessage env mws True s =
     (r, s') \<longleftrightarrow> r = Ret (Some ErrInvalidPayload) \<and>
       s' = s\<lparr>pp_totalReceived := pp_totalReceived s + 1, pp_totalFailed := pp_totalFailed s + 1\<rparr>"
  by (cases s) (auto simp: rt_processMessage_def Let_def countFail_def)

lemma rt_processMessage_handle:
  assumes "rt_processMessage env mws False s = (r, s')"
  shows "\<exists>s2. handleMessage env mws (s\<lparr>pp_inFlight := pp_inFlight s + 1, pp_totalReceived := pp_totalReceived s + 1\<rparr>) =
    (r, s2) \<and> s' = s2\<lparr>pp_inFlight := pp_inFlight s2 - 1\<rparr>"
proof -
  obtain r2 s2 where "handleMessage env mws (s\<lparr>pp_inFlight := pp_inFlight s + 1, pp_totalReceived := pp_totalReceived s + 1\<rparr>) =
      (r2, s2)"
    by fastforce
  then show ?thesis
    using assms by (simp add: rt_processMessage_def)
qed

text \<open>
  C14. The books of the engine. Whatever the sender, the dead letter queue and
  modest custom middlewares do, processing one message returns (a panic of a
  stage becomes an error), leaves the in-flight counter where it was, counts
  the message as received once and as either succeeded or failed once, and as
  a dead letter exactly when it failed with a payload.\<close>

theorem rt_processMessage_books:
  assumes "list_all modest custom" "rt_processMessage env (defaultMiddlewares @ custom) isNil s = (r, s')"
  shows "\<exists>e. r = Ret e \<and> pp_inFlight s' = pp_inFlight s \<and> pp_totalReceived s' = pp_totalReceived s + 1 \<and>
    pp_totalSuccess s' = pp_totalSuccess s + (if e = None then 1 else 0) \<and>
    pp_totalFailed s' = pp_totalFailed s + (if e = None then 0 else 1) \<and>
    pp_totalDeadLetter s' = pp_totalDeadLetter s +
      (if e \<noteq> None \<and> \<not> isNil \<and> m_Payload (pp_msg s) \<noteq> [] then 1 else 0)"
proof (cases isNil)
  case True
  then show ?thesis
    using assms(2) by (simp add: rt_processMessage_nil)
next
  case False
  let ?s = "s\<lparr>pp_inFlight := pp_inFlight s + 1, pp_totalReceived := pp_totalReceived s + 1\<rparr>"
  obtain s2 where h: "handleMessage env (defaultMiddlewares @ custom) ?s = (r, s2)"
    and s': "s' = s2\<lparr>pp_inFlight := pp_inFlight s2 - 1\<rparr>"
    using rt_processMessage_handle [of env "defaultMiddlewares @ custom" s r s'] assms(2) False by auto
  show ?thesis
    using assms(1) h
  proof (cases rule: handleMessage_cases)
    case 1
    then have "sameBooks (countFail ?s) s2"
      by (simp add: ackMsg_books)
    then show ?thesis
      using 1(1,2) by (simp add: sameBooks_def countFail_def s')
  next
    case (2 email err)
    then show ?thesis
      using discard_books [OF 2(1)] 2(2) False by (simp add: sameBooks_def s')
  next
    case (3 email err s1 d)
    show ?thesis
      using discreetD [OF pipeline_discreet [OF assms(1)] 3(2)] routeToDLQ_books [OF 3(3)] 3(5) False
      unfolding 3(4) by (simp add: sameBooks_def countFail_def s')
  next
    case (4 email s1)
    show ?thesis
      using discreetD [OF pipeline_discreet [OF assms(1)] 4(2)] unfolding 4(3) by (simp add: sameBooks_def s' 4(4))
  qed
qed

text \<open>
  C8. No silent loss in the engine. A deliverable message that was not
  acknowledged before is acknowledged by the engine only when sending failed
  and the dead letter queue, if there is one, has accepted a message with its
  identifier, its payload and the error; when that publish fails, or when the
  email was sent, the engine leaves the acknowledgement to the driver.\<close>

theorem engine_acks_after_DLQ:
  assumes "list_all modest custom" "rt_processMessage env (defaultMiddlewares @ custom) False s = (r, s')"
    and "m_Payload (pp_msg s) \<noteq> []" "pe_fromJSON env (m_Payload (pp_msg s)) = Inr email"
    and "Email_Validate (pe_parse env) (Some email) = None"
    and "\<not> IsAcknowledged (pp_msg s)" "IsAcknowledged (pp_msg s')"
  shows "\<exists>err. r = Ret (Some err) \<and>
    (pe_dlq env = None \<or>
     (\<exists>publish w w'. pe_dlq env = Some publish \<and> publish (dlqMessage env (pp_msg s) err) w = (None, w') \<and>
        m_ID (dlqMessage env (pp_msg s) err) = m_ID (pp_msg s) \<and>
        m_Payload (dlqMessage env (pp_msg s) err) = m_Payload (pp_msg s) \<and>
        GetHeader (dlqMessage env (pp_msg s) err) ''X-DLQ-Error'' = Error err))"
proof -
  let ?s = "s\<lparr>pp_inFlight := pp_inFlight s + 1, pp_totalReceived := pp_totalReceived s + 1\<rparr>"
  obtain s2 where h: "handleMessage env (defaultMiddlewares @ custom) ?s = (r, s2)" and s': "pp_msg s' = pp_msg s2"
    using rt_processMessage_handle [OF assms(2)] by force
  show ?thesis
    using assms(1) h
  proof (cases rule: handleMessage_cases)
    case (3 email' err s1 d)
    have same: "pp_msg s1 = pp_msg s"
      using discreetD [OF pipeline_discreet [OF assms(1)] 3(2)] by simp
    have dlq: "d = None \<and> (pe_dlq env = None \<or>
        (\<exists>publish w w'. pe_dlq env = Some publish \<and> publish (dlqMessage env (pp_msg s) err) w = (None, w')))"
    proof (cases "pe_dlq env")
      case None
      then show ?thesis
        using 3(3) by (simp add: routeToDLQ_def Let_def)
    next
      case (Some publish)
      obtain e w where p: "publish (dlqMessage env (pp_msg s) err) (pp_world s1) = (e, w)"
        by fastforce
      have "e = None"
      proof (rule ccontr)
        assume "e \<noteq> None"
        then have "pp_msg s2 = pp_msg s"
          using 3(3) Some p same by (auto simp: routeToDLQ_def Let_def countFail_def emit_def)
        then show False
          using assms(6,7) s' by simp
      qed
      then show ?thesis
        using 3(3) Some p same by (auto simp: routeToDLQ_def Let_def countFail_def emit_def)
    qed
    then have "r = Ret (Some err)"
      using 3(4) by simp
    then show ?thesis
      using dlq by (auto simp: dlqMessage_def GetHeader_def)
  next
    case (4 email' s1)
    then have "pp_msg s2 = pp_msg s"
      using discreetD [OF pipeline_discreet [OF assms(1)] 4(2)] by simp
    then show ?thesis
      using assms(6,7) s' by simp
  qed (use assms(3-5) in auto)
qed

lemma startAttempt_range: "1 \<le> startAttempt env msg" "startAttempt env msg \<le> maxAttempts env"
  by (simp_all add: startAttempt_def maxAttempts_def Let_def)

lemma retryBackoff_range: "0 < retryBackoff i st a" "retryBackoff i st a \<le> maxBackoff"
  by (simp_all add: retryBackoff_def Let_def)

text \<open>
  The delay before a retry. It doubles from the configured interval as
  long as the result is at most five minutes, is never more than that, and is
  slept with a jitter of a quarter either way; only a back-off of one
  nanosecond has no room for a jitter, and there the draw panics.\<close>

theorem retry_delay:
  assumes "\<And>n. 0 < n \<Longrightarrow> 0 \<le> Int63n n \<and> Int63n n < n"
    and "0 < interval" "start < attempt" "b = retryBackoff interval start attempt"
  shows "0 < b \<and> b \<le> maxBackoff \<and>
    (interval * 2 ^ nat (attempt - start - 1) \<le> maxBackoff \<longrightarrow> b = interval * 2 ^ nat (attempt - start - 1)) \<and>
    (case retrySleep Int63n b of
       Panic _ \<Rightarrow> b = 1
     | Ret d \<Rightarrow> 3 * b \<le> 4 * d \<and> 4 * d < 5 * b)"
proof -
  have "b = interval * 2 ^ nat (attempt - start - 1)" if "interval * 2 ^ nat (attempt - start - 1) \<le> maxBackoff"
  proof -
    define x where "x = interval * 2 ^ nat (attempt - start - 1)"
    have "0 < x"
      using assms(2) by (simp add: x_def)
    moreover have "x \<le> maxBackoff"
      using that by (simp only: x_def)
    ultimately have "wrap64 x = x"
      by (intro wrap64_id) simp_all
    then show ?thesis
      using \<open>0 < x\<close> \<open>x \<le> maxBackoff\<close> unfolding assms(4) retryBackoff_def Let_def x_def [symmetric] by simp
  qed  moreover have "0 < b" "b \<le> maxBackoff"
    unfolding assms(4) by (rule retryBackoff_range)+
  moreover have "case retrySleep Int63n b of Panic _ \<Rightarrow> b = 1 | Ret d \<Rightarrow> 3 * b \<le> 4 * d \<and> 4 * d < 5 * b"
  proof (cases "b div 2 \<le> 0")
    case True
    then show ?thesis
      using \<open>0 < b\<close> by (simp add: retrySleep_def)
  next
    case False
    then have j: "0 \<le> Int63n (b div 2)" "Int63n (b div 2) < b div 2"
      using assms(1) [of "b div 2"] by simp_all
    have q: "4 * (b div 4) \<le> b" "b < 4 * (b div 4) + 4" "2 * (b div 2) \<le> b"
      by simp_all
    have "3 * b \<le> 4 * (b - x + j)" if "0 \<le> j" "4 * x \<le> b" for x j
      using that by (simp add: algebra_simps)
    moreover have "4 * (b - x + j) < 5 * b" if "j < y" "b < 4 * x + 4" "2 * y \<le> b" for x y j
      using that by (simp add: algebra_simps)
    ultimately have "3 * b \<le> 4 * (b - b div 4 + Int63n (b div 2))" "4 * (b - b div 4 + Int63n (b div 2)) < 5 * b"
      using j q by blast+
    then show ?thesis
      using False unfolding retrySleep_def by (simp only: if_False outcome.case simp_thms)
  qed
  ultimately show ?thesis
    by blast
qed

lemma wrap64_even: "even x \<Longrightarrow> even (wrap64 x)"
  unfolding wrap64_def by transfer (simp add: even_signed_take_bit_iff)

lemma retryBackoff_not_1:
  assumes "1 < interval" "interval < 2 ^ 63" "start < attempt"
  shows "retryBackoff interval start attempt \<noteq> 1"
proof (cases "nat (attempt - start - 1) = 0")
  case True
  then show ?thesis
    using assms(1,2) wrap64_id [of interval] by (simp add: retryBackoff_def)
next
  case False
  then have "even (wrap64 (interval * 2 ^ nat (attempt - start - 1)))"
    by (intro wrap64_even) simp
  then have "wrap64 (interval * 2 ^ nat (attempt - start - 1)) \<noteq> 1"
    by auto
  then show ?thesis
    by (simp add: retryBackoff_def Let_def)
qed

text \<open>An environment in which nothing interrupts the attempts; \<open>sends\<close> counts calls of \<open>Send\<close>.\<close>

definition calm :: "('w \<Rightarrow> nat) \<Rightarrow> ('a, 'n, 'w) pipeEnv \<Rightarrow> bool" where
  "calm sends env \<longleftrightarrow>
     (\<forall>w. pe_ctxErr env w = None) \<and>
     (\<forall>d w. fst (pe_sleep env d w) = None \<and> sends (snd (pe_sleep env d w)) = sends w) \<and>
     (\<forall>e w. (\<exists>r. fst (pe_send env e w) = Ret r) \<and> sends (snd (pe_send env e w)) = Suc (sends w)) \<and>
     pe_retryInterval env \<noteq> 1 \<and> pe_retryInterval env < 2 ^ 63"

lemma beforeAttempt_calm:
  assumes "calm sends env" "beforeAttempt env start a s = (r, s1)"
  shows "r = Ret None \<and> sends (pp_world s1) = sends (pp_world s) \<and> pp_totalRetried s1 = pp_totalRetried s"
proof (cases "start < a")
  case True
  let ?i = "defPos defaultRetryInterval (pe_retryInterval env)"
  have "1 < ?i" "?i < 2 ^ 63"
    using assms(1) by (simp_all add: calm_def defPos_def)
  then have "\<not> retryBackoff ?i start a div 2 \<le> 0"
    using retryBackoff_not_1 [OF _ _ True] retryBackoff_range(1) [of ?i start a] by fastforce
  then obtain d where d: "retrySleep (pe_rand env) (retryBackoff ?i start a) = Ret d"
    by (simp add: retrySleep_def)
  obtain q w where w: "pe_sleep env d (pp_world s) = (q, w)"
    by fastforce
  then have "q = None" "sends w = sends (pp_world s)" "pe_ctxErr env (pp_world s) = None"
    using assms(1) unfolding calm_def by (metis fst_conv, metis snd_conv, blast)
  then show ?thesis
    using assms(2) True d w unfolding beforeAttempt_def by auto
next
  case False
  moreover have "pe_ctxErr env (pp_world s) = None"
    using assms(1) by (simp add: calm_def)
  ultimately show ?thesis
    using assms(2) by (simp add: beforeAttempt_def)
qed

lemma trySend_calm:
  assumes "calm sends env" "trySend env email s = (r, s1)"
  shows "\<exists>e. r = Ret e \<and> sends (pp_world s1) = Suc (sends (pp_world s)) \<and>
    pp_totalRetried s1 = pp_totalRetried s + (if e = None then 0 else 1)"
proof -
  obtain q w where w: "pe_send env email (pp_world s) = (q, w)"
    by fastforce
  have "(\<exists>r. fst (pe_send env email (pp_world s)) = Ret r) \<and>
      sends (snd (pe_send env email (pp_world s))) = Suc (sends (pp_world s))"
    using assms(1) unfolding calm_def by blast
  then obtain e where e: "q = Ret e" "sends w = Suc (sends (pp_world s))"
    unfolding w by auto
  then show ?thesis
  proof (cases e)
    case None
    then show ?thesis
      using assms(2) w e by (auto simp: trySend_def)
  next
    case (Some x)
    then have "r = Ret (Some x)" "s1 = emit [IncQueueRetried] (s\<lparr>pp_world := w, pp_totalRetried := pp_totalRetried s + 1\<rparr>)"
      using assms(2) w e by (simp_all add: trySend_def)
    then show ?thesis
      using e by (simp add: emit_def)
  qed
qed

lemma sendLoop_calm:
  assumes "calm sends env" "a \<le> maxAttempts env" "sendLoop env email start a lastErr s = (r, s')"
  shows "\<exists>n e. r = Ret e \<and> 0 < n \<and> int n \<le> maxAttempts env + 1 - a \<and> sends (pp_world s') = sends (pp_world s) + n \<and>
    (if e = None then pp_totalRetried s' = pp_totalRetried s + int n - 1
     else int n = maxAttempts env + 1 - a \<and> pp_totalRetried s' = pp_totalRetried s + int n)"
  using assms
proof (induction env email start a lastErr s rule: sendLoop.induct)
  case (1 env email start a lastErr s)
  obtain b s1 where b: "beforeAttempt env start a s = (b, s1)"
    by fastforce
  note bc = beforeAttempt_calm [OF "1.prems"(1) b]
  obtain t s2 where t: "trySend env email s1 = (t, s2)"
    by fastforce
  obtain e where te: "t = Ret e" and tc: "sends (pp_world s2) = Suc (sends (pp_world s))"
    "pp_totalRetried s2 = pp_totalRetried s + (if e = None then 0 else 1)"
    using trySend_calm [OF "1.prems"(1) t] bc by auto
  have nmax: "\<not> maxAttempts env < a"
    using "1.prems"(2) by simp
  show ?case
  proof (cases e)
    case None
    then have "r = Ret None" "s' = s2"
      using "1.prems"(3) nmax b bc t te by (subst (asm) sendLoop.simps, simp)+
    then show ?thesis
      using tc None "1.prems"(2) by (intro exI [of _ 1] exI [of _ None]) simp
  next
    case (Some x)
    then have rec: "sendLoop env email start (a + 1) (Some x) s2 = (r, s')"
      using "1.prems"(3) nmax b bc t te by (subst (asm) sendLoop.simps) simp
    show ?thesis
    proof (cases "a + 1 \<le> maxAttempts env")
      case True
      have bn: "b = Ret None"
        using bc by simp
      obtain n e' where "r = Ret e'" "0 < n" "int n \<le> maxAttempts env + 1 - (a + 1)"
        "sends (pp_world s') = sends (pp_world s2) + n"
        "if e' = None then pp_totalRetried s' = pp_totalRetried s2 + int n - 1
         else int n = maxAttempts env + 1 - (a + 1) \<and> pp_totalRetried s' = pp_totalRetried s2 + int n"
        using "1.IH" [OF nmax b [symmetric] bn refl t [symmetric] te [unfolded Some] refl "1.prems"(1) True rec] by blast
      then show ?thesis
        using tc Some by (intro exI [of _ "Suc n"] exI [of _ e']) (auto split: if_splits)
    next
      case False
      then have "r = Ret (Some x)" "s' = s2"
        using rec by (subst (asm) sendLoop.simps, simp)+
      then show ?thesis
        using tc Some False "1.prems"(2) by (intro exI [of _ 1] exI [of _ "Some x"]) simp
    qed
  qed
qed


section \<open>The engine as the handler of the in-memory queue\<close>

definition newPipe :: "('a, 'n) message \<Rightarrow> 'w \<Rightarrow> ('a, 'n, 'w) pipe" where
  "newPipe m w = \<lparr>pp_msg = m, pp_inFlight = 0, pp_totalReceived = 0, pp_totalSuccess = 0, pp_totalFailed = 0,
     pp_totalRetried = 0, pp_totalDeadLetter = 0, pp_metrics = [], pp_world = w\<rparr>"

text \<open>The message and the queue of the driver are the message and the world of the pipeline.\<close>

definition engineHandler ::
    "(unit, memNack, memQueue) pipeEnv \<Rightarrow> (unit, memNack, memQueue) Middleware list \<Rightarrow> (memMsg \<times> memQueue) handler" where
  "engineHandler env mws mq =
     (case rt_processMessage env mws False (newPipe (fst mq) (snd mq)) of
        (r, s') \<Rightarrow> (r, (pp_msg s', pp_world s')))"

lemma sendLoop_fails:
  assumes "\<And>e w. fst (pe_send env e w) \<noteq> Ret None" "lastErr \<noteq> None \<or> a \<le> maxAttempts env"
  shows "fst (sendLoop env email start a lastErr s) \<noteq> Ret None"
  using assms
proof (induction env email start a lastErr s rule: sendLoop.induct)
  case (1 env email start a lastErr s)
  have t: "fst (trySend env email u) \<noteq> Ret None" for u
    using "1.prems"(1) [of email "pp_world u"] by (auto simp: trySend_def split: prod.splits outcome.splits option.splits)
  obtain b s1 where b: "beforeAttempt env start a s = (b, s1)"
    by fastforce
  obtain q s2 where q: "trySend env email s1 = (q, s2)"
    by fastforce
  consider "a > maxAttempts env" | "a \<le> maxAttempts env" "b \<noteq> Ret None"
    | "a \<le> maxAttempts env" "b = Ret None" "\<not> (\<exists>e. q = Ret (Some e))"
    | e where "a \<le> maxAttempts env" "b = Ret None" "q = Ret (Some e)"
    by fastforce
  then show ?case
  proof cases
    case 1
    then show ?thesis using "1.prems"(2) by (subst sendLoop.simps) simp
  next
    case 2
    then show ?thesis using b by (subst sendLoop.simps) (auto split: outcome.splits option.splits)
  next
    case 3
    then show ?thesis
      using b q t [of s1] by (subst sendLoop.simps) (auto split: outcome.splits option.splits)
  next
    case (4 e)
    have "fst (sendLoop env email start (a + 1) (Some e) s2) \<noteq> Ret None"
      using "1.IH" [OF _ b [symmetric] 4(2) refl q [symmetric] 4(3) refl "1.prems"(1)] 4(1) by simp
    then show ?thesis
      using 4 b q by (subst sendLoop.simps) simp
  qed
qed

text \<open>An environment that never touches the world.\<close>

definition inert :: "('a, 'n, 'w) pipeEnv \<Rightarrow> bool" where
  "inert env \<longleftrightarrow> (\<forall>e w. snd (pe_send env e w) = w) \<and> (\<forall>d w. snd (pe_sleep env d w) = w)"

lemma sendWithRetry_inert:
  assumes "inert env" "sendWithRetry env email s = (r, s')"
  shows "pp_world s' = pp_world s"
proof -
  have "pp_world u' = pp_world u" if "beforeAttempt env st a u = (q, u')" for st a u q u'
    using that assms(1) unfolding inert_def beforeAttempt_def
    by (auto split: option.splits if_splits outcome.splits prod.splits) (metis snd_conv)
  moreover have "pp_world u' = pp_world u" if "trySend env email u = (q, u')" for u q u'
    using that assms(1) unfolding inert_def trySend_def
    by (auto simp: emit_def split: option.splits outcome.splits prod.splits) (metis snd_conv)+
  ultimately show ?thesis
    using sendLoop_rule [of "\<lambda>n u. pp_world u = pp_world s" env, OF _ _ _ assms(2) [unfolded sendWithRetry_def Let_def]]
    by (smt (verit, best))
qed

lemma default_chain_fails:
  assumes "inert env" "\<And>e w. fst (pe_send env e w) \<noteq> Ret None"
    and "buildChain defaultMiddlewares (sendWithRetry env) email s = (r, s')"
  shows "\<exists>e. r = Ret (Some e) \<and> pp_world s' = pp_world s"
proof -
  let ?s = "emit [IncQueueReceived] (emit [SpanStart (m_ID (pp_msg s)) email] s)"
  obtain q u where snd: "sendWithRetry env email ?s = (q, u)"
    by fastforce
  have "q \<noteq> Ret None"
    using sendLoop_fails [where env = env and a = "startAttempt env (pp_msg s)" and start = "startAttempt env (pp_msg s)"
        and lastErr = None and s = "?s" and email = email, OF assms(2)]
      startAttempt_range(2) [of env "pp_msg s"] snd
    by (simp add: sendWithRetry_def Let_def)
  moreover have "pp_world u = pp_world s"
    using sendWithRetry_inert [OF assms(1) snd] by simp
  ultimately show ?thesis
    using assms(3) snd
    by (auto simp: buildChain_def defaultMiddlewares_def rt_RecoveryMiddleware_def MetricsMiddleware_def
        rt_TracingMiddleware_def rt_LoggingMiddleware_def
        split: outcome.splits option.splits)
qed

text \<open>What the engine does when neither the sender nor the dead letter queue takes the message: nothing to it.\<close>

lemma failed_DLQ_leaves_message:
  assumes "inert env" "\<And>e w. fst (pe_send env e w) \<noteq> Ret None"
    and "pe_dlq env = Some publish" "\<And>d w. \<exists>x. publish d w = (Some x, w)"
    and "m_Payload m \<noteq> []" "pe_fromJSON env (m_Payload m) = Inr email" "Email_Validate (pe_parse env) (Some email) = None"
  shows "\<exists>r s'. rt_processMessage env defaultMiddlewares False (newPipe m w) = (Ret (Some r), s') \<and>
    pp_msg s' = m \<and> pp_world s' = w"
proof -
  define s where "s = (newPipe m w)\<lparr>pp_inFlight := 1, pp_totalReceived := 1\<rparr>"
  have s: "pp_msg s = m" "pp_world s = w"
    by (simp_all add: s_def newPipe_def)
  obtain e s1 where ch: "buildChain defaultMiddlewares (sendWithRetry env) email s = (Ret (Some e), s1)"
    and w: "pp_world s1 = w"
    using default_chain_fails [OF assms(1,2)] s(2) by (metis surj_pair)
  have "pp_msg s1 = m"
    using discreetD [OF pipeline_discreet [of "[]" env], simplified, OF ch] s(1) by simp
  obtain x where x: "publish (dlqMessage env m e) w = (Some x, w)"
    using assms(4) by blast
  have "\<exists>r s2. handleMessage env defaultMiddlewares s = (Ret (Some r), s2) \<and> pp_msg s2 = m \<and> pp_world s2 = w"
    using ch w \<open>pp_msg s1 = m\<close> x assms(3,5-7) s(1)
    by (simp add: handleMessage_def routeToDLQ_def Let_def countFail_def emit_def)
  then show ?thesis
    unfolding s_def by (fastforce simp: rt_processMessage_def newPipe_def Let_def)
qed

lemma rt_processMessage_returns:
  assumes "list_all modest custom"
  shows "\<exists>e s'. rt_processMessage env (defaultMiddlewares @ custom) False s = (Ret e, s')"
proof -
  obtain r s' where p: "rt_processMessage env (defaultMiddlewares @ custom) False s = (r, s')"
    by fastforce
  then obtain s2 where h: "handleMessage env (defaultMiddlewares @ custom)
      (s\<lparr>pp_inFlight := pp_inFlight s + 1, pp_totalReceived := pp_totalReceived s + 1\<rparr>) = (r, s2)"
    using rt_processMessage_handle by blast
  show ?thesis
    using assms h
  proof (cases rule: handleMessage_cases)
    case (2 email err)
    then show ?thesis
      using p discard_books by blast
  qed (use p in auto)
qed

text \<open>
  A dead letter queue that fails loses messages on the in-memory driver.
  When sending keeps failing and the publish to the dead letter queue fails,
  the engine returns an error without acknowledging, as its comment asks for,
  but the worker of the driver acknowledges on any handler error: the message
  ends up acknowledged, and neither the queue nor the dead letter queue has it.\<close>

theorem failed_DLQ_loses_message:
  assumes "inert env" "\<And>e w. fst (pe_send env e w) \<noteq> Ret None"
    and "pe_dlq env = Some publish" "\<And>d w. \<exists>x. publish d w = (Some x, w)"
    and "m_Payload m \<noteq> []" "pe_fromJSON env (m_Payload m) = Inr email" "Email_Validate (pe_parse env) (Some email) = None"
    and "\<not> IsAcknowledged m" "\<not> co_AutoAck co"
  shows "\<exists>m' q'. processMessage (engineHandler env defaultMiddlewares) co (m, q) = (Ret (), m', q') \<and>
    IsAcknowledged m' \<and> mq_ch q' = mq_ch q"
proof -
  obtain m1 q1 where pb: "processBegin co (m, q) = (m1, q1)"
    by fastforce
  have m1: "m_Payload m1 = m_Payload m" "\<not> IsAcknowledged m1" "m_ackFn m1 = Some ()" "mq_ch q1 = mq_ch q"
    using pb assms(8,9) by (auto simp: processBegin_def message_defs Let_def)
  obtain r s' where "rt_processMessage env defaultMiddlewares False (newPipe m1 q1) = (Ret (Some r), s')"
    "pp_msg s' = m1" "pp_world s' = q1"
    using failed_DLQ_leaves_message [OF assms(1-4), of m1 email q1] assms(5-7) m1(1) by metis
  then have "engineHandler env defaultMiddlewares (m1, q1) = (Ret (Some r), m1, q1)"
    by (simp add: engineHandler_def)
  then show ?thesis
    using m1 by (simp add: processMessage_def pb processEnd_def Ack_def ackBegin_def settleEnd_def ackRun_def
        message_defs Let_def)
qed

section \<open>Witnesses\<close>

text \<open>A sender that always fails, with a dead letter queue that takes or refuses everything.\<close>

definition failingEnv :: "error option \<Rightarrow> ('w \<Rightarrow> 'w) \<Rightarrow> (unit, memNack, 'w) pipeEnv" where
  "failingEnv dlqErr count =
     \<lparr>pe_fromJSON = (\<lambda>_. Inr sampleEmail), pe_parse = Inr, pe_ack = ackRun,
      pe_send = (\<lambda>_ w. (Ret (Some (Err ''550'')), count w)), pe_ctxErr = (\<lambda>_. None),
      pe_sleep = (\<lambda>_ w. (None, w)), pe_rand = (\<lambda>_. 0), pe_dlq = Some (\<lambda>_ w. (dlqErr, w)), pe_dlqTopic = ''dlq'',
      pe_errorHandler = None, pe_maxRetries = 3, pe_retryInterval = Second\<rparr>"

definition demoMsg :: memMsg where
  "demoMsg = SetAckFunc (NewMessageWithID ''u'' 0 ''id'' ''{}'') ()"

lemma sampleEmail_valid: "Email_Validate Inr (Some sampleEmail) = None"
  by code_simp

theorem rt_processMessage_books_witness:
  "\<exists>e. fst (rt_processMessage (failingEnv None Suc) defaultMiddlewares True (newPipe demoMsg 0)) = Ret e \<and>
     pp_totalReceived (snd (rt_processMessage (failingEnv None Suc) defaultMiddlewares True (newPipe demoMsg 0))) = 1"
proof -
  obtain r s' where p: "rt_processMessage (failingEnv None Suc) (defaultMiddlewares @ []) True (newPipe demoMsg 0) = (r, s')"
    by fastforce
  have "pp_totalReceived (newPipe demoMsg (0::nat)) = 0"
    by (simp add: newPipe_def)
  then show ?thesis
    using rt_processMessage_books [OF _ p] p by auto
qed

theorem retry_delay_witness: "(case retrySleep (\<lambda>n. n - 1) (retryBackoff Second 1 3) of Panic _ \<Rightarrow> False | Ret d \<Rightarrow> d \<le> 5 * Second)"
proof -
  let ?b = "retryBackoff Second 1 3"
  have "?b = 2 * Second \<and> (case retrySleep (\<lambda>n. n - 1) ?b of Panic _ \<Rightarrow> ?b = 1
      | Ret d \<Rightarrow> 3 * ?b \<le> 4 * d \<and> 4 * d < 5 * ?b)"
    using retry_delay [of "\<lambda>n. n - 1" Second 1 3 ?b] by auto
  then show ?thesis
    by (auto split: outcome.splits)
qed

lemma failingEnv_calm: "calm (\<lambda>n. n) (failingEnv None Suc)"
  by (simp add: calm_def failingEnv_def)


theorem engine_acks_after_DLQ_witness:
  "\<exists>err s'. rt_processMessage (failingEnv None Suc) defaultMiddlewares False (newPipe demoMsg 0) = (Ret (Some err), s')"
proof -
  let ?e = "failingEnv None Suc :: (unit, memNack, nat) pipeEnv"
  obtain r s' where p: "rt_processMessage ?e (defaultMiddlewares @ []) False (newPipe demoMsg 0) = (r, s')"
    by fastforce
  have "IsAcknowledged (pp_msg (snd (rt_processMessage ?e (defaultMiddlewares @ []) False (newPipe demoMsg 0))))"
    by code_simp
  then have "IsAcknowledged (pp_msg s')"
    unfolding p by simp
  moreover have "m_Payload (pp_msg (newPipe demoMsg (0::nat))) \<noteq> []" "\<not> IsAcknowledged (pp_msg (newPipe demoMsg (0::nat)))"
    by (simp_all add: newPipe_def demoMsg_def message_defs)
  moreover have "pe_fromJSON ?e (m_Payload (pp_msg (newPipe demoMsg (0::nat)))) = Inr sampleEmail"
    "Email_Validate (pe_parse ?e) (Some sampleEmail) = None"
    by (simp_all add: failingEnv_def sampleEmail_valid)
  ultimately show ?thesis
    using engine_acks_after_DLQ [OF _ p] p by auto
qed

theorem failed_DLQ_loses_message_witness:
  "\<exists>m' q'. processMessage (engineHandler (failingEnv (Some ErrTimeout) (\<lambda>q. q)) defaultMiddlewares)
     (zeroConsumeOptions :: unit ConsumeOptions) (demoMsg, NewMemoryQueue [] 2 None) = (Ret (), m', q') \<and>
     IsAcknowledged m' \<and> ch_buf (mq_ch q') = []"
proof -
  let ?e = "failingEnv (Some ErrTimeout) (\<lambda>q. q) :: (unit, memNack, memQueue) pipeEnv"
  have "inert ?e" "\<And>e w. fst (pe_send ?e e w) \<noteq> Ret None" "pe_dlq ?e = Some (\<lambda>_ w. (Some ErrTimeout, w))"
    "m_Payload demoMsg \<noteq> []" "pe_fromJSON ?e (m_Payload demoMsg) = Inr sampleEmail"
    "Email_Validate (pe_parse ?e) (Some sampleEmail) = None" "\<not> IsAcknowledged demoMsg"
    "\<not> co_AutoAck (zeroConsumeOptions :: unit ConsumeOptions)"
    by (simp_all add: failingEnv_def inert_def demoMsg_def message_defs zeroConsumeOptions_def sampleEmail_valid)
  moreover have "ch_buf (mq_ch (NewMemoryQueue [] 2 None)) = []"
    by (simp add: NewMemoryQueue_def)
  ultimately show ?thesis
    using failed_DLQ_loses_message [of ?e "\<lambda>_ w. (Some ErrTimeout, w)" demoMsg sampleEmail
        "zeroConsumeOptions :: unit ConsumeOptions" "NewMemoryQueue [] 2 None"] by (simp, metis)
qed

end
