(* ===== verification/Drivers.thy ===== *)
theory Drivers
  imports KafkaDriver RedisDriver RabbitDriver SqsDriver NatsDriver PulsarDriver RocketDriver Pipeline
begin

text \<open>
  The properties that the broker drivers share, and the engine on top of
  them: the workers of every driver, what a published message looks like to a
  consumer, batches, closing, and the engine's \<open>processMessage\<close> as the
  handler of a driver.
\<close>

section \<open>The engine as the handler of a broker driver\<close>

text \<open>The counters of the driver are none of the engine's business; its world is the broker's.\<close>

definition brokerHandler ::
    "('a, 'n, 'w) pipeEnv \<Rightarrow> ('a, 'n, 'w) Middleware list \<Rightarrow> ('a, 'n, 'w) delivery handler" where
  "brokerHandler env mws s =
     (case s of (m, b, w) \<Rightarrow>
        (case rt_processMessage env mws False (newPipe m w) of (r, s') \<Rightarrow> (r, (pp_msg s', b, pp_world s'))))"

lemma brokerHandler_returning: "list_all modest custom \<Longrightarrow> returning (brokerHandler env (defaultMiddlewares @ custom))"
proof -
  assume "list_all modest custom"
  then have "\<exists>e s'. rt_processMessage env (defaultMiddlewares @ custom) False s = (Ret e, s')" for s
    by (rule rt_processMessage_returns)
  then show ?thesis
    unfolding returning_def brokerHandler_def by (metis (no_types, lifting) case_prod_conv)
qed

lemma rabbit_worker_ends:
  "returning h \<Longrightarrow> \<exists>w'. rabbit_worker cl q co h (map Some ds @ [None]) (b, w) = (LoopReturned, b, w')"
proof (induction ds arbitrary: w)
  case (Cons d ds)
  then show ?case
    using rabbit_drv.process_returns [OF Cons.prems, of cl q co d b w] by fastforce
qed simp

lemma nats_worker_ends:
  "returning h \<Longrightarrow> \<exists>w'. nats_worker cl now co h (map Some ns @ [None]) (b, w) = (LoopReturned, b, w')"
proof (induction ns arbitrary: w)
  case (Cons n ns)
  then show ?case
    using nats_drv.process_returns [OF Cons.prems, of cl now co n b w] by fastforce
qed simp

lemma failed_DLQ_settles:
  assumes "broker_process beg fin ack process"
    and "inert env" "\<And>e w. fst (pe_send env e w) \<noteq> Ret None"
    and "pe_dlq env = Some publish" "\<And>d w. \<exists>x. publish d w = (Some x, w)"
    and "beg d (b, w) = (m, b1, w)" "\<not> IsAcknowledged m"
    and "m_Payload m \<noteq> []" "pe_fromJSON env (m_Payload m) = Inr email" "Email_Validate (pe_parse env) (Some email) = None"
  shows "(\<exists>r. brokerHandler env defaultMiddlewares (m, b1, w) = (Ret (Some r), m, b1, w)) \<and>
    (\<exists>b'. process (brokerHandler env defaultMiddlewares) d (b, w) = (Ret (), b', snd (ack d w)))"
proof -
  obtain r s' where p: "rt_processMessage env defaultMiddlewares False (newPipe m w) = (Ret (Some r), s')"
    "pp_msg s' = m" "pp_world s' = w"
    using failed_DLQ_leaves_message [OF assms(2-5,8-10)] by blast
  then have h: "brokerHandler env defaultMiddlewares (m, b1, w) = (Ret (Some r), m, b1, w)"
    by (simp add: brokerHandler_def)
  have fn: "m_ackFn m = Some d"
    by (rule broker_worker.beg_ackFn [OF broker_process.axioms(1) [OF assms(1)] assms(6)])
  have "brokerHandler env defaultMiddlewares (beg d (b, w)) = (Ret (Some r), m, b1, w)"
    by (simp only: assms(6) h)
  then show ?thesis
    using h broker_process.error_acknowledges [OF assms(1) _ fn assms(7)] by blast
qed

lemmas hand_out_defs = drvOpen_def check_def

lemma kafka_closed:
  "case kafka_Close cl (q0, w) of (_, q, _) \<Rightarrow>
     kafka_Close cl (q, v) = (None, q, v) \<and> kafka_Producer q = Some ErrQueueClosed \<and> kafka_Consumer q = Some ErrQueueClosed"
  by (cases "kafka_Close cl (q0, w)") (simp add: kafka_life.close_twice kafka_Producer_def kafka_Consumer_def hand_out_defs)

lemma redis_closed:
  "case redis_Close cl (q0, w) of (_, q, _) \<Rightarrow>
     redis_Close cl (q, v) = (None, q, v) \<and> redis_Producer q = Some ErrQueueClosed \<and> redis_Consumer q = Some ErrQueueClosed"
  by (cases "redis_Close cl (q0, w)") (simp add: redis_life.close_twice redis_Producer_def redis_Consumer_def hand_out_defs)

lemma rabbit_closed:
  "case rabbit_Close cl (q0, w) of (_, q, _) \<Rightarrow>
     rabbit_Close cl (q, v) = (None, q, v) \<and> rabbit_Producer cl q v = (Some ErrQueueClosed, v) \<and>
     rabbit_Consumer cl q v = (Some ErrQueueClosed, v)"
  by (cases "rabbit_Close cl (q0, w)")
    (simp add: rabbit_life.close_twice rabbit_Producer_def rabbit_Consumer_def hand_out_defs)

lemma sqs_closed:
  "case sqs_Close q0 of (_, q) \<Rightarrow>
     sqs_Close q = (None, q) \<and> sqs_Producer q = Some ErrQueueClosed \<and> sqs_Consumer q = Some ErrQueueClosed"
  by (simp add: sqs_Close_def sqs_Producer_def sqs_Consumer_def hand_out_defs)

lemma nats_closed:
  "case nats_Close cl (q0, w) of (_, q, _) \<Rightarrow>
     nats_Close cl (q, v) = (None, q, v) \<and> nats_Producer q = Some ErrQueueClosed \<and> nats_Consumer q = Some ErrQueueClosed"
  by (cases "nats_Close cl (q0, w)") (simp add: nats_life.close_twice nats_Producer_def nats_Consumer_def hand_out_defs)

lemma pulsar_closed:
  "case pulsar_Close cl (q0, w) of (_, q, _) \<Rightarrow>
     pulsar_Close cl (q, v) = (None, q, v) \<and> pulsar_Producer cl q v = (Some ErrQueueClosed, v) \<and>
     pulsar_Consumer cl q v = (Some ErrQueueClosed, v)"
  by (cases "pulsar_Close cl (q0, w)")
    (simp add: pulsar_life.close_twice pulsar_Producer_def pulsar_Consumer_def hand_out_defs)

lemma rocket_closed:
  "case rocket_Close cl (q0, w) of (_, q, _) \<Rightarrow>
     rocket_Close cl (q, v) = (None, q, v) \<and> rocket_Producer q = Some ErrQueueClosed \<and>
     rocket_Consumer q = Some ErrQueueClosed"
  by (cases "rocket_Close cl (q0, w)")
    (simp add: rocket_life.close_twice rocket_Producer_def rocket_Consumer_def hand_out_defs)

section \<open>Properties\<close>



text \<open>
  A dead letter queue that fails loses messages on the broker drivers too.
  When sending keeps failing and the publish to the dead letter queue fails,
  the engine returns an error and leaves the message alone, so that the
  broker redelivers it; the Kafka driver then commits the message
  (\<open>failed_DLQ_settles\<close> says the same of every driver that meets the contract
  of a worker).\<close>

theorem failed_DLQ_commits:
  assumes "inert env" "\<And>e w. fst (pe_send env e w) \<noteq> Ret None"
    and "pe_dlq env = Some publish" "\<And>d w. \<exists>x. publish d w = (Some x, w)"
    and "kafka_begin cl q co k (b, w) = (m, b1, w)" "\<not> IsAcknowledged m"
    and "m_Payload m \<noteq> []" "pe_fromJSON env (m_Payload m) = Inr email" "Email_Validate (pe_parse env) (Some email) = None"
  shows "(\<exists>r. brokerHandler env defaultMiddlewares (m, b1, w) = (Ret (Some r), m, b1, w)) \<and>
    (\<exists>b'. kafka_processMessage cl q co (brokerHandler env defaultMiddlewares) k (b, w) =
      (Ret (), b', snd (kc_CommitMessages cl k w)))"
  using failed_DLQ_settles [OF kafka_drv.broker_process_axioms assms] .


text \<open>
  C31. Batches. PublishBatch of the RabbitMQ, SQS, NATS, Pulsar and RocketMQ
  drivers is the reference that hands the messages over in order and stops at
  the first nil message or refusal: the error is the one of that message, the
  counter grows by exactly the number of messages accepted before it, and a
  nil error means that all were accepted.\<close>

theorem batches_are_sendAll:
  "rabbit_PublishBatch acl aq opts ms (b, aw) =
     (case sendAll (\<lambda>m. ac_Publish acl (rb_Exchange (dq_section aq)) (rabbitRoute (dq_section aq) (publishOptions opts) m)
            (rabbitPublishing (publishOptions opts) m)) ms aw of
        (k, e, w') \<Rightarrow> (e, IncTotalSent (int k) b, w')) \<and>
   sqs_PublishBatch scl sq opts ms (b, sw) =
     (case sendAll (\<lambda>m. sc_SendMessage scl (sqsInput (sq_QueueURL (dq_section sq)) (publishOptions opts) m)) ms sw of
        (k, e, w') \<Rightarrow> (e, IncTotalSent (int k) b, w')) \<and>
   nats_PublishBatch ncl nq opts ms (b, nw) =
     (case sendAll (\<lambda>m. if na_JetStream (dq_section nq) \<and> nq_js nq
            then nc_jsPublishMsg ncl (natsRecord (na_Subject (dq_section nq)) (publishOptions opts) m)
            else nc_PublishMsg ncl (natsRecord (na_Subject (dq_section nq)) (publishOptions opts) m)) ms nw of
        (k, e, w') \<Rightarrow> (e, IncTotalSent (int k) b, w')) \<and>
   pulsar_PublishBatch pcl opts ms (b, pw) =
     (case sendAll (\<lambda>m. pc_Send pcl (pulsarRecord (publishOptions opts) m)) ms pw of
        (k, e, w') \<Rightarrow> (e, IncTotalSent (int k) b, w')) \<and>
   rocket_PublishBatch rcl rq opts ms (b, rw) =
     (case sendAll (\<lambda>m. rk_SendSync rcl (rocketRecord (rk_Topic (dq_section rq)) (publishOptions opts) m)) ms rw of
        (k, e, w') \<Rightarrow> (e, IncTotalSent (int k) b, w')) \<and>
   (let (k, e, w') = sendAll send ms w in k \<le> length ms \<and> (e = None \<longleftrightarrow> k = length ms))"
  unfolding rabbit_PublishBatch_def sqs_PublishBatch_def nats_PublishBatch_def pulsar_PublishBatch_def
    rocket_PublishBatch_def
  by (intro conjI rabbit_prod.batch_sendAll sqs_prod.batch_sendAll nats_prod.batch_sendAll pulsar_prod.batch_sendAll
      rocket_prod.batch_sendAll) (use sendAll_complete [of send ms w] in \<open>auto split: prod.splits\<close>)

text \<open>
  A closed queue stays closed. After Close of any broker driver, whatever
  the client answered, the next Close returns nil and does nothing, and
  neither a producer nor a consumer is handed out.\<close>

theorem closed_queue_refuses:
  "(case kafka_Close kcl (kq, kw) of (_, q, _) \<Rightarrow>
      kafka_Close kcl (q, v1) = (None, q, v1) \<and> kafka_Producer q = Some ErrQueueClosed \<and> kafka_Consumer q = Some ErrQueueClosed) \<and>
   (case redis_Close rcl (rq, rw) of (_, q, _) \<Rightarrow>
      redis_Close rcl (q, v2) = (None, q, v2) \<and> redis_Producer q = Some ErrQueueClosed \<and> redis_Consumer q = Some ErrQueueClosed) \<and>
   (case rabbit_Close acl (aq, aw) of (_, q, _) \<Rightarrow>
      rabbit_Close acl (q, v3) = (None, q, v3) \<and> rabbit_Producer acl q v3 = (Some ErrQueueClosed, v3) \<and>
      rabbit_Consumer acl q v3 = (Some ErrQueueClosed, v3)) \<and>
   (case sqs_Close sq of (_, q) \<Rightarrow>
      sqs_Close q = (None, q) \<and> sqs_Producer q = Some ErrQueueClosed \<and> sqs_Consumer q = Some ErrQueueClosed) \<and>
   (case nats_Close ncl (nq, nw) of (_, q, _) \<Rightarrow>
      nats_Close ncl (q, v5) = (None, q, v5) \<and> nats_Producer q = Some ErrQueueClosed \<and> nats_Consumer q = Some ErrQueueClosed) \<and>
   (case pulsar_Close pcl (pq, pw) of (_, q, _) \<Rightarrow>
      pulsar_Close pcl (q, v6) = (None, q, v6) \<and> pulsar_Producer pcl q v6 = (Some ErrQueueClosed, v6) \<and>
      pulsar_Consumer pcl q v6 = (Some ErrQueueClosed, v6)) \<and>
   (case rocket_Close ocl (oq, ow) of (_, q, _) \<Rightarrow>
      rocket_Close ocl (q, v7) = (None, q, v7) \<and> rocket_Producer q = Some ErrQueueClosed \<and>
      rocket_Consumer q = Some ErrQueueClosed)"
  by (intro conjI kafka_closed redis_closed rabbit_closed sqs_closed nats_closed pulsar_closed rocket_closed)

section \<open>Witnesses\<close>

text \<open>
  A Kafka client that counts the commits, a queue on it, and an engine whose
  sender and dead letter queue always fail.
\<close>

definition idleKafka :: "(unit, nat) kafkaClient" where
  "idleKafka =
     \<lparr>kc_WriteMessages = (\<lambda>_ w. (None, w)), kc_CommitMessages = (\<lambda>_ w. (None, Suc w)),
      kc_FetchMessage = (\<lambda>_ _ w. (Inl ErrTimeout, w)), kc_readerClose = (\<lambda>_ w. w), kc_writerClose = (\<lambda>w. (None, w)),
      kc_writerStats = (\<lambda>_. (0, 0, 0)), kc_DialContext = (\<lambda>_ w. (None, w))\<rparr>"

definition demoKafka :: "unit kafkaQueue" where
  "demoKafka =
     \<lparr>dq_cfg = sampleConfig, dq_section = (qc_Kafka sampleQueueConfig)\<lparr>kf_AutoCommit := False\<rparr>, dq_closed = False,
      kq_dialer = \<lparr>kd_TLS = None, kd_SASL = None, kd_ClientID = []\<rparr>\<rparr>"

definition demoRecord :: kafkaMsg where
  "demoRecord =
     \<lparr>km_Topic = ''mail'', km_Partition = 0, km_Offset = 7, km_Key = [], km_Value = ''{}'', km_Headers = [], km_Time = None\<rparr>"

definition failingKafkaEnv :: "(kafkaMsg, unit, nat) pipeEnv" where
  "failingKafkaEnv =
     \<lparr>pe_fromJSON = (\<lambda>_. Inr sampleEmail), pe_parse = Inr, pe_ack = kc_CommitMessages idleKafka,
      pe_send = (\<lambda>_ w. (Ret (Some (Err ''550'')), w)), pe_ctxErr = (\<lambda>_. None),
      pe_sleep = (\<lambda>_ w. (None, w)), pe_rand = (\<lambda>_. 0), pe_dlq = Some (\<lambda>_ w. (Some ErrTimeout, w)), pe_dlqTopic = ''dlq'',
      pe_errorHandler = None, pe_maxRetries = 3, pe_retryInterval = Second\<rparr>"

abbreviation noOptions :: "unit ConsumeOptions" where "noOptions \<equiv> zeroConsumeOptions"


theorem failed_DLQ_commits_witness:
  "\<exists>b'. kafka_processMessage idleKafka demoKafka noOptions (brokerHandler failingKafkaEnv defaultMiddlewares) demoRecord
     (zeroStats, 0) = (Ret (), b', 1)"
proof -
  let ?m = "kafkaMessage demoRecord"
  have env: "inert failingKafkaEnv" "\<And>e w. fst (pe_send failingKafkaEnv e w) \<noteq> Ret None"
    "pe_dlq failingKafkaEnv = Some (\<lambda>_ w. (Some ErrTimeout, w))"
    "pe_fromJSON failingKafkaEnv (m_Payload ?m) = Inr sampleEmail"
    "Email_Validate (pe_parse failingKafkaEnv) (Some sampleEmail) = None"
    by (simp_all add: failingKafkaEnv_def inert_def sampleEmail_valid)
  have m: "kafka_begin idleKafka demoKafka noOptions demoRecord (zeroStats, 0) = (?m, IncInFlight zeroStats, 0)"
    "\<not> IsAcknowledged ?m" "m_Payload ?m \<noteq> []"
    by (simp_all add: kafka_begin_def deliverBegin_def demoKafka_def zeroConsumeOptions_def kafkaMessage_def demoRecord_def
        message_defs split: prod.splits)
  show ?thesis
    using failed_DLQ_commits [OF env(1-3) _ m env(4,5)] by (simp add: idleKafka_def)
qed

text \<open>A message with a header, and what the brokers and the JSON codec make of it.\<close>

definition trackedMsg :: "(kafkaMsg, unit) message" where
  "trackedMsg = (NewMessageWithID ''u'' 0 ''id'' ''{}'')\<lparr>m_Headers := Some [''h'' \<mapsto> ''v'']\<rparr>"

definition oneHeader :: "(string \<rightharpoonup> string) \<Rightarrow> (string \<times> string) list" where
  "oneHeader h = (case h ''h'' of None \<Rightarrow> [] | Some v \<Rightarrow> [(''h'', v)])"

definition trackedDelivery :: amqpDelivery where
  "trackedDelivery =
     \<lparr>ad_MessageId = ''id'', ad_RoutingKey = ''mail'', ad_Body = ''{}'', ad_Headers = [''h'' \<mapsto> ''v''],
      ad_Timestamp = m_Timestamp trackedMsg, ad_DeliveryTag = 1\<rparr>"

definition trackedPulsar :: pulsarMsg where
  "trackedPulsar =
     \<lparr>pm_ID = ''7'', pm_Topic = ''mail'', pm_Payload = ''{}'',
      pm_Properties = Some [''h'' \<mapsto> ''v'', ''X-Message-ID'' \<mapsto> ''id''], pm_Key = [], pm_PublishTime = None,
      pm_RedeliveryCount = 0\<rparr>"

definition trackedSqs :: sqsMsg where
  "trackedSqs =
     \<lparr>sm_MessageId = Some ''aws-7'', sm_Body = Some ''{}'', sm_ReceiptHandle = None,
      sm_Attributes = [''h'' \<mapsto> Some ''v'', ''MessageId'' \<mapsto> Some ''id'']\<rparr>"

definition trackedEntry :: streamEntry where
  "trackedEntry = \<lparr>se_Stream = ''mail'', se_Group = ''g'', se_ID = ''1-0'', se_Values = [''data'' \<mapsto> AnyString ''json'']\<rparr>"


end
