(* ===== verification/AsyncLog.thy ===== *)
theory AsyncLog
  imports GoChan "HOL-Library.Multiset"
begin

text \<open>
  The asynchronous log writer, \<open>internal/logger/async.go\<close>: a buffered channel
  that \<open>Write\<close> fills without blocking, and a worker that batches what it
  receives. The goroutines are the writers, the worker and one that calls
  \<open>Sync\<close>; a step of the relation is what one of them does atomically. The
  batch and the output are lists of the pieces written; the bytes are their
  concatenation.
\<close>

record asyncWriter =
  aw_ch :: "string chan"
  aw_batch :: "string list"
  aw_out :: "string list"
  aw_closed :: bool
  aw_stop :: bool
  aw_draining :: bool
  aw_done :: bool
  aw_writers :: "string list"
  aw_accepted :: "string list"
  aw_direct :: "string list"
  aw_late :: "string list"

text \<open>
  \<open>aw_writers\<close> are the calls of \<open>Write\<close> between the look at the flag and the
  send. The last three fields only record what happened: the pieces for which
  \<open>Write\<close> reported success, those written around the full channel, and those
  accepted after the worker had ended.
\<close>

definition NewAsyncWriter :: "int \<Rightarrow> asyncWriter" where
  "NewAsyncWriter bufferSize =
     \<lparr>aw_ch = makeChan (nat (if bufferSize \<le> 0 then 4096 else bufferSize)), aw_batch = [], aw_out = [],
      aw_closed = False, aw_stop = False, aw_draining = False, aw_done = False, aw_writers = [],
      aw_accepted = [], aw_direct = [], aw_late = []\<rparr>"

definition aw_flush :: "asyncWriter \<Rightarrow> asyncWriter" where
  "aw_flush s = (if length (concat (aw_batch s)) > 0 then s\<lparr>aw_out := aw_out s @ aw_batch s, aw_batch := []\<rparr> else s)"

definition aw_write :: "string \<Rightarrow> asyncWriter \<Rightarrow> asyncWriter" where
  "aw_write data s =
     (let s' = s\<lparr>aw_batch := aw_batch s @ [data]\<rparr>
      in if length (concat (aw_batch s')) > 16384 then aw_flush s' else s')"

text \<open>\<open>Write\<close> up to the send: it is refused once the writer is closed.\<close>

definition Write_begin :: "string \<Rightarrow> asyncWriter \<Rightarrow> error option \<times> asyncWriter" where
  "Write_begin p s =
     (if aw_closed s then (Some (Err ''io: read/write on closed pipe''), s)
      else (None, s\<lparr>aw_writers := aw_writers s @ [p]\<rparr>))"

text \<open>The rest of \<open>Write\<close>: into the channel, or around it when it is full.\<close>

definition Write_end :: "nat \<Rightarrow> asyncWriter \<Rightarrow> asyncWriter" where
  "Write_end i s =
     (let p = aw_writers s ! i;
          s' = s\<lparr>aw_writers := take i (aw_writers s) @ drop (Suc i) (aw_writers s), aw_accepted := aw_accepted s @ [p]\<rparr>
      in case chanSend (aw_ch s) p of
           SendOk ch \<Rightarrow> s'\<lparr>aw_ch := ch, aw_late := (if aw_done s then aw_late s @ [p] else aw_late s)\<rparr>
         | _ \<Rightarrow> s'\<lparr>aw_out := aw_out s @ [p], aw_direct := aw_direct s @ [p]\<rparr>)"

text \<open>\<open>Sync\<close>: the flag, then the stop channel, then waiting for the worker.\<close>

definition Sync_begin :: "asyncWriter \<Rightarrow> bool \<times> asyncWriter" where
  "Sync_begin s = (if aw_closed s then (True, s) else (False, s\<lparr>aw_closed := True\<rparr>))"

inductive async_step :: "asyncWriter \<Rightarrow> asyncWriter \<Rightarrow> bool" where
  write_begin: "Write_begin p s = (None, s') \<Longrightarrow> async_step s s'"
| write_end: "i < length (aw_writers s) \<Longrightarrow> async_step s (Write_end i s)"
| worker_recv: "\<not> aw_done s \<Longrightarrow> chanRecv (aw_ch s) = RecvVal data ch \<Longrightarrow>
    async_step s (aw_write data (s\<lparr>aw_ch := ch\<rparr>))"
| worker_tick: "\<not> aw_done s \<Longrightarrow> \<not> aw_draining s \<Longrightarrow> async_step s (aw_flush s)"
| worker_stop: "\<not> aw_done s \<Longrightarrow> aw_stop s \<Longrightarrow> async_step s (s\<lparr>aw_draining := True\<rparr>)"
| worker_end: "\<not> aw_done s \<Longrightarrow> aw_draining s \<Longrightarrow> chanRecv (aw_ch s) = RecvBlock \<Longrightarrow>
    async_step s ((aw_flush s)\<lparr>aw_done := True\<rparr>)"
| sync_begin: "Sync_begin s = (False, s') \<Longrightarrow> async_step s s'"
| sync_stop: "aw_closed s \<Longrightarrow> \<not> aw_stop s \<Longrightarrow> async_step s (s\<lparr>aw_stop := True\<rparr>)"

inductive async_reachable :: "int \<Rightarrow> asyncWriter \<Rightarrow> bool" for n where
  async_init: "async_reachable n (NewAsyncWriter n)"
| async_more: "async_reachable n s \<Longrightarrow> async_step s s' \<Longrightarrow> async_reachable n s'"

section \<open>Nothing is lost before the worker ends\<close>

text \<open>Empty pieces are the only ones a flush may leave in the batch.\<close>

definition async_inv :: "asyncWriter \<Rightarrow> bool" where
  "async_inv s \<longleftrightarrow>
     chanWf (aw_ch s) \<and> \<not> ch_closed (aw_ch s) \<and>
     mset (aw_accepted s) = mset (aw_out s) + mset (aw_batch s) + mset (ch_buf (aw_ch s)) \<and>
     (aw_direct s = [] \<longrightarrow> aw_accepted s = aw_out s @ aw_batch s @ ch_buf (aw_ch s)) \<and>
     (aw_done s \<longrightarrow> concat (aw_batch s) = [] \<and> ch_buf (aw_ch s) = aw_late s) \<and>
     (\<not> aw_done s \<longrightarrow> aw_late s = []) \<and> (aw_done s \<longrightarrow> aw_draining s) \<and> (aw_draining s \<longrightarrow> aw_stop s) \<and>
     (aw_stop s \<longrightarrow> aw_closed s)"

lemma async_init_inv: "async_inv (NewAsyncWriter n)"
  by (simp add: async_inv_def NewAsyncWriter_def chan_defs)

lemma aw_flush_inv: "async_inv s \<Longrightarrow> \<not> aw_done s \<Longrightarrow> async_inv (aw_flush s)"
  by (auto simp: async_inv_def aw_flush_def)

lemma aw_flush_empties: "concat (aw_batch (aw_flush s)) = []"
  by (simp add: aw_flush_def)

lemma aw_flush_keeps [simp]:
  "aw_ch (aw_flush s) = aw_ch s" "aw_done (aw_flush s) = aw_done s" "aw_late (aw_flush s) = aw_late s"
  "aw_draining (aw_flush s) = aw_draining s"
  by (simp_all add: aw_flush_def)

lemma async_step_inv: "async_step s s' \<Longrightarrow> async_inv s \<Longrightarrow> async_inv s'"
proof (induction rule: async_step.induct)
  case (write_begin p s s')
  then show ?case
    by (auto simp: Write_begin_def async_inv_def split: if_splits)
next
  case (write_end i s)
  then show ?case
    by (cases "chanSend (aw_ch s) (aw_writers s ! i)")
      (auto simp: Write_end_def async_inv_def Let_def chanSend_def chanWf_def split: if_splits)
next
  case (worker_recv s data ch)
  let ?s = "s\<lparr>aw_ch := ch, aw_batch := aw_batch s @ [data]\<rparr>"
  have "async_inv ?s" "\<not> aw_done ?s"
    using worker_recv by (auto simp: async_inv_def chanRecv_def chanWf_def split: list.splits)
  then show ?case
    using aw_flush_inv [of ?s] by (simp add: aw_write_def Let_def)
next
  case (worker_tick s)
  then show ?case by (simp add: aw_flush_inv)
next
  case (worker_end s)
  then have "async_inv (aw_flush s)"
    by (simp add: aw_flush_inv)
  moreover have "ch_buf (aw_ch s) = []"
    using worker_end.hyps(3) by (simp add: chanRecv_def split: list.splits if_splits)
  ultimately show ?case
    using worker_end.hyps(1,2) aw_flush_empties [of s] by (simp add: async_inv_def)
qed (auto simp: async_inv_def Sync_begin_def split: if_splits)

lemma async_reachable_inv: "async_reachable n s \<Longrightarrow> async_inv s"
  by (induction rule: async_reachable.induct) (auto intro: async_init_inv async_step_inv)

section \<open>Properties\<close>

text \<open>
  C22. The asynchronous log writer under any interleaving of writers, worker
  and Sync. The channel is never closed, so no write panics; every piece
  accepted is, exactly once, written, in the batch or in the channel, in
  the order of acceptance unless a write went around the full channel; and
  when the worker has ended, after Sync, all are written but those of writers
  that had passed the check of the flag before Sync set it and sent after the
  worker ended.\<close>

theorem async_log_conserves:
  assumes "async_reachable n s"
  shows "\<not> ch_closed (aw_ch s) \<and>
    mset (aw_accepted s) = mset (aw_out s) + mset (aw_batch s) + mset (ch_buf (aw_ch s)) \<and>
    (aw_direct s = [] \<longrightarrow> concat (aw_accepted s) = concat (aw_out s) @ concat (aw_batch s) @ concat (ch_buf (aw_ch s))) \<and>
    (aw_done s \<longrightarrow> aw_closed s \<and> concat (aw_batch s) = [] \<and> ch_buf (aw_ch s) = aw_late s)"
  using async_reachable_inv [OF assms] by (auto simp: async_inv_def)

theorem async_log_conserves_witness:
  "\<exists>s. async_reachable 2 s \<and> aw_accepted s = [''line''] \<and> mset (aw_out s) + mset (aw_batch s) + mset (ch_buf (aw_ch s)) = {# ''line'' #}"
proof -
  let ?s1 = "snd (Write_begin ''line'' (NewAsyncWriter 2))" and ?s2 = "Write_end 0 (snd (Write_begin ''line'' (NewAsyncWriter 2)))"
  have "async_step (NewAsyncWriter 2) ?s1"
    by (rule async_step.write_begin [of "''line''"]) (simp add: Write_begin_def NewAsyncWriter_def)
  moreover have "async_step ?s1 ?s2"
    by (rule async_step.write_end) (simp add: Write_begin_def NewAsyncWriter_def)
  ultimately have r: "async_reachable 2 ?s2"
    by (meson async_reachable.intros)
  moreover have "aw_accepted ?s2 = [''line'']"
    by (simp add: Write_begin_def Write_end_def NewAsyncWriter_def Let_def chan_defs)
  ultimately show ?thesis
    using async_log_conserves [OF r] by (intro exI [of _ ?s2]) simp
qed

text \<open>Such a late line is reported as written and never is.\<close>

lemma async_log_loses_late_line: "\<exists>s. async_reachable 2 s \<and> aw_done s \<and> aw_late s = [''line''] \<and> aw_out s = []"
proof -
  let ?s1 = "snd (Write_begin ''line'' (NewAsyncWriter 2))"
  let ?s2 = "snd (Sync_begin ?s1)"
  let ?s3 = "?s2\<lparr>aw_stop := True\<rparr>"
  let ?s4 = "?s3\<lparr>aw_draining := True\<rparr>"
  let ?s5 = "(aw_flush ?s4)\<lparr>aw_done := True\<rparr>"
  note d = Write_begin_def NewAsyncWriter_def Sync_begin_def aw_flush_def chan_defs
  have "async_step (NewAsyncWriter 2) ?s1"
    by (rule async_step.write_begin [of "''line''"]) (simp add: d)
  moreover have "async_step ?s1 ?s2"
    by (rule async_step.sync_begin) (simp add: d)
  moreover have "async_step ?s2 ?s3"
    by (rule async_step.sync_stop) (simp_all add: d)
  moreover have "async_step ?s3 ?s4"
    by (rule async_step.worker_stop) (simp_all add: d)
  moreover have "async_step ?s4 ?s5"
    by (rule async_step.worker_end) (simp_all add: d)
  moreover have "async_step ?s5 (Write_end 0 ?s5)"
    by (rule async_step.write_end) (simp add: d)
  ultimately have "async_reachable 2 (Write_end 0 ?s5)"
    by (meson async_reachable.intros)
  moreover have "aw_done (Write_end 0 ?s5)" "aw_late (Write_end 0 ?s5) = [''line'']" "aw_out (Write_end 0 ?s5) = []"
    by (simp_all add: d Write_end_def Let_def)
  ultimately show ?thesis by blast
qed

end
