(* ===== verification/Tracing.thy ===== *)
theory Tracing
  imports ConfigSections
begin

text \<open>
  Distributed tracing: spans (\<open>internal/tracing/span.go\<close>), and the provider,
  the span of a context and the W3C trace context headers
  (\<open>internal/tracing/tracing.go\<close>). A \<open>*Span\<close> is a span option, as its methods
  accept nil; what a method changes is returned. The random bytes and the
  time are arguments.
\<close>

section \<open>Spans\<close>

datatype spanExporter = NoopExporter | StdoutSpanExporter

record TracerProvider =
  tp_cfg :: "TracingConfig option"
  tp_exporter :: "spanExporter option"

record 'v SpanEvent =
  ev_Name :: string
  ev_Timestamp :: int
  ev_Fields :: "string \<rightharpoonup> 'v"

record 'v Span =
  sp_traceID :: string
  sp_spanID :: string
  sp_parentSpanID :: string
  sp_name :: string
  sp_startTime :: "int option"
  sp_endTime :: "int option"
  sp_attributes :: "(string \<rightharpoonup> 'v) option"
  sp_events :: "'v SpanEvent list"
  sp_status :: string
  sp_err :: "error option"
  sp_provider :: "TracerProvider option"
  sp_ended :: bool

definition TraceID :: "'v Span option \<Rightarrow> string" where
  "TraceID s = (case s of None \<Rightarrow> [] | Some x \<Rightarrow> sp_traceID x)"

definition SpanID :: "'v Span option \<Rightarrow> string" where
  "SpanID s = (case s of None \<Rightarrow> [] | Some x \<Rightarrow> sp_spanID x)"

definition spanAttrs :: "'v Span \<Rightarrow> (string \<rightharpoonup> 'v)" where
  "spanAttrs x = (case sp_attributes x of None \<Rightarrow> Map.empty | Some m \<Rightarrow> m)"

definition SetAttribute :: "string \<Rightarrow> 'v \<Rightarrow> 'v Span option \<Rightarrow> 'v Span option" where
  "SetAttribute key val s = map_option (\<lambda>x. x\<lparr>sp_attributes := Some ((spanAttrs x)(key \<mapsto> val))\<rparr>) s"

definition SetAttributes :: "(string \<rightharpoonup> 'v) \<Rightarrow> 'v Span option \<Rightarrow> 'v Span option" where
  "SetAttributes attrs s = map_option (\<lambda>x. x\<lparr>sp_attributes := Some (spanAttrs x ++ attrs)\<rparr>) s"

text \<open>\<open>str\<close> makes a string an \<open>any\<close>.\<close>

definition RecordError :: "(string \<Rightarrow> 'v) \<Rightarrow> int \<Rightarrow> error option \<Rightarrow> 'v Span option \<Rightarrow> 'v Span option" where
  "RecordError str now err s =
     (case (s, err) of
        (Some x, Some e) \<Rightarrow>
          Some (x\<lparr>sp_err := Some e, sp_status := ''ERROR'',
            sp_events := sp_events x @
              [\<lparr>ev_Name = ''exception'', ev_Timestamp = now, ev_Fields = [''exception.message'' \<mapsto> str (Error e)]\<rparr>]\<rparr>)
      | _ \<Rightarrow> s)"

definition AddEvent :: "int \<Rightarrow> string \<Rightarrow> (string \<rightharpoonup> 'v) \<Rightarrow> 'v Span option \<Rightarrow> 'v Span option" where
  "AddEvent now name flds s =
     map_option (\<lambda>x. x\<lparr>sp_events := sp_events x @ [\<lparr>ev_Name = name, ev_Timestamp = now, ev_Fields = flds\<rparr>]\<rparr>) s"

text \<open>\<open>End\<close> also says which exporter the span went to, if any: only the first call exports.\<close>

definition span_End :: "int \<Rightarrow> 'v Span option \<Rightarrow> spanExporter option \<times> 'v Span option" where
  "span_End now s =
     (case s of
        None \<Rightarrow> (None, None)
      | Some x \<Rightarrow>
          if sp_ended x then (None, s)
          else (case sp_provider x of None \<Rightarrow> None | Some tp \<Rightarrow> tp_exporter tp,
                Some (x\<lparr>sp_ended := True, sp_endTime := Some now\<rparr>)))"

definition span_Duration :: "int \<Rightarrow> 'v Span option \<Rightarrow> int" where
  "span_Duration now s =
     (case s of
        None \<Rightarrow> 0
      | Some x \<Rightarrow>
          (let t0 = (case sp_startTime x of Some t \<Rightarrow> t | None \<Rightarrow> 0);
               t1 = (case sp_endTime x of Some t \<Rightarrow> t | None \<Rightarrow> 0)
           in if sp_ended x then t1 - t0 else now - t0))"

section \<open>The span of a context\<close>

text \<open>The three values of a context that the code reads: the span and the two keys of the logger.\<close>

record 'v spanCtx =
  cx_span :: "'v Span option"
  cx_traceID :: "string option"
  cx_spanID :: "string option"

definition ContextWithSpan :: "'v spanCtx \<Rightarrow> 'v Span option \<Rightarrow> 'v spanCtx" where
  "ContextWithSpan ctx s =
     (case s of
        None \<Rightarrow> ctx
      | Some x \<Rightarrow> ctx\<lparr>cx_traceID := Some (TraceID s), cx_spanID := Some (SpanID s), cx_span := s\<rparr>)"

definition SpanFromContext :: "'v spanCtx option \<Rightarrow> 'v Span option" where
  "SpanFromContext ctx = (case ctx of None \<Rightarrow> None | Some c \<Rightarrow> cx_span c)"

text \<open>\<open>hex.EncodeToString\<close>; the identifiers are the encodings of 16 and of 8 random bytes.\<close>

definition hexEncode :: "string \<Rightarrow> string" where
  "hexEncode bs = concat (map (\<lambda>c. [hexDigit (of_char c div 16), hexDigit (of_char c mod 16)]) bs)"

definition generateTraceID :: "string \<Rightarrow> string" where
  "generateTraceID rand16 = hexEncode rand16"

definition generateSpanID :: "string \<Rightarrow> string" where
  "generateSpanID rand8 = hexEncode rand8"

section \<open>The provider\<close>

definition tracing_Init :: "TracingConfig \<Rightarrow> TracerProvider" where
  "tracing_Init cfg =
     (let c = TracingConfig_ApplyDefaults cfg; provider = ToLower (TrimSpace (tr_Provider c))
      in \<lparr>tp_cfg = Some c,
          tp_exporter = Some (if \<not> tr_Enabled c \<or> provider = ''none'' \<or> provider = ''noop'' then NoopExporter
                              else StdoutSpanExporter)\<rparr>)"

definition defaultTracer :: TracerProvider where
  "defaultTracer = \<lparr>tp_cfg = None, tp_exporter = None\<rparr>"

text \<open>\<open>Get\<close> and \<open>Set\<close> on the global tracer; both fall back to the default one.\<close>

definition tracing_Get :: "TracerProvider option \<Rightarrow> TracerProvider" where
  "tracing_Get g = (case g of None \<Rightarrow> defaultTracer | Some tp \<Rightarrow> tp)"

definition tracing_Set :: "TracerProvider option \<Rightarrow> TracerProvider option" where
  "tracing_Set tp = Some (case tp of None \<Rightarrow> defaultTracer | Some t \<Rightarrow> t)"

definition StartSpan ::
    "TracerProvider \<Rightarrow> string \<Rightarrow> string \<Rightarrow> int \<Rightarrow> 'v spanCtx \<Rightarrow> string \<Rightarrow> 'v spanCtx \<times> 'v Span" where
  "StartSpan tp rand16 rand8 now ctx name =
     (let parent = SpanFromContext (Some ctx);
          s = \<lparr>sp_traceID = (if parent \<noteq> None then TraceID parent else generateTraceID rand16),
               sp_spanID = generateSpanID rand8, sp_parentSpanID = SpanID parent, sp_name = name,
               sp_startTime = Some now, sp_endTime = None, sp_attributes = Some Map.empty, sp_events = [],
               sp_status = ''OK'', sp_err = None, sp_provider = Some tp, sp_ended = False\<rparr>
      in (ContextWithSpan ctx (Some s), s))"

section \<open>Headers\<close>

abbreviation HeaderTraceParent :: string where "HeaderTraceParent \<equiv> ''traceparent''"

definition InjectHeaders :: "'v spanCtx option \<Rightarrow> (string \<rightharpoonup> string) option \<Rightarrow> (string \<rightharpoonup> string) option" where
  "InjectHeaders ctx headers =
     (case (headers, SpanFromContext ctx) of
        (Some h, Some s) \<Rightarrow>
          Some (h(HeaderTraceParent \<mapsto> ''00-'' @ TraceID (Some s) @ ''-'' @ SpanID (Some s) @ ''-01''))
      | _ \<Rightarrow> headers)"

text \<open>\<open>strings.Split\<close> at a separator of one byte.\<close>

fun SplitAll :: "string \<Rightarrow> char \<Rightarrow> string list" where
  "SplitAll [] c = [[]]"
| "SplitAll (x # xs) c =
     (if x = c then [] # SplitAll xs c
      else (case SplitAll xs c of p # ps \<Rightarrow> (x # p) # ps | [] \<Rightarrow> [[x]]))"

definition remoteSpan :: "string \<Rightarrow> string \<Rightarrow> 'v Span" where
  "remoteSpan traceID spanID =
     \<lparr>sp_traceID = traceID, sp_spanID = spanID, sp_parentSpanID = [], sp_name = ''remote_parent'', sp_startTime = None,
      sp_endTime = None, sp_attributes = None, sp_events = [], sp_status = ''OK'', sp_err = None, sp_provider = None,
      sp_ended = False\<rparr>"

text \<open>
  The header under its own name, or else, when it is missing or empty, under
  the first name in the order \<open>enum\<close> of the range loop that differs only in
  case.
\<close>

definition traceParent ::
    "((string \<rightharpoonup> string) \<Rightarrow> (string \<times> string) list) \<Rightarrow> (string \<rightharpoonup> string) \<Rightarrow> string" where
  "traceParent enum h =
     (let direct = (case h HeaderTraceParent of Some v \<Rightarrow> v | None \<Rightarrow> [])
      in if direct \<noteq> [] then direct
         else case find (\<lambda>(k, v). EqualFold k HeaderTraceParent) (enum h) of Some (k, v) \<Rightarrow> v | None \<Rightarrow> [])"

definition ExtractHeaders ::
    "((string \<rightharpoonup> string) \<Rightarrow> (string \<times> string) list) \<Rightarrow> 'v spanCtx \<Rightarrow> (string \<rightharpoonup> string) option \<Rightarrow> 'v spanCtx" where
  "ExtractHeaders enum ctx headers =
     (case headers of
        None \<Rightarrow> ctx
      | Some h \<Rightarrow>
          (let tp = traceParent enum h
           in if tp = [] then ctx
              else case SplitAll tp (CHR ''-'') of
                     _ # traceID # spanID # _ \<Rightarrow>
                       if length traceID = 32 \<and> length spanID = 16
                       then ContextWithSpan ctx (Some (remoteSpan traceID spanID)) else ctx
                   | _ \<Rightarrow> ctx))"

text \<open>Both exporters close without an error.\<close>

definition tracing_Close :: "TracerProvider option \<Rightarrow> error option" where
  "tracing_Close tp = None"

section \<open>Identifiers\<close>

definition isHex :: "char \<Rightarrow> bool" where
  "isHex c \<longleftrightarrow> byteIn (CHR ''0'') (CHR ''9'') c \<or> byteIn (CHR ''a'') (CHR ''f'') c"

lemma hexDigit_isHex: "n < 16 \<Longrightarrow> isHex (hexDigit n)"
  by (auto simp: isHex_def hexDigit_def less_eq_char_def)

lemma hexEncode_length [simp]: "length (hexEncode bs) = 2 * length bs"
  by (induction bs) (auto simp: hexEncode_def)

lemma hexEncode_isHex: "c \<in> set (hexEncode bs) \<Longrightarrow> isHex c"
proof -
  have "of_char d div 16 < (16 :: nat)" for d
    using nat_of_char_less_256 [of d] by (simp add: less_mult_imp_div_less)
  then show "c \<in> set (hexEncode bs) \<Longrightarrow> isHex c"
    by (auto simp: hexEncode_def intro!: hexDigit_isHex)
qed

lemma hexEncode_no_dash: "CHR ''-'' \<notin> set (hexEncode bs)"
  using hexEncode_isHex [of "CHR ''-''"] by (auto simp: isHex_def less_eq_char_def)

lemma SplitAll_ne: "SplitAll s c \<noteq> []"
  by (cases s) (auto split: list.splits)

lemma SplitAll_append: "c \<notin> set p \<Longrightarrow> SplitAll (p @ c # s) c = p # SplitAll s c"
  by (induction p) auto

section \<open>Properties\<close>

text \<open>
  C36. A trace goes on across the queue. Whatever span a producer runs in,
  with identifiers made by the generators, the header that InjectHeaders writes
  makes a consumer that extracts it and starts a span continue the trace: the
  new span has the trace identifier of the producer's span and names that
  span as its parent, and the log keys of its context carry the same trace.
  The identifiers are 32 and 16 lower-case hexadecimal digits.\<close>

theorem trace_crosses_queue:
  assumes "length r16 = 16" "length r8 = 8"
    and "SpanFromContext (Some ctx) = Some s" "sp_traceID s = generateTraceID r16" "sp_spanID s = generateSpanID r8"
    and "InjectHeaders (Some ctx) (Some h) = Some h'"
    and "StartSpan tp n16 n8 now (ExtractHeaders enum ctx2 (Some h')) name = (ctx3, child)"
  shows "sp_traceID child = sp_traceID s \<and> sp_parentSpanID child = sp_spanID s \<and>
    cx_traceID ctx3 = Some (sp_traceID s) \<and> cx_span ctx3 = Some child \<and>
    length (sp_traceID s) = 32 \<and> length (sp_spanID s) = 16 \<and> (\<forall>c \<in> set (sp_traceID s @ sp_spanID s). isHex c)"
proof -
  let ?t = "hexEncode r16" and ?i = "hexEncode r8"
  have ids: "sp_traceID s = ?t" "sp_spanID s = ?i"
    using assms(4,5) by (simp_all add: generateTraceID_def generateSpanID_def)
  have h': "h' HeaderTraceParent = Some (''00-'' @ ?t @ ''-'' @ ?i @ ''-01'')"
    using assms(3,6) ids by (auto simp: InjectHeaders_def TraceID_def SpanID_def)
  have "SplitAll (''00-'' @ ?t @ ''-'' @ ?i @ ''-01'') (CHR ''-'') = [''00'', ?t, ?i, ''01'']"
    using SplitAll_append [of "CHR ''-''" "''00''"] SplitAll_append [OF hexEncode_no_dash [of r16]]
      SplitAll_append [OF hexEncode_no_dash [of r8]] by simp
  then have "ExtractHeaders enum ctx2 (Some h') = ContextWithSpan ctx2 (Some (remoteSpan ?t ?i))"
    using h' assms(1,2) by (simp add: ExtractHeaders_def traceParent_def)
  then have "sp_traceID child = ?t" "sp_parentSpanID child = ?i" "cx_traceID ctx3 = Some ?t" "cx_span ctx3 = Some child"
    using assms(7)
    by (auto simp: StartSpan_def Let_def SpanFromContext_def ContextWithSpan_def TraceID_def SpanID_def remoteSpan_def)
  then show ?thesis
    using assms(1,2) ids hexEncode_isHex by auto
qed

definition freshCtx :: "unit spanCtx" where
  "freshCtx = \<lparr>cx_span = None, cx_traceID = None, cx_spanID = None\<rparr>"

definition producerCtx :: "unit spanCtx" where
  "producerCtx = fst (StartSpan defaultTracer (replicate 16 (CHR 0xAB)) (replicate 8 (CHR 0x01)) 0 freshCtx ''publish'')"

theorem trace_crosses_queue_witness:
  "sp_parentSpanID (snd (StartSpan defaultTracer [] (replicate 8 (CHR 0x02)) 5
     (ExtractHeaders (\<lambda>_. []) freshCtx (InjectHeaders (Some producerCtx) (Some Map.empty))) ''consume'')) =
   ''0101010101010101''"
proof -
  let ?s = "the (cx_span producerCtx)"
  obtain h' where h': "InjectHeaders (Some producerCtx) (Some Map.empty) = Some h'"
    by (cases "SpanFromContext (Some producerCtx)") (auto simp: InjectHeaders_def)
  obtain ctx3 child where c:
    "StartSpan defaultTracer [] (replicate 8 (CHR 0x02)) 5 (ExtractHeaders (\<lambda>_. []) freshCtx (Some h')) ''consume'' =
      (ctx3, child)"
    by fastforce
  have s: "SpanFromContext (Some producerCtx) = Some ?s" "sp_traceID ?s = generateTraceID (replicate 16 (CHR 0xAB))"
    "sp_spanID ?s = generateSpanID (replicate 8 (CHR 0x01))"
    by (simp_all add: producerCtx_def freshCtx_def StartSpan_def ContextWithSpan_def SpanFromContext_def Let_def)
  have "generateSpanID (replicate 8 (CHR 0x01)) = ''0101010101010101''"
    by code_simp
  then show ?thesis
    using trace_crosses_queue [OF _ _ s h' c] h' c s(3) by simp
qed

text \<open>A span is exported at most once, and a remote parent never.\<close>

lemma span_exported_once: "fst (span_End later (snd (span_End now s))) = None" "fst (span_End now (Some (remoteSpan t i))) = None"
  by (auto simp: span_End_def remoteSpan_def split: option.splits)

end
