(* ===== verification/Webhook.thy ===== *)
theory Webhook
  imports Tracing
begin

text \<open>
  The outbound webhook, \<open>internal/runtime/webhook.go\<close>. The HTTP client is the
  function \<open>request\<close> on a world; \<open>hmac\<close> is HMAC-SHA256; the context is read
  from the world, and \<open>wait\<close> is the select between the end of the context and
  the timer.
\<close>

record WebhookConfig =
  wh_Enabled :: bool
  wh_URL :: string
  wh_Secret :: string
  wh_Timeout :: int
  wh_MaxRetries :: int
  wh_RetryAfter :: int

definition WebhookConfig_ApplyDefaults :: "WebhookConfig \<Rightarrow> WebhookConfig" where
  "WebhookConfig_ApplyDefaults c =
     c\<lparr>wh_Timeout := defPos (5 * Second) (wh_Timeout c), wh_MaxRetries := defPos 3 (wh_MaxRetries c),
       wh_RetryAfter := defPos (500 * Millisecond) (wh_RetryAfter c)\<rparr>"

record WebhookEvent =
  we_EventID :: string
  we_Type :: string
  we_EmailID :: string
  we_Account :: string
  we_Subject :: string
  we_Status :: string
  we_Error :: string
  we_Attempts :: int
  we_Time :: string

record WebhookSender =
  ws_cfg :: WebhookConfig
  ws_clientTimeout :: int
  ws_backoff :: int

definition NewWebhookSender :: "WebhookConfig \<Rightarrow> WebhookSender option" where
  "NewWebhookSender cfg =
     (if \<not> wh_Enabled cfg \<or> wh_URL cfg = [] then None
      else let c = WebhookConfig_ApplyDefaults cfg
           in Some \<lparr>ws_cfg = c, ws_clientTimeout = wh_Timeout c, ws_backoff = wh_RetryAfter c\<rparr>)"

record webhookRequest =
  wr_URL :: string
  wr_Headers :: "(string \<times> string) list"
  wr_Body :: string

text \<open>The answer of a request: an error, or a status and what was read of the body.\<close>

record 'w webhookEnv =
  wv_build :: "string \<Rightarrow> error option"
  wv_Do :: "webhookRequest \<Rightarrow> 'w \<Rightarrow> (error + int \<times> string) \<times> 'w"
  wv_ctxErr :: "'w \<Rightarrow> error option"
  wv_wait :: "int \<Rightarrow> 'w \<Rightarrow> error option \<times> 'w"
  wv_hmac :: "string \<Rightarrow> string \<Rightarrow> string"

definition webhookSignature :: "'w webhookEnv \<Rightarrow> WebhookSender \<Rightarrow> string \<Rightarrow> string" where
  "webhookSignature env s payload =
     (if wh_Secret (ws_cfg s) \<noteq> [] then ''sha256='' @ hexEncode (wv_hmac env (wh_Secret (ws_cfg s)) payload) else [])"

definition webhookRequestOf :: "'w webhookEnv \<Rightarrow> WebhookSender \<Rightarrow> WebhookEvent \<Rightarrow> string \<Rightarrow> webhookRequest" where
  "webhookRequestOf env s ev payload =
     (let signature = webhookSignature env s payload
      in \<lparr>wr_URL = wh_URL (ws_cfg s),
          wr_Headers = [(''Content-Type'', ''application/json; charset=utf-8''), (''User-Agent'', ''mailbaby-webhook/1.0''),
                        (''X-Mailbaby-Event'', we_Type ev), (''X-Mailbaby-Event-ID'', we_EventID ev)] @
                       (if signature \<noteq> [] then [(''X-Mailbaby-Signature'', signature)] else []),
          wr_Body = payload\<rparr>)"

definition webhookAttempt ::
    "'w webhookEnv \<Rightarrow> WebhookSender \<Rightarrow> WebhookEvent \<Rightarrow> string \<Rightarrow> 'w \<Rightarrow> error option \<times> 'w" where
  "webhookAttempt env s ev payload w =
     (case wv_Do env (webhookRequestOf env s ev payload) w of
        (Inr (status, body), w') \<Rightarrow>
          (if 200 \<le> status \<and> status < 300 then None
           else Some (Err (''webhook: unexpected status '' @ Itoa status @ '': '' @ body)), w')
      | (Inl e, w') \<Rightarrow> (Some (Wrap (''webhook: send: '' @ Error e) e), w'))"

text \<open>
  The loop from \<open>attempt\<close> on; \<open>lastErr\<close> is the error of the attempt before.
  The wait grows linearly and is multiplied in \<open>int64\<close>.
\<close>

function webhookLoop ::
    "'w webhookEnv \<Rightarrow> WebhookSender \<Rightarrow> WebhookEvent \<Rightarrow> string \<Rightarrow> int \<Rightarrow> error option \<Rightarrow> 'w \<Rightarrow> error option \<times> 'w" where
  "webhookLoop env s ev payload attempt lastErr w =
     (if attempt > wh_MaxRetries (ws_cfg s) then (lastErr, w)
      else case wv_build env (wh_URL (ws_cfg s)) of
             Some e \<Rightarrow> (Some (Wrap (''webhook: build request: '' @ Error e) e), w)
           | None \<Rightarrow>
               (case webhookAttempt env s ev payload w of
                  (None, w') \<Rightarrow> (None, w')
                | (Some e, w') \<Rightarrow>
                    if attempt = wh_MaxRetries (ws_cfg s) \<or> wv_ctxErr env w' \<noteq> None then (Some e, w')
                    else (case wv_wait env (wrap64 (ws_backoff s * (attempt + 1))) w' of
                            (Some c, w'') \<Rightarrow> (Some c, w'')
                          | (None, w'') \<Rightarrow> webhookLoop env s ev payload (attempt + 1) (Some e) w'')))"
  by pat_completeness auto
termination
  by (relation "measure (\<lambda>(env, s, ev, payload, attempt, lastErr, w). nat (wh_MaxRetries (ws_cfg s) + 1 - attempt))") auto

declare webhookLoop.simps [simp del]

definition webhook_Send ::
    "'w webhookEnv \<Rightarrow> WebhookSender option \<Rightarrow> WebhookEvent \<Rightarrow> string \<Rightarrow> 'w \<Rightarrow> error option \<times> 'w" where
  "webhook_Send env sender ev payload w =
     (case sender of
        None \<Rightarrow> (None, w)
      | Some s \<Rightarrow>
          if \<not> wh_Enabled (ws_cfg s) then (None, w)
          else if wh_URL (ws_cfg s) = [] then (Some (Err ''webhook: url is empty''), w)
          else webhookLoop env s ev payload 0 None w)"

section \<open>A client that records\<close>

text \<open>
  The world with a record of the requests: \<open>snd\<close> is the world of the
  environment, \<open>fst\<close> the requests it got and the statuses it answered.
\<close>

type_synonym webhookLog = "(webhookRequest \<times> int option) list"

definition recording :: "'w webhookEnv \<Rightarrow> (webhookLog \<times> 'w) webhookEnv" where
  "recording env =
     \<lparr>wv_build = wv_build env,
      wv_Do = (\<lambda>r (l, w). case wv_Do env r w of
                  (Inl e, w') \<Rightarrow> (Inl e, (l @ [(r, None)], w'))
                | (Inr (st, b), w') \<Rightarrow> (Inr (st, b), (l @ [(r, Some st)], w'))),
      wv_ctxErr = (\<lambda>(l, w). wv_ctxErr env w),
      wv_wait = (\<lambda>d (l, w). case wv_wait env d w of (e, w') \<Rightarrow> (e, (l, w'))),
      wv_hmac = wv_hmac env\<rparr>"

lemma recording_simps [simp]:
  "wv_build (recording env) = wv_build env" "wv_ctxErr (recording env) (l, w) = wv_ctxErr env w"
  "wv_wait (recording env) d (l, w) = (fst (wv_wait env d w), l, snd (wv_wait env d w))"
  "webhookRequestOf (recording env) s ev payload = webhookRequestOf env s ev payload"
  by (simp_all add: recording_def webhookRequestOf_def webhookSignature_def split: prod.splits)

lemma recording_Do [simp]:
  "wv_Do (recording env) r (l, w) =
     (case wv_Do env r w of (res, w') \<Rightarrow> (res, l @ [(r, case res of Inl _ \<Rightarrow> None | Inr (st, b) \<Rightarrow> Some st)], w'))"
  by (simp add: recording_def split: prod.splits sum.splits)

definition delivered :: "int option \<Rightarrow> bool" where
  "delivered st = (case st of None \<Rightarrow> False | Some n \<Rightarrow> 200 \<le> n \<and> n < 300)"

text \<open>
  What \<open>new\<close> records of a delivery that ended with \<open>r\<close>: at most \<open>n\<close> requests,
  all the same one, only the last of which may have been accepted, and the
  result is nil exactly when it was.
\<close>

definition deliveryRecord :: "webhookRequest \<Rightarrow> nat \<Rightarrow> webhookLog \<Rightarrow> error option \<Rightarrow> bool" where
  "deliveryRecord q n new r \<longleftrightarrow>
     length new \<le> n \<and> (\<forall>x \<in> set new. fst x = q) \<and> (r = None \<longleftrightarrow> new \<noteq> [] \<and> delivered (snd (last new))) \<and>
     (\<forall>x \<in> set (butlast new). \<not> delivered (snd x))"

lemma deliveryRecord_Nil: "r \<noteq> None \<Longrightarrow> deliveryRecord q n [] r"
  by (simp add: deliveryRecord_def)

lemma deliveryRecord_one: "(r = None \<longleftrightarrow> delivered st) \<Longrightarrow> 0 < n \<Longrightarrow> deliveryRecord q n [(q, st)] r"
  by (simp add: deliveryRecord_def)

lemma deliveryRecord_Cons: "\<not> delivered st \<Longrightarrow> deliveryRecord q n new r \<Longrightarrow> deliveryRecord q (Suc n) ((q, st) # new) r"
  by (auto simp: deliveryRecord_def)

lemma webhookAttempt_recorded:
  obtains err st w1 where "webhookAttempt (recording env) s ev payload (l, w) =
      (err, l @ [(webhookRequestOf env s ev payload, st)], w1)" "err = None \<longleftrightarrow> delivered st"
proof -
  obtain res w1 where d: "wv_Do env (webhookRequestOf env s ev payload) w = (res, w1)"
    by fastforce
  show ?thesis
  proof (cases res)
    case (Inl e)
    then show ?thesis using that d by (simp add: webhookAttempt_def delivered_def)
  next
    case (Inr sb)
    then show ?thesis using that d by (cases sb) (simp add: webhookAttempt_def delivered_def)
  qed
qed

lemma webhookLoop_recorded:
  assumes "webhookLoop (recording env) s ev payload attempt lastErr (l, w) = (r, l', w')"
    and "lastErr = None \<Longrightarrow> attempt \<le> wh_MaxRetries (ws_cfg s)"
  shows "\<exists>new. l' = l @ new \<and>
    deliveryRecord (webhookRequestOf env s ev payload) (nat (wh_MaxRetries (ws_cfg s) + 1 - attempt)) new r"
  using assms
proof (induction "nat (wh_MaxRetries (ws_cfg s) + 1 - attempt)" arbitrary: attempt lastErr l w)
  case 0
  then show ?case
    by (auto simp: webhookLoop.simps [of "recording env"] intro!: deliveryRecord_Nil)
next
  case (Suc n)
  let ?q = "webhookRequestOf env s ev payload" and ?max = "wh_MaxRetries (ws_cfg s)"
  have at: "attempt \<le> ?max" and n: "n = nat (?max + 1 - (attempt + 1))"
    using Suc.hyps(2) by simp_all
  obtain err st w1 where a: "webhookAttempt (recording env) s ev payload (l, w) = (err, l @ [(?q, st)], w1)"
    "err = None \<longleftrightarrow> delivered st"
    by (rule webhookAttempt_recorded)
  note step = Suc.prems(1) [unfolded webhookLoop.simps [of "recording env" s ev payload attempt]]
  consider (built) e where "wv_build env (wh_URL (ws_cfg s)) = Some e"
    | (ended) "wv_build env (wh_URL (ws_cfg s)) = None"
        "err = None \<or> attempt = ?max \<or> wv_ctxErr env w1 \<noteq> None \<or>
         fst (wv_wait env (wrap64 (ws_backoff s * (attempt + 1))) w1) \<noteq> None"
    | (again) e where "wv_build env (wh_URL (ws_cfg s)) = None" "err = Some e" "attempt \<noteq> ?max" "wv_ctxErr env w1 = None"
        "fst (wv_wait env (wrap64 (ws_backoff s * (attempt + 1))) w1) = None"
    by (cases "wv_build env (wh_URL (ws_cfg s))"; cases err) auto
  then show ?case
  proof cases
    case built
    then show ?thesis
      using step at by (auto intro!: deliveryRecord_Nil)
  next
    case ended
    then have "l' = l @ [(?q, st)]" "r = None \<longleftrightarrow> err = None"
      using step at a(1) by (auto split: if_splits option.splits) metis
    then show ?thesis
      using a(2) Suc.hyps(2) deliveryRecord_one by (metis zero_less_Suc)
  next
    case again
    then have "webhookLoop (recording env) s ev payload (attempt + 1) (Some e)
        (l @ [(?q, st)], snd (wv_wait env (wrap64 (ws_backoff s * (attempt + 1))) w1)) = (r, l', w')"
      using step at a(1) by simp
    from Suc.hyps(1) [OF n this] obtain new where "l' = (l @ [(?q, st)]) @ new" "deliveryRecord ?q n new r"
      using n by auto
    then show ?thesis
      using again(2) a(2) deliveryRecord_Cons [of st ?q n new r] Suc.hyps(2)
      by (intro exI [of _ "(?q, st) # new"]) simp
  qed
qed

section \<open>Properties\<close>

text \<open>
  C35. Delivery of a webhook event. A sender made by NewWebhookSender makes at
  most MaxRetries + 1 requests, all the same one: to the configured URL,
  with the payload as body, signed with the HMAC of the payload exactly when a
  secret is configured. It stops at the first request answered with a 2xx
  status, and Send returns nil if and only if there was one.\<close>

theorem webhook_delivery:
  assumes "NewWebhookSender cfg = Some s"
    and "webhook_Send (recording env) (Some s) ev payload ([], w) = (r, sent, w')"
  shows "length sent \<le> nat (wh_MaxRetries (ws_cfg s)) + 1 \<and> 1 \<le> wh_MaxRetries (ws_cfg s) \<and>
    (r = None \<longleftrightarrow> sent \<noteq> [] \<and> delivered (snd (last sent))) \<and> (\<forall>x \<in> set (butlast sent). \<not> delivered (snd x)) \<and>
    (\<forall>(q, st) \<in> set sent. wr_URL q = wh_URL cfg \<and> wr_Body q = payload \<and>
       map_of (wr_Headers q) ''X-Mailbaby-Signature'' =
         (if wh_Secret cfg = [] then None else Some (''sha256='' @ hexEncode (wv_hmac env (wh_Secret cfg) payload))))"
proof -
  have s: "wh_Enabled (ws_cfg s)" "wh_URL (ws_cfg s) = wh_URL cfg" "wh_URL cfg \<noteq> []" "wh_Secret (ws_cfg s) = wh_Secret cfg"
    "1 \<le> wh_MaxRetries (ws_cfg s)"
    using assms(1)
    by (auto simp: NewWebhookSender_def WebhookConfig_ApplyDefaults_def Let_def defPos_def split: if_splits)
  then have "webhookLoop (recording env) s ev payload 0 None ([], w) = (r, sent, w')"
    using assms(2) by (simp add: webhook_Send_def)
  from webhookLoop_recorded [OF this] s(5) have
    "deliveryRecord (webhookRequestOf env s ev payload) (nat (wh_MaxRetries (ws_cfg s) + 1)) sent r"
    by auto
  then show ?thesis
    using s by (fastforce simp: deliveryRecord_def webhookRequestOf_def webhookSignature_def Let_def)
qed

definition flakyWebhook :: "nat webhookEnv" where
  "flakyWebhook =
     \<lparr>wv_build = (\<lambda>_. None), wv_Do = (\<lambda>_ n. (Inr (if n < 2 then 503 else 204, []), Suc n)), wv_ctxErr = (\<lambda>_. None),
      wv_wait = (\<lambda>_ n. (None, n)), wv_hmac = (\<lambda>_ _. [])\<rparr>"

definition sampleWebhook :: WebhookConfig where
  "sampleWebhook = \<lparr>wh_Enabled = True, wh_URL = ''https://hook'', wh_Secret = [], wh_Timeout = 0, wh_MaxRetries = 0, wh_RetryAfter = 0\<rparr>"

definition sampleWebhookEvent :: WebhookEvent where
  "sampleWebhookEvent = \<lparr>we_EventID = ''e1'', we_Type = ''sent'', we_EmailID = [], we_Account = [], we_Subject = [],
     we_Status = ''sent'', we_Error = [], we_Attempts = 1, we_Time = []\<rparr>"

theorem webhook_delivery_witness:
  "\<exists>sent w'. webhook_Send (recording flakyWebhook) (NewWebhookSender sampleWebhook) sampleWebhookEvent ''{}'' ([], 0) = (None, sent, w') \<and>
     length sent \<le> 4 \<and> delivered (snd (last sent))"
proof -
  obtain s where s: "NewWebhookSender sampleWebhook = Some s" "wh_MaxRetries (ws_cfg s) = 3"
    by (simp add: NewWebhookSender_def sampleWebhook_def WebhookConfig_ApplyDefaults_def defPos_def)
  obtain r sent w' where e: "webhook_Send (recording flakyWebhook) (Some s) sampleWebhookEvent ''{}'' ([], 0) = (r, sent, w')"
    using prod_cases3 by blast
  have "fst (webhook_Send (recording flakyWebhook) (NewWebhookSender sampleWebhook) sampleWebhookEvent ''{}'' ([], 0)) = None"
    by code_simp
  then show ?thesis
    using webhook_delivery [OF s(1) e] e s by auto
qed

end
