(* ===== verification/HttpAuth.thy ===== *)
theory HttpAuth
  imports ConfigSections "HOL-Library.AList"
begin

text \<open>
  Who may call the two front ends: \<open>internal/handler/auth.go\<close>,
  \<open>ratelimit.go\<close> and \<open>client_addr.go\<close>, and \<open>internal/rpc/auth.go\<close> and
  \<open>deadline.go\<close>. A request is what the code reads of it: the lookup
  \<open>Header.Get\<close> (or \<open>metadata.MD.Get\<close>) and the peer address. The SHA-256
  fingerprint and \<open>net.SplitHostPort\<close> are parameters. The buckets of the
  limiter are an association list in the order a \<open>range\<close> loop visits them.
\<close>

section \<open>Token extraction\<close>

definition extractToken :: "(string \<Rightarrow> string) \<Rightarrow> string \<Rightarrow> string" where
  "extractToken get headerName =
     (let authHeader = get ''Authorization''; parts = SplitN2 authHeader (CHR '' '') in
      if authHeader \<noteq> [] \<and> length parts = 2 \<and> EqualFold (parts ! 0) ''Bearer'' then TrimSpace (parts ! 1)
      else if authHeader \<noteq> [] \<and> length parts = 1 \<and> parts ! 0 \<noteq> [] then TrimSpace (parts ! 0)
      else if headerName \<noteq> [] \<and> get headerName \<noteq> [] then TrimSpace (get headerName)
      else if get ''X-API-Key'' \<noteq> [] then TrimSpace (get ''X-API-Key'')
      else [])"

definition firstVal :: "string list \<Rightarrow> string" where
  "firstVal vals = (case vals of [] \<Rightarrow> [] | v # _ \<Rightarrow> v)"

definition extractMetadataToken :: "(string \<Rightarrow> string list) \<Rightarrow> string \<Rightarrow> string" where
  "extractMetadataToken get headerName =
     (let a = firstVal (get ''authorization''); parts = SplitN2 a (CHR '' '') in
      if a \<noteq> [] then
        (if length parts = 2 \<and> EqualFold (parts ! 0) ''Bearer'' then TrimSpace (parts ! 1) else TrimSpace a)
      else if headerName \<noteq> [] \<and> firstVal (get (ToLower headerName)) \<noteq> []
      then TrimSpace (firstVal (get (ToLower headerName)))
      else if firstVal (get ''x-api-key'') \<noteq> [] then TrimSpace (firstVal (get ''x-api-key''))
      else [])"

section \<open>The rate limiter\<close>

record keyRateLimiter =
  kl_cap :: int
  kl_window :: int
  kl_buckets :: "(string \<times> int \<times> int) list"
  kl_maxKeys :: nat

definition newKeyRateLimiter :: "int \<Rightarrow> keyRateLimiter" where
  "newKeyRateLimiter perMinute =
     \<lparr>kl_cap = defPos 600 perMinute, kl_window = Minute, kl_buckets = [], kl_maxKeys = 10000\<rparr>"

text \<open>The loop of \<open>evictOldestLocked\<close>: the first of the oldest buckets.\<close>

fun oldest :: "(string \<times> int \<times> int) list \<Rightarrow> (string \<times> int) option" where
  "oldest [] = None"
| "oldest ((fp, t, _) # bs) =
     (case oldest bs of
        None \<Rightarrow> Some (fp, t)
      | Some (fp', t') \<Rightarrow> if t' < t then Some (fp', t') else Some (fp, t))"

definition evictOldestLocked :: "int \<Rightarrow> keyRateLimiter \<Rightarrow> keyRateLimiter" where
  "evictOldestLocked now r =
     (case oldest (kl_buckets r) of
        None \<Rightarrow> r
      | Some (fp, t) \<Rightarrow>
          if fp \<noteq> [] \<and> (now - t \<ge> kl_window r \<or> length (kl_buckets r) \<ge> kl_maxKeys r)
          then r\<lparr>kl_buckets := AList.delete fp (kl_buckets r)\<rparr> else r)"

definition allow :: "(string \<Rightarrow> string) \<Rightarrow> int \<Rightarrow> string \<Rightarrow> keyRateLimiter \<Rightarrow> (bool \<times> int) \<times> keyRateLimiter" where
  "allow fingerprint now rawKey r =
     (if rawKey = [] then ((True, 0), r)
      else let fp = fingerprint rawKey in
        case map_of (kl_buckets r) fp of
          Some (start, count) \<Rightarrow>
            if now - start \<ge> kl_window r then
              (if 0 \<ge> kl_cap r then ((False, now + kl_window r - now), r\<lparr>kl_buckets := AList.update fp (now, 0) (kl_buckets r)\<rparr>)
               else ((True, 0), r\<lparr>kl_buckets := AList.update fp (now, 1) (kl_buckets r)\<rparr>))
            else if count \<ge> kl_cap r then ((False, start + kl_window r - now), r)
            else ((True, 0), r\<lparr>kl_buckets := AList.update fp (start, count + 1) (kl_buckets r)\<rparr>)
        | None \<Rightarrow>
            (let r1 = (if length (kl_buckets r) \<ge> kl_maxKeys r then evictOldestLocked now r else r)
             in if 0 \<ge> kl_cap r then ((False, now + kl_window r - now), r1\<lparr>kl_buckets := AList.update fp (now, 0) (kl_buckets r1)\<rparr>)
                else ((True, 0), r1\<lparr>kl_buckets := AList.update fp (now, 1) (kl_buckets r1)\<rparr>)))"

section \<open>The HTTP middleware\<close>

record AuthErrorResponse =
  ae_Code :: int
  ae_Error :: string
  ae_Message :: string

datatype authResult = Forward | Refuse AuthErrorResponse "int option"

text \<open>\<open>Duration.Round(time.Second).Seconds()\<close> of a non-negative duration, at least 1.\<close>

definition retryAfterSecs :: "int \<Rightarrow> int" where
  "retryAfterSecs d =
     (let r = d mod Second;
          rounded = (if r + r < Second then d - r else d + Second - r);
          secs = rounded div Second
      in if secs < 1 then 1 else secs)"

definition AuthMiddleware ::
    "(string \<Rightarrow> string) \<Rightarrow> AuthConfig \<Rightarrow> int \<Rightarrow> (string \<Rightarrow> string) \<Rightarrow> keyRateLimiter \<Rightarrow> authResult \<times> keyRateLimiter" where
  "AuthMiddleware fingerprint cfg now get r =
     (if \<not> au_Enabled cfg then (Forward, r)
      else let providedKey = extractToken get (au_HeaderName cfg) in
        if providedKey = [] \<or> providedKey \<noteq> au_SecretKey cfg then
          (Refuse \<lparr>ae_Code = 401, ae_Error = ''unauthorized'',
             ae_Message = ''invalid or missing authentication token / secret key''\<rparr> None, r)
        else case allow fingerprint now providedKey r of
          ((True, _), r') \<Rightarrow> (Forward, r')
        | ((False, retryAfter), r') \<Rightarrow>
            (Refuse \<lparr>ae_Code = 429, ae_Error = ''rate_limited'',
               ae_Message = ''per-key request rate exceeded; retry after Retry-After seconds''\<rparr>
               (Some (retryAfterSecs retryAfter)), r'))"

definition clientAddr :: "(string \<Rightarrow> error + (string \<times> string)) \<Rightarrow> bool \<Rightarrow> (string \<Rightarrow> string) \<Rightarrow> string \<Rightarrow> string" where
  "clientAddr splitHostPort trustProxy get remoteAddr =
     (let first = TrimSpace (takeWhile (\<lambda>c. c \<noteq> CHR '','') (get ''X-Forwarded-For'')) in
      if trustProxy \<and> get ''X-Forwarded-For'' \<noteq> [] \<and> first \<noteq> [] then first
      else if trustProxy \<and> get ''X-Real-IP'' \<noteq> [] then TrimSpace (get ''X-Real-IP'')
      else case splitHostPort remoteAddr of Inl _ \<Rightarrow> remoteAddr | Inr (host, _) \<Rightarrow> host)"

section \<open>The gRPC interceptors\<close>

datatype grpcStatus = Unauthenticated string

text \<open>The incoming metadata is \<open>None\<close> when the context has none.\<close>

definition validateMetadataAuth :: "AuthConfig \<Rightarrow> (string \<Rightarrow> string list) option \<Rightarrow> grpcStatus option" where
  "validateMetadataAuth cfg md =
     (case md of
        None \<Rightarrow> Some (Unauthenticated ''rpc: metadata is missing'')
      | Some get \<Rightarrow>
          (let providedKey = extractMetadataToken get (au_HeaderName cfg)
           in if providedKey = [] \<or> providedKey \<noteq> au_SecretKey cfg
              then Some (Unauthenticated ''rpc: invalid or missing authentication token / secret key'')
              else None))"

definition UnaryAuthInterceptor ::
    "AuthConfig \<Rightarrow> (string \<Rightarrow> string list) option \<Rightarrow> ('q \<Rightarrow> 'r) \<Rightarrow> 'q \<Rightarrow> grpcStatus + 'r" where
  "UnaryAuthInterceptor cfg md handler req =
     (if \<not> au_Enabled cfg then Inr (handler req)
      else case validateMetadataAuth cfg md of Some e \<Rightarrow> Inl e | None \<Rightarrow> Inr (handler req))"

text \<open>The stream interceptor makes the same decision for a stream handler.\<close>

definition StreamAuthInterceptor ::
    "AuthConfig \<Rightarrow> (string \<Rightarrow> string list) option \<Rightarrow> ('s \<Rightarrow> 'r) \<Rightarrow> 's \<Rightarrow> grpcStatus + 'r" where
  "StreamAuthInterceptor cfg md handler ss =
     (if \<not> au_Enabled cfg then Inr (handler ss)
      else case validateMetadataAuth cfg md of Some e \<Rightarrow> Inl e | None \<Rightarrow> Inr (handler ss))"

abbreviation DefaultRPCTimeout :: int where "DefaultRPCTimeout \<equiv> 30 * Second"

text \<open>The handler gets the deadline of the caller, or one thirty seconds from now.\<close>

definition UnaryDeadlineInterceptor :: "int \<Rightarrow> int option \<Rightarrow> (int option \<Rightarrow> 'q \<Rightarrow> 'r) \<Rightarrow> 'q \<Rightarrow> 'r" where
  "UnaryDeadlineInterceptor now deadline handler req =
     (case deadline of
        None \<Rightarrow> handler (Some (now + DefaultRPCTimeout)) req
      | Some d \<Rightarrow> handler (Some d) req)"

section \<open>Lemmas\<close>

lemma extractToken_trimmed: "TrimSpace (extractToken get h) = extractToken get h"
  by (simp add: extractToken_def Let_def)

lemma extractMetadataToken_trimmed: "TrimSpace (extractMetadataToken get h) = extractMetadataToken get h"
  by (simp add: extractMetadataToken_def Let_def)

lemma allow_frame:
  "allow f now k r = (b, r') \<Longrightarrow> kl_cap r' = kl_cap r \<and> kl_window r' = kl_window r \<and> kl_maxKeys r' = kl_maxKeys r"
  by (auto simp: allow_def evictOldestLocked_def Let_def split: if_splits option.splits)

text \<open>The key has a bucket whose window is open.\<close>

lemma allow_open:
  assumes "rawKey \<noteq> []" "map_of (kl_buckets r) (f rawKey) = Some (start, c)" "now - start < kl_window r"
  shows "allow f now rawKey r =
    (if c \<ge> kl_cap r then ((False, start + kl_window r - now), r)
     else ((True, 0), r\<lparr>kl_buckets := AList.update (f rawKey) (start, c + 1) (kl_buckets r)\<rparr>))"
  using assms by (simp add: allow_def)

lemma allow_fresh:
  assumes "rawKey \<noteq> []" "0 < kl_cap r"
    and "map_of (kl_buckets r) (f rawKey) = None \<or>
         (\<exists>start c. map_of (kl_buckets r) (f rawKey) = Some (start, c) \<and> now - start \<ge> kl_window r)"
    and "allow f now rawKey r = (b, r')"
  shows "fst b \<and> map_of (kl_buckets r') (f rawKey) = Some (now, 1)"
  using assms by (auto simp: allow_def Let_def update_conv')

text \<open>A sequence of requests with one key: which are admitted.\<close>

fun admissions :: "(string \<Rightarrow> string) \<Rightarrow> string \<Rightarrow> int list \<Rightarrow> keyRateLimiter \<Rightarrow> bool list" where
  "admissions f key [] r = []"
| "admissions f key (t # ts) r = (case allow f t key r of ((ok, _), r') \<Rightarrow> ok # admissions f key ts r')"

lemma admissions_open:
  assumes "key \<noteq> []" "map_of (kl_buckets r) (f key) = Some (start, c)" "0 \<le> c" "c \<le> kl_cap r"
    and "list_all (\<lambda>t. t - start < kl_window r) ts"
  shows "length (filter (\<lambda>b. b) (admissions f key ts r)) = min (length ts) (nat (kl_cap r - c))"
  using assms
proof (induction ts arbitrary: r c)
  case (Cons t ts)
  show ?case
  proof (cases "c \<ge> kl_cap r")
    case True
    then show ?thesis
      using Cons.IH [of r c] Cons.prems allow_open [of key r f start c t] by simp
  next
    case False
    let ?r = "r\<lparr>kl_buckets := AList.update (f key) (start, c + 1) (kl_buckets r)\<rparr>"
    have "length (filter (\<lambda>b. b) (admissions f key ts ?r)) = min (length ts) (nat (kl_cap r - (c + 1)))"
      using Cons.IH [of ?r "c + 1"] Cons.prems False by (simp add: update_conv')
    then show ?thesis
      using Cons.prems False allow_open [of key r f start c t] by auto
  qed
qed simp

lemma admissions_append:
  "admissions f key (xs @ ys) r =
     admissions f key xs r @ admissions f key ys (fold (\<lambda>t s. snd (allow f t key s)) xs r)"
  by (induction xs arbitrary: r) (auto split: prod.splits)

lemma admissions_window:
  assumes "key \<noteq> []" "0 < kl_cap r" "map_of (kl_buckets r) (f key) = None \<or>
      (\<exists>start c. map_of (kl_buckets r) (f key) = Some (start, c) \<and> t - start \<ge> kl_window r)"
    and "list_all (\<lambda>u. u - t < kl_window r) ts"
  shows "length (filter (\<lambda>b. b) (admissions f key (t # ts) r)) = min (length (t # ts)) (nat (kl_cap r))"
proof -
  obtain ok d r' where a: "allow f t key r = ((ok, d), r')"
    by (metis surj_pair)
  have "ok" "map_of (kl_buckets r') (f key) = Some (t, 1)" "kl_cap r' = kl_cap r" "kl_window r' = kl_window r"
    using allow_fresh [OF assms(1-3) a] allow_frame [OF a] by simp_all
  then show ?thesis
    using admissions_open [of key r' f t 1 ts] assms a by auto
qed

lemma fold_allow_open:
  assumes "key \<noteq> []" "map_of (kl_buckets r) (f key) = Some (start, c)" "list_all (\<lambda>t. t - start < kl_window r) ts"
  shows "\<exists>c'. map_of (kl_buckets (fold (\<lambda>t s. snd (allow f t key s)) ts r)) (f key) = Some (start, c') \<and>
    kl_cap (fold (\<lambda>t s. snd (allow f t key s)) ts r) = kl_cap r \<and>
    kl_window (fold (\<lambda>t s. snd (allow f t key s)) ts r) = kl_window r"
  using assms
proof (induction ts arbitrary: r c)
  case (Cons t ts)
  show ?case
  proof (cases "c \<ge> kl_cap r")
    case True
    then show ?thesis
      using Cons.IH [of r c] Cons.prems allow_open [of key r f start c t] by simp
  next
    case False
    then show ?thesis
      using Cons.IH [of "r\<lparr>kl_buckets := AList.update (f key) (start, c + 1) (kl_buckets r)\<rparr>" "c + 1"] Cons.prems
        allow_open [of key r f start c t] by (simp add: update_conv')
  qed
qed simp

section \<open>Properties\<close>

text \<open>
  C10. The authentication gate. With authentication on, a request reaches the
  handler, over HTTP or over gRPC, only if its token is the configured secret
  and that is not empty (and, over HTTP, the rate limiter admits it); anything
  else is answered 401, 429 or Unauthenticated without running the handler,
  and a request with a wrong token leaves the limiter alone. Tokens are
  trimmed and the secret is not, so a secret with surrounding white space
  admits nobody.\<close>

theorem auth_gate:
  assumes "au_Enabled cfg"
  shows "(fst (AuthMiddleware f cfg now get r) = Forward \<longleftrightarrow>
      extractToken get (au_HeaderName cfg) = au_SecretKey cfg \<and> au_SecretKey cfg \<noteq> [] \<and>
      fst (fst (allow f now (au_SecretKey cfg) r))) \<and>
    (extractToken get (au_HeaderName cfg) \<noteq> au_SecretKey cfg \<longrightarrow>
       (\<exists>e. AuthMiddleware f cfg now get r = (Refuse e None, r) \<and> ae_Code e = 401)) \<and>
    ((\<exists>x. UnaryAuthInterceptor cfg md h req = Inr x) \<longleftrightarrow>
       (\<exists>g. md = Some g \<and> extractMetadataToken g (au_HeaderName cfg) = au_SecretKey cfg \<and> au_SecretKey cfg \<noteq> [])) \<and>
    (TrimSpace (au_SecretKey cfg) \<noteq> au_SecretKey cfg \<longrightarrow>
       fst (AuthMiddleware f cfg now get r) \<noteq> Forward \<and> (\<exists>e. UnaryAuthInterceptor cfg md h req = Inl e))"
proof -
  have http: "fst (AuthMiddleware f cfg now get r) = Forward \<longleftrightarrow>
      extractToken get (au_HeaderName cfg) = au_SecretKey cfg \<and> au_SecretKey cfg \<noteq> [] \<and>
      fst (fst (allow f now (au_SecretKey cfg) r))"
    using assms by (auto simp: AuthMiddleware_def Let_def split: prod.splits bool.splits)
  have rpc: "(\<exists>x. UnaryAuthInterceptor cfg md h req = Inr x) \<longleftrightarrow>
      (\<exists>g. md = Some g \<and> extractMetadataToken g (au_HeaderName cfg) = au_SecretKey cfg \<and> au_SecretKey cfg \<noteq> [])"
    using assms by (auto simp: UnaryAuthInterceptor_def validateMetadataAuth_def Let_def split: option.splits if_splits)
  have "\<exists>e. UnaryAuthInterceptor cfg md h req = Inl e" if "\<not> (\<exists>x. UnaryAuthInterceptor cfg md h req = Inr x)"
    using that by (cases "UnaryAuthInterceptor cfg md h req") auto
  then have "TrimSpace (au_SecretKey cfg) \<noteq> au_SecretKey cfg \<longrightarrow>
      fst (AuthMiddleware f cfg now get r) \<noteq> Forward \<and> (\<exists>e. UnaryAuthInterceptor cfg md h req = Inl e)"
    using http rpc extractToken_trimmed extractMetadataToken_trimmed by metis
  moreover have "\<exists>e. AuthMiddleware f cfg now get r = (Refuse e None, r) \<and> ae_Code e = 401"
    if "extractToken get (au_HeaderName cfg) \<noteq> au_SecretKey cfg"
    using assms that by (simp add: AuthMiddleware_def Let_def)
  ultimately show ?thesis
    using http rpc by blast
qed

text \<open>
  The limiter counts in fixed windows. Of any requests with one key that
  fall into the minute after the first of them, exactly the first cap are
  admitted, cap being the configured rate or 600 when it is not positive. The
  window does not slide: twice the cap is admitted when the requests straddle
  the end of a minute, all but one of them within one nanosecond.\<close>

theorem fixed_window:
  assumes "key \<noteq> []" "cap = defPos 600 perMinute"
  shows "(\<forall>t ts. list_all (\<lambda>u. u - t < Minute) ts \<longrightarrow>
      length (filter (\<lambda>b. b) (admissions f key (t # ts) (newKeyRateLimiter perMinute))) = min (length (t # ts)) (nat cap)) \<and>
    (let late = replicate (nat cap - 1) (Minute - 1); next = replicate (nat cap) Minute
     in length (filter (\<lambda>b. b) (admissions f key (0 # late @ next) (newKeyRateLimiter perMinute))) = 2 * nat cap)"
proof -
  let ?r = "newKeyRateLimiter perMinute"
  have r: "kl_cap ?r = cap" "kl_window ?r = Minute" "map_of (kl_buckets ?r) (f key) = None" "0 < kl_cap ?r" "0 < cap"
    using assms(2) by (simp_all add: newKeyRateLimiter_def)
  have first: "length (filter (\<lambda>b. b) (admissions f key (t # ts) ?r)) = min (length (t # ts)) (nat cap)"
    if "list_all (\<lambda>u. u - t < Minute) ts" for t ts
    using admissions_window [OF assms(1) r(4), of f t ts] that r by simp
  define late where "late = replicate (nat cap - 1) (Minute - 1)"
  define r' where "r' = fold (\<lambda>t s. snd (allow f t key s)) (0 # late) ?r"
  have late: "list_all (\<lambda>t. t - 0 < Minute) late"
    by (simp add: late_def list_all_iff)
  obtain ok d r1 where a: "allow f 0 key ?r = ((ok, d), r1)"
    by (metis surj_pair)
  have r1: "map_of (kl_buckets r1) (f key) = Some (0, 1)" "kl_cap r1 = cap" "kl_window r1 = Minute"
    using allow_fresh [OF assms(1) r(4) _ a] allow_frame [OF a] r by simp_all
  have r': "\<exists>c. map_of (kl_buckets r') (f key) = Some (0, c)" "kl_cap r' = cap" "kl_window r' = Minute"
    using fold_allow_open [where f = f and key = key and start = 0 and c = 1 and r = r1 and ts = late] assms(1) late r1
    by (auto simp: r'_def a)
  have "length (filter (\<lambda>b. b) (admissions f key (replicate (nat cap) Minute) r')) = nat cap"
    using admissions_window [OF assms(1), of r' f Minute "replicate (nat cap - 1) Minute"] r' r(5)
    by (cases "nat cap") (auto simp: list_all_iff)
  moreover have "length (filter (\<lambda>b. b) (admissions f key (0 # late) ?r)) = nat cap"
    using first [of 0 late] late r(5) by (simp add: late_def)
  ultimately have "length (filter (\<lambda>b. b) (admissions f key ((0 # late) @ replicate (nat cap) Minute) ?r)) = 2 * nat cap"
    unfolding admissions_append by (simp add: r'_def)
  then show ?thesis
    using first by (simp add: late_def Let_def)
qed

section \<open>Witnesses\<close>

definition sampleAuth :: AuthConfig where
  "sampleAuth = \<lparr>au_Enabled = True, au_SecretKey = ''s3cret'', au_HeaderName = ''X-API-Key'', au_RatePerKeyPerMinute = 2\<rparr>"

theorem auth_gate_witness:
  "fst (AuthMiddleware id sampleAuth 0 (\<lambda>h. if h = ''Authorization'' then ''bearer s3cret '' else [])
      (newKeyRateLimiter 2)) = Forward \<and>
   fst (AuthMiddleware id sampleAuth 0 (\<lambda>h. ''guess'') (newKeyRateLimiter 2)) \<noteq> Forward"
proof -
  have "au_Enabled sampleAuth"
    by (simp add: sampleAuth_def)
  note gate = auth_gate [OF this, of id 0 _ "newKeyRateLimiter 2" None "\<lambda>x. x" "()", THEN conjunct1]
  have ok: "extractToken (\<lambda>h. if h = ''Authorization'' then ''bearer s3cret '' else []) (au_HeaderName sampleAuth) = au_SecretKey sampleAuth"
      "au_SecretKey sampleAuth \<noteq> []" "fst (fst (allow id 0 (au_SecretKey sampleAuth) (newKeyRateLimiter 2)))"
      "extractToken (\<lambda>h. ''guess'') (au_HeaderName sampleAuth) \<noteq> au_SecretKey sampleAuth"
    by code_simp+
  show ?thesis
    unfolding gate using ok by blast
qed

theorem fixed_window_witness:
  "length (filter (\<lambda>b. b) (admissions id ''k'' [0, 1, 2, 3] (newKeyRateLimiter 2))) = 2"
proof -
  have "list_all (\<lambda>u. u - 0 < Minute) [1, 2, 3]"
    by simp
  moreover have "2 = defPos 600 2"
    by (simp add: defPos_def)
  ultimately have "length (filter (\<lambda>b. b) (admissions id ''k'' (0 # [1, 2, 3]) (newKeyRateLimiter 2))) =
      min (length (0 # [1, 2, 3 :: int])) (nat 2)"
    using fixed_window [of "''k''" 2 2 id] by fast
  then show ?thesis
    by (simp only: list.size)
qed

end
