(* ===== verification/Api.thy ===== *)
theory Api
  imports Sender HttpAuth
begin

text \<open>
  The two front ends that accept emails: \<open>internal/core/send.go\<close>,
  \<open>internal/handler/email.go\<close> and \<open>internal/rpc/server.go\<close>. The sender and
  the queue producer behind the service act on a state \<open>'w\<close>; a request is
  already decoded from JSON or protobuf (\<open>decode\<close>), identifiers and the clock
  are inputs. Spans, metrics and log lines are left out.
\<close>

section \<open>The send service (core/send.go)\<close>

definition ErrSenderUnavailable :: error where
  "ErrSenderUnavailable = Err ''core: smtp sender is not initialized''"
definition ErrNoTransport :: error where
  "ErrNoTransport = Err ''core: neither queue producer nor sender is available''"

record SendOutcome =
  so_ID :: string
  so_Status :: string
  so_Message :: string
  so_SentAt :: int

text \<open>A message to publish: its identifier, topic and payload.\<close>

record queuedMsg =
  qm_ID :: string
  qm_Topic :: string
  qm_Payload :: string
  qm_Timestamp :: int
  qm_Attempts :: int

record 'w SendService =
  sv_Sender :: "(Email \<Rightarrow> 'w \<Rightarrow> error option \<times> 'w) option"
  sv_Producer :: "(queuedMsg \<Rightarrow> 'w \<Rightarrow> error option \<times> 'w) option"
  sv_QueueName :: string
  sv_toJSON :: "Email \<Rightarrow> error + string"

definition SendSync :: "'w SendService \<Rightarrow> int \<Rightarrow> Email \<Rightarrow> 'w \<Rightarrow> (error + SendOutcome) \<times> 'w" where
  "SendSync svc now email w =
     (case sv_Sender svc of
        None \<Rightarrow> (Inl ErrSenderUnavailable, w)
      | Some send \<Rightarrow>
          (case send email w of
             (Some e, w') \<Rightarrow> (Inl e, w')
           | (None, w') \<Rightarrow>
               (Inr \<lparr>so_ID = em_ID email, so_Status = ''sent'', so_Message = ''email sent successfully'',
                  so_SentAt = now\<rparr>, w')))"

text \<open>
  Without a producer the email is sent by a background goroutine: the flag of
  the result says that one was started.
\<close>

definition SendAsync ::
    "'w SendService \<Rightarrow> int \<Rightarrow> Email \<Rightarrow> 'w \<Rightarrow> (error + SendOutcome) \<times> bool \<times> 'w" where
  "SendAsync svc now email w =
     (case sv_toJSON svc email of
        Inl e \<Rightarrow> (Inl e, False, w)
      | Inr data \<Rightarrow>
          (let queued = \<lparr>so_ID = em_ID email, so_Status = ''queued'', so_Message = ''email enqueued successfully'',
                         so_SentAt = now\<rparr> in
           case sv_Producer svc of
             Some publish \<Rightarrow>
               (case publish \<lparr>qm_ID = em_ID email, qm_Topic = sv_QueueName svc, qm_Payload = data,
                        qm_Timestamp = now, qm_Attempts = 1\<rparr> w of
                  (Some e, w') \<Rightarrow> (Inl e, False, w')
                | (None, w') \<Rightarrow> (Inr queued, False, w'))
           | None \<Rightarrow>
               (case sv_Sender svc of
                  Some _ \<Rightarrow> (Inr queued, True, w)
                | None \<Rightarrow> (Inl ErrNoTransport, False, w))))"

section \<open>The HTTP handlers (handler/email.go)\<close>

record SendEmailRequest =
  rq_ID :: string
  rq_Account :: string
  rq_From :: string
  rq_FromName :: string
  rq_ReplyTo :: string
  rq_To :: "string list"
  rq_Cc :: "string list"
  rq_Bcc :: "string list"
  rq_Subject :: string
  rq_TextBody :: string
  rq_HTMLBody :: string
  rq_Headers :: "(string \<times> string) list"
  rq_Attachments :: "Attachment option list"
  rq_Tags :: "string list"
  rq_Metadata :: "(string \<times> string) list"
  rq_Async :: bool

text \<open>
  \<open>requestToEmail\<close> and, for the gRPC request type, which has the same fields,
  \<open>protoToEmail\<close>; \<open>genID\<close> is the drawn identifier.
\<close>

definition requestToEmail :: "string \<Rightarrow> SendEmailRequest \<Rightarrow> Email" where
  "requestToEmail genID req =
     \<lparr>em_ID = (if TrimSpace (rq_ID req) = [] then genID else rq_ID req), em_Account = rq_Account req,
      em_From = rq_From req, em_FromName = rq_FromName req, em_ReplyTo = rq_ReplyTo req,
      em_To = rq_To req, em_Cc = rq_Cc req, em_Bcc = rq_Bcc req, em_Subject = rq_Subject req,
      em_TextBody = rq_TextBody req, em_HTMLBody = rq_HTMLBody req, em_Headers = rq_Headers req,
      em_Attachments = filter (\<lambda>a. a \<noteq> None) (rq_Attachments req), em_Tags = rq_Tags req,
      em_Metadata = rq_Metadata req\<rparr>"

definition protoToEmail :: "string \<Rightarrow> SendEmailRequest \<Rightarrow> Email" where
  "protoToEmail genID req =
     \<lparr>em_ID = (if TrimSpace (rq_ID req) = [] then genID else rq_ID req), em_Account = rq_Account req,
      em_From = rq_From req, em_FromName = rq_FromName req, em_ReplyTo = rq_ReplyTo req,
      em_To = rq_To req, em_Cc = rq_Cc req, em_Bcc = rq_Bcc req, em_Subject = rq_Subject req,
      em_TextBody = rq_TextBody req, em_HTMLBody = rq_HTMLBody req, em_Headers = rq_Headers req,
      em_Attachments = filter (\<lambda>a. a \<noteq> None) (rq_Attachments req), em_Tags = rq_Tags req,
      em_Metadata = rq_Metadata req\<rparr>"

record SendEmailResponse =
  er_ID :: string
  er_Status :: string
  er_Message :: string
  er_SentAt :: int

record BatchSendEmailResponse =
  br_Total :: int
  br_Succeeded :: int
  br_Failed :: int
  br_Results :: "SendEmailResponse option list"

datatype httpBody = ErrorBody string string | SendBody SendEmailResponse | BatchBody BatchSendEmailResponse

record httpResponse =
  hp_status :: int
  hp_body :: httpBody

definition writeError :: "int \<Rightarrow> string \<Rightarrow> string \<Rightarrow> httpResponse" where
  "writeError status errStr details = \<lparr>hp_status = status, hp_body = ErrorBody errStr details\<rparr>"

text \<open>The internal error goes to the log only; the client gets a code and a trace identifier.\<close>

definition writeInternalError :: "string \<Rightarrow> error \<Rightarrow> string \<Rightarrow> httpResponse" where
  "writeInternalError traceID internalErr publicCode =
     \<lparr>hp_status = 500, hp_body = ErrorBody publicCode (''trace_id='' @ traceID)\<rparr>"

definition toResponse :: "SendOutcome \<Rightarrow> SendEmailResponse" where
  "toResponse out = \<lparr>er_ID = so_ID out, er_Status = so_Status out, er_Message = so_Message out, er_SentAt = so_SentAt out\<rparr>"

text \<open>What one call reads: the method, the body or the error of reading it, the query, the clock.\<close>

record 'req httpRequest =
  hq_Method :: string
  hq_Body :: "error + string"
  hq_decode :: "string \<Rightarrow> error + 'req"
  hq_asyncParam :: string
  hq_genIDs :: "string list"
  hq_traceID :: string
  hq_now :: int

text \<open>\<open>sendOne\<close>: validated email to response, by the asynchronous or the synchronous path.\<close>

definition sendOne ::
    "'w SendService \<Rightarrow> bool \<Rightarrow> int \<Rightarrow> Email \<Rightarrow> 'w \<Rightarrow> (error + SendEmailResponse) \<times> 'w" where
  "sendOne svc isAsync now email w =
     (if isAsync then
        (case SendAsync svc now email w of
           (Inl e, _, w') \<Rightarrow> (Inl e, w')
         | (Inr out, _, w') \<Rightarrow> (Inr (toResponse out), w'))
      else
        (case SendSync svc now email w of
           (Inl e, w') \<Rightarrow> (Inl e, w')
         | (Inr out, w') \<Rightarrow> (Inr (toResponse out), w')))"

definition HandleSend ::
    "(string \<Rightarrow> error + string) \<Rightarrow> 'w SendService \<Rightarrow> SendEmailRequest httpRequest \<Rightarrow> 'w \<Rightarrow> httpResponse \<times> 'w" where
  "HandleSend parse svc r w =
     (if hq_Method r \<noteq> ''POST'' then
        (writeError 405 ''method_not_allowed'' ''only POST method is supported'', w)
      else case hq_Body r of
        Inl _ \<Rightarrow> (writeError 400 ''invalid_request'' ''failed to read request body or body too large'', w)
      | Inr body \<Rightarrow>
          (case hq_decode r body of
             Inl e \<Rightarrow> (writeError 400 ''invalid_json'' (''failed to parse JSON payload: '' @ Error e), w)
           | Inr req \<Rightarrow>
               (let email = requestToEmail (firstVal (hq_genIDs r)) req in
                case Email_Validate parse (Some email) of
                  Some e \<Rightarrow> (writeError 400 ''validation_error'' (Error e), w)
                | None \<Rightarrow>
                    (let isAsync = rq_Async req \<or> EqualFold (hq_asyncParam r) ''true'' in
                     case sendOne svc isAsync (hq_now r) email w of
                       (Inl e, w') \<Rightarrow>
                         (writeInternalError (hq_traceID r) e (if isAsync then ''enqueue_failed'' else ''delivery_failed''), w')
                     | (Inr resp, w') \<Rightarrow> (\<lparr>hp_status = (if isAsync then 202 else 200), hp_body = SendBody resp\<rparr>, w')))))"

record BatchSendEmailRequest =
  bq_Emails :: "SendEmailRequest option list"
  bq_Async :: bool

definition failedResponse :: "string \<Rightarrow> string \<Rightarrow> int \<Rightarrow> SendEmailResponse" where
  "failedResponse ident msg now = \<lparr>er_ID = ident, er_Status = ''failed'', er_Message = msg, er_SentAt = now\<rparr>"

text \<open>One goroutine of a batch: whether it succeeded, and its entry of the results.\<close>

definition batchItem ::
    "(string \<Rightarrow> error + string) \<Rightarrow> 'w SendService \<Rightarrow> bool \<Rightarrow> int \<Rightarrow> string \<Rightarrow> SendEmailRequest option \<Rightarrow> 'w \<Rightarrow>
     (bool \<times> SendEmailResponse) \<times> 'w" where
  "batchItem parse svc isAsync now genID item w =
     (case item of
        None \<Rightarrow> ((False, failedResponse [] ''nil email item in batch'' now), w)
      | Some req \<Rightarrow>
          (let email = requestToEmail genID req in
           case Email_Validate parse (Some email) of
             Some e \<Rightarrow> ((False, failedResponse (em_ID email) (''validation failed: '' @ Error e) now), w)
           | None \<Rightarrow>
               (case sendOne svc isAsync now email w of
                  (Inl e, w') \<Rightarrow>
                    ((False, failedResponse (em_ID email) (if isAsync then ''enqueue failed'' else ''delivery failed'') now), w')
                | (Inr resp, w') \<Rightarrow> ((True, resp), w'))))"

text \<open>
  The goroutines of a batch in the order \<open>sched\<close> in which they reach the
  mutex; each fills its own place.
\<close>

fun batchRun ::
    "(nat \<Rightarrow> 'w \<Rightarrow> (bool \<times> SendEmailResponse) \<times> 'w) \<Rightarrow> nat list \<Rightarrow> BatchSendEmailResponse \<Rightarrow> 'w \<Rightarrow>
     BatchSendEmailResponse \<times> 'w" where
  "batchRun item [] resp w = (resp, w)"
| "batchRun item (i # is) resp w =
     (case item i w of ((ok, r), w') \<Rightarrow>
        batchRun item is
          (resp\<lparr>br_Succeeded := br_Succeeded resp + (if ok then 1 else 0),
                br_Failed := br_Failed resp + (if ok then 0 else 1),
                br_Results := (br_Results resp)[i := Some r]\<rparr>) w')"

definition emptyBatch :: "nat \<Rightarrow> BatchSendEmailResponse" where
  "emptyBatch n = \<lparr>br_Total = int n, br_Succeeded = 0, br_Failed = 0, br_Results = replicate n None\<rparr>"

definition HandleBatchSend ::
    "(string \<Rightarrow> error + string) \<Rightarrow> 'w SendService \<Rightarrow> nat list \<Rightarrow> BatchSendEmailRequest httpRequest \<Rightarrow> 'w \<Rightarrow>
     httpResponse \<times> 'w" where
  "HandleBatchSend parse svc sched r w =
     (if hq_Method r \<noteq> ''POST'' then
        (writeError 405 ''method_not_allowed'' ''only POST method is supported'', w)
      else case hq_Body r of
        Inl _ \<Rightarrow> (writeError 400 ''invalid_request'' ''failed to read request body or body too large'', w)
      | Inr body \<Rightarrow>
          (case hq_decode r body of
             Inl e \<Rightarrow> (writeError 400 ''invalid_json'' (''failed to parse JSON payload: '' @ Error e), w)
           | Inr req \<Rightarrow>
               if bq_Emails req = [] then (writeError 400 ''empty_batch'' ''emails list cannot be empty'', w)
               else (let isAsync = bq_Async req \<or> EqualFold (hq_asyncParam r) ''true'' in
                 case batchRun
                        (\<lambda>i. batchItem parse svc isAsync (hq_now r) (hq_genIDs r ! i) (bq_Emails req ! i))
                        sched (emptyBatch (length (bq_Emails req))) w of
                   (resp, w') \<Rightarrow> (\<lparr>hp_status = 200, hp_body = BatchBody resp\<rparr>, w'))))"

section \<open>The gRPC service (rpc/server.go)\<close>

datatype rpcCode = InvalidArgument | Unavailable | Internal

record rpcError =
  rc_code :: rpcCode
  rc_msg :: string

definition rpc_sendSync :: "'w SendService \<Rightarrow> int \<Rightarrow> Email \<Rightarrow> 'w \<Rightarrow> (rpcError + SendEmailResponse) \<times> 'w" where
  "rpc_sendSync svc now email w =
     (if sv_Sender svc = None then
        (Inl \<lparr>rc_code = Unavailable, rc_msg = ''rpc: smtp sender is not initialized''\<rparr>, w)
      else case SendSync svc now email w of
        (Inl e, w') \<Rightarrow> (Inl \<lparr>rc_code = Internal, rc_msg = ''rpc: delivery failed: '' @ Error e\<rparr>, w')
      | (Inr out, w') \<Rightarrow> (Inr (toResponse out), w'))"

definition rpc_sendAsync :: "'w SendService \<Rightarrow> int \<Rightarrow> Email \<Rightarrow> 'w \<Rightarrow> (rpcError + SendEmailResponse) \<times> 'w" where
  "rpc_sendAsync svc now email w =
     (case SendAsync svc now email w of
        (Inl e, _, w') \<Rightarrow> (Inl \<lparr>rc_code = Internal, rc_msg = ''rpc: failed to enqueue email: '' @ Error e\<rparr>, w')
      | (Inr out, _, w') \<Rightarrow> (Inr (toResponse out), w'))"

definition rpc_Send ::
    "(string \<Rightarrow> error + string) \<Rightarrow> 'w SendService \<Rightarrow> int \<Rightarrow> string \<Rightarrow> SendEmailRequest option \<Rightarrow> 'w \<Rightarrow>
     (rpcError + SendEmailResponse) \<times> 'w" where
  "rpc_Send parse svc now genID req w =
     (case req of
        None \<Rightarrow> (Inl \<lparr>rc_code = InvalidArgument, rc_msg = ''rpc: send mail request is nil''\<rparr>, w)
      | Some rq \<Rightarrow>
          (let email = protoToEmail genID rq in
           case Email_Validate parse (Some email) of
             Some e \<Rightarrow> (Inl \<lparr>rc_code = InvalidArgument, rc_msg = ''rpc: email validation failed: '' @ Error e\<rparr>, w)
           | None \<Rightarrow> if rq_Async rq then rpc_sendAsync svc now email w else rpc_sendSync svc now email w))"

text \<open>
  One goroutine of a gRPC batch; the message of a failure contains the status
  error as \<open>fmtStatus\<close>, the formatting of the gRPC library, prints it.
\<close>

definition rpc_batchItem ::
    "(rpcError \<Rightarrow> string) \<Rightarrow> (string \<Rightarrow> error + string) \<Rightarrow> 'w SendService \<Rightarrow> bool \<Rightarrow> int \<Rightarrow> string \<Rightarrow>
     SendEmailRequest option \<Rightarrow> 'w \<Rightarrow> (bool \<times> SendEmailResponse) \<times> 'w" where
  "rpc_batchItem fmtStatus parse svc batchAsync now genID item w =
     (case item of
        None \<Rightarrow> ((False, failedResponse [] ''nil item in batch'' now), w)
      | Some req \<Rightarrow>
          (let email = protoToEmail genID req; isAsync = batchAsync \<or> rq_Async req in
           case Email_Validate parse (Some email) of
             Some e \<Rightarrow> ((False, failedResponse (em_ID email) (''validation failed: '' @ Error e) now), w)
           | None \<Rightarrow>
               (case (if isAsync then rpc_sendAsync svc now email w else rpc_sendSync svc now email w) of
                  (Inl e, w') \<Rightarrow>
                    ((False, failedResponse (em_ID email)
                        ((if isAsync then ''enqueue failed: '' else ''delivery failed: '') @ fmtStatus e) now), w')
                | (Inr resp, w') \<Rightarrow> ((True, resp), w'))))"

definition rpc_SendBatch ::
    "(rpcError \<Rightarrow> string) \<Rightarrow> (string \<Rightarrow> error + string) \<Rightarrow> 'w SendService \<Rightarrow> int \<Rightarrow> string list \<Rightarrow> nat list \<Rightarrow>
     BatchSendEmailRequest option \<Rightarrow> 'w \<Rightarrow> (rpcError + BatchSendEmailResponse) \<times> 'w" where
  "rpc_SendBatch fmtStatus parse svc now genIDs sched req w =
     (case req of
        None \<Rightarrow> (Inl \<lparr>rc_code = InvalidArgument, rc_msg = ''rpc: batch request is empty''\<rparr>, w)
      | Some rq \<Rightarrow>
          if bq_Emails rq = [] then (Inl \<lparr>rc_code = InvalidArgument, rc_msg = ''rpc: batch request is empty''\<rparr>, w)
          else (case batchRun (\<lambda>i. rpc_batchItem fmtStatus parse svc (bq_Async rq) now (genIDs ! i) (bq_Emails rq ! i))
                       sched (emptyBatch (length (bq_Emails rq))) w of
                  (resp, w') \<Rightarrow> (Inr resp, w')))"

text \<open>\<open>HealthCheck\<close>: always serving, with the state of the two parts as details.\<close>

definition rpc_HealthCheck :: "'w SendService \<Rightarrow> bool \<times> (string \<times> string) list" where
  "rpc_HealthCheck svc =
     (True, [(''sender'', if sv_Sender svc \<noteq> None then ''READY'' else ''NOT_CONFIGURED''),
             (''queue'', if sv_Producer svc \<noteq> None then ''READY'' else ''DIRECT_MODE'')])"

section \<open>Lemmas\<close>

lemma batchRun_results:
  assumes "batchRun item is resp w = (resp', w')" "distinct is" "set is \<subseteq> {..<length (br_Results resp)}"
  shows "br_Total resp' = br_Total resp \<and> length (br_Results resp') = length (br_Results resp) \<and>
    br_Succeeded resp' + br_Failed resp' = br_Succeeded resp + br_Failed resp + int (length is) \<and>
    (\<forall>i. i \<notin> set is \<longrightarrow> br_Results resp' ! i = br_Results resp ! i) \<and>
    (\<forall>i \<in> set is. \<exists>w1 ok r w2. item i w1 = ((ok, r), w2) \<and> br_Results resp' ! i = Some r)"
  using assms
proof (induction "is" arbitrary: resp w)
  case (Cons i "is")
  obtain ok r w1 where it: "item i w = ((ok, r), w1)"
    by (metis surj_pair)
  let ?resp = "resp\<lparr>br_Succeeded := br_Succeeded resp + (if ok then 1 else 0),
    br_Failed := br_Failed resp + (if ok then 0 else 1), br_Results := (br_Results resp)[i := Some r]\<rparr>"
  have run: "batchRun item is ?resp w1 = (resp', w')"
    using Cons.prems(1) it by simp
  have IH: "br_Total resp' = br_Total resp" "length (br_Results resp') = length (br_Results resp)"
      "br_Succeeded resp' + br_Failed resp' = br_Succeeded resp + br_Failed resp + 1 + int (length is)"
      "\<And>j. j \<notin> set is \<Longrightarrow> br_Results resp' ! j = (br_Results resp)[i := Some r] ! j"
      "\<And>j. j \<in> set is \<Longrightarrow> \<exists>w1 ok r w2. item j w1 = ((ok, r), w2) \<and> br_Results resp' ! j = Some r"
    using Cons.IH [OF run] Cons.prems(2,3) by auto
  have "br_Results resp' ! i = Some r"
    using IH(4) [of i] Cons.prems(2,3) by simp
  then show ?case
    using IH it by auto
qed simp

lemma batchRun_succeeded:
  assumes "batchRun item is resp w = (resp', w')" "\<And>i w ok r w'. item i w = ((ok, r), w') \<Longrightarrow> ok \<longleftrightarrow> good r"
    and "distinct is" "set is \<subseteq> {..<length (br_Results resp)}" "\<And>i. i \<in> set is \<Longrightarrow> br_Results resp ! i = None"
  shows "br_Succeeded resp' = br_Succeeded resp + int (card {i \<in> set is. \<exists>r. br_Results resp' ! i = Some r \<and> good r})"
  using assms
proof (induction "is" arbitrary: resp w)
  case (Cons i "is")
  obtain ok r w1 where it: "item i w = ((ok, r), w1)"
    by (metis surj_pair)
  let ?resp = "resp\<lparr>br_Succeeded := br_Succeeded resp + (if ok then 1 else 0),
    br_Failed := br_Failed resp + (if ok then 0 else 1), br_Results := (br_Results resp)[i := Some r]\<rparr>"
  have run: "batchRun item is ?resp w1 = (resp', w')"
    using Cons.prems(1) it by simp
  have "br_Results resp' ! i = Some r"
    using batchRun_results [OF run] Cons.prems(3,4) by auto
  moreover have "{j \<in> set (i # is). \<exists>r. br_Results resp' ! j = Some r \<and> good r} =
      {j \<in> set is. \<exists>r. br_Results resp' ! j = Some r \<and> good r} \<union> (if good r then {i} else {})"
    using calculation by auto
  moreover have "i \<notin> set is" "ok \<longleftrightarrow> good r"
    using Cons.prems(3) Cons.prems(2) [OF it] by auto
  moreover have "br_Succeeded resp' = br_Succeeded ?resp + int (card {i \<in> set is. \<exists>r. br_Results resp' ! i = Some r \<and> good r})"
    using Cons.prems by (intro Cons.IH [OF run Cons.prems(2)]) (auto simp: nth_list_update)
  ultimately show ?case
    by (auto simp: card_Un_disjoint)
qed simp

text \<open>An entry that says it failed.\<close>

definition delivered :: "SendEmailResponse \<Rightarrow> bool" where
  "delivered r \<longleftrightarrow> er_Status r \<noteq> ''failed''"

lemma sendOne_delivered: "sendOne svc a now e w = (Inr r, w') \<Longrightarrow> delivered r"
  by (auto simp: sendOne_def SendAsync_def SendSync_def toResponse_def delivered_def Let_def
      split: if_splits prod.splits sum.splits option.splits)

lemma batchItem_delivered: "batchItem parse svc a now g item w = ((ok, r), w') \<Longrightarrow> ok \<longleftrightarrow> delivered r"
  using sendOne_delivered [of svc a now _ w]
  by (auto simp: batchItem_def failedResponse_def delivered_def Let_def split: option.splits prod.splits sum.splits)

lemma rpc_batchItem_delivered: "rpc_batchItem fs parse svc a now g item w = ((ok, r), w') \<Longrightarrow> ok \<longleftrightarrow> delivered r"
  by (auto simp: rpc_batchItem_def rpc_sendAsync_def rpc_sendSync_def SendAsync_def SendSync_def toResponse_def
      failedResponse_def delivered_def Let_def split: option.splits prod.splits sum.splits if_splits)

text \<open>What a batch response says of the entries.\<close>

definition batchConsistent :: "nat \<Rightarrow> BatchSendEmailResponse \<Rightarrow> bool" where
  "batchConsistent n b \<longleftrightarrow> br_Total b = int n \<and> length (br_Results b) = n \<and> br_Succeeded b + br_Failed b = int n \<and>
     None \<notin> set (br_Results b) \<and>
     br_Succeeded b = int (card {i. i < n \<and> (\<exists>r. br_Results b ! i = Some r \<and> delivered r)})"

lemma batchRun_consistent:
  assumes "batchRun item sched (emptyBatch n) w = (b, w')" "distinct sched" "set sched = {..<n}"
    and "\<And>i w ok r w'. item i w = ((ok, r), w') \<Longrightarrow> ok \<longleftrightarrow> delivered r"
  shows "batchConsistent n b"
proof -
  have n: "length sched = n"
    using assms(2,3) distinct_card [of sched] by simp
  have res: "br_Total b = int n" "length (br_Results b) = n" "br_Succeeded b + br_Failed b = int n"
      "\<And>i. i < n \<Longrightarrow> \<exists>r. br_Results b ! i = Some r"
    using batchRun_results [OF assms(1,2)] assms(3) n by (auto simp: emptyBatch_def)
  moreover have "br_Succeeded b = int (card {i. i < n \<and> (\<exists>r. br_Results b ! i = Some r \<and> delivered r)})"
    using batchRun_succeeded [OF assms(1,4,2)] assms(3) by (simp add: emptyBatch_def)
  moreover have "None \<notin> set (br_Results b)"
    using res(2,4) by (metis in_set_conv_nth option.distinct(1))
  ultimately show ?thesis
    by (simp add: batchConsistent_def)
qed

section \<open>Properties\<close>


text \<open>
  C34. The two batch endpoints report consistently. In whatever order the
  goroutines of a batch finish, the response has one entry per item, its total
  is the number of items and the sum of succeeded and failed, and succeeded is
  the number of entries that do not say failed.\<close>

theorem batch_consistent:
  assumes "distinct sched" "set sched = {..<length (bq_Emails req)}" "bq_Emails req \<noteq> []"
  shows "(hq_Method r = ''POST'' \<and> hq_Body r = Inr body \<and> hq_decode r body = Inr req \<longrightarrow>
      (\<exists>b w'. HandleBatchSend parse svc sched r w = (\<lparr>hp_status = 200, hp_body = BatchBody b\<rparr>, w') \<and>
         batchConsistent (length (bq_Emails req)) b)) \<and>
    (\<exists>b w'. rpc_SendBatch fs parse svc now genIDs sched (Some req) w = (Inr b, w') \<and>
       batchConsistent (length (bq_Emails req)) b)"
proof -
  let ?n = "length (bq_Emails req)"
  let ?http = "\<lambda>i. batchItem parse svc (bq_Async req \<or> EqualFold (hq_asyncParam r) ''true'') (hq_now r)
      (hq_genIDs r ! i) (bq_Emails req ! i)"
  let ?rpc = "\<lambda>i. rpc_batchItem fs parse svc (bq_Async req) now (genIDs ! i) (bq_Emails req ! i)"
  obtain b1 w1 where h: "batchRun ?http sched (emptyBatch ?n) w = (b1, w1)"
    by fastforce
  obtain b2 w2 where g: "batchRun ?rpc sched (emptyBatch ?n) w = (b2, w2)"
    by fastforce
  have "batchConsistent ?n b1"
    by (rule batchRun_consistent [OF h assms(1,2)]) (rule batchItem_delivered)
  moreover have "batchConsistent ?n b2"
    by (rule batchRun_consistent [OF g assms(1,2)]) (rule rpc_batchItem_delivered)
  ultimately show ?thesis
    using h g assms(3) by (simp add: HandleBatchSend_def rpc_SendBatch_def Let_def)
qed

section \<open>Witnesses\<close>

definition sampleRequest :: SendEmailRequest where
  "sampleRequest = \<lparr>rq_ID = [], rq_Account = [], rq_From = [], rq_FromName = [], rq_ReplyTo = [], rq_To = [''x@y''],
     rq_Cc = [], rq_Bcc = [], rq_Subject = ''s'', rq_TextBody = ''t'', rq_HTMLBody = [], rq_Headers = [],
     rq_Attachments = [None], rq_Tags = [], rq_Metadata = [], rq_Async = False\<rparr>"

definition sampleService :: "error option \<Rightarrow> nat SendService" where
  "sampleService err = \<lparr>sv_Sender = Some (\<lambda>_ n. (err, Suc n)), sv_Producer = None, sv_QueueName = ''q'',
     sv_toJSON = (\<lambda>_. Inr ''{}'')\<rparr>"

definition samplePost :: "'req \<Rightarrow> 'req httpRequest" where
  "samplePost req = \<lparr>hq_Method = ''POST'', hq_Body = Inr [], hq_decode = (\<lambda>_. Inr req), hq_asyncParam = [],
     hq_genIDs = [''id0'', ''id1''], hq_traceID = ''t1'', hq_now = 5\<rparr>"


theorem batch_consistent_witness:
  "\<exists>b w'. rpc_SendBatch rc_msg Inr (sampleService None) 0 [''a'', ''b''] [1, 0]
     (Some \<lparr>bq_Emails = [Some sampleRequest, None], bq_Async = False\<rparr>) 0 = (Inr b, w') \<and> br_Total b = 2"
proof -
  let ?req = "\<lparr>bq_Emails = [Some sampleRequest, None], bq_Async = False\<rparr>"
  have "distinct [1, 0::nat]" "set [1, 0] = {..<length (bq_Emails ?req)}" "bq_Emails ?req \<noteq> []"
    by auto
  then show ?thesis
    using batch_consistent [of "[1, 0]" ?req "samplePost ?req" "[]" Inr "sampleService None" 0 rc_msg 0 "[''a'', ''b'']"]
    by (auto simp: batchConsistent_def)
qed

end
