(* ===== verification/Metrics.thy ===== *)
theory Metrics
  imports Tracing Utf8
begin

text \<open>
  The metrics of \<open>internal/metrics\<close>: label values (\<open>labels.go\<close>), the vectors that
  \<open>NewMetrics\<close> declares and the recording functions (\<open>metrics.go\<close>). A
  recording function is modelled by the list of calls it makes on the
  Prometheus client library and on the StatsD client, in their order; the
  StatsD client itself is the theory \<open>StatsD\<close>. A number that the code converts
  to \<open>float64\<close> in the argument of a call is kept as the integer it comes from.
\<close>

section \<open>Label values\<close>

abbreviation maxLabelValueLen :: nat where "maxLabelValueLen \<equiv> 64"

definition forbiddenRunes :: "string list" where
  "forbiddenRunes = [[CHR 0x0A], [CHR 0x0D], [CHR 0x22], [CHR 0x5C]]"

text \<open>\<open>sum256\<close> is \<open>sha256.Sum256\<close>.\<close>

definition sanitizeLabel :: "(string \<Rightarrow> string) \<Rightarrow> string \<Rightarrow> string" where
  "sanitizeLabel sum256 v =
     (let t = TrimSpace v
      in if t = [] then ''default''
         else let u = dropRunes forbiddenRunes t
              in if length u > maxLabelValueLen then ''h_'' @ hexEncode (take 8 (sum256 u)) else u)"

section \<open>Vectors\<close>

datatype metricVec =
    EmailsSentTotal | EmailSendDuration | EmailRecipientsTotal | EmailPayloadBytesTotal
  | SmtpPoolActiveConns | SmtpPoolIdleConns | SmtpPoolWaitDuration | SmtpPoolExhaustedTotal
  | SmtpDialDuration | SmtpTLSHandshakeDuration | SmtpAuthDuration
  | QueueReceivedTotal | QueueProcessedTotal | QueueRetriedTotal | QueueDeadLetterTotal
  | QueueProcessDuration | QueuePublishDuration | QueuePublishTotal | QueueLagDuration | QueueDepth | QueueInFlight
  | HttpRequestsTotal | HttpRequestDuration | AppInfo | AppUptime

datatype vecKind = Counter | Gauge | Histogram

record vecDesc =
  vd_kind :: vecKind
  vd_subsystem :: string
  vd_name :: string
  vd_labels :: "string list"

text \<open>The options each vector is created with; the namespace is \<open>mailbaby\<close> everywhere.\<close>

definition vecOpts :: "vecKind \<Rightarrow> string \<Rightarrow> string \<Rightarrow> string list \<Rightarrow> vecDesc" where
  "vecOpts k sub n ls = \<lparr>vd_kind = k, vd_subsystem = sub, vd_name = n, vd_labels = ls\<rparr>"

definition emailVecs :: "(metricVec \<times> vecDesc) list" where
  "emailVecs =
     [(EmailsSentTotal, vecOpts Counter ''email'' ''sent_total'' [''account'', ''status'']),
      (EmailSendDuration, vecOpts Histogram ''email'' ''send_duration_seconds'' [''account'']),
      (EmailRecipientsTotal, vecOpts Counter ''email'' ''recipients_total'' [''account'', ''type'']),
      (EmailPayloadBytesTotal, vecOpts Counter ''email'' ''payload_bytes_total'' [''account''])]"

definition smtpVecs :: "(metricVec \<times> vecDesc) list" where
  "smtpVecs =
     [(SmtpPoolActiveConns, vecOpts Gauge ''smtp'' ''pool_active_connections'' [''account'']),
      (SmtpPoolIdleConns, vecOpts Gauge ''smtp'' ''pool_idle_connections'' [''account'']),
      (SmtpPoolWaitDuration, vecOpts Histogram ''smtp'' ''pool_wait_duration_seconds'' [''account'']),
      (SmtpPoolExhaustedTotal, vecOpts Counter ''smtp'' ''pool_exhausted_total'' [''account'']),
      (SmtpDialDuration, vecOpts Histogram ''smtp'' ''dial_duration_seconds'' [''account'']),
      (SmtpTLSHandshakeDuration, vecOpts Histogram ''smtp'' ''tls_handshake_duration_seconds'' [''account'']),
      (SmtpAuthDuration, vecOpts Histogram ''smtp'' ''auth_duration_seconds'' [''account''])]"

definition queueVecs :: "(metricVec \<times> vecDesc) list" where
  "queueVecs =
     [(QueueReceivedTotal, vecOpts Counter ''queue'' ''messages_received_total'' [''driver'', ''topic'']),
      (QueueProcessedTotal, vecOpts Counter ''queue'' ''messages_processed_total'' [''driver'', ''topic'', ''status'']),
      (QueueRetriedTotal, vecOpts Counter ''queue'' ''messages_retried_total'' [''driver'', ''topic'']),
      (QueueDeadLetterTotal, vecOpts Counter ''queue'' ''messages_deadletter_total'' [''driver'', ''topic'']),
      (QueueProcessDuration, vecOpts Histogram ''queue'' ''process_duration_seconds'' [''driver'', ''topic'']),
      (QueuePublishDuration, vecOpts Histogram ''queue'' ''publish_duration_seconds'' [''driver'', ''topic'']),
      (QueuePublishTotal, vecOpts Counter ''queue'' ''publish_total'' [''driver'', ''topic'', ''status'']),
      (QueueLagDuration, vecOpts Histogram ''queue'' ''lag_seconds'' [''driver'', ''topic'']),
      (QueueDepth, vecOpts Gauge ''queue'' ''depth'' [''driver'', ''topic'']),
      (QueueInFlight, vecOpts Gauge ''queue'' ''in_flight'' [''driver'', ''topic''])]"

definition httpVecs :: "(metricVec \<times> vecDesc) list" where
  "httpVecs =
     [(HttpRequestsTotal, vecOpts Counter ''http'' ''requests_total'' [''handler'', ''method'', ''code'']),
      (HttpRequestDuration, vecOpts Histogram ''http'' ''request_duration_seconds'' [''handler'', ''method''])]"

definition appVecs :: "(metricVec \<times> vecDesc) list" where
  "appVecs =
     [(AppInfo, vecOpts Gauge ''app'' ''info'' [''name'', ''env'', ''version'']),
      (AppUptime, vecOpts Gauge ''app'' ''uptime_seconds'' [''name''])]"

definition describe :: "metricVec \<Rightarrow> vecDesc" where
  "describe v = the (map_of (emailVecs @ smtpVecs @ queueVecs @ httpVecs @ appVecs) v)"

lemmas describe_eval = describe_def emailVecs_def smtpVecs_def queueVecs_def httpVecs_def appVecs_def vecOpts_def

definition fqName :: "metricVec \<Rightarrow> string" where
  "fqName v = ''mailbaby_'' @ vd_subsystem (describe v) @ ''_'' @ vd_name (describe v)"

text \<open>The collectors in the order of the call of \<open>MustRegister\<close>.\<close>

definition registered :: "metricVec list" where
  "registered =
     [EmailsSentTotal, EmailSendDuration, EmailRecipientsTotal, EmailPayloadBytesTotal, SmtpPoolActiveConns,
      SmtpPoolIdleConns, SmtpPoolWaitDuration, SmtpPoolExhaustedTotal, SmtpDialDuration, SmtpTLSHandshakeDuration,
      SmtpAuthDuration, QueueReceivedTotal, QueueProcessedTotal, QueueRetriedTotal, QueueDeadLetterTotal,
      QueueProcessDuration, QueuePublishDuration, QueuePublishTotal, QueueLagDuration, QueueDepth, QueueInFlight,
      HttpRequestsTotal, HttpRequestDuration, AppInfo, AppUptime]"

text \<open>
  A \<open>Metrics\<close> value: which of its vector fields are set (all of them after
  \<open>NewMetrics\<close>, none in \<open>noopMetrics\<close>), the buckets of the histograms, whether there is
  a registry and the runtime collectors, and whether it has a StatsD client.
\<close>

record Metrics =
  mx_cfg :: "MetricsConfig option"
  mx_vecs :: "metricVec list"
  mx_buckets :: "float64 list"
  mx_registry :: bool
  mx_runtime :: bool
  mx_statsd :: bool
  mx_startTime :: int

definition noopMetrics :: Metrics where
  "noopMetrics =
     \<lparr>mx_cfg = None, mx_vecs = [], mx_buckets = [], mx_registry = False, mx_runtime = False, mx_statsd = False,
      mx_startTime = 0\<rparr>"

definition metricBuckets :: "MetricsConfig \<Rightarrow> float64 list" where
  "metricBuckets c =
     (if mt_HistogramBuckets c = [] then
        map Fin [1 / 1000, 5 / 1000, 1 / 100, 25 / 1000, 5 / 100, 1 / 10, 25 / 100, 1 / 2, 1, 5 / 2, 5, 10]
      else mt_HistogramBuckets c)"

text \<open>\<open>dial\<close> is the error of \<open>NewStatsDClient\<close> for an address, a prefix and an interval.\<close>

definition initStatsD :: "(string \<Rightarrow> string \<Rightarrow> int \<Rightarrow> error option) \<Rightarrow> MetricsConfig \<Rightarrow> Metrics \<Rightarrow> error + Metrics" where
  "initStatsD dial c m =
     (let sd = mt_StatsD c
      in if EqualFold (mt_Provider c) ''statsd'' \<and> sd_Address sd \<noteq> [] then
           (case dial (sd_Address sd) (sd_Prefix sd) (sd_FlushInterval sd) of
              Some e \<Rightarrow> Inl e
            | None \<Rightarrow> Inr (m\<lparr>mx_statsd := True\<rparr>))
         else Inr m)"

definition NewMetrics :: "(string \<Rightarrow> string \<Rightarrow> int \<Rightarrow> error option) \<Rightarrow> int \<Rightarrow> MetricsConfig \<Rightarrow> error + Metrics" where
  "NewMetrics dial now cfg =
     (let c = MetricsConfig_ApplyDefaults cfg
      in initStatsD dial c
           \<lparr>mx_cfg = Some c, mx_vecs = registered, mx_buckets = metricBuckets c, mx_registry = True,
            mx_runtime = mt_CollectRuntime c, mx_statsd = False, mx_startTime = now\<rparr>)"

section \<open>Recording\<close>

text \<open>
  The argument of a call: \<open>AddInt n\<close> is \<open>Add(float64(n))\<close>, \<open>SetInt n\<close> is
  \<open>Set(float64(n))\<close>, \<open>ObserveDur d\<close> is \<open>Observe(d.Seconds())\<close>, and \<open>SetDur d\<close> is
  \<open>Set(d.Seconds())\<close>.
\<close>

datatype metricAct = Inc | AddInt int | SetInt int | SetFloat float64 | SetDur int | ObserveDur int

datatype statsdCall = Count string int | GaugeInt string int | GaugeFloat string float64 | Timing string int

datatype metricCall = Vec metricVec "string list" metricAct | StatsD statsdCall

definition toStatsD :: "Metrics \<Rightarrow> statsdCall list \<Rightarrow> metricCall list" where
  "toStatsD m cs = (if mx_statsd m then map StatsD cs else [])"

text \<open>The guard of most functions: nothing happens on a nil receiver or when the vector is not there.\<close>

definition whenVec :: "Metrics option \<Rightarrow> metricVec \<Rightarrow> (Metrics \<Rightarrow> metricCall list) \<Rightarrow> metricCall list" where
  "whenVec m v f = (case m of None \<Rightarrow> [] | Some x \<Rightarrow> if v \<in> set (mx_vecs x) then f x else [])"

definition vecIf :: "Metrics \<Rightarrow> metricVec \<Rightarrow> string list \<Rightarrow> metricAct \<Rightarrow> metricCall list" where
  "vecIf x v ls act = (if v \<in> set (mx_vecs x) then [Vec v ls act] else [])"

definition mx_IncEmailsSent :: "(string \<Rightarrow> string) \<Rightarrow> Metrics option \<Rightarrow> string \<Rightarrow> string \<Rightarrow> metricCall list" where
  "mx_IncEmailsSent sha m account status =
     (let account = sanitizeLabel sha account; status = sanitizeLabel sha status
      in whenVec m EmailsSentTotal (\<lambda>x. Vec EmailsSentTotal [account, status] Inc #
           toStatsD x [Count (''email.sent.'' @ account @ ''.'' @ status) 1]))"

definition mx_ObserveEmailDuration :: "(string \<Rightarrow> string) \<Rightarrow> Metrics option \<Rightarrow> string \<Rightarrow> int \<Rightarrow> metricCall list" where
  "mx_ObserveEmailDuration sha m account d =
     (let account = sanitizeLabel sha account
      in whenVec m EmailSendDuration (\<lambda>x. Vec EmailSendDuration [account] (ObserveDur d) #
           toStatsD x [Timing (''email.duration.'' @ account) d]))"

definition mx_AddEmailRecipients :: "(string \<Rightarrow> string) \<Rightarrow> Metrics option \<Rightarrow> string \<Rightarrow> string \<Rightarrow> int \<Rightarrow> metricCall list" where
  "mx_AddEmailRecipients sha m account rcptType count =
     (if count \<le> 0 then []
      else let account = sanitizeLabel sha account; rcptType = sanitizeLabel sha rcptType
        in whenVec m EmailRecipientsTotal (\<lambda>x. Vec EmailRecipientsTotal [account, rcptType] (AddInt count) #
             toStatsD x [Count (''email.recipients.'' @ account @ ''.'' @ rcptType) count]))"

definition mx_AddEmailBytes :: "(string \<Rightarrow> string) \<Rightarrow> Metrics option \<Rightarrow> string \<Rightarrow> int \<Rightarrow> metricCall list" where
  "mx_AddEmailBytes sha m account bytes =
     (if bytes \<le> 0 then []
      else let account = sanitizeLabel sha account
        in whenVec m EmailPayloadBytesTotal (\<lambda>x. Vec EmailPayloadBytesTotal [account] (AddInt bytes) #
             toStatsD x [Count (''email.bytes.'' @ account) bytes]))"

definition mx_SetSmtpPoolStats :: "(string \<Rightarrow> string) \<Rightarrow> Metrics option \<Rightarrow> string \<Rightarrow> int \<Rightarrow> int \<Rightarrow> metricCall list" where
  "mx_SetSmtpPoolStats sha m account active idle =
     (case m of
        None \<Rightarrow> []
      | Some x \<Rightarrow>
          (let account = sanitizeLabel sha account
           in vecIf x SmtpPoolActiveConns [account] (SetInt active) @ vecIf x SmtpPoolIdleConns [account] (SetInt idle) @
              toStatsD x [GaugeInt (''smtp.pool.active.'' @ account) active, GaugeInt (''smtp.pool.idle.'' @ account) idle]))"

definition mx_ObserveSmtpPoolWait :: "(string \<Rightarrow> string) \<Rightarrow> Metrics option \<Rightarrow> string \<Rightarrow> int \<Rightarrow> metricCall list" where
  "mx_ObserveSmtpPoolWait sha m account d =
     whenVec m SmtpPoolWaitDuration (\<lambda>x. [Vec SmtpPoolWaitDuration [sanitizeLabel sha account] (ObserveDur d)])"

definition mx_IncSmtpPoolExhausted :: "(string \<Rightarrow> string) \<Rightarrow> Metrics option \<Rightarrow> string \<Rightarrow> metricCall list" where
  "mx_IncSmtpPoolExhausted sha m account =
     whenVec m SmtpPoolExhaustedTotal (\<lambda>x. [Vec SmtpPoolExhaustedTotal [sanitizeLabel sha account] Inc])"

definition mx_ObserveSmtpDial :: "(string \<Rightarrow> string) \<Rightarrow> Metrics option \<Rightarrow> string \<Rightarrow> int \<Rightarrow> metricCall list" where
  "mx_ObserveSmtpDial sha m account d =
     whenVec m SmtpDialDuration (\<lambda>x. [Vec SmtpDialDuration [sanitizeLabel sha account] (ObserveDur d)])"

definition mx_ObserveSmtpTLSHandshake :: "(string \<Rightarrow> string) \<Rightarrow> Metrics option \<Rightarrow> string \<Rightarrow> int \<Rightarrow> metricCall list" where
  "mx_ObserveSmtpTLSHandshake sha m account d =
     whenVec m SmtpTLSHandshakeDuration (\<lambda>x. [Vec SmtpTLSHandshakeDuration [sanitizeLabel sha account] (ObserveDur d)])"

definition mx_ObserveSmtpAuth :: "(string \<Rightarrow> string) \<Rightarrow> Metrics option \<Rightarrow> string \<Rightarrow> int \<Rightarrow> metricCall list" where
  "mx_ObserveSmtpAuth sha m account d =
     whenVec m SmtpAuthDuration (\<lambda>x. [Vec SmtpAuthDuration [sanitizeLabel sha account] (ObserveDur d)])"

definition mx_IncQueueReceived :: "(string \<Rightarrow> string) \<Rightarrow> Metrics option \<Rightarrow> string \<Rightarrow> string \<Rightarrow> metricCall list" where
  "mx_IncQueueReceived sha m driver topic =
     (let driver = sanitizeLabel sha driver; topic = sanitizeLabel sha topic
      in whenVec m QueueReceivedTotal (\<lambda>x. Vec QueueReceivedTotal [driver, topic] Inc #
           toStatsD x [Count (''queue.received.'' @ driver @ ''.'' @ topic) 1]))"

definition mx_IncQueueProcessed ::
    "(string \<Rightarrow> string) \<Rightarrow> Metrics option \<Rightarrow> string \<Rightarrow> string \<Rightarrow> string \<Rightarrow> metricCall list" where
  "mx_IncQueueProcessed sha m driver topic status =
     (let driver = sanitizeLabel sha driver; topic = sanitizeLabel sha topic; status = sanitizeLabel sha status
      in whenVec m QueueProcessedTotal (\<lambda>x. Vec QueueProcessedTotal [driver, topic, status] Inc #
           toStatsD x [Count (''queue.processed.'' @ driver @ ''.'' @ topic @ ''.'' @ status) 1]))"

definition mx_IncQueueRetried :: "(string \<Rightarrow> string) \<Rightarrow> Metrics option \<Rightarrow> string \<Rightarrow> string \<Rightarrow> metricCall list" where
  "mx_IncQueueRetried sha m driver topic =
     (let driver = sanitizeLabel sha driver; topic = sanitizeLabel sha topic
      in whenVec m QueueRetriedTotal (\<lambda>x. Vec QueueRetriedTotal [driver, topic] Inc #
           toStatsD x [Count (''queue.retried.'' @ driver @ ''.'' @ topic) 1]))"

definition mx_IncQueueDeadLetter :: "(string \<Rightarrow> string) \<Rightarrow> Metrics option \<Rightarrow> string \<Rightarrow> string \<Rightarrow> metricCall list" where
  "mx_IncQueueDeadLetter sha m driver topic =
     whenVec m QueueDeadLetterTotal
       (\<lambda>x. [Vec QueueDeadLetterTotal [sanitizeLabel sha driver, sanitizeLabel sha topic] Inc])"

definition mx_ObserveQueueProcessDuration ::
    "(string \<Rightarrow> string) \<Rightarrow> Metrics option \<Rightarrow> string \<Rightarrow> string \<Rightarrow> int \<Rightarrow> metricCall list" where
  "mx_ObserveQueueProcessDuration sha m driver topic d =
     (let driver = sanitizeLabel sha driver; topic = sanitizeLabel sha topic
      in whenVec m QueueProcessDuration (\<lambda>x. Vec QueueProcessDuration [driver, topic] (ObserveDur d) #
           toStatsD x [Timing (''queue.duration.'' @ driver @ ''.'' @ topic) d]))"

definition mx_ObserveQueuePublish ::
    "(string \<Rightarrow> string) \<Rightarrow> Metrics option \<Rightarrow> string \<Rightarrow> string \<Rightarrow> string \<Rightarrow> int \<Rightarrow> metricCall list" where
  "mx_ObserveQueuePublish sha m driver topic status d =
     (case m of
        None \<Rightarrow> []
      | Some x \<Rightarrow>
          (let driver = sanitizeLabel sha driver; topic = sanitizeLabel sha topic; status = sanitizeLabel sha status
           in vecIf x QueuePublishTotal [driver, topic, status] Inc @
              vecIf x QueuePublishDuration [driver, topic] (ObserveDur d)))"

definition mx_ObserveQueueLag :: "(string \<Rightarrow> string) \<Rightarrow> Metrics option \<Rightarrow> string \<Rightarrow> string \<Rightarrow> int \<Rightarrow> metricCall list" where
  "mx_ObserveQueueLag sha m driver topic d =
     (if d \<le> 0 then []
      else whenVec m QueueLagDuration
        (\<lambda>x. [Vec QueueLagDuration [sanitizeLabel sha driver, sanitizeLabel sha topic] (ObserveDur d)]))"

definition mx_SetQueueDepth ::
    "(string \<Rightarrow> string) \<Rightarrow> Metrics option \<Rightarrow> string \<Rightarrow> string \<Rightarrow> float64 \<Rightarrow> metricCall list" where
  "mx_SetQueueDepth sha m driver topic depth =
     (let driver = sanitizeLabel sha driver; topic = sanitizeLabel sha topic
      in whenVec m QueueDepth (\<lambda>x. Vec QueueDepth [driver, topic] (SetFloat depth) #
           toStatsD x [GaugeFloat (''queue.depth.'' @ driver @ ''.'' @ topic) depth]))"

definition mx_SetQueueInFlight ::
    "(string \<Rightarrow> string) \<Rightarrow> Metrics option \<Rightarrow> string \<Rightarrow> string \<Rightarrow> float64 \<Rightarrow> metricCall list" where
  "mx_SetQueueInFlight sha m driver topic inFlight =
     (let driver = sanitizeLabel sha driver; topic = sanitizeLabel sha topic
      in whenVec m QueueInFlight (\<lambda>x. Vec QueueInFlight [driver, topic] (SetFloat inFlight) #
           toStatsD x [GaugeFloat (''queue.in_flight.'' @ driver @ ''.'' @ topic) inFlight]))"

definition mx_ObserveHTTPRequest ::
    "(string \<Rightarrow> string) \<Rightarrow> Metrics option \<Rightarrow> string \<Rightarrow> string \<Rightarrow> int \<Rightarrow> int \<Rightarrow> metricCall list" where
  "mx_ObserveHTTPRequest sha m handler method code d =
     (case m of
        None \<Rightarrow> []
      | Some x \<Rightarrow>
          (let handler = sanitizeLabel sha handler; method = sanitizeLabel sha method
           in vecIf x HttpRequestsTotal [handler, method, Itoa code] Inc @
              vecIf x HttpRequestDuration [handler, method] (ObserveDur d)))"

text \<open>The three values of the identity gauge are not sanitised.\<close>

definition mx_SetAppInfo :: "Metrics option \<Rightarrow> string \<Rightarrow> string \<Rightarrow> string \<Rightarrow> metricCall list" where
  "mx_SetAppInfo m name env version =
     whenVec m AppInfo
       (\<lambda>x. [Vec AppInfo [defStr ''mailbaby'' name, defStr ''development'' env, defStr ''unknown'' version] (SetInt 1)])"

definition mx_UpdateAppUptime :: "Metrics option \<Rightarrow> int \<Rightarrow> metricCall list" where
  "mx_UpdateAppUptime m now =
     whenVec m AppUptime (\<lambda>x. [Vec AppUptime [''mailbaby''] (SetDur (now - mx_startTime x))])"

section \<open>What the client library accepts\<close>

text \<open>
  \<open>WithLabelValues\<close> panics when the number of values is not the number of
  labels of the vector or a value is not valid UTF-8; \<open>Add\<close> of a counter panics
  for a negative number; the first use of a histogram panics when its buckets
  are not in increasing order. A call is well typed when none of this applies
  and the method is one of the kind of vector.
\<close>

fun increasing :: "float64 list \<Rightarrow> bool" where
  "increasing (Fin a # Fin b # xs) = (a < b \<and> increasing (Fin b # xs))"
| "increasing [Fin a, PosInf] = True"
| "increasing [Fin a] = True"
| "increasing [PosInf] = True"
| "increasing [] = True"
| "increasing _ = False"

fun actOfKind :: "vecKind \<Rightarrow> metricAct \<Rightarrow> bool" where
  "actOfKind Counter Inc = True"
| "actOfKind Counter (AddInt n) = (0 \<le> n)"
| "actOfKind Gauge (SetInt n) = True"
| "actOfKind Gauge (SetFloat f) = True"
| "actOfKind Gauge (SetDur d) = True"
| "actOfKind Histogram (ObserveDur d) = True"
| "actOfKind _ _ = False"

fun callTyped :: "float64 list \<Rightarrow> metricCall \<Rightarrow> bool" where
  "callTyped buckets (Vec v ls act) \<longleftrightarrow>
     length ls = length (vd_labels (describe v)) \<and> list_all validUTF8 ls \<and> actOfKind (vd_kind (describe v)) act \<and>
     (vd_kind (describe v) = Histogram \<longrightarrow> increasing buckets)"
| "callTyped buckets (StatsD c) \<longleftrightarrow> True"

lemma hexEncode_ascii: "c \<in> set (hexEncode bs) \<Longrightarrow> of_char c < (128 :: nat)"
  using hexEncode_isHex [of c bs] by (auto simp: isHex_def less_eq_char_def)

lemma sanitizeLabel_valid [simp]: "validUTF8 (sanitizeLabel sha v)"
proof -
  have "validUTF8 ''default''"
    by (rule validUTF8_ascii) simp
  moreover have "validUTF8 (''h_'' @ hexEncode bs)" for bs
    by (rule validUTF8_ascii) (auto dest: hexEncode_ascii)
  ultimately show ?thesis
    by (simp add: sanitizeLabel_def Let_def dropRunes_valid)
qed

lemma sanitizeLabel_length: "length (sanitizeLabel sha v) \<le> maxLabelValueLen"
proof -
  have "length (hexEncode bs) = 2 * length bs" for bs
    by (rule hexEncode_length)
  then show ?thesis
    by (auto simp: sanitizeLabel_def Let_def min_def)
qed

lemma sanitizeLabel_clean: "c \<in> {CHR 0x0A, CHR 0x0D, CHR 0x22, CHR 0x5C} \<Longrightarrow> c \<notin> set (sanitizeLabel sha v)"
proof -
  assume c: "c \<in> {CHR 0x0A, CHR 0x0D, CHR 0x22, CHR 0x5C}"
  then have "c \<notin> set (dropRunes forbiddenRunes t)" for t
    by (intro dropRunes_forbidden) (auto simp: forbiddenRunes_def)
  moreover have "c \<notin> set (hexEncode bs)" for bs
    using c hexEncode_isHex [of c bs] by (auto simp: isHex_def less_eq_char_def)
  ultimately show ?thesis
    using c by (auto simp: sanitizeLabel_def Let_def)
qed

lemma digit_ascii: "0 \<le> (k :: int) \<Longrightarrow> k < 10 \<Longrightarrow> of_char (char_of (48 + k) :: char) < (128 :: nat)"
proof -
  assume "0 \<le> k" "k < 10"
  then have "k \<in> {0, 1, 2, 3, 4, 5, 6, 7, 8, 9}"
    unfolding insert_iff empty_iff by presburger
  then show ?thesis
    by (elim insertE) (simp_all add: char_of_def bit_iff_odd)
qed

lemma intDigits_set: "0 \<le> n \<Longrightarrow> set (intDigits n) \<subseteq> (\<lambda>k. char_of (48 + k)) ` {0..<10 :: int}"
  by (induction n rule: intDigits.induct) (subst intDigits.simps, auto simp: pos_imp_zdiv_nonneg_iff)

lemma intDigits_ascii: "0 \<le> n \<Longrightarrow> c \<in> set (intDigits n) \<Longrightarrow> of_char c < (128 :: nat)"
  using intDigits_set [of n] digit_ascii by auto

lemma Itoa_valid [simp]: "validUTF8 (Itoa n)"
  by (rule validUTF8_ascii) (auto simp: Itoa_def dest: intDigits_ascii [rotated])

lemmas recorders =
  mx_IncEmailsSent_def mx_ObserveEmailDuration_def mx_AddEmailRecipients_def mx_AddEmailBytes_def
  mx_SetSmtpPoolStats_def mx_ObserveSmtpPoolWait_def mx_IncSmtpPoolExhausted_def mx_ObserveSmtpDial_def
  mx_ObserveSmtpTLSHandshake_def mx_ObserveSmtpAuth_def mx_IncQueueReceived_def mx_IncQueueProcessed_def
  mx_IncQueueRetried_def mx_IncQueueDeadLetter_def mx_ObserveQueueProcessDuration_def mx_ObserveQueuePublish_def
  mx_ObserveQueueLag_def mx_SetQueueDepth_def mx_SetQueueInFlight_def mx_ObserveHTTPRequest_def
  mx_SetAppInfo_def mx_UpdateAppUptime_def

definition callsTyped :: "float64 list \<Rightarrow> metricCall list \<Rightarrow> bool" where
  "callsTyped buckets cs = list_all (callTyped buckets) cs"

lemma callsTyped_Nil [simp]: "callsTyped b []"
  by (simp add: callsTyped_def)

lemma callsTyped_Cons [simp]: "callsTyped b (c # cs) \<longleftrightarrow> callTyped b c \<and> callsTyped b cs"
  by (simp add: callsTyped_def)

lemma callsTyped_append [simp]: "callsTyped b (cs @ ds) \<longleftrightarrow> callsTyped b cs \<and> callsTyped b ds"
  by (simp add: callsTyped_def)

lemma callsTyped_statsd [simp]: "callsTyped b (toStatsD m cs)"
  by (auto simp: callsTyped_def toStatsD_def list_all_iff)

lemma callsTyped_whenVec: "(\<And>x. m = Some x \<Longrightarrow> callsTyped b (f x)) \<Longrightarrow> callsTyped b (whenVec m v f)"
  by (simp add: whenVec_def split: option.splits)

lemma callsTyped_vecIf: "callTyped b (Vec v ls act) \<Longrightarrow> callsTyped b (vecIf x v ls act)"
  by (simp add: vecIf_def)

lemma registered_distinct: "distinct (map fqName registered)"
  by code_simp

lemma registered_all: "v \<in> set registered"
  by (cases v) (simp_all add: registered_def)

lemma mailRecorders_typed:
  assumes "increasing b"
  shows "callsTyped b (mx_IncEmailsSent sha m account status)" "callsTyped b (mx_ObserveEmailDuration sha m account d)"
    "callsTyped b (mx_AddEmailRecipients sha m account kind n)" "callsTyped b (mx_AddEmailBytes sha m account n)"
    "callsTyped b (mx_SetSmtpPoolStats sha m account active idle)" "callsTyped b (mx_ObserveSmtpPoolWait sha m account d)"
    "callsTyped b (mx_IncSmtpPoolExhausted sha m account)" "callsTyped b (mx_ObserveSmtpDial sha m account d)"
    "callsTyped b (mx_ObserveSmtpTLSHandshake sha m account d)" "callsTyped b (mx_ObserveSmtpAuth sha m account d)"
  using assms
  by (simp_all add: recorders Let_def callsTyped_whenVec callsTyped_vecIf describe_eval split: option.splits)

lemma queueRecorders_typed:
  assumes "increasing b"
  shows "callsTyped b (mx_IncQueueReceived sha m driver topic)" "callsTyped b (mx_IncQueueProcessed sha m driver topic status)"
    "callsTyped b (mx_IncQueueRetried sha m driver topic)" "callsTyped b (mx_IncQueueDeadLetter sha m driver topic)"
    "callsTyped b (mx_ObserveQueueProcessDuration sha m driver topic d)"
    "callsTyped b (mx_ObserveQueuePublish sha m driver topic status d)"
    "callsTyped b (mx_ObserveQueueLag sha m driver topic d)" "callsTyped b (mx_SetQueueDepth sha m driver topic f)"
    "callsTyped b (mx_SetQueueInFlight sha m driver topic f)" "callsTyped b (mx_ObserveHTTPRequest sha m driver topic code d)"
    "callsTyped b (mx_UpdateAppUptime m now)"
  using assms
  by (simp_all add: recorders Let_def callsTyped_whenVec callsTyped_vecIf describe_eval validUTF8_ascii split: option.splits)

lemma appInfo_typed:
  "validUTF8 name \<Longrightarrow> validUTF8 env \<Longrightarrow> validUTF8 version \<Longrightarrow> callsTyped b (mx_SetAppInfo m name env version)"
  by (simp add: recorders callsTyped_whenVec describe_eval defStr_def validUTF8_ascii)

text \<open>Validation does not ask for increasing buckets; the default ones are.\<close>

lemma default_buckets_increasing: "mt_HistogramBuckets c = [] \<Longrightarrow> increasing (metricBuckets (MetricsConfig_ApplyDefaults c))"
  by (simp add: metricBuckets_def MetricsConfig_ApplyDefaults_def)

lemma NewMetrics_outcome:
  "NewMetrics dial now cfg = Inr m \<Longrightarrow>
     mx_vecs m = registered \<and> mx_registry m \<and> mx_buckets m = metricBuckets (MetricsConfig_ApplyDefaults cfg)"
  by (auto simp: NewMetrics_def initStatsD_def Let_def split: if_splits option.splits)

text \<open>A value made only of the characters that are stripped becomes the empty string, not \<open>default\<close>.\<close>

lemma sanitizeLabel_may_be_empty: "sanitizeLabel sha [CHR 0x22] = []"
  by (simp add: sanitizeLabel_def forbiddenRunes_def) code_simp


definition sampleMetrics :: MetricsConfig where
  "sampleMetrics =
     \<lparr>mt_Enabled = True, mt_Provider = ''prometheus'', mt_Host = [], mt_Port = 0, mt_Path = [], mt_CollectRuntime = True,
      mt_RuntimeInterval = 0, mt_CollectQueueStats = True, mt_CollectSmtpStats = True,
      mt_StatsD = \<lparr>sd_Address = [], sd_Prefix = [], sd_FlushInterval = 0\<rparr>,
      mt_PushGateway = \<lparr>pg_Enabled = False, pg_URL = [], pg_Job = [], pg_Interval = 0,
        pg_BasicAuth = \<lparr>ba_Username = [], ba_Password = []\<rparr>\<rparr>,
      mt_CustomLabels = [], mt_HistogramBuckets = []\<rparr>"


end
