(* ===== verification/MetricsIO.thy ===== *)
theory MetricsIO
  imports Metrics
begin

text \<open>
  Where the metrics of \<open>internal/metrics\<close> go: the buffered StatsD client
  (\<open>statsd.go\<close>) as a step relation of its callers, its flush goroutine and
  \<open>Close\<close>; the PushGateway loop (\<open>pushgateway.go\<close>) as a state machine over the events
  it selects on; the global instance (\<open>global.go\<close>).
\<close>

section \<open>The StatsD client\<close>

text \<open>
  \<open>sc_sent\<close> are the datagrams written to the socket and \<open>sc_lines\<close> the lines that
  \<open>send\<close> accepted. \<open>sc_stop\<close> and \<open>sc_done\<close> tell whether \<open>stopChan\<close> and \<open>doneChan\<close> are closed.
\<close>

record StatsDClient =
  sc_prefix :: string
  sc_flushDur :: int
  sc_buf :: string
  sc_closed :: bool
  sc_stop :: bool
  sc_done :: bool
  sc_connClosed :: bool
  sc_sent :: "string list"
  sc_lines :: "string list"

text \<open>\<open>dial\<close> is the error of \<open>net.DialTimeout\<close> for the address, if any.\<close>

definition NewStatsDClient :: "(string \<Rightarrow> error option) \<Rightarrow> string \<Rightarrow> string \<Rightarrow> int \<Rightarrow> error + StatsDClient" where
  "NewStatsDClient dial addr pre flushInterval =
     (case dial addr of
        Some e \<Rightarrow> Inl (Wrap (''statsd: failed to dial udp '' @ addr @ '': '') e)
      | None \<Rightarrow>
          Inr \<lparr>sc_prefix = pre, sc_flushDur = defPos (100 * Millisecond) flushInterval, sc_buf = [], sc_closed = False,
               sc_stop = False, sc_done = False, sc_connClosed = False, sc_sent = [], sc_lines = []\<rparr>)"

text \<open>An error of the socket is ignored: what is written after it is closed is lost.\<close>

definition flushLocked :: "StatsDClient \<Rightarrow> StatsDClient" where
  "flushLocked c =
     (if sc_buf c = [] then c
      else c\<lparr>sc_sent := (if sc_connClosed c then sc_sent c else sc_sent c @ [sc_buf c]), sc_buf := []\<rparr>)"

definition statsd_Flush :: "StatsDClient \<Rightarrow> StatsDClient" where
  "statsd_Flush c = flushLocked c"

definition statsd_send :: "string \<Rightarrow> StatsDClient \<Rightarrow> StatsDClient" where
  "statsd_send line c =
     (if sc_closed c then c
      else let c1 = c\<lparr>sc_buf := sc_buf c @ line, sc_lines := sc_lines c @ [line]\<rparr>
           in if length (sc_buf c1) > 1400 then flushLocked c1 else c1)"

text \<open>\<open>fmtF\<close> is \<open>%f\<close> of a number and \<open>fmtMs\<close> is \<open>%.2f\<close> of a duration in milliseconds.\<close>

definition statsd_Count :: "string \<Rightarrow> int \<Rightarrow> StatsDClient \<Rightarrow> StatsDClient" where
  "statsd_Count stat n c = statsd_send (sc_prefix c @ stat @ '':'' @ Itoa n @ ''|c'' @ [CHR 0x0A]) c"

definition statsd_Gauge :: "(float64 \<Rightarrow> string) \<Rightarrow> string \<Rightarrow> float64 \<Rightarrow> StatsDClient \<Rightarrow> StatsDClient" where
  "statsd_Gauge fmtF stat v c = statsd_send (sc_prefix c @ stat @ '':'' @ fmtF v @ ''|g'' @ [CHR 0x0A]) c"

definition statsd_Timing :: "(int \<Rightarrow> string) \<Rightarrow> string \<Rightarrow> int \<Rightarrow> StatsDClient \<Rightarrow> StatsDClient" where
  "statsd_Timing fmtMs stat d c = statsd_send (sc_prefix c @ stat @ '':'' @ fmtMs d @ ''|ms'' @ [CHR 0x0A]) c"

fun statsd_perform ::
    "(float64 \<Rightarrow> string) \<Rightarrow> (int \<Rightarrow> string) \<Rightarrow> statsdCall \<Rightarrow> StatsDClient \<Rightarrow> StatsDClient" where
  "statsd_perform fmtF fmtMs (Count s n) c = statsd_Count s n c"
| "statsd_perform fmtF fmtMs (GaugeInt s n) c = statsd_Gauge fmtF s (Fin (of_int n)) c"
| "statsd_perform fmtF fmtMs (GaugeFloat s f) c = statsd_Gauge fmtF s f c"
| "statsd_perform fmtF fmtMs (Timing s d) c = statsd_Timing fmtMs s d c"

text \<open>
  \<open>Close\<close> sets the flag under the lock, closes \<open>stopChan\<close>, waits for \<open>doneChan\<close> and
  closes the socket; other goroutines run between these four.
\<close>

definition Close_flag :: "StatsDClient \<Rightarrow> StatsDClient" where
  "Close_flag c = c\<lparr>sc_closed := True\<rparr>"

definition Close_stop :: "StatsDClient \<Rightarrow> StatsDClient" where
  "Close_stop c = c\<lparr>sc_stop := True\<rparr>"

definition Close_conn :: "StatsDClient \<Rightarrow> StatsDClient" where
  "Close_conn c = c\<lparr>sc_connClosed := True\<rparr>"

text \<open>\<open>flushLoop\<close>: a flush per tick, and the last one when \<open>stopChan\<close> is closed.\<close>

definition flushLoop_last :: "StatsDClient \<Rightarrow> StatsDClient" where
  "flushLoop_last c = (statsd_Flush c)\<lparr>sc_done := True\<rparr>"

inductive statsd_step :: "StatsDClient \<Rightarrow> StatsDClient \<Rightarrow> bool" where
  sd_send: "statsd_step c (statsd_send line c)"
| sd_tick: "\<not> sc_done c \<Longrightarrow> statsd_step c (statsd_Flush c)"
| sd_flush: "statsd_step c (statsd_Flush c)"
| sd_close: "\<not> sc_closed c \<Longrightarrow> statsd_step c (Close_flag c)"
| sd_stop: "sc_closed c \<Longrightarrow> \<not> sc_stop c \<Longrightarrow> statsd_step c (Close_stop c)"
| sd_last: "sc_stop c \<Longrightarrow> \<not> sc_done c \<Longrightarrow> statsd_step c (flushLoop_last c)"
| sd_conn: "sc_done c \<Longrightarrow> \<not> sc_connClosed c \<Longrightarrow> statsd_step c (Close_conn c)"

definition statsd_reach :: "StatsDClient \<Rightarrow> StatsDClient \<Rightarrow> bool" where
  "statsd_reach = statsd_step\<^sup>*\<^sup>*"

text \<open>\<open>Close\<close> run without interleaving.\<close>

definition statsd_Close :: "StatsDClient \<Rightarrow> StatsDClient" where
  "statsd_Close c = (if sc_closed c then c else Close_conn (flushLoop_last (Close_stop (Close_flag c))))"

definition statsd_inv :: "StatsDClient \<Rightarrow> bool" where
  "statsd_inv c \<longleftrightarrow>
     (sc_stop c \<longrightarrow> sc_closed c) \<and> (sc_done c \<longrightarrow> sc_stop c) \<and> (sc_connClosed c \<longrightarrow> sc_done c) \<and>
     (sc_done c \<longrightarrow> sc_buf c = []) \<and> length (sc_buf c) \<le> 1400 \<and>
     (\<exists>gs rest. sc_lines c = concat gs @ rest \<and> sc_sent c = map concat gs \<and> sc_buf c = concat rest \<and>
        (\<forall>g \<in> set gs. length (concat (butlast g)) \<le> 1400))"

lemma statsd_invE:
  assumes "statsd_inv c"
  obtains gs rest where "sc_lines c = concat gs @ rest" "sc_sent c = map concat gs" "sc_buf c = concat rest"
    "\<forall>g \<in> set gs. length (concat (butlast g)) \<le> 1400"
  using assms unfolding statsd_inv_def by blast

lemma statsd_invI:
  assumes "sc_lines c = concat gs @ rest" "sc_sent c = map concat gs" "sc_buf c = concat rest"
    "\<forall>g \<in> set gs. length (concat (butlast g)) \<le> 1400" "length (sc_buf c) \<le> 1400"
    "sc_stop c \<longrightarrow> sc_closed c" "sc_done c \<longrightarrow> sc_stop c" "sc_connClosed c \<longrightarrow> sc_done c" "sc_done c \<longrightarrow> sc_buf c = []"
  shows "statsd_inv c"
  using assms unfolding statsd_inv_def by blast

lemma flush_keeps: "statsd_inv c \<Longrightarrow> statsd_inv (flushLocked c)"
proof (cases "sc_buf c = []")
  case False
  assume inv: "statsd_inv c"
  then obtain gs rest where g: "sc_lines c = concat gs @ rest" "sc_sent c = map concat gs" "sc_buf c = concat rest"
    "\<forall>g \<in> set gs. length (concat (butlast g)) \<le> 1400"
    by (rule statsd_invE)
  have len: "length (concat (butlast rest)) \<le> 1400"
  proof (cases rest rule: rev_cases)
    case (snoc xs x)
    then show ?thesis
      using inv g(3) by (simp add: statsd_inv_def)
  qed simp
  have "\<not> sc_done c" "\<not> sc_connClosed c"
    using inv False by (auto simp: statsd_inv_def)
  moreover have "sc_stop c \<longrightarrow> sc_closed c"
    using inv by (simp add: statsd_inv_def)
  ultimately show ?thesis
    using False g len by (intro statsd_invI [where gs = "gs @ [rest]" and rest = "[]"]) (auto simp: flushLocked_def)
qed (simp add: flushLocked_def)

lemma send_flush_keeps:
  assumes inv: "statsd_inv c" and "\<not> sc_closed c" and ln: "length (sc_buf c @ line) > 1400"
  shows "statsd_inv (flushLocked (c\<lparr>sc_buf := sc_buf c @ line, sc_lines := sc_lines c @ [line]\<rparr>))"
proof -
  obtain gs rest where g: "sc_lines c = concat gs @ rest" "sc_sent c = map concat gs" "sc_buf c = concat rest"
    "\<forall>g \<in> set gs. length (concat (butlast g)) \<le> 1400"
    using inv by (rule statsd_invE)
  have "\<not> sc_stop c" "\<not> sc_done c" "\<not> sc_connClosed c" "length (concat rest) \<le> 1400"
    using inv assms(2) g(3) by (auto simp: statsd_inv_def)
  then show ?thesis
    using g ln by (intro statsd_invI [where gs = "gs @ [rest @ [line]]" and rest = "[]"]) (auto simp: flushLocked_def)
qed

lemma send_keeps: "statsd_inv c \<Longrightarrow> statsd_inv (statsd_send line c)"
proof -
  assume inv: "statsd_inv c"
  consider "sc_closed c" | "\<not> sc_closed c" "length (sc_buf c @ line) > 1400" | "\<not> sc_closed c" "length (sc_buf c @ line) \<le> 1400"
    by linarith
  then show ?thesis
  proof cases
    case 3
    obtain gs rest where g: "sc_lines c = concat gs @ rest" "sc_sent c = map concat gs" "sc_buf c = concat rest"
      "\<forall>g \<in> set gs. length (concat (butlast g)) \<le> 1400"
      using inv by (rule statsd_invE)
    moreover have "\<not> sc_stop c" "\<not> sc_done c" "\<not> sc_connClosed c"
      using inv 3 by (auto simp: statsd_inv_def)
    ultimately show ?thesis
      using 3 by (intro statsd_invI [where gs = gs and rest = "rest @ [line]"]) (auto simp: statsd_send_def Let_def)
  qed (use inv send_flush_keeps [OF inv] in \<open>auto simp: statsd_send_def\<close>)
qed

lemma statsd_step_inv: "statsd_step c c' \<Longrightarrow> statsd_inv c \<Longrightarrow> statsd_inv c'"
proof (induction rule: statsd_step.induct)
  case (sd_last c)
  then have "statsd_inv (flushLocked c)" "sc_stop (flushLocked c)" "sc_buf (flushLocked c) = []"
    using flush_keeps by (auto simp: flushLocked_def)
  then show ?case
    by (auto simp: statsd_inv_def flushLoop_last_def statsd_Flush_def)
next
  case (sd_conn c)
  then obtain gs rest where "sc_lines c = concat gs @ rest" "sc_sent c = map concat gs" "sc_buf c = concat rest"
    "\<forall>g \<in> set gs. length (concat (butlast g)) \<le> 1400"
    by (elim statsd_invE)
  then show ?case
    using sd_conn unfolding Close_conn_def statsd_inv_def by (intro conjI exI [of _ gs] exI [of _ rest]) simp_all
qed (auto simp: statsd_Flush_def flush_keeps send_keeps, auto simp: statsd_inv_def Close_flag_def Close_stop_def)

lemma statsd_reach_inv: "statsd_reach c c' \<Longrightarrow> statsd_inv c \<Longrightarrow> statsd_inv c'"
  unfolding statsd_reach_def by (induction rule: rtranclp_induct) (auto intro: statsd_step_inv)

lemma statsd_new_inv: "NewStatsDClient dial addr pre i = Inr c \<Longrightarrow> statsd_inv c"
  by (auto simp: NewStatsDClient_def statsd_inv_def split: option.splits intro: exI [of _ "[]"])

text \<open>\<open>Close\<close> is four steps, so what holds in every reachable state holds after it.\<close>

lemma statsd_Close_reach: "statsd_inv c \<Longrightarrow> statsd_reach c (statsd_Close c)"
proof (cases "sc_closed c")
  case False
  assume "statsd_inv c"
  with False have n: "\<not> sc_stop c" "\<not> sc_done c" "\<not> sc_connClosed c"
    by (auto simp: statsd_inv_def)
  let ?c1 = "Close_flag c" let ?c2 = "Close_stop ?c1" let ?c3 = "flushLoop_last ?c2"
  have "statsd_step c ?c1" "statsd_step ?c1 ?c2" "statsd_step ?c2 ?c3" "statsd_step ?c3 (Close_conn ?c3)"
    using False n
    by (intro statsd_step.sd_close statsd_step.sd_stop statsd_step.sd_last statsd_step.sd_conn;
        simp add: Close_flag_def Close_stop_def flushLoop_last_def statsd_Flush_def flushLocked_def)+
  then show ?thesis
    using False unfolding statsd_reach_def statsd_Close_def
    by (simp add: converse_rtranclp_into_rtranclp)
qed (simp add: statsd_reach_def statsd_Close_def)

lemma Close_sends_rest: "statsd_inv c \<Longrightarrow> \<not> sc_closed c \<Longrightarrow> concat (sc_sent (statsd_Close c)) = concat (sc_lines c)"
proof -
  assume inv: "statsd_inv c" and open': "\<not> sc_closed c"
  obtain gs rest where g: "sc_lines c = concat gs @ rest" "sc_sent c = map concat gs" "sc_buf c = concat rest"
    using inv by (rule statsd_invE)
  have "\<not> sc_connClosed c"
    using inv open' by (auto simp: statsd_inv_def)
  moreover have "concat (map concat gs) = concat (concat gs)" for gs :: "string list list"
    by (induction gs) auto
  ultimately show ?thesis
    using g open' by (simp add: statsd_Close_def Close_conn_def flushLoop_last_def statsd_Flush_def flushLocked_def
        Close_stop_def Close_flag_def)
qed

text \<open>
  C21. The StatsD client loses and reorders nothing: in every state reachable
  by any interleaving of its callers, its flush goroutine and \<open>Close\<close>, the
  accepted lines are, in their order, grouped into the datagrams sent and the
  buffer; a datagram is made of whole lines and holds at most 1400 bytes before its last
  line, and the buffer at most 1400 bytes. A line is refused exactly after
  \<open>Close\<close>, the socket is only closed when the buffer is empty, and \<open>Close\<close> gets
  there by steps of the relation and sends what was buffered.\<close>

theorem statsd_conserves:
  assumes "NewStatsDClient dial addr pre i = Inr c0" "statsd_reach c0 c"
  shows "(\<exists>gs rest. sc_lines c = concat gs @ rest \<and> sc_sent c = map concat gs \<and> sc_buf c = concat rest \<and>
            (\<forall>g \<in> set gs. length (concat (butlast g)) \<le> 1400)) \<and>
         length (sc_buf c) \<le> 1400 \<and>
         sc_lines (statsd_send line c) = (if sc_closed c then sc_lines c else sc_lines c @ [line]) \<and>
         (sc_connClosed c \<longrightarrow> sc_closed c \<and> sc_buf c = []) \<and>
         statsd_reach c (statsd_Close c) \<and>
         (\<not> sc_closed c \<longrightarrow> concat (sc_sent (statsd_Close c)) = concat (sc_lines c) \<and> sc_connClosed (statsd_Close c))"
proof -
  have inv: "statsd_inv c"
    using assms statsd_new_inv statsd_reach_inv by blast
  then show ?thesis
    using statsd_Close_reach [OF inv] Close_sends_rest [OF inv]
    by (auto simp: statsd_inv_def statsd_send_def flushLocked_def Let_def statsd_Close_def Close_conn_def)
qed

theorem statsd_conserves_witness:
  "\<exists>c0. NewStatsDClient (\<lambda>a. None) ''localhost:8125'' ''mb.'' 0 = Inr c0 \<and>
     concat (sc_sent (statsd_Close (statsd_Count ''email.sent'' 1 c0))) = ''mb.email.sent:1|c'' @ [CHR 0x0A]"
proof -
  obtain c0 where c0: "NewStatsDClient (\<lambda>a. None) ''localhost:8125'' ''mb.'' 0 = Inr c0"
    by (simp add: NewStatsDClient_def)
  let ?c = "statsd_Count ''email.sent'' 1 c0"
  have "statsd_reach c0 ?c"
    unfolding statsd_reach_def statsd_Count_def by (rule r_into_rtranclp) (rule statsd_step.sd_send)
  from statsd_conserves [OF c0 this, of "[]"] have "\<not> sc_closed ?c \<longrightarrow> concat (sc_sent (statsd_Close ?c)) = concat (sc_lines ?c)"
    by blast
  moreover have "\<not> sc_closed ?c" "concat (sc_lines ?c) = ''mb.email.sent:1|c'' @ [CHR 0x0A]"
    using c0 by (auto simp: NewStatsDClient_def statsd_Count_def statsd_send_def flushLocked_def Let_def Itoa_def
        intDigits.simps char_of_def bit_iff_odd)
  ultimately show ?thesis
    using c0 by auto
qed

section \<open>The PushGateway loop\<close>

abbreviation maxBackoff :: int where "maxBackoff \<equiv> 5 * Minute"

text \<open>
  The goroutine of \<open>Start\<close>: it waits for a tick, or for the timer of the backoff,
  or has returned and closed \<open>doneChan\<close>. \<open>pu_log\<close> are the results of the pushes.
\<close>

datatype pusherPhase = PTick | PBackoff | PDone

record PushGatewayPusher =
  pu_interval :: int
  pu_auth :: "(string \<times> string) option"
  pu_phase :: pusherPhase
  pu_backoff :: int
  pu_failures :: int
  pu_stopped :: bool
  pu_log :: "error option list"

definition NewPushGatewayPusher :: "PushGatewayConfig \<Rightarrow> PushGatewayPusher" where
  "NewPushGatewayPusher cfg =
     \<lparr>pu_interval = pg_Interval cfg,
      pu_auth = (let a = pg_BasicAuth cfg
                 in if ba_Username a \<noteq> [] \<or> ba_Password a \<noteq> [] then Some (ba_Username a, ba_Password a) else None),
      pu_phase = PTick, pu_backoff = 0, pu_failures = 0, pu_stopped = False, pu_log = []\<rparr>"

definition pusher_Start :: "PushGatewayPusher \<Rightarrow> PushGatewayPusher" where
  "pusher_Start p = p\<lparr>pu_interval := defPos (15 * Second) (pu_interval p), pu_phase := PTick, pu_backoff := 0, pu_failures := 0\<rparr>"

definition pushOnce :: "error option \<Rightarrow> PushGatewayPusher \<Rightarrow> PushGatewayPusher" where
  "pushOnce r p =
     (case r of
        None \<Rightarrow> p\<lparr>pu_failures := 0, pu_backoff := 0, pu_log := pu_log p @ [r]\<rparr>
      | Some e \<Rightarrow>
          (let b = (if pu_backoff p = 0 then pu_interval p else pu_backoff p * 2)
           in p\<lparr>pu_failures := pu_failures p + 1, pu_backoff := (if b > maxBackoff then maxBackoff else b),
                pu_log := pu_log p @ [r]\<rparr>))"

text \<open>
  What the two \<open>select\<close> statements wait for; \<open>r\<close> is the result of the push an event
  leads to. The tick is ignored while the loop waits for the backoff timer.
\<close>

datatype pusherEvent = EvTick "error option" | EvTimer | EvStop "error option" | EvCtx

fun pusher_event :: "pusherEvent \<Rightarrow> PushGatewayPusher \<Rightarrow> PushGatewayPusher" where
  "pusher_event (EvTick r) p =
     (if pu_phase p = PTick then
        (let q = pushOnce r p in if pu_backoff q > 0 then q\<lparr>pu_phase := PBackoff\<rparr> else q)
      else p)"
| "pusher_event EvTimer p = (if pu_phase p = PBackoff then p\<lparr>pu_phase := PTick\<rparr> else p)"
| "pusher_event (EvStop r) p =
     (if pu_phase p = PDone then p\<lparr>pu_stopped := True\<rparr>
      else p\<lparr>pu_phase := PDone, pu_stopped := True, pu_log := pu_log p @ [r]\<rparr>)"
| "pusher_event EvCtx p = (if pu_phase p = PDone then p else p\<lparr>pu_phase := PDone\<rparr>)"

text \<open>\<open>Stop\<close> closes \<open>stopChan\<close> once and waits for the goroutine.\<close>

definition pusher_Stop :: "error option \<Rightarrow> PushGatewayPusher \<Rightarrow> PushGatewayPusher" where
  "pusher_Stop r p = pusher_event (EvStop r) p"

definition pusher_run :: "pusherEvent list \<Rightarrow> PushGatewayPusher \<Rightarrow> PushGatewayPusher" where
  "pusher_run es p = fold pusher_event es p"

fun trailingFailures :: "error option list \<Rightarrow> nat" where
  "trailingFailures rs = length (takeWhile (\<lambda>r. r \<noteq> None) (rev rs))"

definition pusher_inv :: "PushGatewayPusher \<Rightarrow> bool" where
  "pusher_inv p \<longleftrightarrow>
     0 < pu_interval p \<and>
     (pu_phase p \<noteq> PDone \<longrightarrow>
        pu_failures p = int (trailingFailures (pu_log p)) \<and>
        pu_backoff p = (if trailingFailures (pu_log p) = 0 then 0
                        else min (pu_interval p * 2 ^ (trailingFailures (pu_log p) - 1)) maxBackoff))"

lemma trailingFailures_snoc [simp]:
  "trailingFailures (rs @ [None]) = 0" "trailingFailures (rs @ [Some e]) = Suc (trailingFailures rs)"
  by simp_all

declare trailingFailures.simps [simp del]

lemma backoff_doubles:
  assumes "0 < (i :: int)" "0 < n" "0 < m"
  shows "min (min (i * 2 ^ (n - 1)) m * 2) m = min (i * 2 ^ n) m"
proof -
  have "i * 2 ^ n = i * 2 ^ (n - 1) * 2"
    using assms(2) by (cases n) simp_all
  then show ?thesis
    using assms(1,3) by (simp add: min_def)
qed

lemma pushOnce_inv: "pusher_inv p \<Longrightarrow> pu_phase p \<noteq> PDone \<Longrightarrow> pusher_inv (pushOnce r p)"
proof (cases r)
  case (Some e)
  assume inv: "pusher_inv p" "pu_phase p \<noteq> PDone"
  let ?n = "trailingFailures (pu_log p)"
  have i: "0 < pu_interval p" and f: "pu_failures p = int ?n"
    and b: "pu_backoff p = (if ?n = 0 then 0 else min (pu_interval p * 2 ^ (?n - 1)) maxBackoff)"
    using inv by (auto simp: pusher_inv_def)
  have "(if (if pu_backoff p = 0 then pu_interval p else pu_backoff p * 2) > maxBackoff then maxBackoff
         else (if pu_backoff p = 0 then pu_interval p else pu_backoff p * 2)) = min (pu_interval p * 2 ^ ?n) maxBackoff"
  proof (cases "?n = 0")
    case True
    then show ?thesis
      using b by (simp add: min_def)
  next
    case False
    then have "pu_backoff p \<noteq> 0"
      using b i by (simp add: min_def)
    then show ?thesis
      using b False backoff_doubles [OF i, of ?n maxBackoff] by (simp add: min_def split: if_splits)
  qed
  then show ?thesis
    using i f unfolding Some pushOnce_def pusher_inv_def by (simp add: Let_def)
qed (simp add: pusher_inv_def pushOnce_def)

lemma pusher_event_inv: "pusher_inv p \<Longrightarrow> pusher_inv (pusher_event e p)"
proof (cases e)
  case (EvTick r)
  assume inv: "pusher_inv p"
  show ?thesis
  proof (cases "pu_phase p = PTick")
    case True
    then have "pusher_inv (pushOnce r p)" and "pu_phase (pushOnce r p) = PTick"
      using pushOnce_inv [OF inv, of r] by (simp_all add: pushOnce_def Let_def split: option.splits)
    then show ?thesis
      unfolding EvTick using True by (simp add: Let_def pusher_inv_def)
  qed (use inv EvTick in simp)
qed (auto simp: pusher_inv_def)

lemma pusher_run_inv: "pusher_inv p \<Longrightarrow> pusher_inv (pusher_run es p)"
  unfolding pusher_run_def by (induction es arbitrary: p) (simp_all add: pusher_event_inv)

lemma pusher_done_stays: "pu_phase p = PDone \<Longrightarrow> pu_phase (pusher_run es p) = PDone \<and> pu_log (pusher_run es p) = pu_log p"
  unfolding pusher_run_def
proof (induction es arbitrary: p)
  case (Cons e es)
  then have "pu_phase (pusher_event e p) = PDone \<and> pu_log (pusher_event e p) = pu_log p"
    by (cases e) auto
  then show ?case
    using Cons.IH by simp
qed simp

text \<open>
  The PushGateway loop backs off exponentially and stops for good: as long as
  it runs, after \<open>k\<close> failures in a row the wait is the interval doubled \<open>k - 1\<close> times,
  capped at five minutes, and a success resets it; \<open>Stop\<close> ends the loop with exactly one
  final push and nothing is pushed afterwards, whatever events follow, a
  second \<open>Stop\<close> included.\<close>

theorem push_backoff:
  assumes "p = pusher_run es (pusher_Start (NewPushGatewayPusher cfg))" "pu_phase p \<noteq> PDone"
    "k = trailingFailures (pu_log p)"
  shows "pu_failures p = int k \<and>
    pu_backoff p = (if k = 0 then 0 else min (pu_interval p * 2 ^ (k - 1)) maxBackoff) \<and>
    pu_log (pusher_run es' (pusher_Stop r p)) = pu_log p @ [r] \<and> pu_phase (pusher_run es' (pusher_Stop r p)) = PDone"
proof -
  have "pusher_inv (pusher_Start (NewPushGatewayPusher cfg))"
    by (simp add: pusher_inv_def pusher_Start_def NewPushGatewayPusher_def defPos_def trailingFailures.simps)
  then have "pusher_inv p"
    unfolding assms(1) by (rule pusher_run_inv)
  moreover have "pu_phase (pusher_Stop r p) = PDone" "pu_log (pusher_Stop r p) = pu_log p @ [r]"
    using assms(2) by (simp_all add: pusher_Stop_def)
  ultimately show ?thesis
    using assms(2,3) pusher_done_stays [of "pusher_Stop r p" es'] by (simp add: pusher_inv_def)
qed

definition samplePush :: PushGatewayConfig where
  "samplePush = \<lparr>pg_Enabled = True, pg_URL = ''http://pg:9091'', pg_Job = ''mailbaby'', pg_Interval = 0,
     pg_BasicAuth = \<lparr>ba_Username = [], ba_Password = []\<rparr>\<rparr>"

theorem push_backoff_witness:
  "pu_backoff (pusher_run [EvTick (Some (Err ''refused'')), EvTimer, EvTick (Some (Err ''refused''))]
     (pusher_Start (NewPushGatewayPusher samplePush))) = 30 * Second"
proof -
  let ?p = "pusher_run [EvTick (Some (Err ''refused'')), EvTimer, EvTick (Some (Err ''refused''))]
     (pusher_Start (NewPushGatewayPusher samplePush))"
  have p: "pu_phase ?p \<noteq> PDone" "trailingFailures (pu_log ?p) = 2" "pu_interval ?p = 15 * Second"
    by (simp_all add: pusher_run_def pusher_Start_def NewPushGatewayPusher_def samplePush_def pushOnce_def Let_def
        defPos_def trailingFailures.simps)
  show ?thesis
    using push_backoff [OF refl p(1) refl, of "[]" None] p by simp
qed

section \<open>The global instance\<close>

text \<open>
  \<open>MNoop\<close> is the shared instance \<open>noopMetrics\<close>, which the code tells apart by its
  address. \<open>gm_events\<close> are the background workers started and stopped.
\<close>

datatype metricsRef = MNoop | MRef Metrics

datatype metricsEv = PusherStarted PushGatewayConfig | PusherStopped | StatsDClosed

record metricsGlobal =
  gm_metrics :: "metricsRef option"
  gm_pusher :: "PushGatewayConfig option"
  gm_events :: "metricsEv list"

definition metrics_fresh :: metricsGlobal where
  "metrics_fresh = \<lparr>gm_metrics = None, gm_pusher = None, gm_events = []\<rparr>"

definition stopPusher :: "metricsGlobal \<Rightarrow> metricsGlobal" where
  "stopPusher g =
     (if gm_pusher g \<noteq> None then g\<lparr>gm_pusher := None, gm_events := gm_events g @ [PusherStopped]\<rparr> else g)"

definition metrics_Init ::
    "(string \<Rightarrow> string \<Rightarrow> int \<Rightarrow> error option) \<Rightarrow> int \<Rightarrow> MetricsConfig \<Rightarrow> metricsGlobal \<Rightarrow> (error + metricsRef) \<times> metricsGlobal" where
  "metrics_Init dial now cfg g0 =
     (let g = stopPusher g0
      in if \<not> mt_Enabled cfg then (Inr MNoop, g\<lparr>gm_metrics := Some MNoop\<rparr>)
         else case NewMetrics dial now cfg of
             Inl e \<Rightarrow> (Inl e, g)
           | Inr m \<Rightarrow>
               (let g1 = (if pg_Enabled (mt_PushGateway cfg) \<and> mx_registry m then
                            g\<lparr>gm_pusher := Some (mt_PushGateway cfg),
                              gm_events := gm_events g @ [PusherStarted (mt_PushGateway cfg)]\<rparr>
                          else g)
                in (Inr (MRef m), g1\<lparr>gm_metrics := Some (MRef m)\<rparr>)))"

definition metrics_Get :: "metricsGlobal \<Rightarrow> metricsRef" where
  "metrics_Get g = (case gm_metrics g of None \<Rightarrow> MNoop | Some r \<Rightarrow> r)"

definition metrics_Set :: "metricsRef option \<Rightarrow> metricsGlobal \<Rightarrow> metricsGlobal" where
  "metrics_Set r g = g\<lparr>gm_metrics := Some (case r of None \<Rightarrow> MNoop | Some x \<Rightarrow> x)\<rparr>"

text \<open>\<open>connClose\<close> is the error of closing the socket of the StatsD client.\<close>

definition Metrics_Close :: "error option \<Rightarrow> Metrics option \<Rightarrow> metricsEv list \<times> error option" where
  "Metrics_Close connClose m =
     (case m of None \<Rightarrow> ([], None) | Some x \<Rightarrow> if mx_statsd x then ([StatsDClosed], connClose) else ([], None))"

definition metrics_Close :: "error option \<Rightarrow> metricsGlobal \<Rightarrow> metricsGlobal \<times> error option" where
  "metrics_Close connClose g0 =
     (let g = stopPusher g0
      in case gm_metrics g of
           Some (MRef m) \<Rightarrow>
             (let (evs, err) = Metrics_Close connClose (Some m)
              in (g\<lparr>gm_metrics := None, gm_events := gm_events g @ evs\<rparr>, err))
         | _ \<Rightarrow> (g, None))"

fun isStart :: "metricsEv \<Rightarrow> bool" where
  "isStart (PusherStarted _) = True" | "isStart _ = False"

definition pushers :: "metricsEv list \<Rightarrow> int" where
  "pushers es = int (length (filter isStart es)) - int (length (filter (\<lambda>e. e = PusherStopped) es))"

definition onePusher :: "metricsGlobal \<Rightarrow> bool" where
  "onePusher g \<longleftrightarrow> pushers (gm_events g) = (if gm_pusher g = None then 0 else 1)"

text \<open>At most one push loop runs, and none after \<open>Close\<close>, whatever the calls before.\<close>

lemma stopPusher_one: "onePusher g \<Longrightarrow> onePusher (stopPusher g)"
  by (auto simp: onePusher_def stopPusher_def pushers_def)

lemma metrics_Init_one: "onePusher g \<Longrightarrow> onePusher (snd (metrics_Init dial now cfg g))"
proof -
  assume "onePusher g"
  then have "onePusher (stopPusher g)" and n: "gm_pusher (stopPusher g) = None"
    by (rule stopPusher_one, simp add: stopPusher_def)
  then have "pushers (gm_events (stopPusher g)) = 0"
    by (simp add: onePusher_def)
  then show ?thesis
    using n by (simp add: metrics_Init_def Let_def onePusher_def pushers_def split: sum.splits)
qed

lemma metrics_Close_one:
  "onePusher g \<Longrightarrow> onePusher (fst (metrics_Close e g)) \<and> gm_pusher (fst (metrics_Close e g)) = None"
proof -
  assume "onePusher g"
  then have "onePusher (stopPusher g)" and n: "gm_pusher (stopPusher g) = None"
    by (rule stopPusher_one, simp add: stopPusher_def)
  then have "pushers (gm_events (stopPusher g)) = 0"
    by (simp add: onePusher_def)
  then show ?thesis
    using n by (simp add: metrics_Close_def Metrics_Close_def Let_def onePusher_def pushers_def
        split: option.splits metricsRef.splits)
qed

end
