(* ===== verification/HttpServer.thy ===== *)
theory HttpServer
  imports Api Config MetricsIO "HOL-Library.Multiset"
begin

text \<open>
  The HTTP server of \<open>internal/handler\<close>: health probes (\<open>health.go\<close>), the profiling
  routes (\<open>pprof.go\<close>), the routes \<open>New\<close> mounts, the interceptor around them and
  \<open>Start\<close> and \<open>Stop\<close> (\<open>server.go\<close>). \<open>http.ServeMux\<close> is modelled for patterns without host
  and wildcards and for request paths in the cleaned form to which it
  redirects all others.
\<close>

section \<open>http.ServeMux\<close>

definition isTokenChar :: "char \<Rightarrow> bool" where
  "isTokenChar c \<longleftrightarrow>
     byteIn (CHR ''0'') (CHR ''9'') c \<or> byteIn (CHR ''A'') (CHR ''Z'') c \<or> byteIn (CHR ''a'') (CHR ''z'') c \<or>
     c \<in> set (''!#$%&*+-.^_|~'' @ [CHR 0x27, CHR 0x60])"

definition isBlank :: "char \<Rightarrow> bool" where
  "isBlank c \<longleftrightarrow> c = CHR '' '' \<or> c = CHR 0x09"

definition isCleanPath :: "string \<Rightarrow> bool" where
  "isCleanPath p \<longleftrightarrow>
     (case p of
        [] \<Rightarrow> False
      | c # rest \<Rightarrow>
          c = CHR ''/'' \<and> [] \<notin> set (butlast (SplitAll rest (CHR ''/''))) \<and>
          ''.'' \<notin> set (SplitAll rest (CHR ''/'')) \<and> ''..'' \<notin> set (SplitAll rest (CHR ''/'')))"

text \<open>A pattern is an optional method and a path; registering a malformed one panics.\<close>

definition parsePattern :: "string \<Rightarrow> (string \<times> string) option" where
  "parsePattern s =
     (let m = takeWhile (\<lambda>c. \<not> isBlank c) s; rest = dropWhile isBlank (dropWhile (\<lambda>c. \<not> isBlank c) s)
      in if \<exists>c \<in> set s. isBlank c then
           (if m \<noteq> [] \<and> list_all isTokenChar m \<and> isCleanPath rest then Some (m, rest) else None)
         else if isCleanPath s then Some ([], s) else None)"

datatype 'h muxEntry = Entry (me_method: string) (me_path: string) (me_pattern: string) (me_handler: 'h)

datatype patRel = REq | RSpecific | RGeneral | RDisjoint

definition methodRel :: "string \<Rightarrow> string \<Rightarrow> patRel" where
  "methodRel m1 m2 =
     (if m1 = m2 then REq else if m2 = [] then RSpecific else if m1 = [] then RGeneral
      else if m1 = ''HEAD'' \<and> m2 = ''GET'' then RSpecific else if m1 = ''GET'' \<and> m2 = ''HEAD'' then RGeneral
      else RDisjoint)"

definition isSubtree :: "string \<Rightarrow> bool" where
  "isSubtree p \<longleftrightarrow> p \<noteq> [] \<and> last p = CHR ''/''"

definition pathRel :: "string \<Rightarrow> string \<Rightarrow> patRel" where
  "pathRel p1 p2 =
     (if p1 = p2 then REq else if isSubtree p2 \<and> HasPrefix p1 p2 then RSpecific
      else if isSubtree p1 \<and> HasPrefix p2 p1 then RGeneral else RDisjoint)"

text \<open>Two patterns conflict when they overlap and neither is more specific than the other.\<close>

definition muxConflict :: "'h muxEntry \<Rightarrow> 'h muxEntry \<Rightarrow> bool" where
  "muxConflict e1 e2 \<longleftrightarrow>
     (methodRel (me_method e1) (me_method e2), pathRel (me_path e1) (me_path e2))
       \<in> {(REq, REq), (RSpecific, RGeneral), (RGeneral, RSpecific)}"

definition muxHandle :: "string \<Rightarrow> 'h \<Rightarrow> 'h muxEntry list \<Rightarrow> 'h muxEntry list outcome" where
  "muxHandle pattern h mux =
     (case parsePattern pattern of
        None \<Rightarrow> Panic (''parsing '' @ Quote pattern)
      | Some (m, p) \<Rightarrow>
          if list_ex (muxConflict (Entry m p pattern h)) mux then Panic (''pattern '' @ Quote pattern @ '' conflicts'')
          else Ret (mux @ [Entry m p pattern h]))"

fun muxHandleAll :: "(string \<times> 'h) list \<Rightarrow> 'h muxEntry list \<Rightarrow> 'h muxEntry list outcome" where
  "muxHandleAll [] mux = Ret mux"
| "muxHandleAll ((p, h) # rs) mux =
     (case muxHandle p h mux of Panic s \<Rightarrow> Panic s | Ret mux' \<Rightarrow> muxHandleAll rs mux')"

definition entryMatches :: "string \<Rightarrow> 'h muxEntry \<Rightarrow> bool" where
  "entryMatches path e \<longleftrightarrow> (if isSubtree (me_path e) then HasPrefix path (me_path e) else path = me_path e)"

fun longest :: "'h muxEntry list \<Rightarrow> 'h muxEntry option" where
  "longest [] = None"
| "longest (e # es) =
     (case longest es of
        None \<Rightarrow> Some e
      | Some f \<Rightarrow> if length (me_path e) \<ge> length (me_path f) then Some e else Some f)"

definition muxMethod :: "string \<Rightarrow> string \<Rightarrow> 'h muxEntry list \<Rightarrow> 'h muxEntry option" where
  "muxMethod m path mux = longest (filter (\<lambda>e. me_method e = m \<and> entryMatches path e) mux)"

definition muxFind :: "string \<Rightarrow> string \<Rightarrow> 'h muxEntry list \<Rightarrow> 'h muxEntry option" where
  "muxFind m path mux =
     (case muxMethod m path mux of
        Some e \<Rightarrow> Some e
      | None \<Rightarrow>
          (case if m = ''HEAD'' then muxMethod ''GET'' path mux else None of
             Some e \<Rightarrow> Some e
           | None \<Rightarrow> muxMethod [] path mux))"

datatype 'h muxResult = Route "'h muxEntry" | Redirect "'h muxEntry" string | MethodNotAllowed | NotFound

definition exactMatch :: "string \<Rightarrow> 'h muxEntry option \<Rightarrow> bool" where
  "exactMatch path e = (case e of None \<Rightarrow> False | Some x \<Rightarrow> me_path x = path)"

definition muxServe :: "string \<Rightarrow> string \<Rightarrow> 'h muxEntry list \<Rightarrow> 'h muxResult" where
  "muxServe m path mux =
     (case (exactMatch path (muxFind m path mux), isSubtree path, muxFind m (path @ ''/'') mux) of
        (False, False, Some e) \<Rightarrow>
          if me_path e = path @ ''/'' then Redirect e (path @ ''/'')
          else (case muxFind m path mux of
                  Some f \<Rightarrow> Route f
                | None \<Rightarrow> if list_ex (entryMatches path) mux then MethodNotAllowed else NotFound)
      | _ \<Rightarrow>
          (case muxFind m path mux of
             Some f \<Rightarrow> Route f
           | None \<Rightarrow> if list_ex (entryMatches path) mux then MethodNotAllowed else NotFound))"

text \<open>The pattern the request is labelled with.\<close>

fun resultPattern :: "'h muxResult \<Rightarrow> string" where
  "resultPattern (Route e) = me_pattern e"
| "resultPattern (Redirect e _) = me_pattern e"
| "resultPattern MethodNotAllowed = []"
| "resultPattern NotFound = []"

section \<open>Health probes\<close>

text \<open>
  A checker is the error it returns for a context with the given timeout. The
  components of the answer are in the order in which the goroutines of the
  checkers took the mutex.
\<close>

record HealthManager =
  hm_cfg :: HealthConfig
  hm_checkers :: "(string \<times> (int \<Rightarrow> error option)) list"

definition NewHealthManager :: "HealthConfig \<Rightarrow> HealthManager" where
  "NewHealthManager cfg = \<lparr>hm_cfg = HealthConfig_ApplyDefaults cfg, hm_checkers = []\<rparr>"

definition HealthManager_RegisterChecker :: "string \<Rightarrow> (int \<Rightarrow> error option) \<Rightarrow> HealthManager \<Rightarrow> HealthManager" where
  "HealthManager_RegisterChecker name checker h = h\<lparr>hm_checkers := AList.update name checker (hm_checkers h)\<rparr>"

datatype probeBody = ProbeLive | ProbeReady string "(string \<times> string) list" | ProbeText string

record probeResponse =
  pr_contentType :: string
  pr_status :: int
  pr_body :: probeBody

definition LivenessHandler :: probeResponse where
  "LivenessHandler = \<lparr>pr_contentType = ''application/json'', pr_status = 200, pr_body = ProbeLive\<rparr>"

fun checkStep :: "int \<Rightarrow> string \<times> (int \<Rightarrow> error option) \<Rightarrow> bool \<times> (string \<times> string) list \<Rightarrow> bool \<times> (string \<times> string) list" where
  "checkStep timeout (n, chk) (isHealthy, components) =
     (case chk timeout of
        Some err \<Rightarrow> (False, AList.update n (''DOWN: '' @ Error err) components)
      | None \<Rightarrow> (isHealthy, AList.update n ''UP'' components))"

text \<open>\<open>order\<close> is the order of the goroutines, a permutation of the registered checkers.\<close>

definition ReadinessHandler :: "(string \<times> (int \<Rightarrow> error option)) list \<Rightarrow> HealthManager \<Rightarrow> probeResponse" where
  "ReadinessHandler order h =
     (let timeout = defPos (5 * Second) (hc_CheckTimeout (hm_cfg h));
          (isHealthy, components) = fold (checkStep timeout) order (True, [])
      in \<lparr>pr_contentType = ''application/json'', pr_status = (if isHealthy then 200 else 503),
          pr_body = ProbeReady (if isHealthy then ''UP'' else ''DOWN'') components\<rparr>)"

definition HealthzHandler :: probeResponse where
  "HealthzHandler =
     \<lparr>pr_contentType = ''text/plain; charset=utf-8'', pr_status = 200, pr_body = ProbeText (''OK'' @ [CHR 0x0A])\<rparr>"

section \<open>The routes\<close>

record ('s, 'p) emailHandler =
  eh_sender :: "'s option"
  eh_producer :: "'p option"
  eh_queueName :: string

datatype ('s, 'p) routeHandler =
    HLiveness | HReadiness | HHealthz | HMetrics | HExpVar | HPprof string | HCustom string
  | HAuthSend "('s, 'p) emailHandler" | HAuthBatch "('s, 'p) emailHandler"

type_synonym ('s, 'p) serveMux = "('s, 'p) routeHandler muxEntry list"

definition HealthManager_Mount :: "HealthManager \<Rightarrow> ('s, 'p) serveMux \<Rightarrow> ('s, 'p) serveMux outcome" where
  "HealthManager_Mount h =
     muxHandleAll
       [(defStr ''/livez'' (hc_LivePath (hm_cfg h)), HLiveness), (defStr ''/readyz'' (hc_ReadyPath (hm_cfg h)), HReadiness),
        (''/healthz'', HHealthz)]"

text \<open>The rates that \<open>MountPprof\<close> sets in the runtime: of the block and of the mutex profile.\<close>

definition pprofRates :: "PprofConfig \<Rightarrow> int option \<times> int option" where
  "pprofRates cfg =
     (if pf_ProfileBlock cfg \<or> pf_BlockRate cfg > 0 then Some (defPos 1 (pf_BlockRate cfg)) else None,
      if pf_ProfileMutex cfg \<or> pf_MutexRate cfg > 0 then Some (defPos 1 (pf_MutexRate cfg)) else None)"

definition pprofRoutes :: "PprofConfig \<Rightarrow> (string \<times> ('s, 'p) routeHandler) list" where
  "pprofRoutes cfg =
     (let pre = defStr ''/debug/pprof'' (TrimRight (pf_Path cfg) ''/'')
      in map (\<lambda>n. (pre @ ''/'' @ n, HPprof n))
           ([[], ''cmdline'', ''profile'', ''symbol'', ''trace''] @
            [''goroutine'', ''heap'', ''threadcreate'', ''block'', ''mutex'', ''allocs'']))"

definition MountPprof :: "PprofConfig \<Rightarrow> ('s, 'p) serveMux \<Rightarrow> ('s, 'p) serveMux outcome" where
  "MountPprof cfg mux =
     (if \<not> pf_Enabled cfg then Ret mux else muxHandleAll (pprofRoutes (PprofConfig_ApplyDefaults cfg)) mux)"

record ('s, 'p) httpServer =
  hs_cfg :: Config
  hs_mux :: "('s, 'p) serveMux"
  hs_addr :: string
  hs_readTimeout :: int
  hs_writeTimeout :: int
  hs_idleTimeout :: int
  hs_health :: HealthManager
  hs_sender :: "'s option"
  hs_producer :: "'p option"
  hs_queueName :: string
  hs_running :: bool
  hs_shutdown :: bool

text \<open>The argument of an option may be nil.\<close>

datatype ('s, 'p) serverOption = WithSender "'s option" | WithProducer "'p option" string

fun applyOption :: "('s, 'p) serverOption \<Rightarrow> ('s, 'p) httpServer \<Rightarrow> ('s, 'p) httpServer" where
  "applyOption (WithSender s) srv = srv\<lparr>hs_sender := s\<rparr>"
| "applyOption (WithProducer p q) srv = srv\<lparr>hs_producer := p, hs_queueName := q\<rparr>"

definition assertNotRunning :: "('s, 'p) httpServer \<Rightarrow> unit outcome" where
  "assertNotRunning s =
     (if hs_running s then Panic ''handler: cannot register HTTP routes after the server has started'' else Ret ())"

definition emailRoutes :: "('s, 'p) httpServer \<Rightarrow> (string \<times> ('s, 'p) routeHandler) list" where
  "emailRoutes s =
     (let h = \<lparr>eh_sender = hs_sender s, eh_producer = hs_producer s, eh_queueName = hs_queueName s\<rparr>
      in [(''POST /v1/email/send'', HAuthSend h), (''POST /v1/email/batch'', HAuthBatch h)] @
         (if sv_LegacyAPIV1 (cf_Server (hs_cfg s)) then
            [(''POST /api/v1/send'', HAuthSend h), (''POST /api/v1/batch'', HAuthBatch h)] else []))"

definition MountEmailRoutes :: "('s, 'p) httpServer \<Rightarrow> ('s, 'p) httpServer outcome" where
  "MountEmailRoutes s =
     (case assertNotRunning s of
        Panic e \<Rightarrow> Panic e
      | Ret _ \<Rightarrow>
          (case muxHandleAll (emailRoutes s) (hs_mux s) of Panic e \<Rightarrow> Panic e | Ret m \<Rightarrow> Ret (s\<lparr>hs_mux := m\<rparr>)))"

definition metricsRoutes :: "MetricsConfig \<Rightarrow> metricsRef \<Rightarrow> (string \<times> ('s, 'p) routeHandler) list" where
  "metricsRoutes cfg m =
     (if mt_Enabled cfg then
        (case m of MNoop \<Rightarrow> [] | MRef x \<Rightarrow> if mx_registry x then [(defStr ''/metrics'' (mt_Path cfg), HMetrics)] else []) @
        (if EqualFold (mt_Provider cfg) ''expvar'' then [(''/debug/vars'', HExpVar)] else [])
      else [])"

text \<open>The observability routes, in the order \<open>New\<close> mounts them.\<close>

definition mountObservability :: "Config \<Rightarrow> metricsRef \<Rightarrow> HealthManager \<Rightarrow> ('s, 'p) serveMux outcome" where
  "mountObservability cfg m health =
     (case (if hc_Enabled (ob_Health (cf_Observability cfg)) then HealthManager_Mount health [] else Ret []) of
        Panic e \<Rightarrow> Panic e
      | Ret mux1 \<Rightarrow>
          (case muxHandleAll (metricsRoutes (cf_Metrics cfg) m) mux1 of
             Panic e \<Rightarrow> Panic e
           | Ret mux2 \<Rightarrow>
               if pf_Enabled (ob_Pprof (cf_Observability cfg)) then MountPprof (ob_Pprof (cf_Observability cfg)) mux2
               else Ret mux2))"

text \<open>
  \<open>New\<close>: the options are applied to a first server, whose mux the returned one
  shares; its sender, producer and queue name are not copied.
\<close>

definition muxServer :: "Config \<Rightarrow> HealthManager \<Rightarrow> ('s, 'p) serveMux \<Rightarrow> ('s, 'p) httpServer" where
  "muxServer c health mux =
     \<lparr>hs_cfg = c, hs_mux = mux, hs_addr = [], hs_readTimeout = 0, hs_writeTimeout = 0, hs_idleTimeout = 0,
      hs_health = health, hs_sender = None, hs_producer = None, hs_queueName = [], hs_running = False, hs_shutdown = False\<rparr>"

definition httpListener :: "ServerConfig \<Rightarrow> ('s, 'p) httpServer \<Rightarrow> ('s, 'p) httpServer" where
  "httpListener sc s =
     s\<lparr>hs_addr := ServerConfig_Address sc, hs_readTimeout := defPos (10 * Second) (sv_ReadTimeout sc),
       hs_writeTimeout := defPos (10 * Second) (sv_WriteTimeout sc), hs_idleTimeout := defPos (30 * Second) (sv_IdleTimeout sc)\<rparr>"

definition mountEmail :: "('s, 'p) httpServer \<Rightarrow> ('s, 'p) httpServer outcome" where
  "mountEmail srv = (if hs_sender srv \<noteq> None \<or> hs_producer srv \<noteq> None then MountEmailRoutes srv else Ret srv)"

definition handler_New ::
    "metricsRef \<Rightarrow> Config option \<Rightarrow> ('s, 'p) serverOption list \<Rightarrow> (error + ('s, 'p) httpServer) outcome" where
  "handler_New m cfg opts =
     (case cfg of
        None \<Rightarrow> Ret (Inl (Err ''handler: config cannot be nil''))
      | Some c \<Rightarrow>
          (let health = NewHealthManager (ob_Health (cf_Observability c)) in
           case mountObservability c m health of
             Panic e \<Rightarrow> Panic e
           | Ret mux \<Rightarrow>
               (case mountEmail (fold applyOption opts (muxServer c health mux)) of
                  Panic e \<Rightarrow> Panic e
                | Ret srv \<Rightarrow> Ret (Inr (httpListener (cf_Server c) (muxServer c health (hs_mux srv)))))))"

definition Server_RegisterChecker :: "string \<Rightarrow> (int \<Rightarrow> error option) \<Rightarrow> ('s, 'p) httpServer \<Rightarrow> ('s, 'p) httpServer" where
  "Server_RegisterChecker name checker s = s\<lparr>hs_health := HealthManager_RegisterChecker name checker (hs_health s)\<rparr>"

definition RegisterRoute :: "string \<Rightarrow> ('s, 'p) routeHandler \<Rightarrow> ('s, 'p) httpServer \<Rightarrow> ('s, 'p) httpServer outcome" where
  "RegisterRoute pattern h s =
     (case assertNotRunning s of
        Panic e \<Rightarrow> Panic e
      | Ret _ \<Rightarrow> (case muxHandle pattern h (hs_mux s) of Panic e \<Rightarrow> Panic e | Ret m \<Rightarrow> Ret (s\<lparr>hs_mux := m\<rparr>)))"

section \<open>The interceptor\<close>

text \<open>
  The response: \<open>rw_status\<close> and \<open>rw_body\<close> are what is on the wire, \<open>rw_code\<close> is the
  field of \<open>statusResponseWriter\<close>. A second \<open>WriteHeader\<close> has no effect on the wire.
\<close>

record respWriter =
  rw_headers :: "(string \<times> string) list"
  rw_status :: "int option"
  rw_body :: string
  rw_code :: int

datatype rwAct = WriteHeader int | WriteBody string

fun rw_perform :: "rwAct \<Rightarrow> respWriter \<Rightarrow> respWriter" where
  "rw_perform (WriteHeader c) w = w\<lparr>rw_code := c, rw_status := (case rw_status w of None \<Rightarrow> Some c | Some x \<Rightarrow> Some x)\<rparr>"
| "rw_perform (WriteBody b) w =
     w\<lparr>rw_status := (case rw_status w of None \<Rightarrow> Some 200 | Some x \<Rightarrow> Some x), rw_body := rw_body w @ b\<rparr>"

definition panicBody :: string where
  "panicBody =
     [CHR ''{'', CHR 0x22] @ ''code'' @ [CHR 0x22] @ '':500,'' @ [CHR 0x22] @ ''error'' @ [CHR 0x22] @ '':'' @ [CHR 0x22] @
     ''internal_error'' @ [CHR 0x22, CHR ''}'']"

definition corsHeaders :: "string \<Rightarrow> (string \<times> string) list" where
  "corsHeaders origin =
     [(''Access-Control-Allow-Origin'', origin), (''Vary'', ''Origin''),
      (''Access-Control-Allow-Methods'', ''GET, POST, OPTIONS''),
      (''Access-Control-Allow-Headers'', ''Content-Type, Authorization, X-API-Key, X-Request-ID''),
      (''Access-Control-Max-Age'', ''600'')]"

definition freshWriter :: respWriter where
  "freshWriter = \<lparr>rw_headers = [], rw_status = None, rw_body = [], rw_code = 200\<rparr>"

text \<open>
  \<open>run\<close> is what the handler found by the mux does: what it writes, whether it
  panics after that, and its effect. The result has the metrics calls, too. \<open>d\<close> is the
  duration of the request.
\<close>

definition interceptor ::
    "(string \<Rightarrow> string) \<Rightarrow> Metrics option \<Rightarrow> string \<Rightarrow> ('h muxResult \<Rightarrow> 'w \<Rightarrow> (rwAct list \<times> string option) \<times> 'w) \<Rightarrow>
     'h muxEntry list \<Rightarrow> string \<Rightarrow> string \<Rightarrow> int \<Rightarrow> 'w \<Rightarrow> (respWriter \<times> metricCall list) \<times> 'w" where
  "interceptor sha m corsOrigin run mux method path d w =
     (let w0 = (if corsOrigin \<noteq> [] then freshWriter\<lparr>rw_headers := corsHeaders corsOrigin\<rparr> else freshWriter)
      in if corsOrigin \<noteq> [] \<and> method = ''OPTIONS'' then ((rw_perform (WriteHeader 204) w0, []), w)
         else
           (let res = muxServe method path mux
            in case run res w of
                 ((acts, Some p), w') \<Rightarrow>
                   (let w1 = fold rw_perform acts w0
                    in if rw_code w1 = 200 then
                         ((rw_perform (WriteBody panicBody) (rw_perform (WriteHeader 500) w1), []), w')
                       else ((w1, []), w'))
               | ((acts, None), w') \<Rightarrow>
                   (let w1 = fold rw_perform acts w0
                    in ((w1, mx_ObserveHTTPRequest sha m (defStr ''unmatched'' (resultPattern res)) method (rw_code w1) d), w'))))"

section \<open>Start and Stop\<close>

text \<open>
  What \<open>ListenAndServe\<close> does in the first 50 milliseconds: it is still serving,
  it returned an error, or it returned \<open>ErrServerClosed\<close>, and then the channel is
  closed without a value and the error wrapped is nil.
\<close>

datatype earlyServe = StillServing | ServeFailed error | ServeClosed

definition startResult :: "string \<Rightarrow> earlyServe \<Rightarrow> error option" where
  "startResult what r =
     (case r of
        StillServing \<Rightarrow> None
      | ServeFailed e \<Rightarrow> Some (Wrap (what @ '': '') e)
      | ServeClosed \<Rightarrow> Some (Err (what @ '': %!w(<nil>)'')))"

definition usesTLS :: "ServerConfig \<Rightarrow> bool" where
  "usesTLS c \<longleftrightarrow> sv_TLSEnabled c \<and> sv_TLSCertPath c \<noteq> [] \<and> sv_TLSKeyPath c \<noteq> []"

text \<open>\<open>serve tls\<close> is the outcome of listening; a server that was shut down returns at once.\<close>

definition http_Start :: "(bool \<Rightarrow> earlyServe) \<Rightarrow> ('s, 'p) httpServer \<Rightarrow> error option \<times> ('s, 'p) httpServer" where
  "http_Start serve s =
     (if hs_running s then (None, s)
      else
        (let r = (if hs_shutdown s then ServeClosed else serve (usesTLS (cf_Server (hs_cfg s))))
         in (startResult (''http: server start error on '' @ hs_addr s) r, s\<lparr>hs_running := (r = StillServing)\<rparr>)))"

text \<open>\<open>shutdown\<close> is the error of \<open>Shutdown\<close> under the caller's context; \<open>Close\<close> follows it.\<close>

definition http_Stop :: "error option \<Rightarrow> ('s, 'p) httpServer \<Rightarrow> error option \<times> ('s, 'p) httpServer" where
  "http_Stop shutdown s =
     (if \<not> hs_running s then (None, s) else (shutdown, s\<lparr>hs_running := False, hs_shutdown := True\<rparr>))"

section \<open>Lemmas on the mux\<close>

lemma muxHandle_Ret:
  "muxHandle pat h mux = Ret mux' \<Longrightarrow> \<exists>m p. parsePattern pat = Some (m, p) \<and> mux' = mux @ [Entry m p pat h]"
  by (auto simp: muxHandle_def split: option.splits if_splits)

text \<open>A pattern that begins with a slash has no method.\<close>

lemma parsePattern_slash: "parsePattern (CHR ''/'' # s) = Some (m, p) \<Longrightarrow> m = [] \<and> p = CHR ''/'' # s"
  by (auto simp: parsePattern_def Let_def isBlank_def isTokenChar_def less_eq_char_def split: if_splits)

definition isEmailRoute :: "('s, 'p) routeHandler \<Rightarrow> bool" where
  "isEmailRoute h \<longleftrightarrow> (case h of HAuthSend _ \<Rightarrow> True | HAuthBatch _ \<Rightarrow> True | _ \<Rightarrow> False)"

definition plainEntry :: "('s, 'p) routeHandler muxEntry \<Rightarrow> bool" where
  "plainEntry e \<longleftrightarrow> me_method e = [] \<and> \<not> isEmailRoute (me_handler e)"

definition plainRoute :: "string \<times> ('s, 'p) routeHandler \<Rightarrow> bool" where
  "plainRoute r \<longleftrightarrow> HasPrefix (fst r) ''/'' \<and> \<not> isEmailRoute (snd r)"

lemma muxHandle_plain:
  "muxHandle pat h mux = Ret mux' \<Longrightarrow> plainRoute (pat, h) \<Longrightarrow> list_all plainEntry mux \<Longrightarrow> list_all plainEntry mux'"
  by (auto simp: plainRoute_def plainEntry_def HasPrefix_def prefix_def dest!: muxHandle_Ret parsePattern_slash)

lemma muxHandleAll_plain:
  "muxHandleAll rs mux = Ret mux' \<Longrightarrow> list_all plainRoute rs \<Longrightarrow> list_all plainEntry mux \<Longrightarrow> list_all plainEntry mux'"
proof (induction rs mux rule: muxHandleAll.induct)
  case (2 p h rs mux)
  then obtain mux1 where "muxHandle p h mux = Ret mux1" "muxHandleAll rs mux1 = Ret mux'"
    by (auto split: outcome.splits)
  then show ?case
    using 2 muxHandle_plain by fastforce
qed simp

text \<open>Routes with a method and a path that parse to themselves.\<close>

definition postEntry :: "string \<Rightarrow> 'h \<Rightarrow> 'h muxEntry" where
  "postEntry path h = Entry ''POST'' path (''POST '' @ path) h"

lemma muxHandleAll_post:
  "muxHandleAll (map (\<lambda>(p, h). (''POST '' @ p, h)) rs) mux = Ret mux' \<Longrightarrow>
   list_all (\<lambda>(p, h). parsePattern (''POST '' @ p) = Some (''POST'', p)) rs \<Longrightarrow>
   mux' = mux @ map (\<lambda>(p, h). postEntry p h) rs"
proof (induction rs arbitrary: mux)
  case (Cons r rs)
  obtain p h where r: "r = (p, h)"
    by fastforce
  then obtain mux1 where m: "muxHandle (''POST '' @ p) h mux = Ret mux1"
    "muxHandleAll (map (\<lambda>(p, h). (''POST '' @ p, h)) rs) mux1 = Ret mux'"
    using Cons.prems(1) by (auto split: outcome.splits)
  then have "mux1 = mux @ [postEntry p h]"
    using Cons.prems(2) r muxHandle_Ret [OF m(1)] by (auto simp: postEntry_def)
  then show ?case
    using Cons.IH [OF m(2)] Cons.prems(2) r by simp
qed simp

lemma longest_mem: "longest es = Some e \<Longrightarrow> e \<in> set es"
  by (induction es arbitrary: e) (auto split: option.splits if_splits)

lemma longest_None: "longest es = None \<longleftrightarrow> es = []"
  by (cases es) (auto split: option.splits)

lemma muxMethod_mem: "muxMethod m path mux = Some e \<Longrightarrow> e \<in> set mux \<and> me_method e = m \<and> entryMatches path e"
  unfolding muxMethod_def by (drule longest_mem) simp

lemma muxFind_mem: "muxFind m path mux = Some e \<Longrightarrow> e \<in> set mux \<and> entryMatches path e"
  by (auto simp: muxFind_def split: option.splits if_splits dest: muxMethod_mem)

lemma muxFind_method: "muxFind m path mux = Some e \<Longrightarrow> me_method e \<in> {m, ''GET'', []}"
  by (auto simp: muxFind_def split: option.splits if_splits dest: muxMethod_mem)

lemma muxServe_Route: "muxServe m path mux = Route e \<Longrightarrow> muxFind m path mux = Some e"
  by (auto simp: muxServe_def split: option.splits bool.splits if_splits)

lemma muxServe_exact: "muxFind m path mux = Some e \<Longrightarrow> me_path e = path \<Longrightarrow> muxServe m path mux = Route e"
  by (simp add: muxServe_def exactMatch_def)

lemma muxMethod_only:
  assumes "e \<in> set mux" "me_method e = m" "entryMatches path e"
    "\<And>f. f \<in> set mux \<Longrightarrow> me_method f = m \<Longrightarrow> entryMatches path f \<Longrightarrow> f = e"
  shows "muxMethod m path mux = Some e"
proof -
  have "longest (filter (\<lambda>e. me_method e = m \<and> entryMatches path e) mux) \<noteq> None"
    unfolding longest_None using assms(1-3) by (auto simp: filter_empty_conv)
  then obtain f where "muxMethod m path mux = Some f"
    by (auto simp: muxMethod_def)
  then show ?thesis
    using muxMethod_mem assms(4) by blast
qed

lemma muxFind_only: "muxMethod m path mux = Some e \<Longrightarrow> muxFind m path mux = Some e"
  by (simp add: muxFind_def)

section \<open>The routes of New\<close>

definition slashPaths :: "Config \<Rightarrow> bool" where
  "slashPaths c \<longleftrightarrow>
     (\<forall>p \<in> {hc_LivePath (ob_Health (cf_Observability c)), hc_ReadyPath (ob_Health (cf_Observability c)),
            mt_Path (cf_Metrics c), pf_Path (ob_Pprof (cf_Observability c))}. p \<noteq> [] \<longrightarrow> HasPrefix p ''/'')"

lemma TrimRight_slash:
  "HasPrefix p ''/'' \<Longrightarrow> TrimRight p ''/'' \<noteq> [] \<Longrightarrow> HasPrefix (TrimRight p ''/'' @ s) ''/''"
proof -
  assume p: "HasPrefix p ''/''" and n: "TrimRight p ''/'' \<noteq> []"
  have "prefix (TrimRight p ''/'') p"
    unfolding TrimRight_def by (metis rev_rev_ident suffix_dropWhile suffix_to_prefix)
  with p n obtain t where "TrimRight p ''/'' = CHR ''/'' # t"
    by (cases "TrimRight p ''/''") (auto simp: HasPrefix_def prefix_def)
  then show ?thesis
    by (simp add: HasPrefix_def)
qed

lemma pprofRoutes_plain:
  "(pf_Path c \<noteq> [] \<longrightarrow> HasPrefix (pf_Path c) ''/'') \<Longrightarrow> list_all plainRoute (pprofRoutes (PprofConfig_ApplyDefaults c))"
proof -
  assume c: "pf_Path c \<noteq> [] \<longrightarrow> HasPrefix (pf_Path c) ''/''"
  have h: "HasPrefix (pf_Path (PprofConfig_ApplyDefaults c)) ''/''"
    using c by (simp add: PprofConfig_ApplyDefaults_def defStr_def HasPrefix_def)
  have "HasPrefix (defStr ''/debug/pprof'' (TrimRight (pf_Path (PprofConfig_ApplyDefaults c)) ''/'') @ s) ''/''" for s
  proof (cases "TrimRight (pf_Path (PprofConfig_ApplyDefaults c)) ''/'' = []")
    case True
    then show ?thesis
      by (simp add: defStr_def HasPrefix_def)
  next
    case False
    then show ?thesis
      using TrimRight_slash [OF h False, of s] by (simp add: defStr_def)
  qed
  then show ?thesis
    by (simp add: pprofRoutes_def Let_def plainRoute_def isEmailRoute_def)
qed

lemma plainRoute_defStr:
  "p \<noteq> [] \<longrightarrow> HasPrefix p ''/'' \<Longrightarrow> \<not> isEmailRoute h \<Longrightarrow> plainRoute (defStr (CHR ''/'' # d) p, h)"
  by (simp add: plainRoute_def defStr_def HasPrefix_def)

lemma isEmailRoute_simps [simp]:
  "\<not> isEmailRoute HLiveness" "\<not> isEmailRoute HReadiness" "\<not> isEmailRoute HHealthz" "\<not> isEmailRoute HMetrics"
  "\<not> isEmailRoute HExpVar" "\<not> isEmailRoute (HPprof n)" "\<not> isEmailRoute (HCustom n)"
  "isEmailRoute (HAuthSend h)" "isEmailRoute (HAuthBatch h)"
  by (simp_all add: isEmailRoute_def)

lemma healthRoutes_plain:
  assumes "slashPaths c" "HealthManager_Mount (NewHealthManager (ob_Health (cf_Observability c))) [] = Ret mux"
  shows "list_all plainEntry mux"
proof -
  have "plainRoute (''/healthz'', HHealthz)"
    by (simp add: plainRoute_def HasPrefix_def)
  then show ?thesis
    using assms(1) by (intro muxHandleAll_plain [OF assms(2) [unfolded HealthManager_Mount_def]])
      (simp_all add: plainRoute_defStr slashPaths_def NewHealthManager_def HealthConfig_ApplyDefaults_def)
qed

lemma plainRoute_debug: "plainRoute (''/debug/vars'', HExpVar)"
  by (simp add: plainRoute_def HasPrefix_def)

lemma metricsRoutes_plain: "slashPaths c \<Longrightarrow> list_all plainRoute (metricsRoutes (cf_Metrics c) m)"
proof (cases m)
  case (MRef x)
  assume "slashPaths c"
  then have "mt_Path (cf_Metrics c) \<noteq> [] \<longrightarrow> HasPrefix (mt_Path (cf_Metrics c)) ''/''"
    by (simp add: slashPaths_def)
  then show ?thesis
    using MRef by (simp add: metricsRoutes_def plainRoute_defStr plainRoute_debug)
qed (simp add: metricsRoutes_def plainRoute_debug)

lemma mountObservability_plain:
  fixes mux :: "('s, 'p) serveMux"
  assumes "mountObservability c m (NewHealthManager (ob_Health (cf_Observability c))) = Ret mux" "slashPaths c"
  shows "list_all plainEntry mux"
proof -
  let ?h = "NewHealthManager (ob_Health (cf_Observability c))" and ?p = "ob_Pprof (cf_Observability c)"
  let ?m1 = "if hc_Enabled (ob_Health (cf_Observability c)) then HealthManager_Mount ?h [] else Ret [] :: ('s, 'p) serveMux outcome"
  obtain mux1 where 1: "?m1 = Ret mux1"
    using assms(1) unfolding mountObservability_def by (cases ?m1) simp_all
  then obtain mux2 where 2: "muxHandleAll (metricsRoutes (cf_Metrics c) m) mux1 = Ret mux2"
    using assms(1) unfolding mountObservability_def
    by (cases "muxHandleAll (metricsRoutes (cf_Metrics c) m) mux1") simp_all
  have 3: "(if pf_Enabled ?p then MountPprof ?p mux2 else Ret mux2) = Ret mux"
    using assms(1) unfolding mountObservability_def 1 outcome.case 2 .
  have "list_all plainEntry mux1"
    using 1 healthRoutes_plain [OF assms(2)] by (cases "hc_Enabled (ob_Health (cf_Observability c))") simp_all
  then have "list_all plainEntry mux2"
    by (rule muxHandleAll_plain [OF 2 metricsRoutes_plain [OF assms(2)]])
  moreover have pprof: "list_all plainRoute (pprofRoutes (PprofConfig_ApplyDefaults ?p) :: (string \<times> ('s, 'p) routeHandler) list)"
    using assms(2) by (intro pprofRoutes_plain) (simp add: slashPaths_def)
  ultimately show ?thesis
    using 3 muxHandleAll_plain [OF _ pprof] by (cases "pf_Enabled ?p") (simp_all add: MountPprof_def)
qed

definition emailPaths :: "bool \<Rightarrow> ('s, 'p) emailHandler \<Rightarrow> (string \<times> ('s, 'p) routeHandler) list" where
  "emailPaths legacy h =
     [(''/v1/email/send'', HAuthSend h), (''/v1/email/batch'', HAuthBatch h)] @
     (if legacy then [(''/api/v1/send'', HAuthSend h), (''/api/v1/batch'', HAuthBatch h)] else [])"

definition serverEmail :: "('s, 'p) httpServer \<Rightarrow> ('s, 'p) emailHandler" where
  "serverEmail s = \<lparr>eh_sender = hs_sender s, eh_producer = hs_producer s, eh_queueName = hs_queueName s\<rparr>"

lemma emailRoutes_eq:
  "emailRoutes s = map (\<lambda>(p, h). (''POST '' @ p, h)) (emailPaths (sv_LegacyAPIV1 (cf_Server (hs_cfg s))) (serverEmail s))"
  by (simp add: emailRoutes_def emailPaths_def serverEmail_def Let_def)

lemma emailPaths_parse: "list_all (\<lambda>(p, h). parsePattern (''POST '' @ p) = Some (''POST'', p)) (emailPaths legacy h)"
proof -
  have "parsePattern (''POST '' @ ''/v1/email/send'') = Some (''POST'', ''/v1/email/send'')"
    "parsePattern (''POST '' @ ''/v1/email/batch'') = Some (''POST'', ''/v1/email/batch'')"
    "parsePattern (''POST '' @ ''/api/v1/send'') = Some (''POST'', ''/api/v1/send'')"
    "parsePattern (''POST '' @ ''/api/v1/batch'') = Some (''POST'', ''/api/v1/batch'')"
    by code_simp+
  then show ?thesis
    by (simp add: emailPaths_def)
qed

lemma applyOption_fixed [simp]:
  "hs_mux (applyOption x s) = hs_mux s" "hs_cfg (applyOption x s) = hs_cfg s" "hs_running (applyOption x s) = hs_running s"
  by (cases x; simp)+

lemma applyOptions_fixed [simp]:
  "hs_mux (fold applyOption opts s) = hs_mux s" "hs_cfg (fold applyOption opts s) = hs_cfg s"
  "hs_running (fold applyOption opts s) = hs_running s"
  by (induction opts arbitrary: s) simp_all

text \<open>The handler the options describe, and whether it has a sender or a producer.\<close>

fun handlerOption :: "('s, 'p) serverOption \<Rightarrow> ('s, 'p) emailHandler \<Rightarrow> ('s, 'p) emailHandler" where
  "handlerOption (WithSender s) h = h\<lparr>eh_sender := s\<rparr>"
| "handlerOption (WithProducer p q) h = h\<lparr>eh_producer := p, eh_queueName := q\<rparr>"

definition optionsHandler :: "('s, 'p) serverOption list \<Rightarrow> ('s, 'p) emailHandler" where
  "optionsHandler opts = fold handlerOption opts \<lparr>eh_sender = None, eh_producer = None, eh_queueName = []\<rparr>"

definition canSend :: "('s, 'p) emailHandler \<Rightarrow> bool" where
  "canSend h \<longleftrightarrow> eh_sender h \<noteq> None \<or> eh_producer h \<noteq> None"

lemma serverEmail_option [simp]: "serverEmail (applyOption x s) = handlerOption x (serverEmail s)"
  by (cases x) (simp_all add: serverEmail_def)

lemma serverEmail_options: "serverEmail (fold applyOption opts s) = fold handlerOption opts (serverEmail s)"
  by (induction opts arbitrary: s) simp_all

text \<open>The mux of a new server: observability routes without a method, then the email routes.\<close>

lemma MountEmailRoutes_mux:
  assumes "MountEmailRoutes s = Ret s'" "\<not> hs_running s"
  shows "hs_mux s' = hs_mux s @ map (\<lambda>(p, h). postEntry p h) (emailPaths (sv_LegacyAPIV1 (cf_Server (hs_cfg s))) (serverEmail s))"
proof -
  obtain mux where "muxHandleAll (emailRoutes s) (hs_mux s) = Ret mux" "s' = s\<lparr>hs_mux := mux\<rparr>"
    using assms by (auto simp: MountEmailRoutes_def assertNotRunning_def split: outcome.splits)
  then show ?thesis
    using muxHandleAll_post [OF _ emailPaths_parse] by (simp add: emailRoutes_eq)
qed

lemma handler_New_mux:
  fixes opts :: "('s, 'p) serverOption list"
  assumes "handler_New m (Some c) opts = Ret (Inr srv)" "slashPaths c"
  obtains base where "list_all plainEntry base"
    "hs_mux srv = base @ (if canSend (optionsHandler opts) then
       map (\<lambda>(p, h). postEntry p h) (emailPaths (sv_LegacyAPIV1 (cf_Server c)) (optionsHandler opts)) else [])"
proof -
  let ?health = "NewHealthManager (ob_Health (cf_Observability c))"
  obtain base :: "('s, 'p) serveMux" where base: "mountObservability c m ?health = Ret base"
    using assms(1) by (cases "mountObservability c m ?health :: ('s, 'p) serveMux outcome") (simp_all add: handler_New_def Let_def)
  define s where "s = fold applyOption opts (muxServer c ?health base)"
  obtain s' where s': "mountEmail s = Ret s'"
    using assms(1) base by (cases "mountEmail s") (simp_all add: handler_New_def Let_def s_def)
  have mux: "hs_mux srv = hs_mux s'"
    using assms(1) base s' by (auto simp: handler_New_def Let_def s_def httpListener_def muxServer_def)
  have s: "hs_mux s = base" "hs_cfg s = c" "\<not> hs_running s"
    unfolding s_def applyOptions_fixed by (simp_all add: muxServer_def)
  have h: "serverEmail s = optionsHandler opts"
    unfolding s_def serverEmail_options optionsHandler_def by (simp add: serverEmail_def muxServer_def)
  then have on: "(hs_sender s \<noteq> None \<or> hs_producer s \<noteq> None) \<longleftrightarrow> canSend (optionsHandler opts)"
    unfolding h [symmetric] by (simp add: canSend_def serverEmail_def)
  have "hs_mux srv = base @ (if canSend (optionsHandler opts) then
      map (\<lambda>(p, h). postEntry p h) (emailPaths (sv_LegacyAPIV1 (cf_Server c)) (optionsHandler opts)) else [])"
  proof (cases "canSend (optionsHandler opts)")
    case True
    then have "MountEmailRoutes s = Ret s'"
      using s' on by (simp only: mountEmail_def if_True)
    then show ?thesis
      using MountEmailRoutes_mux s mux True h by fastforce
  next
    case False
    then show ?thesis
      using s' s mux on unfolding mountEmail_def by (simp only: if_False) simp
  qed
  then show thesis
    using mountObservability_plain [OF base assms(2)] that by blast
qed

text \<open>A handler behind the middleware: it runs only when the middleware forwards.\<close>

definition authMW ::
    "(string \<Rightarrow> string) \<Rightarrow> AuthConfig \<Rightarrow> int \<Rightarrow> (string \<Rightarrow> string) \<Rightarrow> ('w \<Rightarrow> 'r \<times> 'w) \<Rightarrow> keyRateLimiter \<times> 'w \<Rightarrow>
     (AuthErrorResponse \<times> int option + 'r) \<times> (keyRateLimiter \<times> 'w)" where
  "authMW fingerprint cfg now get handler lw =
     (case AuthMiddleware fingerprint cfg now get (fst lw) of
        (Forward, rl) \<Rightarrow> (case handler (snd lw) of (r, w) \<Rightarrow> (Inr r, (rl, w)))
      | (Refuse e after, rl) \<Rightarrow> (Inl (e, after), (rl, snd lw)))"

lemma emailPaths_not_subtree: "(p, h) \<in> set (emailPaths legacy x) \<Longrightarrow> \<not> isSubtree p"
  by (auto simp: emailPaths_def isSubtree_def split: if_splits)

lemma emailPaths_distinct: "(p, h) \<in> set (emailPaths l x) \<Longrightarrow> (p, h') \<in> set (emailPaths l x) \<Longrightarrow> h = h'"
  by (auto simp: emailPaths_def split: if_splits)

lemma emailPaths_fst:
  "fst ` set (emailPaths l h) =
     {''/v1/email/send'', ''/v1/email/batch''} \<union> (if l then {''/api/v1/send'', ''/api/v1/batch''} else {})"
  unfolding emailPaths_def by (cases l) (simp_all only: if_True if_False append_Nil2 Un_empty_right set_append list.set image_Un image_insert
      image_empty fst_conv)

lemma emailPaths_serve:
  assumes "list_all plainEntry base" "mux = base @ map (\<lambda>(p, h). postEntry p h) (emailPaths l x)" "(p, h) \<in> set (emailPaths l x)"
  shows "muxServe ''POST'' p mux = Route (postEntry p h)"
proof -
  have "muxMethod ''POST'' p mux = Some (postEntry p h)"
  proof (rule muxMethod_only)
    fix f assume f: "f \<in> set mux" "me_method f = ''POST''" "entryMatches p f"
    then have "f \<notin> set base"
      using assms(1) by (auto simp: list_all_iff plainEntry_def)
    then obtain q k where q: "(q, k) \<in> set (emailPaths l x)" "f = postEntry q k"
      using f(1) assms(2) by auto
    then have "p = q"
      using f(3) emailPaths_not_subtree [OF q(1)] by (simp add: entryMatches_def postEntry_def)
    then show "f = postEntry p h"
      using q emailPaths_distinct [OF assms(3)] by blast
  qed (use assms emailPaths_not_subtree [OF assms(3)] in \<open>auto simp: postEntry_def entryMatches_def\<close>)
  then have "muxFind ''POST'' p mux = Some (postEntry p h)"
    by (rule muxFind_only)
  then show ?thesis
    by (rule muxServe_exact) (simp add: postEntry_def)
qed

lemma emailPaths_reached:
  assumes "list_all plainEntry base" "mux = base @ map (\<lambda>(p, h). postEntry p h) (emailPaths l x)"
    "muxServe m path mux = Route e" "isEmailRoute (me_handler e)"
  shows "m = ''POST'' \<and> path \<in> fst ` set (emailPaths l x)"
proof -
  have find: "muxFind m path mux = Some e"
    using assms(3) by (rule muxServe_Route)
  then have e: "e \<in> set mux" "entryMatches path e"
    using muxFind_mem by blast+
  then have "e \<notin> set base"
    using assms(1,4) by (auto simp: list_all_iff plainEntry_def)
  then obtain q k where q: "(q, k) \<in> set (emailPaths l x)" "e = postEntry q k"
    using e(1) assms(2) by auto
  then have "path = q"
    using e(2) emailPaths_not_subtree [OF q(1)] by (simp add: entryMatches_def postEntry_def)
  moreover have "m = ''POST''"
    using muxFind_method [OF find] q(2) by (simp add: postEntry_def)
  ultimately show ?thesis
    using q(1) by force
qed


lemma emailRoutes_mounted:
  "\<not> sv_LegacyAPIV1 (cf_Server (hs_cfg s)) \<Longrightarrow> \<exists>mux. muxHandleAll (emailRoutes s) [] = Ret mux"
  using emailPaths_parse [of False "serverEmail s"] unfolding emailRoutes_eq
  by (simp add: emailPaths_def muxHandle_def muxConflict_def methodRel_def pathRel_def isSubtree_def)

lemma sample_observability: "mountObservability sampleConfig MNoop h = Ret []"
  by (simp add: mountObservability_def sampleConfig_def metricsRoutes_def)

lemma sample_new: "\<exists>srv. handler_New MNoop (Some sampleConfig) (opts :: ('s, 'p) serverOption list) = Ret (Inr srv)"
proof -
  let ?h = "NewHealthManager (ob_Health (cf_Observability sampleConfig))"
  define s where "s = fold applyOption opts (muxServer sampleConfig ?h [])"
  have s: "hs_cfg s = sampleConfig" "\<not> hs_running s" "hs_mux s = []"
    by (simp_all add: s_def muxServer_def)
  then have "\<not> sv_LegacyAPIV1 (cf_Server (hs_cfg s))"
    by (simp add: sampleConfig_def)
  then obtain srv where "MountEmailRoutes s = Ret srv"
    using emailRoutes_mounted [of s] s by (auto simp: MountEmailRoutes_def assertNotRunning_def)
  then have "\<exists>srv'. mountEmail s = Ret srv'"
    by (simp add: mountEmail_def)
  then obtain srv' where "mountEmail s = Ret srv'"
    by blast
  then show ?thesis
    unfolding s_def by (simp add: handler_New_def Let_def sample_observability)
qed

lemma sample_slashPaths: "slashPaths sampleConfig"
  by (simp add: slashPaths_def sampleConfig_def)


section \<open>Readiness\<close>

definition checkResult :: "error option \<Rightarrow> string" where
  "checkResult r = (case r of None \<Rightarrow> ''UP'' | Some err \<Rightarrow> ''DOWN: '' @ Error err)"

lemma checks_fold:
  "distinct (map fst order) \<Longrightarrow>
   fst (fold (checkStep t) order (ok, comps)) = (ok \<and> (\<forall>(n, chk) \<in> set order. chk t = None)) \<and>
   map_of (snd (fold (checkStep t) order (ok, comps))) n =
     (case map_of order n of None \<Rightarrow> map_of comps n | Some chk \<Rightarrow> Some (checkResult (chk t)))"
proof (induction order arbitrary: ok comps)
  case (Cons x order)
  obtain k chk where x: "x = (k, chk)"
    by fastforce
  have "n = k \<Longrightarrow> map_of order n = None"
    using Cons.prems x by (auto simp: map_of_eq_None_iff)
  then show ?case
    using Cons.IH Cons.prems x by (auto simp: checkResult_def update_conv' split: option.splits)
qed simp

lemma checkers_distinct:
  "distinct (map fst (hm_checkers (fold (\<lambda>(n, chk). HealthManager_RegisterChecker n chk) regs (NewHealthManager cfg))))"
proof -
  have "distinct (map fst (hm_checkers (fold (\<lambda>(n, chk). HealthManager_RegisterChecker n chk) regs h)))"
    if "distinct (map fst (hm_checkers h))" for h
    using that
    by (induction regs arbitrary: h) (auto simp: HealthManager_RegisterChecker_def distinct_update)
  then show ?thesis
    by (simp add: NewHealthManager_def)
qed

lemma map_of_perm: "mset xs = mset ys \<Longrightarrow> distinct (map fst ys) \<Longrightarrow> map_of xs = map_of ys \<and> distinct (map fst xs)"
proof -
  assume m: "mset xs = mset ys" and d: "distinct (map fst ys)"
  then have "mset (map fst xs) = mset (map fst ys)"
    by simp
  then have d': "distinct (map fst xs)"
    using d by (metis mset_eq_imp_distinct_iff)
  moreover have "set xs = set ys"
    using m by (metis set_mset_mset)
  ultimately show ?thesis
    using d by (simp add: map_of_inject_set)
qed

lemma readiness_components:
  assumes "h = fold (\<lambda>(n, chk). HealthManager_RegisterChecker n chk) regs (NewHealthManager cfg)"
    "mset order = mset (hm_checkers h)" "t = hc_CheckTimeout (HealthConfig_ApplyDefaults cfg)"
  shows "\<exists>comps. ReadinessHandler order h =
      (if \<forall>(n, chk) \<in> set (hm_checkers h). chk t = None
       then \<lparr>pr_contentType = ''application/json'', pr_status = 200, pr_body = ProbeReady ''UP'' comps\<rparr>
       else \<lparr>pr_contentType = ''application/json'', pr_status = 503, pr_body = ProbeReady ''DOWN'' comps\<rparr>) \<and>
    (\<forall>n. map_of comps n = map_option (\<lambda>chk. checkResult (chk t)) (map_of (hm_checkers h) n))"
proof -
  have cfg: "hm_cfg (fold (\<lambda>(n, chk). HealthManager_RegisterChecker n chk) regs k) = hm_cfg k" for k
    by (induction regs arbitrary: k) (auto simp: HealthManager_RegisterChecker_def)
  have t: "defPos (5 * Second) (hc_CheckTimeout (hm_cfg h)) = t"
    unfolding assms(1,3) cfg by (simp add: NewHealthManager_def HealthConfig_ApplyDefaults_def defPos_def)
  have perm: "map_of order = map_of (hm_checkers h)" "distinct (map fst order)"
    using map_of_perm [OF assms(2)] checkers_distinct [of regs cfg] unfolding assms(1) by blast+
  have set: "set order = set (hm_checkers h)"
    using assms(2) by (metis set_mset_mset)
  obtain ok comps where r: "fold (checkStep t) order (True, []) = (ok, comps)"
    by fastforce
  have ok: "ok \<longleftrightarrow> (\<forall>(n, chk) \<in> set (hm_checkers h). chk t = None)"
    using checks_fold [OF perm(2), of t True "[]"] r set by simp
  have "map_of comps n = map_option (\<lambda>chk. checkResult (chk t)) (map_of (hm_checkers h) n)" for n
    using checks_fold [OF perm(2), of t True "[]" n] r perm(1) by (simp split: option.splits)
  then show ?thesis
    unfolding ReadinessHandler_def t Let_def r prod.case ok [symmetric] by (intro exI [of _ comps]) (cases ok; simp)
qed

lemma readiness_status:
  assumes "h = fold (\<lambda>(n, chk). HealthManager_RegisterChecker n chk) regs (NewHealthManager cfg)"
    "mset order = mset (hm_checkers h)" "t = hc_CheckTimeout (HealthConfig_ApplyDefaults cfg)"
  shows "\<exists>comps. ReadinessHandler order h =
      (if \<forall>(n, chk) \<in> set (hm_checkers h). chk t = None
       then \<lparr>pr_contentType = ''application/json'', pr_status = 200, pr_body = ProbeReady ''UP'' comps\<rparr>
       else \<lparr>pr_contentType = ''application/json'', pr_status = 503, pr_body = ProbeReady ''DOWN'' comps\<rparr>)"
  using readiness_components [OF assms] by blast

text \<open>
  The readiness probe tells the truth and does not depend on the schedule:
  for whatever checkers were registered, under the same name or not, and in
  whatever order their goroutines finish, the answer is 200 and \<open>UP\<close> if every
  registered checker returns nil and 503 and \<open>DOWN\<close> otherwise, and it lists exactly
  the registered names, each with the result of its checker.\<close>

theorem readiness_exact:
  assumes "h = fold (\<lambda>(n, chk). HealthManager_RegisterChecker n chk) regs (NewHealthManager cfg)"
    "mset order = mset (hm_checkers h)" "t = hc_CheckTimeout (HealthConfig_ApplyDefaults cfg)"
  shows "\<exists>comps. ReadinessHandler order h =
      (if \<forall>(n, chk) \<in> set (hm_checkers h). chk t = None
       then \<lparr>pr_contentType = ''application/json'', pr_status = 200, pr_body = ProbeReady ''UP'' comps\<rparr>
       else \<lparr>pr_contentType = ''application/json'', pr_status = 503, pr_body = ProbeReady ''DOWN'' comps\<rparr>) \<and>
    (\<forall>n. map_of comps n = map_option (\<lambda>chk. checkResult (chk t)) (map_of (hm_checkers h) n))"
  using assms by (rule readiness_components)

definition sampleChecks :: "(string \<times> (int \<Rightarrow> error option)) list" where
  "sampleChecks = [(''queue'', \<lambda>t. None), (''smtp'', \<lambda>t. Some (Err ''sender not initialized''))]"

theorem readiness_exact_witness:
  "pr_status (ReadinessHandler (rev sampleChecks)
     (fold (\<lambda>(n, chk). HealthManager_RegisterChecker n chk) sampleChecks
        (NewHealthManager (ob_Health (cf_Observability sampleConfig))))) = 503"
proof -
  let ?h = "fold (\<lambda>(n, chk). HealthManager_RegisterChecker n chk) sampleChecks
    (NewHealthManager (ob_Health (cf_Observability sampleConfig)))"
  have c: "hm_checkers ?h = sampleChecks"
    by (simp add: sampleChecks_def HealthManager_RegisterChecker_def NewHealthManager_def)
  then have "mset (rev sampleChecks) = mset (hm_checkers ?h)"
    by simp
  from readiness_exact [OF refl this refl] show ?thesis
    unfolding c by (auto simp: sampleChecks_def)
qed

section \<open>The answer to a request\<close>

fun firstStatus :: "rwAct list \<Rightarrow> int option" where
  "firstStatus [] = None"
| "firstStatus (WriteHeader c # _) = Some c"
| "firstStatus (WriteBody _ # _) = Some 200"

fun written :: "rwAct list \<Rightarrow> string" where
  "written [] = []"
| "written (WriteHeader c # as) = written as"
| "written (WriteBody b # as) = b @ written as"

lemma rw_fold:
  "rw_status (fold rw_perform acts w) = (case rw_status w of None \<Rightarrow> firstStatus acts | Some x \<Rightarrow> Some x)"
  "rw_body (fold rw_perform acts w) = rw_body w @ written acts"
  "rw_headers (fold rw_perform acts w) = rw_headers w"
proof (induction acts arbitrary: w)
  case (Cons a acts)
  {
    case 1 then show ?case by (cases a) (auto simp: Cons.IH split: option.splits)
  next
    case 2 then show ?case by (cases a) (auto simp: Cons.IH)
  next
    case 3 then show ?case by (cases a) (auto simp: Cons.IH)
  }
qed (simp_all split: option.splits)

definition isPreflight :: "string \<Rightarrow> string \<Rightarrow> bool" where
  "isPreflight corsOrigin method \<longleftrightarrow> corsOrigin \<noteq> [] \<and> method = ''OPTIONS''"


text \<open>A handler that panics after it began a 200 answer has the error body appended to what it wrote.\<close>

lemma panic_after_write:
  "fst (fst (interceptor sha m [] (\<lambda>r w. (([WriteBody ''partial''], Some ''boom''), w)) mux method path d w)) =
     \<lparr>rw_headers = [], rw_status = Some 200, rw_body = ''partial'' @ panicBody, rw_code = 500\<rparr>"
  by (simp add: interceptor_def Let_def freshWriter_def)

section \<open>Start and Stop\<close>

text \<open>A server that was stopped cannot be started again: the error wraps nothing.\<close>

lemma no_restart:
  assumes "http_Start serve s = (None, s1)" "\<not> hs_running s" "http_Stop e s1 = (r, s2)"
  shows "r = e \<and> \<not> hs_running s2 \<and>
    fst (http_Start serve' s2) = Some (Err (''http: server start error on '' @ hs_addr s @ '': %!w(<nil>)'')) \<and>
    \<not> hs_running (snd (http_Start serve' s2))"
  using assms by (auto simp: http_Start_def http_Stop_def startResult_def Let_def split: if_splits earlyServe.splits)

lemma start_result:
  "\<not> hs_running s \<Longrightarrow> fst (http_Start serve s) = None \<longleftrightarrow> hs_running (snd (http_Start serve s))"
  by (auto simp: http_Start_def startResult_def Let_def split: earlyServe.splits)

lemma no_routes_while_running:
  "hs_running s \<Longrightarrow> RegisterRoute pat h s = Panic ''handler: cannot register HTTP routes after the server has started''"
  by (simp add: RegisterRoute_def assertNotRunning_def)

end
