(* ===== verification/Engine.thy ===== *)
theory Engine
  imports Pipeline
begin

text \<open>
  The lifecycle of the runtime engine: \<open>internal/runtime/engine.go\<close>,
  \<open>options.go\<close> and \<open>types.go\<close>. The consumer goroutine that \<open>Start\<close>
  launches is counted in \<open>en_loops\<close> until it stores the stopped state.
  \<open>Start\<close>, \<open>Stop\<close> and the end of a consumer goroutine are the steps;
  sequences of them are the runs. Middlewares, the error handler and the dead
  letter producer are values the engine only stores.
\<close>

abbreviation ErrNilQueue :: error where "ErrNilQueue \<equiv> Err ''runtime: queue cannot be nil''"
abbreviation ErrNilSender :: error where "ErrNilSender \<equiv> Err ''runtime: sender cannot be nil''"
abbreviation ErrEngineAlreadyRunning :: error where
  "ErrEngineAlreadyRunning \<equiv> Err ''runtime: engine is already running''"
abbreviation ErrEngineNotRunning :: error where "ErrEngineNotRunning \<equiv> Err ''runtime: engine is not running''"

datatype EngineState = StateStopped | StateStarting | StateRunning | StateStopping

fun EngineState_String :: "EngineState \<Rightarrow> string" where
  "EngineState_String StateStopped = ''STOPPED''"
| "EngineState_String StateStarting = ''STARTING''"
| "EngineState_String StateRunning = ''RUNNING''"
| "EngineState_String StateStopping = ''STOPPING''"

section \<open>Construction\<close>

record ('mw, 'h, 'd) engine =
  en_cfg :: "Config option"
  en_concurrency :: int
  en_maxRetries :: int
  en_retryInterval :: int
  en_shutdownTimeout :: int
  en_middlewares :: "'mw list"
  en_errorHandler :: "'h option"
  en_dlqProducer :: "'d option"
  en_dlqTopic :: string
  en_state :: EngineState
  en_startTime :: "int option"
  en_loops :: nat

datatype ('mw, 'h, 'd) EngineOption =
    EngineConcurrency int
  | EngineMiddlewares "'mw list"
  | EngineErrorHandler "'h option"
  | EngineDLQ "'d option" string
  | EngineShutdownTimeout int
  | EngineMaxRetries int
  | EngineRetryInterval int

fun applyEngineOption :: "('mw, 'h, 'd) EngineOption \<Rightarrow> ('mw, 'h, 'd) engine \<Rightarrow> ('mw, 'h, 'd) engine" where
  "applyEngineOption (EngineConcurrency n) e = (if n > 0 then e\<lparr>en_concurrency := n\<rparr> else e)"
| "applyEngineOption (EngineMiddlewares ms) e = e\<lparr>en_middlewares := en_middlewares e @ ms\<rparr>"
| "applyEngineOption (EngineErrorHandler h) e = e\<lparr>en_errorHandler := h\<rparr>"
| "applyEngineOption (EngineDLQ p t) e = e\<lparr>en_dlqProducer := p, en_dlqTopic := t\<rparr>"
| "applyEngineOption (EngineShutdownTimeout d) e = (if d > 0 then e\<lparr>en_shutdownTimeout := d\<rparr> else e)"
| "applyEngineOption (EngineMaxRetries n) e = (if n \<ge> 0 then e\<lparr>en_maxRetries := n\<rparr> else e)"
| "applyEngineOption (EngineRetryInterval d) e = (if d > 0 then e\<lparr>en_retryInterval := d\<rparr> else e)"

text \<open>The two flags tell whether the queue and the sender are nil; \<open>builtin\<close> are the built-in middlewares.\<close>

definition Engine_New ::
    "bool \<Rightarrow> bool \<Rightarrow> 'mw list \<Rightarrow> Config option \<Rightarrow> ('mw, 'h, 'd) EngineOption list \<Rightarrow> error + ('mw, 'h, 'd) engine" where
  "Engine_New nilQueue nilSender builtin cfg opts =
     (if nilQueue then Inl ErrNilQueue
      else if nilSender then Inl ErrNilSender
      else let e0 =
        \<lparr>en_cfg = cfg,
         en_concurrency = (case cfg of None \<Rightarrow> 10 | Some c \<Rightarrow> defPos 10 (qc_Concurrency (cf_Queue c))),
         en_maxRetries = (case cfg of None \<Rightarrow> 3 | Some c \<Rightarrow>
            if qc_MaxRetries (cf_Queue c) \<ge> 0 then qc_MaxRetries (cf_Queue c) else 3),
         en_retryInterval = (case cfg of None \<Rightarrow> defaultRetryInterval
            | Some c \<Rightarrow> defPos defaultRetryInterval (qc_RetryInterval (cf_Queue c))),
         en_shutdownTimeout = (case cfg of None \<Rightarrow> 10 * Second
            | Some c \<Rightarrow> defPos (10 * Second) (ap_ShutdownTimeout (cf_App c))),
         en_middlewares = builtin, en_errorHandler = None, en_dlqProducer = None, en_dlqTopic = [],
         en_state = StateStopped, en_startTime = None, en_loops = 0\<rparr>
      in Inr (fold applyEngineOption opts e0))"

section \<open>Starting and stopping\<close>

text \<open>\<open>consumerErr\<close> is the error of \<open>queue.Consumer()\<close>, if any.\<close>

definition Engine_Start :: "error option \<Rightarrow> int \<Rightarrow> ('mw, 'h, 'd) engine \<Rightarrow> error option \<times> ('mw, 'h, 'd) engine" where
  "Engine_Start consumerErr now e =
     (if en_state e \<noteq> StateStopped then (Some ErrEngineAlreadyRunning, e)
      else case consumerErr of
        Some err \<Rightarrow>
          (Some (Wrap (''runtime: failed to obtain consumer from queue: '' @ Error err) err),
           e\<lparr>en_state := StateStopped\<rparr>)
      | None \<Rightarrow> (None, e\<lparr>en_state := StateRunning, en_startTime := Some now, en_loops := Suc (en_loops e)\<rparr>))"

definition engineConsumeOptions :: "('mw, 'h, 'd) engine \<Rightarrow> 'm ConsumeOption list" where
  "engineConsumeOptions e =
     WithConcurrency (en_concurrency e) #
     (case en_cfg e of
        None \<Rightarrow> []
      | Some c \<Rightarrow> if qc_BatchSize (cf_Queue c) > 0 then [WithBatchSize (qc_BatchSize (cf_Queue c))] else [])"

text \<open>A consumer goroutine ends, with an error, by cancellation or by a panic it recovers.\<close>

definition loopExits :: "('mw, 'h, 'd) engine \<Rightarrow> ('mw, 'h, 'd) engine" where
  "loopExits e = (case en_loops e of 0 \<Rightarrow> e | Suc n \<Rightarrow> e\<lparr>en_state := StateStopped, en_loops := n\<rparr>)"

text \<open>\<open>Stop\<close> waits until all consumer goroutines have ended, or its context is done first.\<close>

datatype stopWait = Drained | StopTimeout error

definition Engine_Stop :: "stopWait \<Rightarrow> ('mw, 'h, 'd) engine \<Rightarrow> error option \<times> ('mw, 'h, 'd) engine" where
  "Engine_Stop wait e =
     (if en_state e = StateStopped then (None, e)
      else case wait of
        Drained \<Rightarrow> (None, e\<lparr>en_state := StateStopped, en_loops := 0\<rparr>)
      | StopTimeout err \<Rightarrow> (Some err, e\<lparr>en_state := StateStopped\<rparr>))"

definition IsRunning :: "('mw, 'h, 'd) engine \<Rightarrow> bool" where
  "IsRunning e \<longleftrightarrow> en_state e = StateRunning"

definition uptime :: "int \<Rightarrow> ('mw, 'h, 'd) engine \<Rightarrow> int" where
  "uptime now e = (case en_startTime e of None \<Rightarrow> 0 | Some t \<Rightarrow> if IsRunning e then now - t else 0)"

record RuntimeStats =
  rs_State :: string
  rs_TotalReceived :: int
  rs_TotalSuccess :: int
  rs_TotalFailed :: int
  rs_TotalRetried :: int
  rs_TotalDeadLetter :: int
  rs_InFlight :: int
  rs_Uptime :: int
  rs_StartTime :: "int option"

text \<open>The counters are those of the pipeline.\<close>

definition Engine_Stats :: "int \<Rightarrow> ('a, 'n, 'w) pipe \<Rightarrow> ('mw, 'h, 'd) engine \<Rightarrow> RuntimeStats" where
  "Engine_Stats now s e =
     \<lparr>rs_State = EngineState_String (en_state e), rs_TotalReceived = pp_totalReceived s,
      rs_TotalSuccess = pp_totalSuccess s, rs_TotalFailed = pp_totalFailed s, rs_TotalRetried = pp_totalRetried s,
      rs_TotalDeadLetter = pp_totalDeadLetter s, rs_InFlight = pp_inFlight s, rs_Uptime = uptime now e,
      rs_StartTime = en_startTime e\<rparr>"

text \<open>\<open>ping\<close> is the answer of \<open>queue.Ping\<close>.\<close>

definition CheckHealth :: "error option \<Rightarrow> ('mw, 'h, 'd) engine \<Rightarrow> error option" where
  "CheckHealth ping e =
     (if \<not> IsRunning e then Some ErrEngineNotRunning
      else case ping of
        None \<Rightarrow> None
      | Some err \<Rightarrow> Some (Wrap (''queue broker unreachable: '' @ Error err) err))"

section \<open>Runs\<close>

datatype lifeOp = OpStart "error option" int | OpLoopExits | OpStop stopWait

fun lifeStep :: "lifeOp \<Rightarrow> ('mw, 'h, 'd) engine \<Rightarrow> ('mw, 'h, 'd) engine" where
  "lifeStep (OpStart c now) e = snd (Engine_Start c now e)"
| "lifeStep OpLoopExits e = loopExits e"
| "lifeStep (OpStop w) e = snd (Engine_Stop w e)"

fun timesOut :: "lifeOp \<Rightarrow> bool" where
  "timesOut (OpStop (StopTimeout _)) = True"
| "timesOut _ = False"

definition life_inv :: "('mw, 'h, 'd) engine \<Rightarrow> bool" where
  "life_inv e \<longleftrightarrow> (en_state e = StateRunning \<and> en_loops e = 1 \<and> en_startTime e \<noteq> None) \<or>
     (en_state e = StateStopped \<and> en_loops e = 0)"

lemma lifeStep_inv: "life_inv e \<Longrightarrow> \<not> timesOut op \<Longrightarrow> life_inv (lifeStep op e)"
  by (cases op rule: timesOut.cases)
    (auto simp: life_inv_def Engine_Start_def Engine_Stop_def loopExits_def split: option.splits nat.splits)

lemma run_life_inv: "life_inv e \<Longrightarrow> \<not> list_ex timesOut ops \<Longrightarrow> life_inv (fold lifeStep ops e)"
  by (induction ops arbitrary: e) (auto simp: lifeStep_inv)

lemma applyEngineOption_keeps:
  "en_state (applyEngineOption p e) = en_state e" "en_loops (applyEngineOption p e) = en_loops e"
  "0 < en_concurrency e \<Longrightarrow> 0 < en_concurrency (applyEngineOption p e)"
  "0 \<le> en_maxRetries e \<Longrightarrow> 0 \<le> en_maxRetries (applyEngineOption p e)"
  "0 < en_retryInterval e \<Longrightarrow> 0 < en_retryInterval (applyEngineOption p e)"
  "0 < en_shutdownTimeout e \<Longrightarrow> 0 < en_shutdownTimeout (applyEngineOption p e)"
  "\<exists>ms. en_middlewares (applyEngineOption p e) = en_middlewares e @ ms"
  by (cases p; simp)+

definition engine_ready :: "'mw list \<Rightarrow> ('mw, 'h, 'd) engine \<Rightarrow> bool" where
  "engine_ready builtin e \<longleftrightarrow> en_state e = StateStopped \<and> en_loops e = 0 \<and> 0 < en_concurrency e \<and>
     0 \<le> en_maxRetries e \<and> 0 < en_retryInterval e \<and> 0 < en_shutdownTimeout e \<and>
     (\<exists>ms. en_middlewares e = builtin @ ms)"

lemma applyEngineOption_ready: "engine_ready builtin e \<Longrightarrow> engine_ready builtin (applyEngineOption p e)"
proof -
  assume r: "engine_ready builtin e"
  then obtain ms where "en_middlewares e = builtin @ ms"
    by (auto simp: engine_ready_def)
  moreover obtain ms' where "en_middlewares (applyEngineOption p e) = en_middlewares e @ ms'"
    using applyEngineOption_keeps(7) by blast
  ultimately show ?thesis
    using r by (simp add: engine_ready_def applyEngineOption_keeps(1-6))
qed

lemma Engine_New_ready: "Engine_New nq ns builtin cfg opts = Inr e \<Longrightarrow> engine_ready builtin e"
proof -
  have "engine_ready builtin e0 \<Longrightarrow> engine_ready builtin (fold applyEngineOption opts e0)" for e0
    by (induction opts arbitrary: e0) (auto intro: applyEngineOption_ready)
  moreover assume "Engine_New nq ns builtin cfg opts = Inr e"
  ultimately show ?thesis
    by (auto simp: Engine_New_def engine_ready_def Let_def split: if_splits option.splits)
qed

section \<open>Properties\<close>


text \<open>
  A Stop that runs into its deadline marks the engine as stopped while its
  consumer goroutine still runs. A Start after that runs a second one, and
  when the first ends it marks the engine as stopped again: the engine then
  reports itself as not running, and a further Stop returns at once and leaves
  the second consumer running.\<close>

theorem engine_stop_timeout_orphans:
  assumes "IsRunning e" "en_loops e = 1"
    and "e' = fold lifeStep [OpStop (StopTimeout err), OpStart None now, OpLoopExits] e"
  shows "\<not> IsRunning e' \<and> en_loops e' = 1 \<and> (\<forall>w. Engine_Stop w e' = (None, e'))"
  using assms by (simp add: IsRunning_def Engine_Stop_def Engine_Start_def loopExits_def)

section \<open>Witnesses\<close>

lemma sample_engine:
  "Engine_New False False [()] None [EngineConcurrency (- 4)] =
     (Inr \<lparr>en_cfg = None, en_concurrency = 10, en_maxRetries = 3, en_retryInterval = 5 * Second,
       en_shutdownTimeout = 10 * Second, en_middlewares = [()], en_errorHandler = None, en_dlqProducer = None,
       en_dlqTopic = [], en_state = StateStopped, en_startTime = None, en_loops = 0\<rparr> :: error + (unit, unit, unit) engine)"
  by (simp add: Engine_New_def)


theorem engine_stop_timeout_orphans_witness:
  "\<exists>e :: (unit, unit, unit) engine. IsRunning e \<and>
     \<not> IsRunning (fold lifeStep [OpStop (StopTimeout ErrTimeout), OpStart None 9, OpLoopExits] e) \<and>
     en_loops (fold lifeStep [OpStop (StopTimeout ErrTimeout), OpStart None 9, OpLoopExits] e) = 1"
proof -
  define e :: "(unit, unit, unit) engine" where
    "e = \<lparr>en_cfg = None, en_concurrency = 10, en_maxRetries = 3, en_retryInterval = 5 * Second,
       en_shutdownTimeout = 10 * Second, en_middlewares = [()], en_errorHandler = None, en_dlqProducer = None,
       en_dlqTopic = [], en_state = StateRunning, en_startTime = Some 1, en_loops = 1\<rparr>"
  have "IsRunning e" "en_loops e = 1"
    by (simp_all add: e_def IsRunning_def)
  then show ?thesis
    using engine_stop_timeout_orphans [OF _ _ refl] by blast
qed

end
