(* ===== verification/RpcServer.thy ===== *)
theory RpcServer
  imports HttpServer Engine
begin

text \<open>
  The life of the gRPC server (\<open>internal/rpc/server.go\<close>): \<open>New\<close> with the options it
  passes to the gRPC library, \<open>Start\<close>, \<open>Stop\<close>, and the path of a unary call through the
  chained interceptors to a method of the service, whose methods are in \<open>Api\<close>.
\<close>

datatype 'x grpcOption =
    MaxRecvMsgSize int | MaxSendMsgSize int | ChainUnary AuthConfig | ChainStream AuthConfig | Creds string string
  | ExtraOption 'x

record ('s, 'p, 'x) rpcServer =
  gs_cfg :: Config
  gs_options :: "'x grpcOption list"
  gs_sender :: "'s option"
  gs_producer :: "'p option"
  gs_queueName :: string
  gs_running :: bool
  gs_stopped :: bool

definition grpcUsesTLS :: "GrpcConfig \<Rightarrow> bool" where
  "grpcUsesTLS c \<longleftrightarrow> gr_TLSEnabled c \<and> gr_TLSCertPath c \<noteq> [] \<and> gr_TLSKeyPath c \<noteq> []"

text \<open>
  \<open>loadTLS\<close> is the error of reading the certificate and the key. The configuration is a
  pointer: the defaults that \<open>New\<close> applies are seen by everyone who has it.
\<close>

definition rpc_New ::
    "(string \<Rightarrow> string \<Rightarrow> error option) \<Rightarrow> Config option \<Rightarrow> 's option \<Rightarrow> 'p option \<Rightarrow> 'x list \<Rightarrow> error + ('s, 'p, 'x) rpcServer" where
  "rpc_New loadTLS cfg s p extraOpts =
     (case cfg of
        None \<Rightarrow> Inl (Err ''rpc: config cannot be nil'')
      | Some c0 \<Rightarrow>
          (let c = c0\<lparr>cf_GRPC := GrpcConfig_ApplyDefaults (cf_GRPC c0), cf_Auth := AuthConfig_ApplyDefaults (cf_Auth c0)\<rparr>;
               g = cf_GRPC c;
               serverOpts = [MaxRecvMsgSize (gr_MaxRecvMsgSize g), MaxSendMsgSize (gr_MaxSendMsgSize g),
                 ChainUnary (cf_Auth c), ChainStream (cf_Auth c)];
               srv = (\<lambda>opts. \<lparr>gs_cfg = c, gs_options = opts @ map ExtraOption extraOpts, gs_sender = s, gs_producer = p,
                 gs_queueName = (if p \<noteq> None then TopicName (cf_Queue c) else []), gs_running = False, gs_stopped = False\<rparr>)
           in if grpcUsesTLS g then
                (case loadTLS (gr_TLSCertPath g) (gr_TLSKeyPath g) of
                   Some e \<Rightarrow> Inl (Wrap (''rpc: failed to load TLS cert: '' @ Error e) e)
                 | None \<Rightarrow> Inr (srv (serverOpts @ [Creds (gr_TLSCertPath g) (gr_TLSKeyPath g)])))
              else Inr (srv serverOpts)))"

definition rpc_Address :: "('s, 'p, 'x) rpcServer \<Rightarrow> string" where
  "rpc_Address s = GrpcConfig_Address (cf_GRPC (gs_cfg s))"

text \<open>\<open>listen\<close> is the error of \<open>net.Listen\<close>; \<open>Serve\<close> of a stopped server returns at once.\<close>

definition rpc_Start ::
    "(string \<Rightarrow> error option) \<Rightarrow> earlyServe \<Rightarrow> ('s, 'p, 'x) rpcServer \<Rightarrow> error option \<times> ('s, 'p, 'x) rpcServer" where
  "rpc_Start listen serve s =
     (if gs_running s then (None, s)
      else case listen (rpc_Address s) of
        Some e \<Rightarrow> (Some (Wrap (''rpc: failed to listen on '' @ rpc_Address s @ '': '' @ Error e) e), s)
      | None \<Rightarrow>
          (let r = (if gs_stopped s then ServeClosed else serve)
           in (startResult (''rpc: server error on '' @ rpc_Address s) r, s\<lparr>gs_running := (r = StillServing)\<rparr>)))"

text \<open>\<open>Stop\<close> waits for the calls in flight, or stops the server when the context ends first.\<close>

definition rpc_Stop :: "stopWait \<Rightarrow> ('s, 'p, 'x) rpcServer \<Rightarrow> error option \<times> ('s, 'p, 'x) rpcServer" where
  "rpc_Stop wait s =
     (if \<not> gs_running s then (None, s)
      else (case wait of Drained \<Rightarrow> None | StopTimeout e \<Rightarrow> Some e, s\<lparr>gs_running := False, gs_stopped := True\<rparr>))"

text \<open>\<open>Ping\<close>: what it reports as the version is the name of the environment.\<close>

record PingResponse =
  pi_Status :: string
  pi_Version :: string
  pi_Timestamp :: int

definition rpc_Ping :: "int \<Rightarrow> ('s, 'p, 'x) rpcServer \<Rightarrow> PingResponse" where
  "rpc_Ping now s = \<lparr>pi_Status = ''OK'', pi_Version = ap_Env (cf_App (gs_cfg s)), pi_Timestamp = now\<rparr>"

text \<open>\<open>rand\<close> are the sixteen bytes read.\<close>

definition rpc_generateID :: "string \<Rightarrow> string" where
  "rpc_generateID rand = hexEncode (take 16 rand)"

text \<open>A unary call: the authentication first, then the deadline, then the method.\<close>

definition rpc_unary ::
    "('s, 'p, 'x) rpcServer \<Rightarrow> (string \<Rightarrow> string list) option \<Rightarrow> int \<Rightarrow> int option \<Rightarrow> (int option \<Rightarrow> 'q \<Rightarrow> 'r) \<Rightarrow> 'q \<Rightarrow>
     grpcStatus + 'r" where
  "rpc_unary s md now deadline handler req =
     (case filter (\<lambda>opt. case opt of ChainUnary _ \<Rightarrow> True | _ \<Rightarrow> False) (gs_options s) of
        ChainUnary auth # _ \<Rightarrow> UnaryAuthInterceptor auth md (UnaryDeadlineInterceptor now deadline handler) req
      | _ \<Rightarrow> Inr (handler deadline req))"

lemma rpc_New_chain:
  assumes "rpc_New loadTLS (Some c) s p extra = Inr srv"
  shows "rpc_unary srv md now deadline handler req =
      UnaryAuthInterceptor (AuthConfig_ApplyDefaults (cf_Auth c)) md (UnaryDeadlineInterceptor now deadline handler) req \<and>
    \<not> gs_running srv \<and> \<not> gs_stopped srv \<and>
    (grpcUsesTLS (cf_GRPC c) \<longrightarrow> Creds (gr_TLSCertPath (cf_GRPC c)) (gr_TLSKeyPath (cf_GRPC c)) \<in> set (gs_options srv))"
  using assms unfolding rpc_New_def
  by (auto simp: Let_def rpc_unary_def grpcUsesTLS_def GrpcConfig_ApplyDefaults_def split: if_splits option.splits)

text \<open>
  C25. Every unary call is guarded: whatever server \<open>New\<close> returns, a method runs
  only when authentication is off or the metadata holds the non-empty secret key,
  and then with a deadline, the caller's or one thirty seconds from now; a
  refused call does not reach the method, so that its answer does not depend on
  it; and a server with a certificate and a key configured and TLS enabled
  is created with these credentials.\<close>

theorem rpc_calls_guarded:
  assumes "rpc_New loadTLS (Some c) s p extra = Inr srv"
  shows "(case rpc_unary srv md now deadline handler req of
            Inr r \<Rightarrow>
              (au_Enabled (cf_Auth c) \<longrightarrow>
                 (\<exists>get. md = Some get \<and> au_SecretKey (cf_Auth c) \<noteq> [] \<and>
                    extractMetadataToken get (defStr ''X-API-Key'' (au_HeaderName (cf_Auth c))) = au_SecretKey (cf_Auth c))) \<and>
              r = handler (Some (case deadline of None \<Rightarrow> now + DefaultRPCTimeout | Some d \<Rightarrow> d)) req
          | Inl e \<Rightarrow> au_Enabled (cf_Auth c) \<and> (\<forall>handler'. rpc_unary srv md now deadline handler' req = Inl e)) \<and>
    (grpcUsesTLS (cf_GRPC c) \<longrightarrow> Creds (gr_TLSCertPath (cf_GRPC c)) (gr_TLSKeyPath (cf_GRPC c)) \<in> set (gs_options srv))"
proof -
  have chain: "rpc_unary srv md now deadline h req =
      UnaryAuthInterceptor (AuthConfig_ApplyDefaults (cf_Auth c)) md (UnaryDeadlineInterceptor now deadline h) req" for h
    by (rule conjunct1 [OF rpc_New_chain [OF assms]])
  have tls: "grpcUsesTLS (cf_GRPC c) \<longrightarrow> Creds (gr_TLSCertPath (cf_GRPC c)) (gr_TLSKeyPath (cf_GRPC c)) \<in> set (gs_options srv)"
    using rpc_New_chain [OF assms, of None 0 None "\<lambda>_ _. ()" "()"] by blast
  have dl: "UnaryDeadlineInterceptor now deadline h req = h (Some (case deadline of None \<Rightarrow> now + DefaultRPCTimeout | Some d \<Rightarrow> d)) req" for h
    by (simp add: UnaryDeadlineInterceptor_def split: option.splits)
  show ?thesis
    using tls unfolding chain
    by (auto simp: UnaryAuthInterceptor_def validateMetadataAuth_def AuthConfig_ApplyDefaults_def dl Let_def
        split: if_splits option.splits)
qed

theorem rpc_calls_guarded_witness:
  "\<exists>srv :: (unit, unit, unit) rpcServer. rpc_New (\<lambda>c k. None) (Some sampleConfig) (Some ()) None [] = Inr srv \<and>
     (\<forall>h. \<exists>e. rpc_unary srv None 0 None (h :: int option \<Rightarrow> nat \<Rightarrow> nat) 0 = Inl e)"
proof -
  obtain srv :: "(unit, unit, unit) rpcServer" where
    srv: "rpc_New (\<lambda>c k. None) (Some sampleConfig) (Some ()) None [] = Inr srv"
    by (simp add: rpc_New_def Let_def grpcUsesTLS_def GrpcConfig_ApplyDefaults_def sampleConfig_def)
  have "\<exists>e. rpc_unary srv None 0 None h 0 = Inl e" for h :: "int option \<Rightarrow> nat \<Rightarrow> nat"
    using rpc_calls_guarded [OF srv, where md = None and now = 0 and deadline = None and handler = h and req = 0]
    by (cases "rpc_unary srv None 0 None h 0") (simp_all add: sampleConfig_def)
  then show ?thesis
    using srv by blast
qed

lemma rpc_no_restart:
  assumes "rpc_Start listen serve s = (None, s1)" "\<not> gs_running s" "rpc_Stop w s1 = (r, s2)" "listen (rpc_Address s2) = None"
  shows "\<not> gs_running s2 \<and> fst (rpc_Start listen serve' s2) \<noteq> None \<and> \<not> gs_running (snd (rpc_Start listen serve' s2))"
  using assms by (auto simp: rpc_Start_def rpc_Stop_def startResult_def Let_def split: if_splits earlyServe.splits option.splits stopWait.splits)

end
