(* ===== verification/Redact.thy ===== *)
theory Redact
  imports Prelude
begin

text \<open>
  Redaction of credentials in log output, \<open>internal/logger/redact.go\<close>. Each of
  its regular expressions is a matcher at one position of the text; the
  matchers follow the leftmost-first rule of package \<open>regexp\<close>. In every one of
  these expressions a repetition is followed by something that no character of
  the repetition can start, so a greedy repetition is a \<open>takeWhile\<close> and the only
  choice left is the optional scheme of the \<open>Authorization\<close> header. The flag
  \<open>(?i)\<close> folds ASCII letters.
\<close>

section \<open>Matching at a position\<close>

text \<open>The classes \<open>\s\<close> and \<open>\b\<close> of package \<open>regexp\<close>.\<close>

definition reSpace :: "char \<Rightarrow> bool" where
  "reSpace c \<longleftrightarrow> c \<in> {CHR 0x09, CHR 0x0A, CHR 0x0C, CHR 0x0D, CHR 0x20}"

definition reAlpha :: "char \<Rightarrow> bool" where
  "reAlpha c \<longleftrightarrow> byteIn (CHR ''A'') (CHR ''Z'') c \<or> byteIn (CHR ''a'') (CHR ''z'') c"

definition reDigit :: "char \<Rightarrow> bool" where
  "reDigit c \<longleftrightarrow> byteIn (CHR ''0'') (CHR ''9'') c"

definition reWord :: "char option \<Rightarrow> bool" where
  "reWord c = (case c of None \<Rightarrow> False | Some d \<Rightarrow> reAlpha d \<or> reDigit d \<or> d = CHR ''_'')"

definition firstChar :: "string \<Rightarrow> char option" where
  "firstChar s = (case s of [] \<Rightarrow> None | c # _ \<Rightarrow> Some c)"

definition wordBoundary :: "char option \<Rightarrow> char option \<Rightarrow> bool" where
  "wordBoundary before after \<longleftrightarrow> reWord before \<noteq> reWord after"

text \<open>A literal under \<open>(?i)\<close>: the rest after it.\<close>

definition foldLit :: "string \<Rightarrow> string \<Rightarrow> string option" where
  "foldLit p s =
     (if length p \<le> length s \<and> EqualFold (take (length p) s) p then Some (drop (length p) s) else None)"

text \<open>
  A matcher gets the character before the position and the text from there;
  its result is the length of the match and the text that replaces it.
\<close>

type_synonym matcher = "char option \<Rightarrow> string \<Rightarrow> (nat \<times> string) option"

text \<open>\<open>ReplaceAllString\<close>: the leftmost match is replaced, and the search goes on after it.\<close>

function replaceAll :: "matcher \<Rightarrow> char option \<Rightarrow> string \<Rightarrow> string" where
  "replaceAll m before [] = []"
| "replaceAll m before (c # cs) =
     (case m before (c # cs) of
        None \<Rightarrow> c # replaceAll m (Some c) cs
      | Some (n, rep) \<Rightarrow>
          (case n of
             0 \<Rightarrow> c # replaceAll m (Some c) cs
           | Suc k \<Rightarrow> rep @ replaceAll m (Some ((c # cs) ! min k (length cs))) (drop k cs)))"
  by pat_completeness auto
termination
  by (relation "measure (\<lambda>(m, b, s). length s)") auto

section \<open>The expressions\<close>

definition redactedMark :: string where
  "redactedMark = ''<redacted>''"

definition credsMark :: string where
  "credsMark = ''://***:***@''"

definition userChar :: "char \<Rightarrow> bool" where
  "userChar c \<longleftrightarrow> c \<notin> {CHR ''/'', CHR ''@'', CHR '':''} \<and> \<not> reSpace c"

definition passChar :: "char \<Rightarrow> bool" where
  "passChar c \<longleftrightarrow> c \<notin> {CHR ''/'', CHR ''@''} \<and> \<not> reSpace c"

text \<open>\<open>urlCredsRe\<close>: the user and the password of a URL that starts here.\<close>

definition urlCreds :: "string \<Rightarrow> (string \<times> string) option" where
  "urlCreds s =
     (if prefix ''://'' s then
        (let user = takeWhile userChar (drop 3 s); r1 = dropWhile userChar (drop 3 s)
         in if user \<noteq> [] \<and> firstChar r1 = Some (CHR '':'') then
              (let pass = takeWhile passChar (tl r1); r2 = dropWhile passChar (tl r1)
               in if pass \<noteq> [] \<and> firstChar r2 = Some (CHR ''@'') then Some (user, pass) else None)
            else None)
      else None)"

definition urlCredsRe :: matcher where
  "urlCredsRe before s =
     map_option (\<lambda>(user, pass). (length user + length pass + 5, credsMark)) (urlCreds s)"

definition smtpCredRe :: matcher where
  "smtpCredRe before s =
     (case foldLit ''auth'' s of
        None \<Rightarrow> None
      | Some r0 \<Rightarrow>
          (let r1 = dropWhile reSpace r0
           in if r1 = r0 then None
              else case find (\<lambda>k. foldLit k r1 \<noteq> None) [''login'', ''plain'', ''cram-md5'', ''xoauth2''] of
                     None \<Rightarrow> None
                   | Some k \<Rightarrow>
                       (let r2 = drop (length k) r1; r3 = dropWhile reSpace r2; v = takeWhile (\<lambda>c. \<not> reSpace c) r3;
                            keep = length s - length r3
                        in if r3 = r2 \<or> v = [] then None else Some (keep + length v, take keep s @ redactedMark))))"

definition base64Char :: "char \<Rightarrow> bool" where
  "base64Char c \<longleftrightarrow> reAlpha c \<or> reDigit c \<or> c = CHR ''+'' \<or> c = CHR ''/''"

definition smtpChallengeRe :: matcher where
  "smtpChallengeRe before s =
     (case foldLit ''334'' s of
        None \<Rightarrow> None
      | Some r0 \<Rightarrow>
          (let r1 = dropWhile reSpace r0; v = takeWhile (\<lambda>c. base64Char c \<or> c = CHR ''='') r1;
               keep = length s - length r1
           in if r1 = r0 \<or> length v < 4 then None else Some (keep + length v, take keep s @ redactedMark)))"

definition headerValueChar :: "char \<Rightarrow> bool" where
  "headerValueChar c \<longleftrightarrow> \<not> reSpace c \<and> c \<noteq> CHR 0x22 \<and> c \<noteq> CHR 0x27"

text \<open>The scheme is part of what is kept if a value follows it; otherwise the scheme itself is the value.\<close>

definition authorizationHeaderRe :: matcher where
  "authorizationHeaderRe before s =
     (case foldLit ''authorization:'' s of
        None \<Rightarrow> None
      | Some r0 \<Rightarrow>
          (let r1 = dropWhile reSpace r0; r2 = dropWhile reAlpha r1; r3 = dropWhile reSpace r2;
               start = (if r2 \<noteq> r1 \<and> r3 \<noteq> r2 \<and> takeWhile headerValueChar r3 \<noteq> [] then r3 else r1);
               v = takeWhile headerValueChar start; keep = length s - length start
           in if v = [] then None else Some (keep + length v, take keep s @ redactedMark)))"

definition apiKeyHeaderRe :: matcher where
  "apiKeyHeaderRe before s =
     (case find (\<lambda>k. foldLit k s \<noteq> None) [''x-api-key:'', ''x-api-token:'', ''x-auth-token:''] of
        None \<Rightarrow> None
      | Some k \<Rightarrow>
          (let r1 = dropWhile reSpace (drop (length k) s);
               v = takeWhile (\<lambda>c. headerValueChar c \<and> c \<noteq> CHR '','') r1; keep = length s - length r1
           in if v = [] then None else Some (keep + length v, take keep s @ redactedMark)))"

definition base64BlobRe :: matcher where
  "base64BlobRe before s =
     (let blob = takeWhile base64Char s; r1 = dropWhile base64Char s; pad = takeWhile (\<lambda>c. c = CHR ''='') r1;
          r2 = dropWhile (\<lambda>c. c = CHR ''='') r1
      in if 16 \<le> length blob then Some (length blob + min 2 (length pad), redactedMark)
         else if wordBoundary before (firstChar s) \<and> 4 \<le> length blob \<and> pad \<noteq> [] \<and>
                 wordBoundary (Some (CHR ''='')) (firstChar r2)
         then Some (length blob + length pad, redactedMark)
         else None)"

section \<open>The two functions\<close>

definition RedactURL :: "string \<Rightarrow> string" where
  "RedactURL s = replaceAll urlCredsRe None s"

definition RedactSecrets :: "string \<Rightarrow> string" where
  "RedactSecrets s =
     (if s = [] then s
      else fold (\<lambda>re. replaceAll re None)
             [urlCredsRe, smtpCredRe, smtpChallengeRe, authorizationHeaderRe, apiKeyHeaderRe, base64BlobRe] s)"

section \<open>No credentials are left in a redacted URL\<close>

lemma mark_lengths [simp]: "length credsMark = 11" "length redactedMark = 10"
  by (simp_all add: credsMark_def redactedMark_def)

text \<open>One step of the replacement when the matcher finds something.\<close>

lemma replaceAll_match:
  assumes "m b (c # cs) = Some (n, rep)" "0 < n"
  shows "\<exists>b' t'. length t' < length (c # cs) \<and> replaceAll m b (c # cs) = rep @ replaceAll m b' t'"
proof -
  obtain k where "n = Suc k"
    using assms(2) by (cases n) auto
  then have "replaceAll m b (c # cs) = rep @ replaceAll m (Some ((c # cs) ! min k (length cs))) (drop k cs)"
    using assms(1) by simp
  moreover have "length (drop k cs) < length (c # cs)"
    by simp
  ultimately show ?thesis by blast
qed

lemma urlCreds_colon: "urlCreds s \<noteq> None \<Longrightarrow> \<exists>t. s = ''://'' @ t"
  by (auto simp: urlCreds_def prefix_def split: if_splits)

text \<open>A position is copied, or it starts the credentials of a URL, which the mark replaces.\<close>

lemma replace_creds_cases:
  obtains (copied) "urlCreds (c # cs) = None" "replaceAll urlCredsRe b (c # cs) = c # replaceAll urlCredsRe (Some c) cs"
  | (replaced) t b' t' where "c # cs = ''://'' @ t" "urlCreds (c # cs) \<noteq> None" "length t' < length (c # cs)"
      "replaceAll urlCredsRe b (c # cs) = credsMark @ replaceAll urlCredsRe b' t'"
proof (cases "urlCreds (c # cs)")
  case None
  then show ?thesis
    using copied by (simp add: urlCredsRe_def)
next
  case (Some up)
  then obtain t where "c # cs = ''://'' @ t"
    using urlCreds_colon [of "c # cs"] by auto
  moreover have "urlCredsRe b (c # cs) = Some (length (fst up) + length (snd up) + 5, credsMark)"
    using Some by (simp add: urlCredsRe_def split: prod.splits)
  then have "\<exists>b' t'. length t' < length (c # cs) \<and>
      replaceAll urlCredsRe b (c # cs) = credsMark @ replaceAll urlCredsRe b' t'"
    by (rule replaceAll_match) simp
  ultimately show ?thesis
    using replaced Some by blast
qed

declare replaceAll.simps(2) [simp del]

lemma replace_creds_first: "firstChar (replaceAll urlCredsRe b s) = firstChar s"
proof (cases s)
  case (Cons c cs)
  show ?thesis
    unfolding Cons by (rule replace_creds_cases [of c cs b]) (auto simp: firstChar_def credsMark_def)
qed simp

lemma replace_creds_user:
  "takeWhile userChar (replaceAll urlCredsRe b s) = takeWhile userChar s \<and>
   (\<exists>b'. dropWhile userChar (replaceAll urlCredsRe b s) = replaceAll urlCredsRe b' (dropWhile userChar s))"
proof (induction s arbitrary: b)
  case (Cons c cs)
  show ?case
  proof (rule replace_creds_cases [of c cs b])
    assume r: "replaceAll urlCredsRe b (c # cs) = c # replaceAll urlCredsRe (Some c) cs"
    show ?thesis
    proof (cases "userChar c")
      case True
      then show ?thesis using Cons.IH [of "Some c"] r by simp
    next
      case False
      then have "dropWhile userChar (replaceAll urlCredsRe b (c # cs)) = replaceAll urlCredsRe b (c # cs)"
        unfolding r by simp
      with False show ?thesis using r by (auto intro: exI [of _ b])
    qed
  next
    fix t b' t'
    assume t: "c # cs = ''://'' @ t" and r: "replaceAll urlCredsRe b (c # cs) = credsMark @ replaceAll urlCredsRe b' t'"
    have "\<not> userChar c"
      using t by (simp add: userChar_def)
    moreover from this have "dropWhile userChar (replaceAll urlCredsRe b (c # cs)) = replaceAll urlCredsRe b (c # cs)"
      unfolding r using t by (simp add: credsMark_def userChar_def)
    ultimately show ?thesis
      using t r by (auto simp: credsMark_def userChar_def intro: exI [of _ b])
  qed
qed simp

lemma replace_creds_pass:
  "takeWhile passChar (replaceAll urlCredsRe b s) = takeWhile passChar s \<and>
   firstChar (dropWhile passChar (replaceAll urlCredsRe b s)) = firstChar (dropWhile passChar s)"
proof (induction s arbitrary: b)
  case (Cons c cs)
  show ?case
  proof (rule replace_creds_cases [of c cs b])
    assume r: "replaceAll urlCredsRe b (c # cs) = c # replaceAll urlCredsRe (Some c) cs"
    show ?thesis
      unfolding r using Cons.IH [of "Some c"] by (simp add: firstChar_def)
  next
    fix t b' t'
    assume t: "c # cs = ''://'' @ t" and r: "replaceAll urlCredsRe b (c # cs) = credsMark @ replaceAll urlCredsRe b' t'"
    have "passChar (CHR '':'')" "\<not> passChar (CHR ''/'')"
      by (simp_all add: passChar_def reSpace_def)
    then show ?thesis
      unfolding r unfolding t by (simp add: credsMark_def firstChar_def)
  qed
qed simp

text \<open>What stands before a replacement or a copied character cannot turn it into credentials.\<close>

lemma replace_creds_after_scheme:
  assumes "urlCreds (CHR '':'' # cs) = None"
  shows "urlCreds (CHR '':'' # replaceAll urlCredsRe b cs) = None"
proof (rule ccontr)
  let ?R = "replaceAll urlCredsRe"
  assume contra: "urlCreds (CHR '':'' # ?R b cs) \<noteq> None"
  then obtain t where t: "?R b cs = CHR ''/'' # CHR ''/'' # t"
    using urlCreds_colon by fastforce
  have contra: "urlCreds (CHR '':'' # CHR ''/'' # CHR ''/'' # t) \<noteq> None"
    using contra t by simp
  have slash: "\<exists>b' u. cs' = CHR ''/'' # u \<and> t' = ?R b' u" if "?R b'' cs' = CHR ''/'' # t'" for b'' cs' t'
  proof (cases cs')
    case (Cons c u)
    show ?thesis
      by (rule replace_creds_cases [of c u b'']) (use that Cons in \<open>auto simp: credsMark_def\<close>)
  qed (use that in simp)
  obtain b0 u0 where u0: "cs = CHR ''/'' # u0" "?R b0 u0 = CHR ''/'' # t"
    using slash [OF t] by fastforce
  obtain b1 u where u: "cs = CHR ''/'' # CHR ''/'' # u" "t = ?R b1 u"
    using slash [OF u0(2)] u0(1) by fastforce
  obtain b2 where user: "takeWhile userChar t = takeWhile userChar u"
    "dropWhile userChar t = ?R b2 (dropWhile userChar u)"
    using replace_creds_user [of b1 u] u(2) by auto
  have c1: "takeWhile userChar u \<noteq> []" "firstChar (dropWhile userChar u) = Some (CHR '':'')"
    using contra user
    by (auto simp: urlCreds_def Let_def replace_creds_first split: if_splits)
  then obtain v where v: "dropWhile userChar u = CHR '':'' # v"
    by (auto simp: firstChar_def split: list.splits)
  have "\<exists>b3. ?R b2 (CHR '':'' # v) = CHR '':'' # ?R b3 v"
  proof (rule replace_creds_cases [of "CHR '':''" v b2])
    fix t2 b' t'
    assume "?R b2 (CHR '':'' # v) = credsMark @ ?R b' t'"
    then have "takeWhile passChar (tl (dropWhile userChar t)) = []"
      using user(2) v by (simp add: credsMark_def passChar_def)
    then show ?thesis
      using contra by (simp add: urlCreds_def Let_def split: if_splits)
  qed auto
  then obtain b3 where b3: "dropWhile userChar t = CHR '':'' # ?R b3 v"
    using user(2) v by auto
  then have "urlCreds (CHR '':'' # cs) \<noteq> None"
    using contra c1 v user(1) replace_creds_pass [of b3 v] unfolding u(1)
    by (simp add: urlCreds_def Let_def firstChar_def split: if_splits)
  with assms show False by simp
qed

lemma urlCreds_other: "c \<noteq> CHR '':'' \<Longrightarrow> urlCreds (c # s) = None"
  by (simp add: urlCreds_def)

lemma urlCreds_mark:
  "urlCreds (drop i (credsMark @ t)) = (if i = 0 then Some (''***'', ''***'') else urlCreds (drop (i - 11) t))"
  if "i = 0 \<or> 11 \<le> i"
proof (cases "i = 0")
  case True
  then show ?thesis
    by (simp add: credsMark_def urlCreds_def userChar_def passChar_def reSpace_def firstChar_def Let_def)
next
  case False
  then show ?thesis using that by simp
qed

lemma urlCreds_inside_mark: "0 < i \<Longrightarrow> i < 11 \<Longrightarrow> urlCreds (drop i (credsMark @ t)) = None"
proof -
  assume "0 < i" "i < 11"
  then have "i = 1 \<or> i = 2 \<or> i = 3 \<or> i = 4 \<or> i = 5 \<or> i = 6 \<or> i = 7 \<or> i = 8 \<or> i = 9 \<or> i = 10"
    by presburger
  then show ?thesis
    by (elim disjE) (simp_all add: credsMark_def urlCreds_def)
qed

lemma replace_creds_leaves_marks:
  "urlCreds (drop i (replaceAll urlCredsRe b s)) \<in> {None, Some (''***'', ''***'')}"
proof (induction "length s" arbitrary: s b i rule: less_induct)
  case less
  show ?case
  proof (cases s)
    case (Cons c cs)
    show ?thesis
    proof (rule replace_creds_cases [of c cs b])
      assume c: "urlCreds (c # cs) = None" "replaceAll urlCredsRe b (c # cs) = c # replaceAll urlCredsRe (Some c) cs"
      show ?thesis
      proof (cases i)
        case 0
        then show ?thesis
          using c replace_creds_after_scheme [of cs] urlCreds_other [of c] Cons by (cases "c = CHR '':''") auto
      next
        case (Suc j)
        then show ?thesis
          using c Cons less [of cs j "Some c"] by simp
      qed
    next
      fix t b' t'
      assume r: "length t' < length (c # cs)" "replaceAll urlCredsRe b (c # cs) = credsMark @ replaceAll urlCredsRe b' t'"
      consider "i = 0" | "0 < i \<and> i < 11" | "11 \<le> i"
        by linarith
      then show ?thesis
      proof cases
        case 3
        then show ?thesis
          using r Cons less [of t' "i - 11" b'] urlCreds_mark [of i] by simp
      qed (use r Cons urlCreds_mark [of i] urlCreds_inside_mark in auto)
    qed
  qed (simp add: urlCreds_def)
qed

section \<open>No long blob is left in a redacted text\<close>

lemma replace_blob_cases:
  obtains (copied) "length (takeWhile base64Char (c # cs)) < 16"
      "replaceAll base64BlobRe b (c # cs) = c # replaceAll base64BlobRe (Some c) cs"
  | (replaced) b' t' where "length t' < length (c # cs)"
      "replaceAll base64BlobRe b (c # cs) = redactedMark @ replaceAll base64BlobRe b' t'"
proof (cases "base64BlobRe b (c # cs)")
  case None
  then show ?thesis
    using copied by (auto simp: base64BlobRe_def Let_def replaceAll.simps split: if_splits)
next
  case (Some nr)
  obtain n rep where nr: "nr = (n, rep)"
    by (cases nr)
  have "rep = redactedMark" "0 < n"
    using Some unfolding nr by (auto simp: base64BlobRe_def Let_def split: if_splits)
  then have "\<exists>b' t'. length t' < length (c # cs) \<and>
      replaceAll base64BlobRe b (c # cs) = redactedMark @ replaceAll base64BlobRe b' t'"
    using replaceAll_match [of base64BlobRe b c cs n rep] Some unfolding nr by simp
  then show ?thesis
    using replaced by blast
qed

lemma replace_blob_shorter:
  "length (takeWhile base64Char (replaceAll base64BlobRe b s)) \<le> length (takeWhile base64Char s)"
proof (induction s arbitrary: b)
  case (Cons c cs)
  show ?case
  proof (rule replace_blob_cases [of c cs b])
    assume "replaceAll base64BlobRe b (c # cs) = c # replaceAll base64BlobRe (Some c) cs"
    then show ?thesis using Cons.IH [of "Some c"] by simp
  next
    fix b' t'
    assume "replaceAll base64BlobRe b (c # cs) = redactedMark @ replaceAll base64BlobRe b' t'"
    moreover have "\<not> base64Char (CHR ''<'')"
      by (simp add: base64Char_def reAlpha_def reDigit_def less_eq_char_def)
    ultimately show ?thesis by (simp add: redactedMark_def)
  qed
qed simp

lemma blob_in_mark:
  assumes "i < 10"
  shows "length (takeWhile base64Char (drop i (redactedMark @ t))) < 16"
proof -
  have "\<not> base64Char (CHR ''>'')"
    by (simp add: base64Char_def reAlpha_def reDigit_def less_eq_char_def)
  then have "takeWhile base64Char (drop i redactedMark @ t) = takeWhile base64Char (drop i redactedMark)"
    using assms by (intro takeWhile_append1 [of "CHR ''>''"]) (auto simp: redactedMark_def drop_Cons split: nat.splits)
  moreover have "length (takeWhile base64Char (drop i redactedMark)) \<le> length (drop i redactedMark)"
    by (rule length_takeWhile_le)
  ultimately show ?thesis
    using assms by simp
qed

lemma replace_blob_leaves_none: "length (takeWhile base64Char (drop i (replaceAll base64BlobRe b s))) < 16"
proof (induction "length s" arbitrary: s b i rule: less_induct)
  case less
  show ?case
  proof (cases s)
    case (Cons c cs)
    show ?thesis
    proof (rule replace_blob_cases [of c cs b])
      assume c: "length (takeWhile base64Char (c # cs)) < 16"
        "replaceAll base64BlobRe b (c # cs) = c # replaceAll base64BlobRe (Some c) cs"
      show ?thesis
      proof (cases i)
        case 0
        then show ?thesis
          using c Cons replace_blob_shorter [of b "c # cs"] by simp
      next
        case (Suc j)
        then show ?thesis
          using c Cons less [of cs j "Some c"] by simp
      qed
    next
      fix b' t'
      assume r: "length t' < length (c # cs)" "replaceAll base64BlobRe b (c # cs) = redactedMark @ replaceAll base64BlobRe b' t'"
      show ?thesis
      proof (cases "i < 10")
        case True
        then show ?thesis using r Cons blob_in_mark by simp
      next
        case False
        then have "drop i (redactedMark @ replaceAll base64BlobRe b' t') = drop (i - 10) (replaceAll base64BlobRe b' t')"
          by simp
        then show ?thesis
          using r Cons less [of t' "i - 10" b'] by simp
      qed
    qed
  qed simp
qed

section \<open>Properties\<close>


text \<open>
  A password with a slash is outside the expression for URLs, and of one with
  an at sign only the part before it is replaced.\<close>

lemma redaction_gaps:
  "RedactURL ''amqp://u:a/b@h'' = ''amqp://u:a/b@h''" "RedactURL ''amqp://u:a@b@h'' = ''amqp://***:***@b@h''"
  by code_simp+

end
