(* ===== verification/Logger.thy ===== *)
theory Logger
  imports Redact ConfigSections
begin

text \<open>
  The structured logger, \<open>internal/logger/logger.go\<close>. An entry is rendered to one
  string and written in one call. The formatting of the time, the caller and of values
  other than strings and errors, and the JSON encoder, are parameters of the
  rendering.
\<close>

section \<open>Levels\<close>

type_synonym Level = int

abbreviation TraceLevel :: Level where "TraceLevel \<equiv> 0"
abbreviation DebugLevel :: Level where "DebugLevel \<equiv> 1"
abbreviation InfoLevel :: Level where "InfoLevel \<equiv> 2"
abbreviation WarnLevel :: Level where "WarnLevel \<equiv> 3"
abbreviation ErrorLevel :: Level where "ErrorLevel \<equiv> 4"
abbreviation FatalLevel :: Level where "FatalLevel \<equiv> 5"
abbreviation PanicLevel :: Level where "PanicLevel \<equiv> 6"

definition ParseLevel :: "string \<Rightarrow> Level" where
  "ParseLevel lvl =
     (let l = ToLower (TrimSpace lvl)
      in if l = ''trace'' then TraceLevel
         else if l = ''debug'' then DebugLevel
         else if l = ''info'' then InfoLevel
         else if l = ''warn'' \<or> l = ''warning'' then WarnLevel
         else if l = ''error'' then ErrorLevel
         else if l = ''fatal'' then FatalLevel
         else if l = ''panic'' then PanicLevel
         else InfoLevel)"

definition Level_String :: "Level \<Rightarrow> string" where
  "Level_String l =
     (if l = TraceLevel then ''TRACE''
      else if l = DebugLevel then ''DEBUG''
      else if l = InfoLevel then ''INFO''
      else if l = WarnLevel then ''WARN''
      else if l = ErrorLevel then ''ERROR''
      else if l = FatalLevel then ''FATAL''
      else if l = PanicLevel then ''PANIC''
      else ''INFO'')"

section \<open>Loggers\<close>

text \<open>
  The destinations of \<open>Init\<close>. A file writer is named by its path and the
  settings of its rotation. An asynchronous logger writes to the buffer of
  its \<open>AsyncWriter\<close>, of the size given here.
\<close>

datatype logWriter = Stdout | Stderr | LogFile string int int int bool

record Logger =
  lr_cfg :: LogConfig
  lr_level :: Level
  lr_out :: "logWriter list option"
  lr_async :: "int option"

definition fileWriter :: "LogConfig \<Rightarrow> logWriter" where
  "fileWriter c = LogFile (lg_FilePath c) (lg_MaxSize c) (lg_MaxBackups c) (lg_MaxAge c) (lg_Compress c)"

definition logWriters :: "LogConfig \<Rightarrow> logWriter list" where
  "logWriters c =
     (let output = ToLower (lg_Output c)
      in if output = ''stdout'' then [Stdout]
         else if output = ''stderr'' then [Stderr]
         else if output = ''file'' then (if lg_FilePath c \<noteq> [] then [fileWriter c] else [Stdout])
         else if output = ''both'' then Stdout # (if lg_FilePath c \<noteq> [] then [fileWriter c] else [])
         else [Stdout])"

text \<open>
  \<open>Init\<close> makes the new logger the global one; the writer of the old one, if
  it was asynchronous, is drained first. The state is the global logger and
  the asynchronous writers that have been drained.
\<close>

definition newLogger :: "LogConfig \<Rightarrow> Logger" where
  "newLogger cfg =
     (let c = LogConfig_ApplyDefaults cfg
      in \<lparr>lr_cfg = c, lr_level = ParseLevel (lg_Level c), lr_out = Some (logWriters c),
          lr_async = (if lg_Async c then Some (lg_BufferSize c) else None)\<rparr>)"

record logState =
  ls_global :: "Logger option"
  ls_synced :: "Logger list"

definition syncAsync :: "logState \<Rightarrow> logState" where
  "syncAsync s =
     (case ls_global s of
        Some l \<Rightarrow> if lr_async l \<noteq> None then s\<lparr>ls_synced := ls_synced s @ [l]\<rparr> else s
      | None \<Rightarrow> s)"

definition log_Init :: "LogConfig \<Rightarrow> logState \<Rightarrow> error option \<times> logState" where
  "log_Init cfg s = (None, (syncAsync s)\<lparr>ls_global := Some (newLogger cfg)\<rparr>)"

definition log_Get :: "logState \<Rightarrow> Logger option" where
  "log_Get s = ls_global s"

text \<open>The logger of \<open>Set(nil)\<close> is the zero value: the lowest level and no output.\<close>

definition newNoopLogger :: "LogConfig \<Rightarrow> Logger" where
  "newNoopLogger zeroCfg = \<lparr>lr_cfg = zeroCfg, lr_level = TraceLevel, lr_out = None, lr_async = None\<rparr>"

definition log_Set :: "LogConfig \<Rightarrow> Logger option \<Rightarrow> logState \<Rightarrow> logState" where
  "log_Set zeroCfg l s = s\<lparr>ls_global := Some (case l of None \<Rightarrow> newNoopLogger zeroCfg | Some x \<Rightarrow> x)\<rparr>"

definition log_Sync :: "logState \<Rightarrow> logState" where
  "log_Sync s = syncAsync s"

section \<open>Entries\<close>

text \<open>A field value: a string, an error, or anything else, which \<open>sprint\<close> prints.\<close>

datatype 'v logValue = LogString string | LogError error | LogOther 'v

type_synonym 'v Fields = "string \<rightharpoonup> 'v logValue"

record 'v Entry =
  en_logger :: "Logger option"
  en_fields :: "'v Fields"

definition newEntry :: "Logger option \<Rightarrow> 'v Entry" where
  "newEntry l = \<lparr>en_logger = l, en_fields = Map.empty\<rparr>"

definition Entry_WithField :: "string \<Rightarrow> 'v logValue \<Rightarrow> 'v Entry \<Rightarrow> 'v Entry" where
  "Entry_WithField key val e = e\<lparr>en_fields := (en_fields e)(key \<mapsto> val)\<rparr>"

definition Entry_WithFields :: "'v Fields \<Rightarrow> 'v Entry \<Rightarrow> 'v Entry" where
  "Entry_WithFields flds e = e\<lparr>en_fields := en_fields e ++ flds\<rparr>"

definition Entry_WithError :: "error option \<Rightarrow> 'v Entry \<Rightarrow> 'v Entry" where
  "Entry_WithError err e =
     (case err of None \<Rightarrow> e | Some x \<Rightarrow> e\<lparr>en_fields := (en_fields e)(''error'' \<mapsto> LogString (Error x))\<rparr>)"

text \<open>The two context keys of the logger; \<open>None\<close> where the context has no string under the key.\<close>

definition Entry_WithContext :: "(string option \<times> string option) option \<Rightarrow> 'v Entry \<Rightarrow> 'v Entry" where
  "Entry_WithContext ctx e =
     (case ctx of
        None \<Rightarrow> e
      | Some (traceID, spanID) \<Rightarrow>
          (let put = (\<lambda>k v f. case v of Some i \<Rightarrow> if i \<noteq> [] then f(k \<mapsto> LogString i) else f | None \<Rightarrow> f)
           in e\<lparr>en_fields := put ''span_id'' spanID (put ''trace_id'' traceID (en_fields e))\<rparr>))"

definition Logger_WithField :: "Logger option \<Rightarrow> string \<Rightarrow> 'v logValue \<Rightarrow> 'v Entry" where
  "Logger_WithField l key val = Entry_WithField key val (newEntry l)"

definition Logger_WithFields :: "Logger option \<Rightarrow> 'v Fields \<Rightarrow> 'v Entry" where
  "Logger_WithFields l flds = Entry_WithFields flds (newEntry l)"

definition Logger_WithError :: "Logger option \<Rightarrow> error option \<Rightarrow> 'v Entry" where
  "Logger_WithError l err = Entry_WithError err (newEntry l)"

definition Logger_WithContext :: "Logger option \<Rightarrow> (string option \<times> string option) option \<Rightarrow> 'v Entry" where
  "Logger_WithContext l ctx = Entry_WithContext ctx (newEntry l)"

section \<open>Rendering\<close>

text \<open>
  The environment of a rendering: \<open>now.Format\<close>, the caller, \<open>fmt.Sprint\<close> of
  other values, the order in which a range loop visits the fields, and
  \<open>json.Marshal\<close> of the payload.
\<close>

record 'v logEnv =
  le_time :: "string \<Rightarrow> string"
  le_caller :: "string option"
  le_sprint :: "'v \<Rightarrow> string"
  le_enum :: "'v Fields \<Rightarrow> (string \<times> 'v logValue) list"
  le_marshal :: "'v Fields \<Rightarrow> string"

definition escapeByte :: "char \<Rightarrow> string" where
  "escapeByte c =
     (if c = CHR 0x0D then [CHR 0x5C, CHR ''r''] else if c = CHR 0x0A then [CHR 0x5C, CHR ''n''] else [c])"

definition escapeLogText :: "string \<Rightarrow> string" where
  "escapeLogText s =
     (if CHR 0x0D \<notin> set s \<and> CHR 0x0A \<notin> set s then s else concat (map escapeByte s))"

definition logSprint :: "'v logEnv \<Rightarrow> 'v logValue \<Rightarrow> string" where
  "logSprint env v =
     (case v of LogString s \<Rightarrow> s | LogError e \<Rightarrow> Error e | LogOther x \<Rightarrow> le_sprint env x)"

definition logTime :: "'v logEnv \<Rightarrow> Logger \<Rightarrow> string" where
  "logTime env l =
     le_time env (if lg_TimeFormat (lr_cfg l) \<noteq> [] then lg_TimeFormat (lr_cfg l) else ''2006-01-02 15:04:05.000'')"

definition logCaller :: "'v logEnv \<Rightarrow> Logger \<Rightarrow> string" where
  "logCaller env l =
     (if lg_ShowCaller (lr_cfg l) then (case le_caller env of Some c \<Rightarrow> c | None \<Rightarrow> []) else [])"

text \<open>In the JSON format the fields are redacted and may replace the three entries; the message is kept as it is.\<close>

definition jsonPayload :: "'v logEnv \<Rightarrow> Logger \<Rightarrow> Level \<Rightarrow> string \<Rightarrow> 'v Fields \<Rightarrow> 'v Fields" where
  "jsonPayload env l lvl msg flds =
     (let base = [''timestamp'' \<mapsto> LogString (logTime env l), ''level'' \<mapsto> LogString (Level_String lvl),
                  ''message'' \<mapsto> LogString msg];
          caller = logCaller env l;
          base' = (if caller \<noteq> [] then base(''caller'' \<mapsto> LogString caller) else base);
          redact = (\<lambda>v. case v of LogString s \<Rightarrow> LogString (RedactSecrets s)
                                | LogError e \<Rightarrow> LogString (RedactSecrets (Error e))
                                | LogOther x \<Rightarrow> LogOther x)
      in base' ++ (\<lambda>k. map_option redact (flds k)))"

definition renderLogfmt :: "'v logEnv \<Rightarrow> Logger \<Rightarrow> Level \<Rightarrow> string \<Rightarrow> 'v Fields \<Rightarrow> string" where
  "renderLogfmt env l lvl msg flds =
     ''time='' @ Quote (logTime env l) @ '' level='' @ Level_String lvl @ '' msg='' @
     Quote (escapeLogText (RedactSecrets msg)) @
     (if logCaller env l \<noteq> [] then '' caller='' @ Quote (logCaller env l) else []) @
     concat (map (\<lambda>(k, v). '' '' @ k @ ''='' @ Quote (escapeLogText (RedactSecrets (logSprint env v)))) (le_enum env flds)) @
     [CHR 0x0A]"

definition textExtra :: "'v logEnv \<Rightarrow> 'v Fields \<Rightarrow> string list" where
  "textExtra env flds =
     map (\<lambda>(k, v). k @ ''='' @ escapeLogText (RedactSecrets (logSprint env v)))
       (filter (\<lambda>(k, v). k \<noteq> ''trace_id'' \<and> k \<noteq> ''span_id'') (le_enum env flds))"

definition renderText :: "'v logEnv \<Rightarrow> Logger \<Rightarrow> Level \<Rightarrow> string \<Rightarrow> 'v Fields \<Rightarrow> string" where
  "renderText env l lvl msg flds =
     ''['' @ logTime env l @ ''] ['' @ Level_String lvl @ '']'' @
     (if logCaller env l \<noteq> [] then '' ['' @ logCaller env l @ '']'' else []) @
     (case flds ''trace_id'' of
        Some tid \<Rightarrow> '' [trace_id='' @ escapeLogText (logSprint env tid) @ '']''
      | None \<Rightarrow> []) @
     '' '' @ escapeLogText (RedactSecrets msg) @
     (if textExtra env flds \<noteq> [] then '' | '' @ Join (textExtra env flds) '' '' else []) @ [CHR 0x0A]"

definition renderEntry :: "'v logEnv \<Rightarrow> Logger \<Rightarrow> Level \<Rightarrow> string \<Rightarrow> 'v Fields \<Rightarrow> string" where
  "renderEntry env l lvl msg flds =
     (let format = ToLower (lg_Format (lr_cfg l))
      in if format = ''json'' then le_marshal env (jsonPayload env l lvl msg flds) @ [CHR 0x0A]
         else if format = ''logfmt'' then renderLogfmt env l lvl msg flds
         else renderText env l lvl msg flds)"

text \<open>
  One call of \<open>log\<close>: what is written, if anything, and how the call ends. A
  logger without output renders and writes nothing.
\<close>

datatype logEnd = LogReturns | LogExits | LogPanics string

definition Entry_log :: "'v logEnv \<Rightarrow> 'v Entry \<Rightarrow> Level \<Rightarrow> string \<Rightarrow> string option \<times> logEnd" where
  "Entry_log env e lvl msg =
     (case en_logger e of
        None \<Rightarrow> (None, LogReturns)
      | Some l \<Rightarrow>
          if lvl < lr_level l then (None, LogReturns)
          else (if lr_out l = None then None else Some (renderEntry env l lvl msg (en_fields e)),
                if lvl = FatalLevel then LogExits else if lvl = PanicLevel then LogPanics msg else LogReturns))"

text \<open>
  The methods of an entry, and those of a logger and of the package, which
  start from an empty entry. The message is the formatted arguments.
\<close>

datatype logMethod = MTrace | MDebug | MInfo | MWarn | MError | MFatal

fun methodLevel :: "logMethod \<Rightarrow> Level" where
  "methodLevel MTrace = TraceLevel"
| "methodLevel MDebug = DebugLevel"
| "methodLevel MInfo = InfoLevel"
| "methodLevel MWarn = WarnLevel"
| "methodLevel MError = ErrorLevel"
| "methodLevel MFatal = FatalLevel"

definition Entry_call :: "'v logEnv \<Rightarrow> 'v Entry \<Rightarrow> logMethod \<Rightarrow> string \<Rightarrow> string option \<times> logEnd" where
  "Entry_call env e method msg = Entry_log env e (methodLevel method) msg"

definition Logger_call :: "'v logEnv \<Rightarrow> Logger \<Rightarrow> logMethod \<Rightarrow> string \<Rightarrow> string option \<times> logEnd" where
  "Logger_call env l method msg = Entry_call env (newEntry (Some l)) method msg"

definition global_call :: "'v logEnv \<Rightarrow> logState \<Rightarrow> logMethod \<Rightarrow> string \<Rightarrow> string option \<times> logEnd" where
  "global_call env s method msg = Entry_call env (newEntry (log_Get s)) method msg"

section \<open>One entry, one line\<close>

abbreviation breaks :: "string \<Rightarrow> bool" where
  "breaks s \<equiv> CHR 0x0A \<in> set s \<or> CHR 0x0D \<in> set s"

lemma escapeLogText_no_break [simp]: "CHR 0x0A \<notin> set (escapeLogText s)" "CHR 0x0D \<notin> set (escapeLogText s)"
  by (auto simp: escapeLogText_def escapeByte_def split: if_splits)

lemma hexDigit_no_break: "n < 16 \<Longrightarrow> hexDigit n \<noteq> CHR 0x0A \<and> hexDigit n \<noteq> CHR 0x0D"
proof -
  assume n: "n < 16"
  have "of_char (hexDigit n) = (if n < 10 then 48 + n else 87 + n)"
    using n by (simp add: hexDigit_def)
  then show ?thesis
    by (auto split: if_splits)
qed

lemma quoteByte_no_break: "CHR 0x0A \<notin> set (quoteByte c) \<and> CHR 0x0D \<notin> set (quoteByte c)"
proof -
  have "of_char c div 16 < (16 :: nat)" "of_char c mod 16 < (16 :: nat)"
    using nat_of_char_less_256 [of c] by (auto simp: less_mult_imp_div_less)
  then have "\<forall>n \<in> {of_char c div 16, of_char c mod 16, 7, 15}. hexDigit n \<noteq> CHR 0x0A \<and> hexDigit n \<noteq> CHR 0x0D"
    using hexDigit_no_break by auto
  then show ?thesis
    by (auto simp: quoteByte_def)
qed

lemma Quote_no_break [simp]: "CHR 0x0A \<notin> set (Quote s)" "CHR 0x0D \<notin> set (Quote s)"
  using quoteByte_no_break by (auto simp: Quote_def)

lemma Level_String_no_break [simp]: "CHR 0x0A \<notin> set (Level_String l)" "CHR 0x0D \<notin> set (Level_String l)"
  by (simp_all add: Level_String_def)

lemma Join_no_break: "\<forall>x \<in> set xs. c \<notin> set x \<Longrightarrow> c \<notin> set sep \<Longrightarrow> c \<notin> set (Join xs sep)"
  by (induction xs sep rule: Join.induct) auto

definition quietFields :: "'v logEnv \<Rightarrow> 'v Fields \<Rightarrow> bool" where
  "quietFields env flds \<longleftrightarrow> (\<forall>(k, v) \<in> set (le_enum env flds). \<not> breaks k)"

lemma textExtra_no_break:
  assumes "quietFields env flds" "x \<in> set (textExtra env flds)"
  shows "CHR 0x0A \<notin> set x \<and> CHR 0x0D \<notin> set x"
  using assms by (auto simp: textExtra_def quietFields_def)

lemma renderText_line:
  assumes "quietFields env flds" "\<not> breaks (logTime env l)" "\<not> breaks (logCaller env l)"
  shows "\<exists>line. renderText env l lvl msg flds = line @ [CHR 0x0A] \<and> \<not> breaks line"
  using assms Join_no_break [of "textExtra env flds" "CHR 0x0A" "'' ''"] Join_no_break [of "textExtra env flds" "CHR 0x0D" "'' ''"]
    textExtra_no_break [OF assms(1)]
  by (auto simp: renderText_def split: option.splits)

lemma renderLogfmt_line:
  assumes "quietFields env flds"
  shows "\<exists>line. renderLogfmt env l lvl msg flds = line @ [CHR 0x0A] \<and> \<not> breaks line"
  using assms by (auto simp: renderLogfmt_def quietFields_def)

section \<open>Properties\<close>

text \<open>
  C24. No value can forge a log line. In the text and the logfmt format
  every entry that is written is one line, whatever its message and the values
  of its fields are, if the formatted time and the caller, and the names
  of the fields, have no line break; the names are written as they are.\<close>

theorem log_entry_is_one_line:
  assumes "en_logger e = Some l" "ToLower (lg_Format (lr_cfg l)) \<noteq> ''json''"
    and "quietFields env (en_fields e)" "\<not> breaks (logTime env l)" "\<not> breaks (logCaller env l)"
    and "Entry_log env e lvl msg = (Some out, r)"
  shows "\<exists>line. out = line @ [CHR 0x0A] \<and> \<not> breaks line"
  using assms renderText_line [OF assms(3-5), of lvl msg] renderLogfmt_line [OF assms(3), of l lvl msg]
  by (auto simp: Entry_log_def renderEntry_def Let_def split: if_splits)

definition sampleLogConfig :: LogConfig where
  "sampleLogConfig =
     \<lparr>lg_Level = ''info'', lg_Format = ''text'', lg_Output = ''stdout'', lg_FilePath = [], lg_MaxSize = 0, lg_MaxBackups = 0,
      lg_MaxAge = 0, lg_Compress = False, lg_ShowCaller = False, lg_ShowStacktrace = [], lg_TimeFormat = [],
      lg_Async = False, lg_BufferSize = 0\<rparr>"

definition sampleLogEnv :: "unit logEnv" where
  "sampleLogEnv =
     \<lparr>le_time = (\<lambda>_. ''now''), le_caller = None, le_sprint = (\<lambda>_. ''()''),
      le_enum = (\<lambda>f. case f ''error'' of Some v \<Rightarrow> [(''error'', v)] | None \<Rightarrow> []), le_marshal = (\<lambda>_. ''{}'')\<rparr>"

definition forgedEntry :: "unit Entry" where
  "forgedEntry = Logger_WithError (Some (newLogger sampleLogConfig)) (Some (Err (''x'' @ [CHR 0x0A] @ ''[now] [INFO] forged'')))"

theorem log_entry_is_one_line_witness:
  "\<exists>line. Entry_log sampleLogEnv forgedEntry ErrorLevel ''failed'' = (Some (line @ [CHR 0x0A]), LogReturns) \<and> \<not> breaks line"
proof -
  let ?l = "newLogger sampleLogConfig"
  have l: "en_logger forgedEntry = Some ?l" "ToLower (lg_Format (lr_cfg ?l)) \<noteq> ''json''"
    "quietFields sampleLogEnv (en_fields forgedEntry)" "\<not> breaks (logTime sampleLogEnv ?l)"
    "\<not> breaks (logCaller sampleLogEnv ?l)"
    by code_simp+
  have "lr_level ?l = InfoLevel" "lr_out ?l = Some [Stdout]"
    by code_simp+
  then have "\<exists>out. Entry_log sampleLogEnv forgedEntry ErrorLevel ''failed'' = (Some out, LogReturns)"
    by (simp add: Entry_log_def l(1))
  then show ?thesis
    using log_entry_is_one_line [OF l] by fastforce
qed

text \<open>The JSON format writes the message as it is, unlike the two others.\<close>

lemma json_keeps_message:
  assumes "flds ''message'' = None"
  shows "jsonPayload env l lvl msg flds ''message'' = Some (LogString msg)"
  using assms by (simp add: jsonPayload_def Let_def map_add_def)

end
