(* ===== verification/App.thy ===== *)
theory App
  imports RpcServer Registry Logger
begin

text \<open>
  The application container of \<open>internal/cmd/app.go\<close>: \<open>NewApp\<close> wires the logger, the
  tracer, the queue, the sender, the metrics, the engine and the two servers and undoes
  what it opened when a step fails; \<open>Start\<close>, \<open>Shutdown\<close> and \<open>Run\<close> drive them. The
  components are those of the other theories; the queue and the sender are
  values, of which this theory tracks when they are opened and closed.
\<close>

section \<open>State\<close>

datatype appEv = QueueOpened | QueueClosed | SenderOpened | SenderClosed | TracerInit | TracerClosed

record proc =
  pc_log :: logState
  pc_metrics :: metricsGlobal
  pc_events :: "appEv list"

record ('q, 's, 'p, 'mw, 'h, 'd) app =
  ax_cfg :: Config
  ax_queue :: 'q
  ax_sender :: 's
  ax_metrics :: metricsRef
  ax_tracer :: TracerProvider
  ax_engine :: "('mw, 'h, 'd) engine"
  ax_server :: "('s, 'p) httpServer"
  ax_rpc :: "('s, 'p, unit) rpcServer option"
  ax_statsStop :: bool
  ax_running :: bool

text \<open>
  What construction reads of its surroundings: the drivers registered, the
  constructor of the sender, the producer of a queue (\<open>None\<close> is nil), the built-in
  middlewares, the StatsD socket, the error of closing it, the certificate files and the clock.
\<close>

record ('q, 's, 'p, 'mw) appEnv =
  nv_drivers :: "'q registry"
  nv_newSender :: "Config \<Rightarrow> error + 's"
  nv_producer :: "'q \<Rightarrow> 'p option"
  nv_builtin :: "'mw list"
  nv_dial :: "string \<Rightarrow> string \<Rightarrow> int \<Rightarrow> error option"
  nv_statsdClose :: "error option"
  nv_loadTLS :: "string \<Rightarrow> string \<Rightarrow> error option"
  nv_now :: int

definition pc_add :: "appEv list \<Rightarrow> proc \<Rightarrow> proc" where
  "pc_add evs pc = pc\<lparr>pc_events := pc_events pc @ evs\<rparr>"

definition pc_closeMetrics :: "error option \<Rightarrow> proc \<Rightarrow> proc" where
  "pc_closeMetrics e pc = pc\<lparr>pc_metrics := fst (metrics_Close e (pc_metrics pc))\<rparr>"

text \<open>The clean-up after the metrics were initialised: they, the sender and the queue are closed.\<close>

definition undo3 :: "error option \<Rightarrow> proc \<Rightarrow> proc" where
  "undo3 e pc = pc_add [SenderClosed, QueueClosed] (pc_closeMetrics e pc)"

definition httpOptions :: "'s \<Rightarrow> 'p option \<Rightarrow> string \<Rightarrow> ('s, 'p) serverOption list" where
  "httpOptions s p topic = [WithSender (Some s), WithProducer p topic]"

text \<open>The gRPC server, when it is enabled.\<close>

definition newRpc ::
    "('q, 's, 'p, 'mw) appEnv \<Rightarrow> Config \<Rightarrow> 's \<Rightarrow> 'p option \<Rightarrow> error + ('s, 'p, unit) rpcServer option" where
  "newRpc env cfg s p =
     (if gr_Enabled (cf_GRPC cfg) then
        (case rpc_New (nv_loadTLS env) (Some cfg) (Some s) p [] of Inl e \<Rightarrow> Inl e | Inr r \<Rightarrow> Inr (Some r))
      else Inr None)"

text \<open>Steps 6 to 9: the engine, the producer, the HTTP server and the gRPC server.\<close>

definition wireServers ::
    "('q, 's, 'p, 'mw) appEnv \<Rightarrow> Config \<Rightarrow> 'q \<Rightarrow> 's \<Rightarrow> metricsRef \<Rightarrow> TracerProvider \<Rightarrow> proc \<Rightarrow>
     (error + ('q, 's, 'p, 'mw, 'h, 'd) app) outcome \<times> proc" where
  "wireServers env cfg q s m tracer pc =
     (case Engine_New False False (nv_builtin env) (Some cfg) [] of
        Inl e \<Rightarrow>
          (Ret (Inl (Wrap (''cmd: failed to initialize execution engine: '' @ Error e) e)), undo3 (nv_statsdClose env) pc)
      | Inr engine \<Rightarrow>
          (case handler_New m (Some cfg) (httpOptions s (nv_producer env q) (TopicName (cf_Queue cfg))) of
             Panic p \<Rightarrow> (Panic p, pc)
           | Ret (Inl e) \<Rightarrow>
               (Ret (Inl (Wrap (''cmd: failed to initialize http server: '' @ Error e) e)), undo3 (nv_statsdClose env) pc)
           | Ret (Inr server) \<Rightarrow>
               (case newRpc env cfg s (nv_producer env q) of
                  Inl e \<Rightarrow>
                    (Ret (Inl (Wrap (''cmd: failed to initialize rpc server: '' @ Error e) e)), undo3 (nv_statsdClose env) pc)
                | Inr rpc \<Rightarrow>
                    (Ret (Inr \<lparr>ax_cfg = (case rpc of None \<Rightarrow> cfg | Some r \<Rightarrow> gs_cfg r), ax_queue = q, ax_sender = s,
                       ax_metrics = m, ax_tracer = tracer, ax_engine = engine, ax_server = server, ax_rpc = rpc,
                       ax_statsStop = False, ax_running = False\<rparr>), pc))))"

definition NewApp ::
    "('q, 's, 'p, 'mw) appEnv \<Rightarrow> Config option \<Rightarrow> proc \<Rightarrow> (error + ('q, 's, 'p, 'mw, 'h, 'd) app) outcome \<times> proc" where
  "NewApp env cfgp pc0 =
     (case cfgp of
        None \<Rightarrow> (Ret (Inl (Err ''cmd: config cannot be nil'')), pc0)
      | Some cfg \<Rightarrow>
          (case log_Init (cf_Log cfg) (pc_log pc0) of
             (Some e, ls) \<Rightarrow> (Ret (Inl (Wrap (''cmd: failed to initialize logger: '' @ Error e) e)), pc0\<lparr>pc_log := ls\<rparr>)
           | (None, ls) \<Rightarrow>
               (let tracer = tracing_Init (ob_Tracing (cf_Observability cfg)); pc = pc_add [TracerInit] (pc0\<lparr>pc_log := ls\<rparr>)
                in case New (nv_drivers env) (Some cfg) of
                  Inl e \<Rightarrow>
                    (Ret (Inl (Wrap (''cmd: failed to initialize queue driver '' @ Quote (qc_Driver (cf_Queue cfg)) @ '': '' @
                        Error e) e)), pc)
                | Inr q \<Rightarrow>
                    (let pc = pc_add [QueueOpened] pc in
                     case nv_newSender env cfg of
                       Inl e \<Rightarrow>
                         (Ret (Inl (Wrap (''cmd: failed to initialize mail sender: '' @ Error e) e)), pc_add [QueueClosed] pc)
                     | Inr s \<Rightarrow>
                         (let pc = pc_add [SenderOpened] pc in
                          case metrics_Init (nv_dial env) (nv_now env) (cf_Metrics cfg) (pc_metrics pc) of
                            (Inl e, g) \<Rightarrow>
                              (Ret (Inl (Wrap (''cmd: failed to initialize metrics: '' @ Error e) e)),
                               pc_add [SenderClosed, QueueClosed] (pc\<lparr>pc_metrics := g\<rparr>))
                          | (Inr m, g) \<Rightarrow> wireServers env cfg q s m tracer (pc\<lparr>pc_metrics := g\<rparr>))))))"

section \<open>Readiness\<close>

text \<open>The checkers that \<open>NewApp\<close> registers, in the state of the application at the time of the probe.\<close>

definition appCheckers ::
    "('q \<Rightarrow> int \<Rightarrow> error option) \<Rightarrow> ('q, 's, 'p, 'mw, 'h, 'd) app \<Rightarrow> (string \<times> (int \<Rightarrow> error option)) list" where
  "appCheckers ping a =
     [(''queue'', \<lambda>t. ping (ax_queue a) t), (''smtp'', \<lambda>t. None),
      (''runtime'', \<lambda>t. CheckHealth (ping (ax_queue a) t) (ax_engine a))]"

definition appHealth ::
    "('q \<Rightarrow> int \<Rightarrow> error option) \<Rightarrow> ('q, 's, 'p, 'mw, 'h, 'd) app \<Rightarrow> HealthManager" where
  "appHealth ping a =
     fold (\<lambda>(n, chk). HealthManager_RegisterChecker n chk) (appCheckers ping a)
       (NewHealthManager (ob_Health (cf_Observability (ax_cfg a))))"

section \<open>Start\<close>

text \<open>What the operating system, the broker and the clients answer while the application starts and stops.\<close>

record appIO =
  io_consumer :: "error option"
  io_now :: int
  io_serve :: "bool \<Rightarrow> earlyServe"
  io_listen :: "string \<Rightarrow> error option"
  io_grpcServe :: earlyServe
  io_grpcStop :: stopWait
  io_httpStop :: "error option"
  io_engineStop :: stopWait
  io_senderClose :: "error option"
  io_queueClose :: "error option"
  io_statsdClose :: "error option"

definition startMetricsCollector :: "('q, 's, 'p, 'mw, 'h, 'd) app \<Rightarrow> ('q, 's, 'p, 'mw, 'h, 'd) app" where
  "startMetricsCollector a = (if ax_statsStop a then a else a\<lparr>ax_statsStop := True\<rparr>)"

definition stopMetricsCollector :: "('q, 's, 'p, 'mw, 'h, 'd) app \<Rightarrow> ('q, 's, 'p, 'mw, 'h, 'd) app" where
  "stopMetricsCollector a = (if ax_statsStop a then a\<lparr>ax_statsStop := False\<rparr> else a)"

record queueStats =
  qs_Driver :: string
  qs_Name :: string
  qs_Ready :: int
  qs_InFlight :: int

definition refMetrics :: "metricsRef \<Rightarrow> Metrics option" where
  "refMetrics r = (case r of MNoop \<Rightarrow> Some noopMetrics | MRef m \<Rightarrow> Some m)"

text \<open>
  One tick of the collector: the calls on the metrics for the statistics of the
  queue, unless reading them failed, and of the accounts in the order of the iteration.
\<close>

definition collectTick ::
    "(string \<Rightarrow> string) \<Rightarrow> Config \<Rightarrow> Metrics option \<Rightarrow> error + queueStats \<Rightarrow> (string \<times> AccountStats) list \<Rightarrow> int \<Rightarrow> metricCall list" where
  "collectTick sha cfg m st accounts now =
     (if mt_CollectQueueStats (cf_Metrics cfg) then
        (case st of
           Inl _ \<Rightarrow> []
         | Inr q \<Rightarrow>
             mx_SetQueueDepth sha m (qs_Driver q) (qs_Name q) (Fin (of_int (qs_Ready q))) @
             mx_SetQueueInFlight sha m (qs_Driver q) (qs_Name q) (Fin (of_int (qs_InFlight q))))
      else []) @
     (if mt_CollectSmtpStats (cf_Metrics cfg) then
        concat (map (\<lambda>(account, s). mx_SetSmtpPoolStats sha m account (ps_ActiveConns (st_Pool s)) (ps_IdleConns (st_Pool s))) accounts)
      else []) @
     mx_UpdateAppUptime m now"

text \<open>The gRPC server is started when there is one.\<close>

definition startRpc :: "appIO \<Rightarrow> ('q, 's, 'p, 'mw, 'h, 'd) app \<Rightarrow> error option \<times> ('q, 's, 'p, 'mw, 'h, 'd) app" where
  "startRpc io a =
     (case ax_rpc a of
        None \<Rightarrow> (None, a)
      | Some r \<Rightarrow> (case rpc_Start (io_listen io) (io_grpcServe io) r of (e, r') \<Rightarrow> (e, a\<lparr>ax_rpc := Some r'\<rparr>)))"

text \<open>The identity gauge, which \<open>Start\<close> sets last, before the collector is started.\<close>

definition startInfo :: "string \<Rightarrow> metricsGlobal \<Rightarrow> Config \<Rightarrow> metricCall list" where
  "startInfo version g cfg =
     (if mt_Enabled (cf_Metrics cfg) then
        mx_SetAppInfo (refMetrics (metrics_Get g)) (ap_Name (cf_App cfg)) (ap_Env (cf_App cfg)) version
      else [])"

definition App_Start :: "appIO \<Rightarrow> ('q, 's, 'p, 'mw, 'h, 'd) app \<Rightarrow> error option \<times> ('q, 's, 'p, 'mw, 'h, 'd) app" where
  "App_Start io a0 =
     (if ax_running a0 then (Some (Err ''cmd: application is already running''), a0)
      else let a = a0\<lparr>ax_running := True\<rparr> in
        case Engine_Start (io_consumer io) (io_now io) (ax_engine a) of
          (Some e, en) \<Rightarrow> (Some (Wrap (''cmd: failed to start engine: '' @ Error e) e), a\<lparr>ax_engine := en\<rparr>)
        | (None, en) \<Rightarrow>
            (case http_Start (io_serve io) (ax_server a) of
               (Some e, srv) \<Rightarrow>
                 (Some (Wrap (''cmd: failed to start http server: '' @ Error e) e),
                  a\<lparr>ax_engine := snd (Engine_Stop (io_engineStop io) en), ax_server := srv\<rparr>)
             | (None, srv) \<Rightarrow>
                 (case startRpc io (a\<lparr>ax_engine := en, ax_server := srv\<rparr>) of
                    (Some e, a') \<Rightarrow>
                      (Some (Wrap (''cmd: failed to start gRPC server: '' @ Error e) e),
                       a'\<lparr>ax_server := snd (http_Stop (io_httpStop io) srv), ax_engine := snd (Engine_Stop (io_engineStop io) en)\<rparr>)
                  | (None, a') \<Rightarrow>
                      (None, if mt_Enabled (cf_Metrics (ax_cfg a)) then startMetricsCollector a' else a'))))"

section \<open>Shutdown\<close>

definition wrapErr :: "string \<Rightarrow> error option \<Rightarrow> error option" where
  "wrapErr what e = map_option (\<lambda>x. Wrap (what @ '': '' @ Error x) x) e"

definition firstSome :: "error option list \<Rightarrow> error option" where
  "firstSome es = (case filter (\<lambda>e. e \<noteq> None) es of [] \<Rightarrow> None | e # _ \<Rightarrow> e)"

definition stopRpc :: "appIO \<Rightarrow> ('q, 's, 'p, 'mw, 'h, 'd) app \<Rightarrow> error option \<times> ('s, 'p, unit) rpcServer option" where
  "stopRpc io a =
     (case ax_rpc a of
        None \<Rightarrow> (None, None)
      | Some r \<Rightarrow> (case rpc_Stop (io_grpcStop io) r of (e, r') \<Rightarrow> (e, Some r')))"

definition App_Shutdown ::
    "appIO \<Rightarrow> ('q, 's, 'p, 'mw, 'h, 'd) app \<Rightarrow> proc \<Rightarrow> error option \<times> ('q, 's, 'p, 'mw, 'h, 'd) app \<times> proc" where
  "App_Shutdown io a0 pc =
     (if \<not> ax_running a0 then (None, a0, pc)
      else
        (let a1 = stopMetricsCollector (a0\<lparr>ax_running := False\<rparr>);
             (e1, rpc) = stopRpc io a1;
             (e2, srv) = http_Stop (io_httpStop io) (ax_server a1);
             (e3, en) = Engine_Stop (io_engineStop io) (ax_engine a1)
         in (firstSome [wrapErr ''cmd: failed to stop gRPC server'' e1, wrapErr ''cmd: failed to stop http server'' e2,
               wrapErr ''cmd: failed to stop engine'' e3, wrapErr ''cmd: failed to close sender pools'' (io_senderClose io),
               wrapErr ''cmd: failed to close queue'' (io_queueClose io)],
             a1\<lparr>ax_rpc := rpc, ax_server := srv, ax_engine := en\<rparr>,
             (pc_closeMetrics (io_statsdClose io) (pc_add [SenderClosed, QueueClosed, TracerClosed] pc))\<lparr>
               pc_log := log_Sync (pc_log pc)\<rparr>)))"

text \<open>\<open>Run\<close>: nothing is shut down when \<open>Start\<close> fails. The shutdown has the configured timeout.\<close>

definition shutdownTimeout :: "Config \<Rightarrow> int" where
  "shutdownTimeout c = defPos (10 * Second) (ap_ShutdownTimeout (cf_App c))"

definition App_Run ::
    "appIO \<Rightarrow> (int \<Rightarrow> appIO) \<Rightarrow> ('q, 's, 'p, 'mw, 'h, 'd) app \<Rightarrow> proc \<Rightarrow> error option \<times> ('q, 's, 'p, 'mw, 'h, 'd) app \<times> proc" where
  "App_Run io stopIO a pc =
     (case App_Start io a of
        (Some e, a') \<Rightarrow> (Some e, a', pc)
      | (None, a') \<Rightarrow> App_Shutdown (stopIO (shutdownTimeout (ax_cfg a))) a' pc)"

section \<open>Construction cleans up after itself\<close>

definition balanced :: "appEv list \<Rightarrow> bool" where
  "balanced evs \<longleftrightarrow>
     count_list evs QueueOpened = count_list evs QueueClosed \<and> count_list evs SenderOpened = count_list evs SenderClosed \<and>
     count_list evs QueueOpened \<le> 1 \<and> count_list evs SenderOpened \<le> 1"

lemma stopPusher_none: "gm_pusher (stopPusher g) = None"
  by (simp add: stopPusher_def)

lemma metrics_Close_none: "gm_pusher (fst (metrics_Close e g)) = None"
  by (simp add: metrics_Close_def Metrics_Close_def Let_def stopPusher_none split: option.splits metricsRef.splits)

lemma metrics_Init_fail: "metrics_Init dial now cfg g = (Inl e, g') \<Longrightarrow> gm_pusher g' = None"
  by (auto simp: metrics_Init_def Let_def stopPusher_none split: if_splits sum.splits)

definition freshApp :: "('q, 's, 'p, 'mw, 'h, 'd) app \<Rightarrow> bool" where
  "freshApp a \<longleftrightarrow>
     \<not> ax_running a \<and> \<not> ax_statsStop a \<and> en_state (ax_engine a) = StateStopped \<and> en_loops (ax_engine a) = 0 \<and>
     \<not> hs_running (ax_server a) \<and> \<not> hs_shutdown (ax_server a) \<and>
     (\<forall>r. ax_rpc a = Some r \<longrightarrow> \<not> gs_running r \<and> \<not> gs_stopped r)"

lemma handler_New_fresh: "handler_New m (Some c) opts = Ret (Inr srv) \<Longrightarrow> \<not> hs_running srv \<and> \<not> hs_shutdown srv"
  by (auto simp: handler_New_def Let_def httpListener_def muxServer_def split: outcome.splits)

lemma Engine_New_fresh: "Engine_New nq ns b (Some c) [] = Inr e \<Longrightarrow> en_state e = StateStopped \<and> en_loops e = 0"
  by (auto simp: Engine_New_def Let_def split: if_splits)

lemma rpc_New_fresh: "rpc_New loadTLS (Some c) s p extra = Inr x \<Longrightarrow> \<not> gs_running x \<and> \<not> gs_stopped x"
  by (auto simp: rpc_New_def Let_def split: if_splits option.splits)

lemma newRpc_fresh:
  "newRpc env c s p = Inr r \<Longrightarrow> (r \<noteq> None \<longleftrightarrow> gr_Enabled (cf_GRPC c)) \<and> (\<forall>x. r = Some x \<longrightarrow> \<not> gs_running x \<and> \<not> gs_stopped x)"
  by (auto simp: newRpc_def split: if_splits sum.splits dest: rpc_New_fresh)

lemma wireServers_outcome:
  fixes r :: "error + ('q, 's, 'p, 'mw, 'h, 'd) app"
  assumes "wireServers env c q s m tr pc = (Ret r, pc')"
  shows "case r of
      Inl e \<Rightarrow> pc' = undo3 (nv_statsdClose env) pc
    | Inr a \<Rightarrow> pc' = pc \<and> freshApp a \<and> (ax_rpc a \<noteq> None \<longleftrightarrow> gr_Enabled (cf_GRPC c))"
proof (cases r)
  case (Inl e)
  then show ?thesis
    using assms unfolding wireServers_def by (auto split: sum.splits outcome.splits)
next
  case (Inr a)
  obtain en :: "('mw, 'h, 'd) engine" and srv rp where parts: "Engine_New False False (nv_builtin env) (Some c) [] = Inr en"
    "handler_New m (Some c) (httpOptions s (nv_producer env q) (TopicName (cf_Queue c))) = Ret (Inr srv)"
    "newRpc env c s (nv_producer env q) = Inr rp"
    using assms Inr unfolding wireServers_def by (auto split: sum.splits outcome.splits)
  then have "pc' = pc" "ax_engine a = en" "ax_server a = srv" "ax_rpc a = rp" "\<not> ax_running a" "\<not> ax_statsStop a"
    using assms Inr unfolding wireServers_def by auto
  then show ?thesis
    using Inr Engine_New_fresh [OF parts(1)] handler_New_fresh [OF parts(2)] newRpc_fresh [OF parts(3)]
    by (simp add: freshApp_def)
qed

text \<open>The steps of \<open>NewApp\<close> after the logger and the tracer, which do not fail.\<close>

definition logged :: "Config \<Rightarrow> proc \<Rightarrow> proc" where
  "logged c pc = pc_add [TracerInit] (pc\<lparr>pc_log := snd (log_Init (cf_Log c) (pc_log pc))\<rparr>)"

lemma logged_simps [simp]: "pc_events (logged c pc) = pc_events pc @ [TracerInit]" "pc_metrics (logged c pc) = pc_metrics pc"
  by (simp_all add: logged_def pc_add_def)

lemma NewApp_steps: "NewApp env (Some c) pc0 =
      (case New (nv_drivers env) (Some c) of
         Inl e \<Rightarrow>
           (Ret (Inl (Wrap (''cmd: failed to initialize queue driver '' @ Quote (qc_Driver (cf_Queue c)) @ '': '' @ Error e) e)), (logged c pc0))
       | Inr q \<Rightarrow>
           (case nv_newSender env c of
              Inl e \<Rightarrow> (Ret (Inl (Wrap (''cmd: failed to initialize mail sender: '' @ Error e) e)), pc_add [QueueOpened, QueueClosed] (logged c pc0))
            | Inr s \<Rightarrow>
                (case metrics_Init (nv_dial env) (nv_now env) (cf_Metrics c) (pc_metrics pc0) of
                   (Inl e, g) \<Rightarrow>
                     (Ret (Inl (Wrap (''cmd: failed to initialize metrics: '' @ Error e) e)),
                      pc_add [SenderClosed, QueueClosed] ((pc_add [QueueOpened, SenderOpened] (logged c pc0))\<lparr>pc_metrics := g\<rparr>))
                 | (Inr m, g) \<Rightarrow>
                     wireServers env c q s m (tracing_Init (ob_Tracing (cf_Observability c)))
                       ((pc_add [QueueOpened, SenderOpened] (logged c pc0))\<lparr>pc_metrics := g\<rparr>))))"
  unfolding NewApp_def logged_def by (simp add: log_Init_def Let_def pc_add_def split: sum.splits prod.splits)

lemma NewApp_cases:
  assumes "NewApp env (Some c) pc0 = (Ret r, pc)"
  obtains (queue) e where "r = Inl e" "pc = logged c pc0"
  | (sender) e where "r = Inl e" "pc = pc_add [QueueOpened, QueueClosed] (logged c pc0)"
  | (metrics) e e' g where "r = Inl e" "metrics_Init (nv_dial env) (nv_now env) (cf_Metrics c) (pc_metrics pc0) = (Inl e', g)"
      "pc = pc_add [SenderClosed, QueueClosed] ((pc_add [QueueOpened, SenderOpened] (logged c pc0))\<lparr>pc_metrics := g\<rparr>)"
  | (wire) q s m g where "wireServers env c q s m (tracing_Init (ob_Tracing (cf_Observability c)))
      ((pc_add [QueueOpened, SenderOpened] (logged c pc0))\<lparr>pc_metrics := g\<rparr>) = (Ret r, pc)"
  using assms unfolding NewApp_steps by (auto split: sum.splits prod.splits)

text \<open>
  C13. Construction is all or nothing for the queue, the sender and the metrics: when
  \<open>NewApp\<close> returns an error, at whichever step, every queue and every sender it opened
  has been closed again, each exactly once, and no push loop of the metrics is left running;
  when it returns an application, the queue and the sender have been
  opened exactly once and not closed, nothing is running yet, and there is a
  gRPC server exactly when it is enabled.\<close>

theorem NewApp_cleans_up:
  assumes "NewApp env cfg pc0 = (Ret r, pc)" "gm_pusher (pc_metrics pc0) = None"
  shows "\<exists>evs. pc_events pc = pc_events pc0 @ evs \<and>
    (case r of
       Inl e \<Rightarrow> balanced evs \<and> gm_pusher (pc_metrics pc) = None
     | Inr a \<Rightarrow> evs = [TracerInit, QueueOpened, SenderOpened] \<and> freshApp a \<and>
         (\<exists>c. cfg = Some c \<and> (ax_rpc a \<noteq> None \<longleftrightarrow> gr_Enabled (cf_GRPC c))))"
proof (cases cfg)
  case None
  then show ?thesis
    using assms by (auto simp: NewApp_def balanced_def)
next
  case (Some c)
  from assms(1) have "NewApp env (Some c) pc0 = (Ret r, pc)"
    by (simp only: Some)
  then show ?thesis
  proof (cases rule: NewApp_cases)
    case metrics
    then show ?thesis
      using metrics_Init_fail by (auto simp: balanced_def pc_add_def)
  next
    case wire
    then show ?thesis
      using wireServers_outcome [OF wire] Some
      by (cases r) (auto simp: undo3_def pc_closeMetrics_def pc_add_def balanced_def metrics_Close_none)
  qed (use assms(2) in \<open>auto simp: balanced_def pc_add_def\<close>)
qed

definition sampleEnv :: "(Config \<Rightarrow> error + unit) \<Rightarrow> (unit, unit, unit, unit) appEnv" where
  "sampleEnv newSender =
     \<lparr>nv_drivers = [(''memory'', \<lambda>c. Inr ())], nv_newSender = newSender, nv_producer = \<lambda>q. Some (), nv_builtin = [],
      nv_dial = \<lambda>a p i. None, nv_statsdClose = None, nv_loadTLS = \<lambda>c k. None, nv_now = 0\<rparr>"

definition sampleProc :: proc where
  "sampleProc = \<lparr>pc_log = \<lparr>ls_global = None, ls_synced = []\<rparr>, pc_metrics = metrics_fresh, pc_events = []\<rparr>"

lemma sample_queue: "New (nv_drivers (sampleEnv f)) (Some sampleConfig) = Inr ()"
proof -
  have "defStr DriverMemory (normalizeDriver DriverMemory) = ''memory''"
    by code_simp
  then show ?thesis
    by (simp add: New_def sampleEnv_def sampleConfig_def sampleQueueConfig_def Let_def)
qed

theorem NewApp_cleans_up_witness:
  "\<exists>e pc evs. NewApp (sampleEnv (\<lambda>c. Inl (Err ''no account''))) (Some sampleConfig) sampleProc =
      (Ret (Inl e :: error + (unit, unit, unit, unit, unit, unit) app), pc) \<and>
     pc_events pc = evs \<and> QueueOpened \<in> set evs \<and> balanced evs"
proof -
  let ?env = "sampleEnv (\<lambda>c. Inl (Err ''no account''))"
  obtain e pc where run: "NewApp ?env (Some sampleConfig) sampleProc =
      (Ret (Inl e :: error + (unit, unit, unit, unit, unit, unit) app), pc)" and "QueueOpened \<in> set (pc_events pc)"
    by (simp add: NewApp_def log_Init_def sample_queue Let_def) (simp add: sampleEnv_def pc_add_def)
  moreover have "gm_pusher (pc_metrics sampleProc) = None" "pc_events sampleProc = []"
    by (simp_all add: sampleProc_def metrics_fresh_def)
  ultimately show ?thesis
    using NewApp_cleans_up [OF run] by auto
qed

text \<open>The application that \<open>NewApp\<close> returns is not running.\<close>

lemma NewApp_fresh: "NewApp env cfg pc0 = (Ret (Inr a), pc) \<Longrightarrow> freshApp a"
  by (auto simp: NewApp_def log_Init_def Let_def split: option.splits sum.splits prod.splits dest!: wireServers_outcome)

section \<open>A run of the application\<close>

definition allRunning :: "('q, 's, 'p, 'mw, 'h, 'd) app \<Rightarrow> bool" where
  "allRunning a \<longleftrightarrow> IsRunning (ax_engine a) \<and> hs_running (ax_server a) \<and> (\<forall>r. ax_rpc a = Some r \<longrightarrow> gs_running r)"

definition noneRunning :: "('q, 's, 'p, 'mw, 'h, 'd) app \<Rightarrow> bool" where
  "noneRunning a \<longleftrightarrow>
     en_state (ax_engine a) = StateStopped \<and> \<not> hs_running (ax_server a) \<and> \<not> ax_statsStop a \<and>
     (\<forall>r. ax_rpc a = Some r \<longrightarrow> \<not> gs_running r)"

lemma startRpc_cases:
  assumes "startRpc io a = (e, a')" "\<forall>r. ax_rpc a = Some r \<longrightarrow> \<not> gs_running r \<and> \<not> gs_stopped r"
  shows "\<exists>rp. a' = a\<lparr>ax_rpc := rp\<rparr> \<and> (\<forall>r. rp = Some r \<longrightarrow> (gs_running r \<longleftrightarrow> e = None))"
proof (cases "ax_rpc a")
  case None
  then show ?thesis
    using assms by (intro exI [of _ None]) (simp add: startRpc_def)
next
  case (Some r)
  then show ?thesis
    using assms by (auto simp: startRpc_def rpc_Start_def startResult_def Let_def
        split: option.splits earlyServe.splits prod.splits)
qed

lemma http_Start_cases:
  assumes "http_Start serve s = (e, s')" "\<not> hs_running s"
  shows "hs_running s' \<longleftrightarrow> e = None"
  using assms by (auto simp: http_Start_def startResult_def Let_def split: earlyServe.splits if_splits)

lemma App_Start_outcome:
  assumes "App_Start io a = (r, a')" "freshApp a"
  shows "ax_running a' \<and> ax_cfg a' = ax_cfg a \<and> ax_queue a' = ax_queue a \<and>
    (if r = None then allRunning a' \<and> (ax_statsStop a' \<longleftrightarrow> mt_Enabled (cf_Metrics (ax_cfg a))) else noneRunning a')"
proof -
  let ?a = "a\<lparr>ax_running := True\<rparr>"
  have fresh: "\<not> ax_running a" "\<not> ax_statsStop a" "en_state (ax_engine a) = StateStopped" "\<not> hs_running (ax_server a)"
    "\<forall>r. ax_rpc a = Some r \<longrightarrow> \<not> gs_running r \<and> \<not> gs_stopped r"
    using assms(2) by (auto simp: freshApp_def)
  obtain e1 en where 1: "Engine_Start (io_consumer io) (io_now io) (ax_engine a) = (e1, en)"
    by fastforce
  have en: "en_state en = (if e1 = None then StateRunning else StateStopped)"
    using 1 fresh(3) by (auto simp: Engine_Start_def split: option.splits)
  obtain e2 srv where 2: "http_Start (io_serve io) (ax_server a) = (e2, srv)"
    by fastforce
  note srv = http_Start_cases [OF 2 fresh(4)]
  obtain e3 a3 where 3: "startRpc io (?a\<lparr>ax_engine := en, ax_server := srv\<rparr>) = (e3, a3)"
    by fastforce
  have r5: "\<forall>r. ax_rpc (?a\<lparr>ax_engine := en, ax_server := srv\<rparr>) = Some r \<longrightarrow> \<not> gs_running r \<and> \<not> gs_stopped r"
    using fresh(5) by simp
  obtain rp where rp: "a3 = ?a\<lparr>ax_engine := en, ax_server := srv, ax_rpc := rp\<rparr>" "\<forall>r. rp = Some r \<longrightarrow> (gs_running r \<longleftrightarrow> e3 = None)"
    using startRpc_cases [OF 3 r5] by auto
  have stop: "en_state (snd (Engine_Stop w en)) = StateStopped" "\<not> hs_running (snd (http_Stop x srv))" for w x
    by (simp_all add: Engine_Stop_def http_Stop_def split: stopWait.splits)
  consider e where "e1 = Some e" | e where "e1 = None" "e2 = Some e" | e where "e1 = None" "e2 = None" "e3 = Some e"
    | "e1 = None" "e2 = None" "e3 = None"
    by fastforce
  then show ?thesis
  proof cases
    case 1
    then have "r \<noteq> None" "a' = ?a\<lparr>ax_engine := en\<rparr>"
      using assms(1) \<open>Engine_Start _ _ _ = _\<close> fresh(1) by (auto simp: App_Start_def Let_def)
    then show ?thesis
      using 1 en fresh by (auto simp: noneRunning_def)
  next
    case 2
    then have "r \<noteq> None" "a' = ?a\<lparr>ax_engine := snd (Engine_Stop (io_engineStop io) en), ax_server := srv\<rparr>"
      using assms(1) 1 \<open>http_Start _ _ = _\<close> fresh(1) by (auto simp: App_Start_def Let_def)
    then show ?thesis
      using 2 srv stop fresh by (auto simp: noneRunning_def)
  next
    case 3
    then have "r \<noteq> None" "a' = a3\<lparr>ax_server := snd (http_Stop (io_httpStop io) srv), ax_engine := snd (Engine_Stop (io_engineStop io) en)\<rparr>"
      using assms(1) 1 2 \<open>startRpc _ _ = _\<close> fresh(1) by (auto simp: App_Start_def Let_def)
    then show ?thesis
      using 3 stop fresh rp by (auto simp: noneRunning_def)
  next
    case 4
    then have "r = None" "a' = (if mt_Enabled (cf_Metrics (ax_cfg a)) then startMetricsCollector a3 else a3)"
      using assms(1) 1 2 3 fresh(1) by (auto simp: App_Start_def Let_def)
    then show ?thesis
      using 4 en srv fresh rp by (auto simp: allRunning_def IsRunning_def startMetricsCollector_def)
  qed
qed

definition shutdownErrors :: "appIO \<Rightarrow> ('q, 's, 'p, 'mw, 'h, 'd) app \<Rightarrow> error option list" where
  "shutdownErrors io a =
     [wrapErr ''cmd: failed to stop gRPC server'' (fst (stopRpc io a)),
      wrapErr ''cmd: failed to stop http server'' (fst (http_Stop (io_httpStop io) (ax_server a))),
      wrapErr ''cmd: failed to stop engine'' (fst (Engine_Stop (io_engineStop io) (ax_engine a))),
      wrapErr ''cmd: failed to close sender pools'' (io_senderClose io),
      wrapErr ''cmd: failed to close queue'' (io_queueClose io)]"

lemma App_Shutdown_outcome:
  assumes "App_Shutdown io a pc = (r, a', pc')" "ax_running a"
  shows "r = firstSome (shutdownErrors io a) \<and> \<not> ax_running a' \<and> noneRunning a' \<and> gm_pusher (pc_metrics pc') = None \<and>
    pc_events pc' = pc_events pc @ [SenderClosed, QueueClosed, TracerClosed] \<and> App_Shutdown io' a' pc' = (None, a', pc')"
proof -
  define a1 where "a1 = stopMetricsCollector (a\<lparr>ax_running := False\<rparr>)"
  have a1: "ax_rpc a1 = ax_rpc a" "ax_server a1 = ax_server a" "ax_engine a1 = ax_engine a" "\<not> ax_statsStop a1" "\<not> ax_running a1"
    by (simp_all add: a1_def stopMetricsCollector_def)
  obtain e1 rp where 1: "stopRpc io a = (e1, rp)"
    by fastforce
  obtain e2 srv where 2: "http_Stop (io_httpStop io) (ax_server a) = (e2, srv)"
    by fastforce
  obtain e3 en where 3: "Engine_Stop (io_engineStop io) (ax_engine a) = (e3, en)"
    by fastforce
  have rp: "\<forall>r. rp = Some r \<longrightarrow> \<not> gs_running r"
    using 1 by (auto simp: stopRpc_def rpc_Stop_def split: option.splits if_splits)
  have srv: "\<not> hs_running srv" and en: "en_state en = StateStopped"
    using 2 3 by (auto simp: http_Stop_def Engine_Stop_def split: if_splits stopWait.splits)
  have again: "stopRpc io a1 = (e1, rp)"
    using 1 a1(1) by (simp add: stopRpc_def)
  have a': "a' = a1\<lparr>ax_rpc := rp, ax_server := srv, ax_engine := en\<rparr>"
    and pc': "pc' = (pc_closeMetrics (io_statsdClose io) (pc_add [SenderClosed, QueueClosed, TracerClosed] pc))\<lparr>pc_log := log_Sync (pc_log pc)\<rparr>"
    and r: "r = firstSome (shutdownErrors io a)"
    using assms 1 2 3 again a1 unfolding App_Shutdown_def a1_def [symmetric] by (auto simp: Let_def shutdownErrors_def)
  show ?thesis
    using r rp srv en a1 unfolding a' pc'
    by (simp add: noneRunning_def App_Shutdown_def pc_closeMetrics_def pc_add_def metrics_Close_none)
qed


definition sampleIO :: appIO where
  "sampleIO =
     \<lparr>io_consumer = None, io_now = 0, io_serve = \<lambda>tls. StillServing, io_listen = \<lambda>addr. None, io_grpcServe = StillServing,
      io_grpcStop = Drained, io_httpStop = None, io_engineStop = Drained, io_senderClose = None,
      io_queueClose = Some (Err ''connection reset''), io_statsdClose = None\<rparr>"

lemma sample_app:
  "\<exists>a pc. NewApp (sampleEnv (\<lambda>c. Inr ())) (Some sampleConfig) sampleProc =
     (Ret (Inr a :: error + (unit, unit, unit, unit, unit, unit) app), pc)"
proof -
  let ?env = "sampleEnv (\<lambda>c. Inr ())"
  obtain srv :: "(unit, unit) httpServer" where
    srv: "handler_New MNoop (Some sampleConfig) (httpOptions () (Some ()) (TopicName (cf_Queue sampleConfig))) = Ret (Inr srv)"
    using sample_new by blast
  have rpc: "\<exists>rp. newRpc ?env sampleConfig () (Some ()) = Inr rp"
    by (simp add: newRpc_def rpc_New_def Let_def grpcUsesTLS_def GrpcConfig_ApplyDefaults_def sampleConfig_def)
  have m: "metrics_Init dial now (cf_Metrics sampleConfig) x = (Inr MNoop, (stopPusher x)\<lparr>gm_metrics := Some MNoop\<rparr>)" for dial now x
    by (simp add: metrics_Init_def Let_def sampleConfig_def)
  obtain en :: "(unit, unit, unit) engine" where en: "Engine_New False False [] (Some sampleConfig) [] = Inr en"
    by (simp add: Engine_New_def Let_def)
  have env: "nv_newSender ?env c = Inr ()" "nv_producer ?env q = Some ()" "nv_builtin ?env = []" for c q
    by (simp_all add: sampleEnv_def)
  show ?thesis
    using srv rpc en by (auto simp: NewApp_def wireServers_def log_Init_def sample_queue Let_def env m)
qed


end
