(* ===== verification/Cli.thy ===== *)
theory Cli
  imports App
begin

text \<open>
  The command line of \<open>internal/cmd\<close>: the split of the global flags and the dispatch
  (\<open>root.go\<close>), the commands \<open>server\<close>, \<open>check\<close>, \<open>send\<close> and \<open>version\<close>, on a model of the
  package \<open>flag\<close>. What is printed is not modelled; an error or the fact that the usage is shown is.
\<close>

section \<open>Package flag\<close>

datatype flagKind = StringFlag | BoolFlag

text \<open>The flags of a set: the name, the variable it sets, and its kind; the values are by variable.\<close>

type_synonym flagSet = "(string \<times> string \<times> flagKind) list"

type_synonym flagVals = "string \<Rightarrow> string"

definition ParseBool :: "string \<Rightarrow> bool option" where
  "ParseBool s =
     (if s \<in> set [''1'', ''t'', ''T'', ''TRUE'', ''true'', ''True''] then Some True
      else if s \<in> set [''0'', ''f'', ''F'', ''FALSE'', ''false'', ''False''] then Some False else None)"

definition fmtBool :: "bool \<Rightarrow> string" where
  "fmtBool b = (if b then ''true'' else ''false'')"

datatype flagError = FlagHelp | FlagError string

text \<open>The name of a flag and its value after the first equals sign that is not at the front.\<close>

definition cutFlag :: "string \<Rightarrow> string \<times> string option" where
  "cutFlag name =
     (let n = hd name # takeWhile (\<lambda>c. c \<noteq> CHR ''='') (tl name)
      in (n, if CHR ''='' \<in> set (tl name) then Some (drop (length n + 1) name) else None))"

text \<open>
  \<open>parseOne\<close>: the arguments end (\<open>Inr (Inl rest)\<close>), or a flag is set and the rest
  is parsed (\<open>Inr (Inr (vals, rest))\<close>), or there is an error.
\<close>

definition setFlag ::
    "flagSet \<Rightarrow> string \<Rightarrow> string \<Rightarrow> string list \<Rightarrow> flagVals \<Rightarrow> flagError + (string list + flagVals \<times> string list)" where
  "setFlag fs s name rest vals =
     (if name = [] \<or> hd name = CHR ''-'' \<or> hd name = CHR ''='' then Inl (FlagError (''bad flag syntax: '' @ s))
      else let (n, v) = cutFlag name in
        case map_of fs n of
          None \<Rightarrow> Inl (if n = ''help'' \<or> n = ''h'' then FlagHelp else FlagError (''flag provided but not defined: -'' @ n))
        | Some (var, BoolFlag) \<Rightarrow>
            (case v of
               None \<Rightarrow> Inr (Inr (vals(var := ''true''), rest))
             | Some x \<Rightarrow>
                 (case ParseBool x of
                    None \<Rightarrow> Inl (FlagError (''invalid boolean value '' @ Quote x @ '' for -'' @ n @ '': parse error''))
                  | Some b \<Rightarrow> Inr (Inr (vals(var := fmtBool b), rest))))
        | Some (var, StringFlag) \<Rightarrow>
            (case (v, rest) of
               (Some x, _) \<Rightarrow> Inr (Inr (vals(var := x), rest))
             | (None, x # rest') \<Rightarrow> Inr (Inr (vals(var := x), rest'))
             | (None, []) \<Rightarrow> Inl (FlagError (''flag needs an argument: -'' @ n))))"

definition parseOne :: "flagSet \<Rightarrow> string list \<Rightarrow> flagVals \<Rightarrow> flagError + (string list + flagVals \<times> string list)" where
  "parseOne fs args vals =
     (case args of
        [] \<Rightarrow> Inr (Inl [])
      | s # rest \<Rightarrow>
          if length s < 2 \<or> hd s \<noteq> CHR ''-'' then Inr (Inl args)
          else if s = ''--'' then Inr (Inl rest)
          else setFlag fs s (if s ! 1 = CHR ''-'' then drop 2 s else drop 1 s) rest vals)"

lemma setFlag_shorter: "setFlag fs s name rest vals = Inr (Inr (vals', rest')) \<Longrightarrow> length rest' \<le> length rest"
  by (auto simp: setFlag_def Let_def split: if_splits option.splits list.splits prod.splits flagKind.splits)

lemma parseOne_shorter: "parseOne fs args vals = Inr (Inr (vals', rest')) \<Longrightarrow> length rest' < length args"
  by (auto simp: parseOne_def less_Suc_eq_le split: list.splits if_splits dest: setFlag_shorter)

function flagParse :: "flagSet \<Rightarrow> string list \<Rightarrow> flagVals \<Rightarrow> flagError + flagVals \<times> string list" where
  "flagParse fs args vals =
     (case parseOne fs args vals of
        Inl e \<Rightarrow> Inl e
      | Inr (Inl rest) \<Rightarrow> Inr (vals, rest)
      | Inr (Inr (vals', rest)) \<Rightarrow> flagParse fs rest vals')"
  by pat_completeness auto
termination
  by (relation "measure (\<lambda>(fs, args, vals). length args)") (auto dest: parseOne_shorter)

declare flagParse.simps [simp del]

section \<open>Global flags\<close>

definition isGlobalFlag :: "string \<Rightarrow> bool" where
  "isGlobalFlag arg \<longleftrightarrow>
     arg \<in> set [''-c'', ''--config'', ''-v'', ''--version'', ''-h'', ''--help'', ''-d'', ''--debug'', ''-e'', ''--env''] \<or>
     list_ex (HasPrefix arg) [''-c='', ''--config='', ''-e='', ''--env='', ''-d='', ''--debug='']"

definition takesValue :: "string \<Rightarrow> bool" where
  "takesValue arg \<longleftrightarrow> arg \<in> set [''-c'', ''--config'', ''-e'', ''--env''] \<and>
     \<not> list_ex (HasPrefix arg) [''-c='', ''--config='', ''-e='', ''--env='']"

text \<open>The loop over the arguments, with what it has collected.\<close>

fun splitLoop :: "string list \<Rightarrow> string list \<Rightarrow> string list \<Rightarrow> error + string list \<times> string list" where
  "splitLoop [] globals rest = Inr (globals, rest)"
| "splitLoop (arg # args) globals rest =
     (if \<not> isGlobalFlag arg then splitLoop args globals (rest @ [arg])
      else if takesValue arg then
        (case args of
           [] \<Rightarrow> Inl (Err (''flag '' @ arg @ '' requires a value''))
         | v # args' \<Rightarrow> splitLoop args' (globals @ [arg, v]) rest)
      else splitLoop args (globals @ [arg]) rest)"

definition splitGlobalFlags :: "string list \<Rightarrow> error + string list \<times> string list" where
  "splitGlobalFlags args = splitLoop args [] []"

section \<open>Dispatch\<close>

definition rootFlags :: flagSet where
  "rootFlags =
     [(''config'', ''config'', StringFlag), (''c'', ''config'', StringFlag), (''version'', ''version'', BoolFlag),
      (''v'', ''version'', BoolFlag), (''help'', ''help'', BoolFlag), (''h'', ''help'', BoolFlag),
      (''debug'', ''debug'', BoolFlag), (''d'', ''debug'', BoolFlag), (''env'', ''env'', StringFlag), (''e'', ''env'', StringFlag)]"

definition rootDefaults :: flagVals where
  "rootDefaults = (\<lambda>_. [])(''version'' := ''false'', ''help'' := ''false'', ''debug'' := ''false'')"

text \<open>What a command line asks for.\<close>

datatype cliAction =
    ShowUsage | ShowVersion | RunServer Config | RunCheck Config | RunSend Config "string list"
  | CliFail error | UnknownCommand string

definition overrides :: "flagVals \<Rightarrow> Config \<Rightarrow> Config" where
  "overrides vals cfg =
     cfg\<lparr>cf_App := (cf_App cfg)\<lparr>
       ap_Debug := (if vals ''debug'' = ''true'' then True else ap_Debug (cf_App cfg)),
       ap_Env := (if vals ''env'' \<noteq> [] then vals ''env'' else ap_Env (cf_App cfg))\<rparr>\<rparr>"

definition dispatch :: "(string \<Rightarrow> error + Config) \<Rightarrow> flagVals \<Rightarrow> string list \<Rightarrow> cliAction" where
  "dispatch load vals remaining =
     (if vals ''help'' = ''true'' then ShowUsage
      else if vals ''version'' = ''true'' then ShowVersion
      else let subcommand = (case remaining of [] \<Rightarrow> ''server'' | s # _ \<Rightarrow> s);
               subArgs = (case remaining of [] \<Rightarrow> [] | _ # as \<Rightarrow> as)
        in if subcommand = ''version'' then ShowVersion
           else case load (vals ''config'') of
             Inl e \<Rightarrow> CliFail (Wrap (''cmd: failed to load configuration: '' @ Error e) e)
           | Inr cfg \<Rightarrow>
               if subcommand \<in> set [''server'', ''start'', ''run''] then RunServer (overrides vals cfg)
               else if subcommand \<in> set [''check'', ''validate'', ''test-config''] then RunCheck (overrides vals cfg)
               else if subcommand = ''send'' then RunSend (overrides vals cfg) subArgs
               else UnknownCommand subcommand)"

text \<open>\<open>load\<close> is \<open>config.Load\<close>.\<close>

definition ExecuteArgs :: "(string \<Rightarrow> error + Config) \<Rightarrow> string list \<Rightarrow> cliAction" where
  "ExecuteArgs load args =
     (case splitGlobalFlags args of
        Inl e \<Rightarrow> CliFail e
      | Inr (globals, remaining) \<Rightarrow>
          (case flagParse rootFlags globals rootDefaults of
             Inl FlagHelp \<Rightarrow> ShowUsage
           | Inl (FlagError e) \<Rightarrow> CliFail (Err e)
           | Inr (vals, _) \<Rightarrow> dispatch load vals remaining))"

section \<open>Commands\<close>

record VersionInfo =
  vi_Version :: string
  vi_Commit :: string
  vi_BuildDate :: string
  vi_GoVersion :: string
  vi_Compiler :: string
  vi_Platform :: string

definition VersionInfo_String :: "VersionInfo \<Rightarrow> string" where
  "VersionInfo_String v =
     ''MailBaby '' @ vi_Version v @ '' (commit: '' @ vi_Commit v @ '', built: '' @ vi_BuildDate v @ '', '' @
     vi_GoVersion v @ '', '' @ vi_Platform v @ '')''"

definition runServer ::
    "('q, 's, 'p, 'mw) appEnv \<Rightarrow> appIO \<Rightarrow> (int \<Rightarrow> appIO) \<Rightarrow> Config \<Rightarrow> proc \<Rightarrow> error option outcome \<times> proc" where
  "runServer env io stopIO cfg pc =
     (case (NewApp env (Some cfg) pc :: (error + ('q, 's, 'p, 'mw, unit, unit) app) outcome \<times> proc) of
        (Panic p, pc') \<Rightarrow> (Panic p, pc')
      | (Ret (Inl e), pc') \<Rightarrow> (Ret (Some (Wrap (''cmd: failed to initialize application: '' @ Error e) e)), pc')
      | (Ret (Inr a), pc') \<Rightarrow> (case App_Run io stopIO a pc' of (res, _, pc'') \<Rightarrow> (Ret res, pc'')))"

text \<open>\<open>ping\<close> is the answer of the broker within five seconds. The deferred calls close what was opened.\<close>

definition runCheck ::
    "configLib \<Rightarrow> 'q registry \<Rightarrow> ('q \<Rightarrow> error option) \<Rightarrow> (Config \<Rightarrow> error + 's) \<Rightarrow> Config \<Rightarrow> error option \<times> appEv list" where
  "runCheck lib drivers ping newSender cfg0 =
     (case Config_Validate lib cfg0 of
        (Some e, _) \<Rightarrow> (Some (Wrap (''configuration validation failed: '' @ Error e) e), [])
      | (None, cfg) \<Rightarrow>
          (case New drivers (Some cfg) of
             Inl e \<Rightarrow> (Some (Wrap (''queue initialization failed: '' @ Error e) e), [])
           | Inr q \<Rightarrow>
               (case ping q of
                  Some e \<Rightarrow> (Some (Wrap (''queue broker ping failed: '' @ Error e) e), [QueueOpened, QueueClosed])
                | None \<Rightarrow>
                    (case newSender cfg of
                       Inl e \<Rightarrow> (Some (Wrap (''smtp accounts initialization failed: '' @ Error e) e), [QueueOpened, QueueClosed])
                     | Inr s \<Rightarrow> (None, [QueueOpened, SenderOpened, SenderClosed, QueueClosed])))))"

definition sendFlags :: flagSet where
  "sendFlags =
     [(''to'', ''to'', StringFlag), (''subject'', ''subject'', StringFlag), (''body'', ''body'', StringFlag),
      (''html'', ''html'', StringFlag), (''account'', ''account'', StringFlag), (''from'', ''from'', StringFlag)]"

definition sendDefaults :: flagVals where
  "sendDefaults = (\<lambda>_. [])(''subject'' := ''MailBaby Test Email'',
     ''body'' := ''This is a test email sent via MailBaby CLI.'', ''account'' := ''default'')"

definition sendEmail :: "flagVals \<Rightarrow> Email" where
  "sendEmail v =
     (let e = SetTextBody (v ''body'') (SetSubject (v ''subject'') (AddTo [v ''to''] (SetAccount (v ''account'') NewEmail)));
          e1 = (if v ''html'' \<noteq> [] then SetHTMLBody (v ''html'') e else e)
      in if v ''from'' \<noteq> [] then SetFrom (v ''from'') [] e1 else e1)"

text \<open>\<open>send\<close> is \<open>Send\<close> of the sender, with a timeout of thirty seconds.\<close>

definition runSend ::
    "(Config \<Rightarrow> error + 's) \<Rightarrow> ('s \<Rightarrow> Email \<Rightarrow> 'w \<Rightarrow> error option \<times> 'w) \<Rightarrow> Config \<Rightarrow> string list \<Rightarrow> 'w \<Rightarrow>
     flagError + (error option \<times> appEv list \<times> 'w)" where
  "runSend newSender send cfg args w =
     (case flagParse sendFlags args sendDefaults of
        Inl e \<Rightarrow> Inl e
      | Inr (v, _) \<Rightarrow>
          if v ''to'' = [] then Inr (Some (Err ''cmd: --to recipient address is required''), [], w)
          else case newSender cfg of
            Inl e \<Rightarrow> Inr (Some (Wrap (''cmd: failed to initialize sender: '' @ Error e) e), [], w)
          | Inr s \<Rightarrow>
              (case send s (sendEmail v) w of
                 (Some e, w') \<Rightarrow> Inr (Some (Wrap (''cmd: delivery failed: '' @ Error e) e), [SenderOpened, SenderClosed], w')
               | (None, w') \<Rightarrow> Inr (None, [SenderOpened, SenderClosed], w')))"

section \<open>Global flags at any position\<close>

text \<open>
  \<open>mixed gs rest args\<close>: \<open>args\<close> is the global flags \<open>gs\<close>, each with its value, and the other
  arguments \<open>rest\<close>, interleaved in any way that keeps the order of each.
\<close>

definition globalGroup :: "string list \<Rightarrow> bool" where
  "globalGroup g \<longleftrightarrow>
     (\<exists>f. g = [f] \<and> isGlobalFlag f \<and> \<not> takesValue f) \<or> (\<exists>f v. g = [f, v] \<and> isGlobalFlag f \<and> takesValue f)"

inductive mixed :: "string list list \<Rightarrow> string list \<Rightarrow> string list \<Rightarrow> bool" where
  mixed_Nil: "mixed [] [] []"
| mixed_flag: "globalGroup g \<Longrightarrow> mixed gs rest args \<Longrightarrow> mixed (g # gs) rest (g @ args)"
| mixed_arg: "\<not> isGlobalFlag a \<Longrightarrow> mixed gs rest args \<Longrightarrow> mixed gs (a # rest) (a # args)"

lemma splitLoop_mixed: "mixed gs rest args \<Longrightarrow> splitLoop args gl rs = Inr (gl @ concat gs, rs @ rest)"
  by (induction arbitrary: gl rs rule: mixed.induct) (auto simp: globalGroup_def)

lemma mixed_splitLoop:
  "splitLoop args gl rs = Inr (gl', rs') \<Longrightarrow> \<exists>gs rest. mixed gs rest args \<and> gl' = gl @ concat gs \<and> rs' = rs @ rest"
proof (induction args gl rs rule: splitLoop.induct)
  case (1 gl rs)
  then show ?case
    using mixed_Nil by fastforce
next
  case (2 arg args gl rs)
  consider "\<not> isGlobalFlag arg" | "isGlobalFlag arg" "\<not> takesValue arg"
    | v args' where "isGlobalFlag arg" "takesValue arg" "args = v # args'"
    using 2(4) by (cases args) (auto split: if_splits)
  then show ?case
  proof cases
    case 1
    then obtain gs rest where "mixed gs rest args" "gl' = gl @ concat gs" "rs' = (rs @ [arg]) @ rest"
      using 2(1) [OF 1] 2(4) by auto
    then show ?thesis
      using mixed_arg [OF 1, of gs rest args] by (intro exI [of _ gs] exI [of _ "arg # rest"]) simp
  next
    case 2
    then obtain gs rest where "mixed gs rest args" "gl' = (gl @ [arg]) @ concat gs" "rs' = rs @ rest"
      using "2.IH"(3) "2.prems" by auto
    moreover have "globalGroup [arg]"
      using 2 by (simp add: globalGroup_def)
    ultimately show ?thesis
      using mixed_flag [of "[arg]" gs rest args] by (intro exI [of _ "[arg] # gs"] exI [of _ rest]) simp
  next
    case 3
    then obtain gs rest where "mixed gs rest args'" "gl' = (gl @ [arg, v]) @ concat gs" "rs' = rs @ rest"
      using "2.IH"(2) "2.prems" by auto
    moreover have "globalGroup [arg, v]"
      using 3 by (simp add: globalGroup_def)
    ultimately show ?thesis
      using mixed_flag [of "[arg, v]" gs rest args'] 3(3) by (intro exI [of _ "[arg, v] # gs"] exI [of _ rest]) simp
  qed
qed

lemma mixed_front: "list_all globalGroup gs \<Longrightarrow> list_all (\<lambda>a. \<not> isGlobalFlag a) rest \<Longrightarrow> mixed gs rest (concat gs @ rest)"
proof (induction gs)
  case Nil
  then show ?case
    by (induction rest) (auto intro: mixed.intros)
qed (auto intro: mixed.intros)

lemma mixed_parts: "mixed gs rest args \<Longrightarrow> list_all globalGroup gs \<and> list_all (\<lambda>a. \<not> isGlobalFlag a) rest"
  by (induction rule: mixed.induct) auto

text \<open>
  C37. Global flags may be given anywhere: splitting succeeds exactly on the
  command lines in which each global flag that takes a value has one, and then
  gives the global flags with their values in order and the other arguments in order,
  none lost and none duplicated; so the command that runs is the one for the same
  global flags put before the subcommand.\<close>

theorem global_flags_anywhere:
  "(splitGlobalFlags args = Inr (globals, rest) \<longleftrightarrow> (\<exists>gs. mixed gs rest args \<and> globals = concat gs)) \<and>
   (mixed gs rest args \<longrightarrow> ExecuteArgs load args = ExecuteArgs load (concat gs @ rest))"
proof -
  have "splitGlobalFlags args = Inr (globals, rest) \<longleftrightarrow> (\<exists>gs. mixed gs rest args \<and> globals = concat gs)"
    using splitLoop_mixed [of _ rest args "[]" "[]"] mixed_splitLoop [of args "[]" "[]"]
    by (auto simp: splitGlobalFlags_def)
  moreover have "splitGlobalFlags args = splitGlobalFlags (concat gs @ rest)" if "mixed gs rest args"
    using that mixed_parts [OF that] splitLoop_mixed mixed_front by (metis splitGlobalFlags_def)
  ultimately show ?thesis
    by (auto simp: ExecuteArgs_def)
qed

lemma sample_mixed: "mixed [[''-e'', ''production''], [''--debug'']] [''check''] [''-e'', ''production'', ''check'', ''--debug'']"
proof -
  have g: "globalGroup [''-e'', ''production'']" "globalGroup [''--debug'']" "\<not> isGlobalFlag ''check''"
    by (simp_all add: globalGroup_def isGlobalFlag_def takesValue_def HasPrefix_def)
  have "mixed [[''--debug'']] [] [''--debug'']"
    using mixed_flag [OF g(2) mixed_Nil] by simp
  from mixed_flag [OF g(1) mixed_arg [OF g(3) this]] show ?thesis
    by simp
qed

theorem global_flags_anywhere_witness:
  "splitGlobalFlags [''-e'', ''production'', ''check'', ''--debug''] = Inr ([''-e'', ''production'', ''--debug''], [''check'']) \<and>
   ExecuteArgs (\<lambda>p. Inl (Err p)) [''-e'', ''production'', ''check'', ''--debug''] =
     ExecuteArgs (\<lambda>p. Inl (Err p)) [''-e'', ''production'', ''--debug'', ''check'']"
proof -
  let ?gs = "[[''-e'', ''production''], [''--debug'']]" and ?args = "[''-e'', ''production'', ''check'', ''--debug'']"
  note any = global_flags_anywhere [of ?args "concat ?gs" "[''check'']" ?gs "\<lambda>p. Inl (Err p)"]
  have "splitGlobalFlags ?args = Inr (concat ?gs, [''check''])"
    using any sample_mixed by iprover
  moreover have "ExecuteArgs (\<lambda>p. Inl (Err p)) ?args = ExecuteArgs (\<lambda>p. Inl (Err p)) (concat ?gs @ [''check''])"
    using any sample_mixed by iprover
  ultimately show ?thesis
    by (simp only: concat.simps append_Cons append_Nil simp_thms)
qed

text \<open>A value of a subcommand's flag that looks like a global flag is taken for one.\<close>

lemma global_flag_as_value: "ExecuteArgs load [''send'', ''-to'', ''a@b.c'', ''-subject'', ''-v''] = ShowVersion"
proof -
  have "splitGlobalFlags [''send'', ''-to'', ''a@b.c'', ''-subject'', ''-v''] = Inr ([''-v''], [''send'', ''-to'', ''a@b.c'', ''-subject''])"
    by code_simp
  moreover have "flagParse rootFlags [''-v''] rootDefaults = Inr (rootDefaults(''version'' := ''true''), [])"
    by (simp add: flagParse.simps parseOne_def setFlag_def cutFlag_def rootFlags_def)
  ultimately show ?thesis
    by (simp add: ExecuteArgs_def dispatch_def rootDefaults_def)
qed

section \<open>The commands clean up\<close>

lemma runCheck_exact:
  "fst (runCheck lib drivers ping newSender cfg0) = None \<longleftrightarrow>
     (\<exists>cfg q s. Config_Validate lib cfg0 = (None, cfg) \<and> New drivers (Some cfg) = Inr q \<and> ping q = None \<and> newSender cfg = Inr s)"
  by (auto simp: runCheck_def split: prod.splits option.splits sum.splits)

lemma runCheck_balanced: "balanced (snd (runCheck lib drivers ping newSender cfg0))"
  by (auto simp: runCheck_def balanced_def split: prod.splits option.splits sum.splits)

lemma runSend_balanced: "runSend newSender send cfg args w = Inr (r, evs, w') \<Longrightarrow> balanced evs"
  by (auto simp: runSend_def balanced_def split: sum.splits prod.splits option.splits if_splits)

end
