(* ===== verification/Spec2Isabelle.thy ===== *)
theory Spec2Isabelle
  imports Drivers AsyncLog Webhook Cli
begin

text \<open>
  A verification development of mailbaby, a service in Go that accepts emails over HTTP, gRPC
  and message queues and delivers them over SMTP. Paths are relative to \<open>src/\<close>. This
  theory imports all the others; every other theory opens with a note on its own choices.

  \<^bold>\<open>The program.\<close> \<open>main.go\<close> runs the command line (\<open>internal/cmd\<close>), which loads the
  configuration (\<open>internal/config\<close>) and, for the server, builds the application container: a
  queue (\<open>internal/queue\<close>, in memory or over one of seven brokers), a sender
  (\<open>internal/sender\<close>) with one connection pool and one rate limiter per SMTP account, the
  engine (\<open>internal/runtime\<close>) that takes messages from the queue, decodes them and sends them
  with retries and a dead letter queue, and the two front ends (\<open>internal/handler\<close> for HTTP,
  \<open>internal/rpc\<close> for gRPC), which share \<open>internal/core\<close> and either send at once or publish to
  the queue. Logging, metrics and tracing are used by all of them.

  \<^bold>\<open>How Go is modelled.\<close> A struct is a record, an interface value that may be nil an option, a
  string or byte slice a list of characters (bytes), \<open>int\<close> and \<open>time.Duration\<close> integers, with
  the wrap-around written out where the code can reach it (\<open>wrap64\<close>, the conversion to
  \<open>int32\<close> in the SQS driver). An error is the text and what it wraps (\<open>error\<close>), so that
  \<open>errors.Is\<close> is a function. A function that may panic returns an \<open>outcome\<close>. An operation on
  shared state returns the new state; where goroutines interleave, the atomic steps of the code
  are the rules of an inductive relation and the properties are invariants of everything
  reachable. Blocking is \<open>None\<close> or the absence of a step. Third-party clients (brokers, viper,
  the Prometheus client), the network, the clock, random numbers, and \<open>encoding/json\<close>,
  \<open>crypto\<close> and \<open>net/mail\<close> are arguments of the definitions: a function, or a record of
  functions acting on a state of the outside world that no definition looks into. What is
  proved holds for all of them unless a hypothesis says otherwise.

  \<^bold>\<open>Theories and sources.\<close>
  \<^item> \<open>Prelude\<close>: errors, outcomes, the string functions of the standard library, shared lemmas.
    \<open>Utf8\<close>: decoding of UTF-8 as a range loop does it. \<open>GoChan\<close>: buffered channels, with the
    locale \<open>fifo_channel\<close> for what the pool, the queue and the log writer rely on.
  \<^item> \<open>ConfigSections\<close>, \<open>ConfigSmtp\<close>, \<open>ConfigQueue\<close>, \<open>Config\<close>: \<open>internal/config\<close>. The locale
    \<open>config_section\<close> is the contract of a section (applying the defaults twice is applying them
    once), with what follows for loading it; the sections interpret it. C5, C40.
  \<^item> \<open>Message\<close>, \<open>QueueCore\<close>, \<open>Registry\<close>, \<open>MemoryQueue\<close>: \<open>internal/queue\<close> (\<open>message.go\<close>,
    \<open>options.go\<close>, \<open>middleware.go\<close>, \<open>registry.go\<close>, \<open>memory.go\<close>) and \<open>driver/common\<close>. A
    message is settled at most once (C1); the queue in memory is a bounded FIFO under every
    interleaving of producers, workers and \<open>Close\<close> (C2).
  \<^item> \<open>DriverCore\<close> holds what the drivers under \<open>internal/queue/driver\<close> share, as the locales
    \<open>broker_worker\<close>, \<open>broker_process\<close>, \<open>broker_producer\<close> and \<open>closable_queue\<close>; \<open>KafkaDriver\<close>,
    \<open>RedisDriver\<close>, \<open>RabbitDriver\<close>, \<open>SqsDriver\<close>, \<open>NatsDriver\<close>, \<open>PulsarDriver\<close> and
    \<open>RocketDriver\<close> model one package each and interpret the locales whose contract the driver
    keeps. \<open>Drivers\<close> has the properties of all of them, with the engine as the handler: C3,
    C29, C30, C31.
  \<^item> \<open>Email\<close>, \<open>Base64\<close>, \<open>Mime\<close>, \<open>Pool\<close>, \<open>SmtpClient\<close>, \<open>Sender\<close>: \<open>internal/sender\<close>.
    Recipients (C39), the message header (C4), base64 (C38), the connection pool with the locale
    \<open>conn_pool\<close> and its refinement of a semaphore (C6, C18), dialling and the SMTP transaction
    (C7, C16, C17), and the sender over all of these (C9, C15, C27, C28).
  \<^item> \<open>Pipeline\<close>, \<open>Engine\<close>, \<open>Webhook\<close>: \<open>internal/runtime\<close>. Books and acknowledgement of one
    message (C8, C14), retries (C19), the life of the engine (C32), webhooks (C35).
  \<^item> \<open>HttpAuth\<close>, \<open>Api\<close>, \<open>HttpServer\<close>, \<open>RpcServer\<close>: \<open>internal/handler\<close>, \<open>internal/rpc\<close>,
    \<open>internal/core\<close>. Authentication and rate limits (C10), the handlers (C33, C34), routing
    and the interceptor (C11, C26), the gRPC server (C25).
  \<^item> \<open>Redact\<close>, \<open>Logger\<close>, \<open>AsyncLog\<close>: \<open>internal/logger\<close> (C22, C23, C24). \<open>Tracing\<close>:
    \<open>internal/tracing\<close> (C36). \<open>Metrics\<close>, \<open>MetricsIO\<close>: \<open>internal/metrics\<close> (C20, C21).
  \<^item> \<open>App\<close>, \<open>Cli\<close>: \<open>internal/cmd\<close>. Construction and clean-up (C13), a run from start to
    shutdown (C12), the command line (C37).

  \<^bold>\<open>Termination.\<close> No definition has fuel. Loops over data are structural or have a termination
  proof: the retry loops by the attempts left, the loops of the pool by the length of the idle
  channel, the scans of strings by their length. Loops that serve until they are told to stop
  (workers, the push loop) are functions of the list of events they meet, or step relations.

  \<^bold>\<open>Where the code falls short.\<close> Several lemmas show a behaviour that is probably not meant:
  \<open>requeued_once_only\<close> (a message requeued twice is lost), \<open>failed_DLQ_commits\<close> (a message whose
  dead letter could not be published is acknowledged by the driver), \<open>attachment_type_injects\<close>,
  \<open>account_Close_twice\<close>, \<open>fixed_window\<close>, \<open>engine_stop_timeout_orphans\<close>,
  \<open>kafka_batch_forgets_ID\<close>, \<open>rabbit_autoack_acks\<close>, \<open>redaction_gaps\<close>, \<open>json_keeps_message\<close>,
  \<open>async_log_loses_late_line\<close>, \<open>no_restart\<close>, \<open>panic_after_write\<close>, \<open>global_flag_as_value\<close>. The
  properties above are stated so that they hold of the code as it is, with these cases in them
  or excluded by a named hypothesis.

  \<^bold>\<open>Not modelled.\<close>
  \<^item> Generated code (\<open>proto\<close>), \<open>driver/all\<close> (imports only) and \<open>main.go\<close> (the exit status).
  \<^item> What is only printed: the banner, the usage text, the output of the commands, and log lines
    other than those of the engine's middlewares.
  \<^item> The insides of the libraries named above, so nothing is claimed about TLS, the brokers, or
    the numbers Prometheus keeps; \<open>http.ServeMux\<close> is modelled for patterns without host and
    wildcards, the only ones the server registers.
  \<^item> Real time: how long a wait takes is an argument or left open, so there are no deadlines in
    the properties, only bounds on attempts, capacities and intervals.
  \<^item> Small wrappers that add nothing to the function they call: \<open>config.Get\<close> and \<open>Set\<close>,
    \<open>NewJSONMessage\<close>, \<open>NewFromConfig\<close>, \<open>RegisterHandleFunc\<close>, the manual \<open>Push\<close>, accessors.
\<close>

end
